(* ===== verification/Prelude.thy ===== *)
theory Prelude
  imports Complex_Main "HOL-Library.Word"
begin

text \<open>
  Shared vocabulary of the development: the state-and-error monad in which the database
  queries and the store's operations are written, a small Hoare-style logic for it, the SQL
  idioms the generated query layer uses (tables are lists of rows), and 64-bit integers.

  A computation of type \<open>'s \<Rightarrow> ('e + 'a) \<times> 's\<close> returns an error or a value and, in both
  cases, the state it leaves behind: a Go function that fails half-way through has still
  executed the statements before the failure.
\<close>

named_theorems monad_simps \<open>unfolding rules of the state-and-error monad\<close>
named_theorems sql_simps \<open>facts about tables as lists of rows\<close>

section \<open>The state-and-error monad\<close>

definition ret :: "'a \<Rightarrow> 's \<Rightarrow> ('e + 'a) \<times> 's" where
  [monad_simps]: "ret x s = (Inr x, s)"

definition throw :: "'e \<Rightarrow> 's \<Rightarrow> ('e + 'a) \<times> 's" where
  [monad_simps]: "throw e s = (Inl e, s)"

definition bindM ::
  "('s \<Rightarrow> ('e + 'a) \<times> 's) \<Rightarrow> ('a \<Rightarrow> 's \<Rightarrow> ('e + 'b) \<times> 's) \<Rightarrow> 's \<Rightarrow> ('e + 'b) \<times> 's" where
  [monad_simps]: "bindM m f s = (case m s of (Inl e, s') \<Rightarrow> (Inl e, s') | (Inr x, s') \<Rightarrow> f x s')"

definition getM :: "('s \<Rightarrow> 'a) \<Rightarrow> 's \<Rightarrow> ('e + 'a) \<times> 's" where
  [monad_simps]: "getM f s = (Inr (f s), s)"

definition modM :: "('s \<Rightarrow> 's) \<Rightarrow> 's \<Rightarrow> ('e + unit) \<times> 's" where
  [monad_simps]: "modM f s = (Inr (), f s)"

text \<open>\<open>mapErr\<close> translates an error, as the \<open>errors.Is\<close> tests of the code do.\<close>

definition mapErr :: "('e \<Rightarrow> 'e) \<Rightarrow> ('s \<Rightarrow> ('e + 'a) \<times> 's) \<Rightarrow> 's \<Rightarrow> ('e + 'a) \<times> 's" where
  [monad_simps]: "mapErr h m s = (case m s of (Inl e, s') \<Rightarrow> (Inl (h e), s') | (Inr x, s') \<Rightarrow> (Inr x, s'))"

text \<open>A \<open>for \<dots> range\<close> loop whose body may return early with an error.\<close>

fun forM :: "('x \<Rightarrow> 's \<Rightarrow> ('e + unit) \<times> 's) \<Rightarrow> 'x list \<Rightarrow> 's \<Rightarrow> ('e + unit) \<times> 's" where
  "forM f [] = ret ()"
| "forM f (x # xs) = bindM (f x) (\<lambda>_. forM f xs)"

lemma ret_bind [simp]: "bindM (ret x) f = f x"
  by (rule ext) (simp add: monad_simps)

lemma throw_bind [simp]: "bindM (throw e) f = throw e"
  by (rule ext) (simp add: monad_simps)

lemma bind_ret [simp]: "bindM m ret = m"
  by (rule ext) (simp add: monad_simps split: prod.split sum.split)

lemma bind_assoc: "bindM (bindM m f) g = bindM m (\<lambda>x. bindM (f x) g)"
  by (rule ext) (simp add: monad_simps split: prod.split sum.split)

lemma bindM_Inr: "m s = (Inr x, s') \<Longrightarrow> bindM m f s = f x s'"
  by (simp add: monad_simps)

lemma bindM_Inl: "m s = (Inl e, s') \<Longrightarrow> bindM m f s = (Inl e, s')"
  by (simp add: monad_simps)

lemma bindM_InrE:
  assumes "bindM m f s = (Inr y, t)"
  obtains x s' where "m s = (Inr x, s')" and "f x s' = (Inr y, t)"
  using assms by (auto simp: monad_simps split: prod.splits sum.splits)

lemma forM_append: "forM f (xs @ ys) = bindM (forM f xs) (\<lambda>_. forM f ys)"
  by (induction xs) (simp_all add: bind_assoc)

section \<open>A Hoare logic for it\<close>

text \<open>
  \<open>valid P m Q E\<close>: from a state with \<open>P\<close>, a normal return satisfies \<open>Q\<close> and an error
  return satisfies \<open>E\<close>. \<open>keeps I m\<close>: the operation keeps \<open>I\<close> on every path, errors included.
\<close>

definition valid ::
  "('s \<Rightarrow> bool) \<Rightarrow> ('s \<Rightarrow> ('e + 'a) \<times> 's) \<Rightarrow> ('a \<Rightarrow> 's \<Rightarrow> bool) \<Rightarrow> ('e \<Rightarrow> 's \<Rightarrow> bool) \<Rightarrow> bool" where
  "valid P m Q E \<longleftrightarrow>
     (\<forall>s. P s \<longrightarrow> (case m s of (Inl e, s') \<Rightarrow> E e s' | (Inr x, s') \<Rightarrow> Q x s'))"

definition keeps :: "('s \<Rightarrow> bool) \<Rightarrow> ('s \<Rightarrow> ('e + 'a) \<times> 's) \<Rightarrow> bool" where
  "keeps I m \<longleftrightarrow> (\<forall>s. I s \<longrightarrow> I (snd (m s)))"

lemma keepsI: "(\<And>s. I s \<Longrightarrow> I (snd (m s))) \<Longrightarrow> keeps I m"
  by (simp add: keeps_def)

lemma keepsD: "keeps I m \<Longrightarrow> I s \<Longrightarrow> I (snd (m s))"
  by (simp add: keeps_def)

lemma keeps_ret [intro, simp]: "keeps I (ret x)"
  by (simp add: keeps_def monad_simps)

lemma keeps_throw [intro, simp]: "keeps I (throw e)"
  by (simp add: keeps_def monad_simps)

lemma keeps_getM [intro, simp]: "keeps I (getM f)"
  by (simp add: keeps_def monad_simps)

lemma keeps_modM: "(\<And>s. I s \<Longrightarrow> I (f s)) \<Longrightarrow> keeps I (modM f)"
  by (simp add: keeps_def monad_simps)

lemma keeps_bindM [intro]:
  assumes "keeps I m" and "\<And>x. keeps I (f x)"
  shows "keeps I (bindM m f)"
proof (rule keepsI)
  fix s assume "I s"
  with assms(1) have "I (snd (m s))" by (rule keepsD)
  then show "I (snd (bindM m f s))"
    using assms(2) by (auto simp: monad_simps keeps_def split: prod.split sum.split)
qed

lemma keeps_mapErr [intro]: "keeps I m \<Longrightarrow> keeps I (mapErr h m)"
  by (auto simp: keeps_def monad_simps split: prod.split sum.split)

lemma keeps_if [intro]: "keeps I m \<Longrightarrow> keeps I n \<Longrightarrow> keeps I (if b then m else n)"
  by simp

lemma keeps_forM [intro]: "(\<And>x. x \<in> set xs \<Longrightarrow> keeps I (f x)) \<Longrightarrow> keeps I (forM f xs)"
  by (induction xs) auto

lemma validI:
  assumes "\<And>s x s'. P s \<Longrightarrow> m s = (Inr x, s') \<Longrightarrow> Q x s'"
    and "\<And>s e s'. P s \<Longrightarrow> m s = (Inl e, s') \<Longrightarrow> E e s'"
  shows "valid P m Q E"
  using assms by (auto simp: valid_def split: prod.split sum.split)

lemma validD_Inr: "valid P m Q E \<Longrightarrow> P s \<Longrightarrow> m s = (Inr x, s') \<Longrightarrow> Q x s'"
  by (auto simp: valid_def split: prod.splits sum.splits)

text \<open>\<open>never e m\<close>: the operation does not fail with \<open>e\<close>.\<close>

definition never :: "'e \<Rightarrow> ('s \<Rightarrow> ('e + 'a) \<times> 's) \<Rightarrow> bool" where
  "never e m \<longleftrightarrow> (\<forall>s. fst (m s) \<noteq> Inl e)"

lemma neverI: "(\<And>s. fst (m s) \<noteq> Inl e) \<Longrightarrow> never e m"
  by (simp add: never_def)

lemma neverD: "never e m \<Longrightarrow> m s \<noteq> (Inl e, s')"
  by (auto simp: never_def dest: spec [of _ s])

lemma never_ret [intro, simp]: "never e (ret x)"
  by (simp add: never_def monad_simps)

lemma never_bindM:
  assumes "never e m" and "\<And>x. never e (f x)"
  shows "never e (bindM m f)"
proof (rule neverI)
  fix s
  show "fst (bindM m f s) \<noteq> Inl e"
    using neverD [OF assms(1), of s] assms(2) by (auto simp: never_def monad_simps split: prod.split sum.split)
qed

lemma never_if: "never e m \<Longrightarrow> never e n \<Longrightarrow> never e (if b then m else n)"
  by simp

lemma never_forM: "(\<And>x. x \<in> set xs \<Longrightarrow> never e (f x)) \<Longrightarrow> never e (forM f xs)"
  by (induction xs) (auto intro: never_bindM)

section \<open>State machines\<close>

text \<open>
  A step relation with an invariant it keeps and a preorder it moves along; what holds of one
  step holds of every run.
\<close>

locale growing_system =
  fixes step :: "'s \<Rightarrow> 's \<Rightarrow> bool"
    and inv :: "'s \<Rightarrow> bool"
    and le :: "'s \<Rightarrow> 's \<Rightarrow> bool"
  assumes step_inv: "step s t \<Longrightarrow> inv s \<Longrightarrow> inv t"
    and step_le: "step s t \<Longrightarrow> le s t"
    and le_refl: "le s s"
    and le_trans: "le s t \<Longrightarrow> le t u \<Longrightarrow> le s u"
begin

lemma steps_inv: "step\<^sup>*\<^sup>* s t \<Longrightarrow> inv s \<Longrightarrow> inv t"
  by (induction rule: rtranclp_induct) (auto intro: step_inv)

lemma steps_le: "step\<^sup>*\<^sup>* s t \<Longrightarrow> le s t"
  by (induction rule: rtranclp_induct) (auto intro: le_refl le_trans step_le)

end

section \<open>Tables as lists of rows\<close>

text \<open>
  \<open>SELECT \<dots> WHERE P\<close> reads \<open>filter P\<close>; a query for one row by a key is \<open>List.find\<close>; an
  \<open>UPDATE\<close> maps the rows that match; \<open>DELETE\<close> filters them out. The number of affected rows
  is the number of rows that matched.
\<close>

definition sql_update :: "('r \<Rightarrow> bool) \<Rightarrow> ('r \<Rightarrow> 'r) \<Rightarrow> 'r list \<Rightarrow> 'r list" where
  "sql_update P f rows = map (\<lambda>r. if P r then f r else r) rows"

definition sql_delete :: "('r \<Rightarrow> bool) \<Rightarrow> 'r list \<Rightarrow> 'r list" where
  "sql_delete P rows = filter (\<lambda>r. \<not> P r) rows"

definition rows_affected :: "('r \<Rightarrow> bool) \<Rightarrow> 'r list \<Rightarrow> nat" where
  "rows_affected P rows = length (filter P rows)"

text \<open>\<open>ORDER BY k LIMIT 1\<close>.\<close>

fun min_by :: "('r \<Rightarrow> 'k::linorder) \<Rightarrow> 'r list \<Rightarrow> 'r option" where
  "min_by k [] = None"
| "min_by k (x # xs) =
     (case min_by k xs of None \<Rightarrow> Some x | Some y \<Rightarrow> if k x \<le> k y then Some x else Some y)"

lemma min_by_None [simp]: "min_by k xs = None \<longleftrightarrow> xs = []"
  by (cases xs) (auto split: option.split)

lemma min_by_mem: "min_by k xs = Some x \<Longrightarrow> x \<in> set xs"
  by (induction xs arbitrary: x) (auto split: option.splits if_splits)

lemma min_by_least: "min_by k xs = Some x \<Longrightarrow> y \<in> set xs \<Longrightarrow> k x \<le> k y"
  by (induction xs arbitrary: x) (fastforce split: option.splits if_splits)+

lemma length_sql_update [simp]: "length (sql_update P f rows) = length rows"
  by (simp add: sql_update_def)

lemma sql_update_Nil [simp]: "sql_update P f [] = []"
  by (simp add: sql_update_def)

lemma sql_update_Cons [simp]:
  "sql_update P f (r # rows) = (if P r then f r else r) # sql_update P f rows"
  by (simp add: sql_update_def)

lemma sql_update_append [simp]: "sql_update P f (xs @ ys) = sql_update P f xs @ sql_update P f ys"
  by (simp add: sql_update_def)

lemma map_sql_update:
  "(\<And>r. P r \<Longrightarrow> k (f r) = k r) \<Longrightarrow> map k (sql_update P f rows) = map k rows"
  by (simp add: sql_update_def)

lemma set_sql_update: "set (sql_update P f rows) = (\<lambda>r. if P r then f r else r) ` set rows"
  by (simp add: sql_update_def)

lemma sql_update_none: "(\<And>r. r \<in> set rows \<Longrightarrow> \<not> P r) \<Longrightarrow> sql_update P f rows = rows"
  by (simp add: sql_update_def map_idI)

lemma set_sql_delete: "set (sql_delete P rows) = {r \<in> set rows. \<not> P r}"
  by (simp add: sql_delete_def)

lemma rows_affected_0: "rows_affected P rows = 0 \<longleftrightarrow> (\<forall>r \<in> set rows. \<not> P r)"
  by (auto simp: rows_affected_def filter_empty_conv)

lemma distinct_map_sql_delete [sql_simps]:
  "distinct (map k rows) \<Longrightarrow> distinct (map k (sql_delete P rows))"
  by (simp add: sql_delete_def distinct_map_filter)

lemma find_SomeD: "List.find P xs = Some x \<Longrightarrow> P x \<and> x \<in> set xs"
  by (induction xs) (auto split: if_splits)

lemma find_NoneD: "List.find P xs = None \<Longrightarrow> y \<in> set xs \<Longrightarrow> \<not> P y"
  by (auto simp: find_None_iff)

lemma find_distinct:
  "distinct (map k xs) \<Longrightarrow> x \<in> set xs \<Longrightarrow> List.find (\<lambda>r. k r = k x) xs = Some x"
  by (induction xs) (auto simp: rev_image_eqI)

lemma find_append:
  "List.find P (xs @ ys) = (case List.find P xs of None \<Rightarrow> List.find P ys | Some x \<Rightarrow> Some x)"
  by (induction xs) auto

lemma find_key_sql_update:
  assumes "\<And>r. k (f r) = k r"
  shows "List.find (\<lambda>r. k r = a) (sql_update P f rows) =
    map_option (\<lambda>r. if P r then f r else r) (List.find (\<lambda>r. k r = a) rows)"
  by (induction rows) (auto simp: assms)

lemma filter_key_sql_update:
  assumes "\<And>r. k (f r) = k r"
  shows "filter (\<lambda>r. k r = a) (sql_update P f rows) =
    sql_update P f (filter (\<lambda>r. k r = a) rows)"
  by (induction rows) (auto simp: assms)

section \<open>Machine integers\<close>

text \<open>
  Go's \<open>int64\<close> arithmetic wraps; Postgres's \<open>BIGINT\<close> arithmetic raises an error outside the
  same range. Both are written out where the code computes with them.
\<close>

definition wrap64 :: "int \<Rightarrow> int" where
  "wrap64 x = (x + 2 ^ 63) mod 2 ^ 64 - 2 ^ 63"

definition bigint_ok :: "int \<Rightarrow> bool" where
  "bigint_ok x \<longleftrightarrow> - (2 ^ 63) \<le> x \<and> x < 2 ^ 63"

lemma wrap64_id: "bigint_ok x \<Longrightarrow> wrap64 x = x"
  by (simp add: bigint_ok_def wrap64_def)

lemma wrap64_ok: "bigint_ok (wrap64 x)"
proof -
  have "(x + 2 ^ 63) mod 2 ^ 64 < (2 ^ 64 :: int)" by simp
  moreover have "0 \<le> (x + 2 ^ 63) mod (2 ^ 64 :: int)" by simp
  ultimately show ?thesis unfolding bigint_ok_def wrap64_def by simp
qed

text \<open>The ids \<open>e, e + 1, \<dots>, e + n - 1\<close> an append of \<open>n\<close> events assigns.\<close>

definition ids_from :: "int \<Rightarrow> nat \<Rightarrow> int list" where
  "ids_from e n = map (\<lambda>i. e + int i) [0..<n]"

lemma length_ids_from [simp]: "length (ids_from e n) = n"
  by (simp add: ids_from_def)

lemma nth_ids_from [simp]: "i < n \<Longrightarrow> ids_from e n ! i = e + int i"
  by (simp add: ids_from_def)

lemma ids_from_0 [simp]: "ids_from e 0 = []"
  by (simp add: ids_from_def)

lemma ids_from_Suc: "ids_from e (Suc n) = e # ids_from (e + 1) n"
  by (rule nth_equalityI) (auto simp: nth_Cons ids_from_def split: nat.split simp del: upt_Suc)

lemma ids_from_add: "ids_from e (m + n) = ids_from e m @ ids_from (e + int m) n"
  by (rule nth_equalityI) (auto simp: nth_append ids_from_def)

lemma set_ids_from: "set (ids_from e n) = {e ..< e + int n}"
proof -
  have "x \<in> set (ids_from e n)" if "e \<le> x" "x < e + int n" for x
    using that by (auto simp: ids_from_def image_iff intro!: bexI [of _ "nat (x - e)"])
  then show ?thesis by (auto simp: ids_from_def)
qed

lemma distinct_ids_from [simp]: "distinct (ids_from e n)"
  by (auto simp: ids_from_def distinct_map inj_on_def)

lemma sorted_ids_from [simp]: "sorted (ids_from e n)"
  by (simp add: ids_from_def sorted_iff_nth_mono)

end
