(* ===== verification/Api.thy ===== *)
theory Api
  imports Prelude
begin

text \<open>
  The wire types of \<^verbatim>\<open>api/gen/flow/api/v1\<close> (generated from \<^verbatim>\<open>api/proto\<close>) that the server
  and the SDK compute with: payloads, failures, retry policies, the history events with their
  attributes, the commands of a workflow task response and the execution status; and the
  sentinel errors of \<^verbatim>\<open>internal/history/errors.go\<close>.

  Strings and byte slices are lists of bytes. A message pointer that may be nil is an option.
  A protobuf duration or timestamp is its number of nanoseconds; a double is a rational.
  A repeated field is a list; the generated decoder leaves an absent repeated field nil, so
  \<open>[]\<close> stands for the nil slice.
\<close>

section \<open>Payload, Failure, RetryPolicy\<close>

type_synonym bytes = string
type_synonym duration = int
type_synonym timestamp = int

text \<open>\<^verbatim>\<open>durationpb\<close>'s \<^verbatim>\<open>AsDuration\<close>: an absent message is zero, and what an int64 cannot hold saturates.\<close>

definition AsDuration :: "duration option \<Rightarrow> duration" where
  "AsDuration v = (case v of None \<Rightarrow> 0 | Some d \<Rightarrow> max (- (2 ^ 63)) (min (2 ^ 63 - 1) d))"

record payload =
  Metadata :: "(string \<times> bytes) list"
  Data :: bytes

record failure =
  Message :: string
  FType :: string
  StackTrace :: string

record retry_policy =
  InitialInterval :: "duration option"
  BackoffCoefficient :: rat
  MaxInterval :: "duration option"
  MaxAttempts :: int
  NonRetryableErrorTypes :: "string list"

section \<open>History events\<close>

datatype history_event_type =
    EV_UNSPECIFIED
  | EV_WORKFLOW_EXECUTION_STARTED
  | EV_WORKFLOW_EXECUTION_COMPLETED
  | EV_WORKFLOW_EXECUTION_FAILED
  | EV_WORKFLOW_EXECUTION_TERMINATED
  | EV_WORKFLOW_EXECUTION_SIGNALED
  | EV_WORKFLOW_TASK_SCHEDULED
  | EV_WORKFLOW_TASK_STARTED
  | EV_WORKFLOW_TASK_COMPLETED
  | EV_WORKFLOW_TASK_FAILED
  | EV_ACTIVITY_TASK_SCHEDULED
  | EV_ACTIVITY_TASK_STARTED
  | EV_ACTIVITY_TASK_COMPLETED
  | EV_ACTIVITY_TASK_FAILED
  | EV_TIMER_STARTED
  | EV_TIMER_FIRED
  | EV_WORKFLOW_EXECUTION_CONTINUED_AS_NEW
  | EV_WORKFLOW_EXECUTION_CANCEL_REQUESTED

text \<open>The generated enum tables \<open>HistoryEventType_name\<close> and \<open>HistoryEventType_value\<close>.\<close>

definition HistoryEventType_names :: "(history_event_type \<times> string) list" where
  "HistoryEventType_names =
   [(EV_UNSPECIFIED, ''HISTORY_EVENT_TYPE_UNSPECIFIED''),
    (EV_WORKFLOW_EXECUTION_STARTED, ''HISTORY_EVENT_TYPE_WORKFLOW_EXECUTION_STARTED''),
    (EV_WORKFLOW_EXECUTION_COMPLETED, ''HISTORY_EVENT_TYPE_WORKFLOW_EXECUTION_COMPLETED''),
    (EV_WORKFLOW_EXECUTION_FAILED, ''HISTORY_EVENT_TYPE_WORKFLOW_EXECUTION_FAILED''),
    (EV_WORKFLOW_EXECUTION_TERMINATED, ''HISTORY_EVENT_TYPE_WORKFLOW_EXECUTION_TERMINATED''),
    (EV_WORKFLOW_EXECUTION_SIGNALED, ''HISTORY_EVENT_TYPE_WORKFLOW_EXECUTION_SIGNALED''),
    (EV_WORKFLOW_TASK_SCHEDULED, ''HISTORY_EVENT_TYPE_WORKFLOW_TASK_SCHEDULED''),
    (EV_WORKFLOW_TASK_STARTED, ''HISTORY_EVENT_TYPE_WORKFLOW_TASK_STARTED''),
    (EV_WORKFLOW_TASK_COMPLETED, ''HISTORY_EVENT_TYPE_WORKFLOW_TASK_COMPLETED''),
    (EV_WORKFLOW_TASK_FAILED, ''HISTORY_EVENT_TYPE_WORKFLOW_TASK_FAILED''),
    (EV_ACTIVITY_TASK_SCHEDULED, ''HISTORY_EVENT_TYPE_ACTIVITY_TASK_SCHEDULED''),
    (EV_ACTIVITY_TASK_STARTED, ''HISTORY_EVENT_TYPE_ACTIVITY_TASK_STARTED''),
    (EV_ACTIVITY_TASK_COMPLETED, ''HISTORY_EVENT_TYPE_ACTIVITY_TASK_COMPLETED''),
    (EV_ACTIVITY_TASK_FAILED, ''HISTORY_EVENT_TYPE_ACTIVITY_TASK_FAILED''),
    (EV_TIMER_STARTED, ''HISTORY_EVENT_TYPE_TIMER_STARTED''),
    (EV_TIMER_FIRED, ''HISTORY_EVENT_TYPE_TIMER_FIRED''),
    (EV_WORKFLOW_EXECUTION_CONTINUED_AS_NEW, ''HISTORY_EVENT_TYPE_WORKFLOW_EXECUTION_CONTINUED_AS_NEW''),
    (EV_WORKFLOW_EXECUTION_CANCEL_REQUESTED, ''HISTORY_EVENT_TYPE_WORKFLOW_EXECUTION_CANCEL_REQUESTED'')]"

definition event_type_String :: "history_event_type \<Rightarrow> string" where
  "event_type_String t =
     (case map_of HistoryEventType_names t of Some n \<Rightarrow> n | None \<Rightarrow> '''')"

text \<open>A name the table does not hold reads as Go's zero value, \<open>UNSPECIFIED\<close>.\<close>

definition HistoryEventType_value :: "string \<Rightarrow> history_event_type" where
  "HistoryEventType_value n =
     (case map_of (map (\<lambda>(t, m). (m, t)) HistoryEventType_names) n of
        Some t \<Rightarrow> t | None \<Rightarrow> EV_UNSPECIFIED)"

lemma event_type_roundtrip [simp]: "HistoryEventType_value (event_type_String t) = t"
  by (cases t) (simp_all add: HistoryEventType_value_def event_type_String_def HistoryEventType_names_def)

datatype event_attributes =
    WorkflowExecutionStarted string string "payload option" "retry_policy option" string
      \<comment> \<open>workflow type, task queue, input, retry policy, continued-from run id\<close>
  | WorkflowExecutionCompleted "payload option"
  | WorkflowExecutionFailed "failure option"
  | WorkflowExecutionTerminated string
  | WorkflowExecutionSignaled string "payload option"
  | WorkflowExecutionCancelRequested string
  | WorkflowTaskScheduled string
  | WorkflowTaskStarted string
  | WorkflowTaskCompleted string
  | WorkflowTaskFailed "failure option"
  | ActivityTaskScheduled int string "payload option" "retry_policy option" "duration option" "duration option"
      \<comment> \<open>id, type, input, retry policy, schedule-to-start and start-to-close timeouts\<close>
  | ActivityTaskStarted int int
  | ActivityTaskCompleted int "payload option"
  | ActivityTaskFailed int "failure option" int
  | TimerStarted int "duration option"
  | TimerFired int
  | WorkflowExecutionContinuedAsNew string string string "payload option"
      \<comment> \<open>new run id, workflow type, task queue, input\<close>

text \<open>The event type each attributes message belongs to.\<close>

fun attributes_type :: "event_attributes \<Rightarrow> history_event_type" where
  "attributes_type (WorkflowExecutionStarted _ _ _ _ _) = EV_WORKFLOW_EXECUTION_STARTED"
| "attributes_type (WorkflowExecutionCompleted _) = EV_WORKFLOW_EXECUTION_COMPLETED"
| "attributes_type (WorkflowExecutionFailed _) = EV_WORKFLOW_EXECUTION_FAILED"
| "attributes_type (WorkflowExecutionTerminated _) = EV_WORKFLOW_EXECUTION_TERMINATED"
| "attributes_type (WorkflowExecutionSignaled _ _) = EV_WORKFLOW_EXECUTION_SIGNALED"
| "attributes_type (WorkflowExecutionCancelRequested _) = EV_WORKFLOW_EXECUTION_CANCEL_REQUESTED"
| "attributes_type (WorkflowTaskScheduled _) = EV_WORKFLOW_TASK_SCHEDULED"
| "attributes_type (WorkflowTaskStarted _) = EV_WORKFLOW_TASK_STARTED"
| "attributes_type (WorkflowTaskCompleted _) = EV_WORKFLOW_TASK_COMPLETED"
| "attributes_type (WorkflowTaskFailed _) = EV_WORKFLOW_TASK_FAILED"
| "attributes_type (ActivityTaskScheduled _ _ _ _ _ _) = EV_ACTIVITY_TASK_SCHEDULED"
| "attributes_type (ActivityTaskStarted _ _) = EV_ACTIVITY_TASK_STARTED"
| "attributes_type (ActivityTaskCompleted _ _) = EV_ACTIVITY_TASK_COMPLETED"
| "attributes_type (ActivityTaskFailed _ _ _) = EV_ACTIVITY_TASK_FAILED"
| "attributes_type (TimerStarted _ _) = EV_TIMER_STARTED"
| "attributes_type (TimerFired _) = EV_TIMER_FIRED"
| "attributes_type (WorkflowExecutionContinuedAsNew _ _ _ _) = EV_WORKFLOW_EXECUTION_CONTINUED_AS_NEW"

record history_event =
  EventId :: int
  EventTime :: timestamp
  EventType :: history_event_type
  Attributes :: event_attributes

section \<open>Commands\<close>

record schedule_activity_cmd =
  ActivityId :: int
  ActivityType :: string
  ActInput :: "payload option"
  ActRetryPolicy :: "retry_policy option"
  ScheduleToStartTimeout :: "duration option"
  StartToCloseTimeout :: "duration option"

record start_timer_cmd =
  TimerId :: int
  TimerDuration :: "duration option"

record continue_as_new_cmd =
  CanWorkflowType :: string
  CanTaskQueue :: string
  CanInput :: "payload option"
  CanRetryPolicy :: "retry_policy option"
  CanRunTimeout :: "duration option"
  CanTaskTimeout :: "duration option"

text \<open>\<open>Command_Unset\<close> is a \<open>Command\<close> whose oneof is not set.\<close>

datatype command =
    ScheduleActivityTask schedule_activity_cmd
  | StartTimer start_timer_cmd
  | CompleteWorkflowExecution "payload option"
  | FailWorkflowExecution "failure option"
  | ContinueAsNewWorkflowExecution continue_as_new_cmd
  | Command_Unset

section \<open>Execution status\<close>

datatype execution_status =
    ST_UNSPECIFIED | ST_RUNNING | ST_COMPLETED | ST_FAILED | ST_TERMINATED | ST_TIMED_OUT
  | ST_CONTINUED_AS_NEW

section \<open>Errors\<close>

text \<open>
  The sentinels of \<^verbatim>\<open>internal/history/errors.go\<close>, \<open>errIdempotentReplay\<close>, pgx's
  \<open>ErrNoRows\<close>, a statement the database rejects (\<open>ErrDB\<close> with the violated constraint), and
  one constructor for each error the code builds in place. Wrapping with \<^verbatim>\<open>%w\<close> keeps the
  wrapped error visible to \<open>errors.Is\<close>, so a wrapped error is the wrapped value here.
  \<open>ErrIdempotentReplay\<close> carries the run id that the transaction's closure stores in its captured
  variable before returning the sentinel. \<open>ErrPanic\<close> is not a Go error: it is the outcome of a call that panics.
\<close>

datatype error =
    ErrConcurrentModification
  | ErrTaskLeaseExpired
  | ErrNoTaskAvailable
  | ErrWorkflowAlreadyRunning
  | ErrWorkflowNotFound
  | ErrNamespaceNotFound
  | ErrNamespaceAlreadyExists
  | ErrIdempotentReplay string
  | ErrNoRows
  | ErrDB string
  | ErrNotWorkflowToken
  | ErrNotActivityToken
  | ErrNotQueryToken
  | ErrUnsupportedCommand
  | ErrTerminalCommands nat
  | ErrContinueAsNewCombined
  | ErrUnknownEventType string int
  | ErrMarshal
  | ErrUnmarshal
  | ErrInvalidPageToken
  | ErrTokenTooShort
  | ErrTokenSignature
  | ErrTokenJSON
  | ErrTokenVersion int
  | ErrCtxDone
  | ErrPanic string

end
