(* ===== verification/TaskTable.thy ===== *)
theory TaskTable
  imports Api
begin

text \<open>
  The leased-queue pattern of ADR-0002 (Mechanism A) that the three task tables share:
  a row is PENDING or holds a lease (STARTED, a random token, an expiry); dispatch grants a
  lease to the eligible row with the least id, completion must present the row's token, and
  the reaper releases expired leases. The executable operations are generic in the row's
  accessors; the locale states what a table has to provide and proves the queue's contract
  once. The table theories interpret it.
\<close>

type_synonym uuid = string

datatype task_status = PENDING | STARTED | COMPLETED | FAILED

section \<open>Operations\<close>

text \<open>
  \<^verbatim>\<open>UPDATE t SET (lease) WHERE task_id = (SELECT task_id .. WHERE elig ORDER BY task_id
  FOR UPDATE SKIP LOCKED LIMIT 1) RETURNING *\<close>.
\<close>

definition lease_dequeue ::
  "('r \<Rightarrow> int) \<Rightarrow> ('r \<Rightarrow> bool) \<Rightarrow> ('r \<Rightarrow> 'r) \<Rightarrow> 'r list \<Rightarrow> ('r \<times> 'r list) option" where
  "lease_dequeue tid elig grant rows =
     (case min_by tid (filter elig rows) of
        None \<Rightarrow> None
      | Some r \<Rightarrow> Some (grant r, sql_update (\<lambda>t. tid t = tid r) grant rows))"

text \<open>
  \<^verbatim>\<open>WHERE task_id = $1 AND lease_token = $2\<close>. A token that does not parse is bound as NULL,
  and a comparison with NULL is never true.
\<close>

definition lease_match :: "('r \<Rightarrow> int) \<Rightarrow> ('r \<Rightarrow> uuid option) \<Rightarrow> int \<Rightarrow> uuid option \<Rightarrow> 'r \<Rightarrow> bool" where
  "lease_match tid token i u r \<longleftrightarrow> tid r = i \<and> u \<noteq> None \<and> token r = u"

text \<open>\<^verbatim>\<open>WHERE status = 'STARTED' AND lease_expiry < now()\<close>.\<close>

definition lease_expired ::
  "('r \<Rightarrow> task_status) \<Rightarrow> ('r \<Rightarrow> timestamp option) \<Rightarrow> timestamp \<Rightarrow> 'r \<Rightarrow> bool" where
  "lease_expired status expiry now r \<longleftrightarrow>
     status r = STARTED \<and> (case expiry r of Some e \<Rightarrow> e < now | None \<Rightarrow> False)"

section \<open>The contract\<close>

locale leased_table =
  fixes tid :: "'r \<Rightarrow> int"
    and status :: "'r \<Rightarrow> task_status"
    and token :: "'r \<Rightarrow> uuid option"
    and expiry :: "'r \<Rightarrow> timestamp option"
    and grant :: "uuid \<Rightarrow> timestamp \<Rightarrow> 'r \<Rightarrow> 'r"
    and release :: "'r \<Rightarrow> 'r"
  assumes grant_tid [simp]: "tid (grant u n r) = tid r"
    and grant_status [simp]: "status (grant u n r) = STARTED"
    and grant_token [simp]: "token (grant u n r) = Some u"
    and grant_expiry: "\<exists>e. expiry (grant u n r) = Some e"
    and release_tid [simp]: "tid (release r) = tid r"
    and release_status [simp]: "status (release r) = PENDING"
    and release_token [simp]: "token (release r) = None"
    and release_expiry [simp]: "expiry (release r) = None"
begin

text \<open>Ids are unique, a PENDING row has no lease and a STARTED row has one.\<close>

definition leases_wf :: "'r list \<Rightarrow> bool" where
  "leases_wf rows \<longleftrightarrow> distinct (map tid rows) \<and>
     (\<forall>r \<in> set rows. (status r = PENDING \<longrightarrow> token r = None \<and> expiry r = None) \<and>
                     (status r = STARTED \<longrightarrow> token r \<noteq> None \<and> expiry r \<noteq> None))"

abbreviation (input) dequeue :: "('r \<Rightarrow> bool) \<Rightarrow> uuid \<Rightarrow> timestamp \<Rightarrow> 'r list \<Rightarrow> ('r \<times> 'r list) option" where
  "dequeue elig u n rows \<equiv> lease_dequeue tid elig (grant u n) rows"

lemma dequeue_NoneD: "dequeue elig u n rows = None \<Longrightarrow> r \<in> set rows \<Longrightarrow> \<not> elig r"
  by (auto simp: lease_dequeue_def filter_empty_conv split: option.splits)

lemma dequeue_SomeE:
  assumes "dequeue elig u n rows = Some (r', rows')"
  obtains r where "r \<in> set rows" and "elig r" and "r' = grant u n r"
    and "rows' = sql_update (\<lambda>t. tid t = tid r) (grant u n) rows"
    and "\<And>t. t \<in> set rows \<Longrightarrow> elig t \<Longrightarrow> tid r \<le> tid t"
proof -
  from assms obtain r where r: "min_by tid (filter elig rows) = Some r"
    and eq: "r' = grant u n r" "rows' = sql_update (\<lambda>t. tid t = tid r) (grant u n) rows"
    by (auto simp: lease_dequeue_def split: option.splits)
  from min_by_mem [OF r] have "r \<in> set rows" "elig r" by auto
  moreover have "tid r \<le> tid t" if "t \<in> set rows" "elig t" for t
    using min_by_least [OF r, of t] that by simp
  ultimately show ?thesis using eq that by blast
qed

lemma dequeue_tids: "dequeue elig u n rows = Some (r', rows') \<Longrightarrow> map tid rows' = map tid rows"
  by (auto elim!: dequeue_SomeE simp: map_sql_update)

lemma dequeue_wf:
  assumes "leases_wf rows" and "dequeue elig u n rows = Some (r', rows')"
  shows "leases_wf rows'"
proof -
  from assms(2) obtain r where rows': "rows' = sql_update (\<lambda>t. tid t = tid r) (grant u n) rows"
    by (rule dequeue_SomeE)
  have "distinct (map tid rows')"
    using assms by (simp add: dequeue_tids leases_wf_def)
  with assms(1) show ?thesis
    by (auto simp: leases_wf_def rows' set_sql_update grant_expiry split: if_splits)
qed

text \<open>
  The dispatched row is the only row of the new table with its id, it is no longer PENDING
  and it holds exactly the granted token.
\<close>

lemma dequeue_leased:
  assumes "dequeue elig u n rows = Some (r', rows')" and "t \<in> set rows'" and "tid t = tid r'"
  shows "status t = STARTED \<and> token t = Some u"
  using assms by (elim dequeue_SomeE) (auto simp: set_sql_update split: if_splits)

text \<open>Exactly one winner: the same row is not handed out twice while its lease stands.\<close>

lemma dequeue_exclusive:
  assumes first: "dequeue elig u n rows = Some (r1, rows1)"
    and second: "dequeue elig' u' n' rows1 = Some (r2, rows2)"
    and pending: "\<And>t. elig' t \<Longrightarrow> status t = PENDING"
  shows "tid r2 \<noteq> tid r1"
proof
  assume same: "tid r2 = tid r1"
  from second obtain t where t: "t \<in> set rows1" "elig' t" "r2 = grant u' n' t"
    by (rule dequeue_SomeE)
  with same have "tid t = tid r1" by simp
  with dequeue_leased [OF first t(1)] have "status t = STARTED" by simp
  with pending [OF t(2)] show False by simp
qed

lemma dequeue_others:
  assumes "dequeue elig u n rows = Some (r', rows')" and "tid t \<noteq> tid r'"
  shows "t \<in> set rows' \<longleftrightarrow> t \<in> set rows"
  using assms by (elim dequeue_SomeE) (force simp: set_sql_update)

text \<open>A completion with another token than the row's matches nothing.\<close>

lemma no_match: "token r \<noteq> Some u \<Longrightarrow> tid r = i \<Longrightarrow> \<not> lease_match tid token i (Some u) r"
  by (simp add: lease_match_def)

lemma match_unique:
  assumes "leases_wf rows" and "r \<in> set rows" and "lease_match tid token i u r"
    and "r' \<in> set rows" and "lease_match tid token i u r'"
  shows "r = r'"
  using assms by (auto simp: leases_wf_def lease_match_def distinct_map dest: inj_onD)

lemma delete_wf: "leases_wf rows \<Longrightarrow> leases_wf (sql_delete P rows)"
  by (auto simp: leases_wf_def set_sql_delete distinct_map_sql_delete)

abbreviation (input) reap :: "timestamp \<Rightarrow> 'r list \<Rightarrow> 'r list" where
  "reap now rows \<equiv> sql_update (lease_expired status expiry now) release rows"

lemma reap_wf: "leases_wf rows \<Longrightarrow> leases_wf (reap now rows)"
  by (auto simp: leases_wf_def map_sql_update set_sql_update split: if_splits)

text \<open>Only expired leases are released; live leases and waiting rows are left alone.\<close>

lemma reap_live: "r \<in> set rows \<Longrightarrow> \<not> lease_expired status expiry now r \<Longrightarrow> r \<in> set (reap now rows)"
  by (force simp: set_sql_update)

lemma reap_none_expired:
  assumes "t \<in> set (reap now rows)" shows "\<not> lease_expired status expiry now t"
  using assms by (auto simp: set_sql_update lease_expired_def split: if_splits)

text \<open>After the reaper has taken a lease back, a late completion presenting it is rejected.\<close>

lemma reap_invalidates:
  assumes wf: "leases_wf rows" and r: "r \<in> set rows" "lease_expired status expiry now r"
  shows "rows_affected (lease_match tid token (tid r) u) (reap now rows) = 0"
proof -
  have "\<not> lease_match tid token (tid r) u t" if t: "t \<in> set (reap now rows)" for t
  proof (cases "tid t = tid r")
    case True
    from t obtain t0 where t0: "t0 \<in> set rows"
      and t_eq: "t = (if lease_expired status expiry now t0 then release t0 else t0)"
      by (auto simp: set_sql_update)
    with True have "tid t0 = tid r" by (simp split: if_splits)
    with wf t0 r(1) have "t0 = r" by (auto simp: leases_wf_def distinct_map dest: inj_onD)
    with t_eq r(2) show ?thesis by (auto simp: lease_match_def)
  qed (simp add: lease_match_def)
  then show ?thesis by (simp add: rows_affected_0)
qed

lemma append_wf:
  "leases_wf rows \<Longrightarrow> status r = PENDING \<Longrightarrow> token r = None \<Longrightarrow> expiry r = None \<Longrightarrow>
   tid r \<notin> tid ` set rows \<Longrightarrow> leases_wf (rows @ [r])"
  by (auto simp: leases_wf_def)

end

end
