(* ===== verification/Persistence.thy ===== *)
theory Persistence
  imports TaskTable
begin

text \<open>
  The database: the tables of \<^verbatim>\<open>migrations/*.up.sql\<close> with the row types of
  \<^verbatim>\<open>sqlc/models.go\<close>, and one definition for each query of the generated layer
  \<^verbatim>\<open>internal/persistence/postgres/sqlc\<close> (prefix \<open>q_\<close>). A table is the list of its rows;
  primary-key, foreign-key and NOT NULL constraints are checked where rows are inserted and
  a violation is the error \<open>ErrDB\<close>. The type variable \<open>'b\<close> is the type of marshalled protobuf
  messages, whose encoding is third-party code. \<^verbatim>\<open>now()\<close>, \<^verbatim>\<open>gen_random_uuid()\<close> and the rows
  other transactions hold locked are arguments.
\<close>

section \<open>Rows\<close>

record ns_row =
  ns_id :: int
  ns_name :: string
  ns_created_at :: timestamp

record ce_row =
  ce_namespace_id :: int
  ce_workflow_id :: string
  ce_run_id :: string
  ce_create_request_id :: string

record we_row =
  we_namespace_id :: int
  we_workflow_id :: string
  we_run_id :: string
  we_workflow_type :: string
  we_task_queue :: string
  we_status :: string
  we_next_event_id :: int
  we_shard_id :: int
  we_execution_timeout_ns :: "int option"
  we_run_timeout_ns :: "int option"
  we_task_timeout_ns :: "int option"
  we_start_time :: timestamp
  we_close_time :: "timestamp option"
  we_updated_at :: timestamp
  we_sticky_worker_identity :: "string option"
  we_sticky_expires_at :: "timestamp option"

record 'b he_row =
  he_namespace_id :: int
  he_workflow_id :: string
  he_run_id :: string
  he_event_id :: int
  he_event_time :: timestamp
  he_event_type :: string
  he_attributes :: 'b

record wt_row =
  wt_task_id :: int
  wt_namespace_id :: int
  wt_task_queue_name :: string
  wt_task_queue_partition :: int
  wt_workflow_id :: string
  wt_run_id :: string
  wt_scheduled_event_id :: int
  wt_status :: task_status
  wt_visible_at :: timestamp
  wt_lease_expiry :: "timestamp option"
  wt_lease_token :: "uuid option"
  wt_created_at :: timestamp
  wt_preferred_worker_identity :: "string option"
  wt_sticky_deadline :: "timestamp option"

record 'b at_row =
  at_task_id :: int
  at_namespace_id :: int
  at_task_queue_name :: string
  at_task_queue_partition :: int
  at_workflow_id :: string
  at_run_id :: string
  at_activity_id :: int
  at_activity_type :: string
  at_scheduled_event_id :: int
  at_input :: 'b
  at_status :: task_status
  at_attempt :: int
  at_visible_at :: timestamp
  at_lease_expiry :: "timestamp option"
  at_lease_token :: "uuid option"
  at_schedule_to_start_timeout_ns :: int
  at_start_to_close_timeout_ns :: int
  at_retry_initial_interval_ns :: int
  at_retry_backoff_coefficient :: rat
  at_retry_max_interval_ns :: int
  at_retry_max_attempts :: int
  at_retry_non_retryable_types :: "string list"
  at_created_at :: timestamp

record 'b qt_row =
  qt_task_id :: int
  qt_namespace_id :: int
  qt_task_queue_name :: string
  qt_workflow_id :: string
  qt_run_id :: string
  qt_query_type :: string
  qt_query_args :: 'b
  qt_status :: task_status
  qt_result :: "'b option"
  qt_failure_message :: "string option"
  qt_visible_at :: timestamp
  qt_lease_expiry :: "timestamp option"
  qt_lease_token :: "uuid option"
  qt_created_at :: timestamp

record tm_row =
  tm_namespace_id :: int
  tm_workflow_id :: string
  tm_run_id :: string
  tm_timer_id :: int
  tm_fire_at :: timestamp
  tm_scheduled_event_id :: int

text \<open>The database, with the sequences behind the \<^verbatim>\<open>BIGSERIAL\<close> columns (the next value).\<close>

record 'b db =
  namespaces :: "ns_row list"
  ns_seq :: int
  current_executions :: "ce_row list"
  workflow_executions :: "we_row list"
  history_events :: "'b he_row list"
  workflow_tasks :: "wt_row list"
  wt_seq :: int
  activity_tasks :: "'b at_row list"
  at_seq :: int
  query_tasks :: "'b qt_row list"
  qt_seq :: int
  timers :: "tm_row list"

text \<open>The schema after the migrations: one namespace, \<^verbatim>\<open>default\<close>.\<close>

definition initial_db :: "timestamp \<Rightarrow> 'b db" where
  "initial_db now =
     \<lparr>namespaces = [\<lparr>ns_id = 1, ns_name = ''default'', ns_created_at = now\<rparr>], ns_seq = 2,
      current_executions = [], workflow_executions = [], history_events = [],
      workflow_tasks = [], wt_seq = 1, activity_tasks = [], at_seq = 1,
      query_tasks = [], qt_seq = 1, timers = []\<rparr>"

text \<open>Primary keys.\<close>

type_synonym run_key = "int \<times> string \<times> string"

definition we_key :: "we_row \<Rightarrow> run_key" where
  "we_key r = (we_namespace_id r, we_workflow_id r, we_run_id r)"

definition he_run :: "'b he_row \<Rightarrow> run_key" where
  "he_run r = (he_namespace_id r, he_workflow_id r, he_run_id r)"

definition ce_key :: "ce_row \<Rightarrow> int \<times> string" where
  "ce_key r = (ce_namespace_id r, ce_workflow_id r)"

definition tm_key :: "tm_row \<Rightarrow> int \<times> string \<times> string \<times> int" where
  "tm_key r = (tm_namespace_id r, tm_workflow_id r, tm_run_id r, tm_timer_id r)"

section \<open>namespaces.sql\<close>

definition q_GetNamespaceByName :: "string \<Rightarrow> 'b db \<Rightarrow> (error + ns_row) \<times> 'b db" where
  "q_GetNamespaceByName name d =
     (case List.find (\<lambda>r. ns_name r = name) (namespaces d) of
        None \<Rightarrow> (Inl ErrNoRows, d) | Some r \<Rightarrow> (Inr r, d))"

text \<open>A conflicting insert consumes a sequence value before \<^verbatim>\<open>DO NOTHING\<close> takes effect.\<close>

definition q_CreateNamespace :: "timestamp \<Rightarrow> string \<Rightarrow> 'b db \<Rightarrow> (error + ns_row) \<times> 'b db" where
  "q_CreateNamespace now name d =
     (let d' = d\<lparr>ns_seq := ns_seq d + 1\<rparr>;
          r = \<lparr>ns_id = ns_seq d, ns_name = name, ns_created_at = now\<rparr>
      in if List.find (\<lambda>r. ns_name r = name) (namespaces d) \<noteq> None then (Inl ErrNoRows, d')
         else (Inr r, d'\<lparr>namespaces := namespaces d @ [r]\<rparr>))"

fun insert_by :: "('r \<Rightarrow> 'r \<Rightarrow> bool) \<Rightarrow> 'r \<Rightarrow> 'r list \<Rightarrow> 'r list" where
  "insert_by le x [] = [x]"
| "insert_by le x (y # ys) = (if le x y then x # y # ys else y # insert_by le x ys)"

text \<open>\<^verbatim>\<open>ORDER BY\<close> with a comparison given as a function.\<close>

definition order_by :: "('r \<Rightarrow> 'r \<Rightarrow> bool) \<Rightarrow> 'r list \<Rightarrow> 'r list" where
  "order_by le rows = foldr (insert_by le) rows []"

text \<open>
  The order of \<^verbatim>\<open>TEXT\<close> columns is the collation the database was created with: the
  argument \<open>coll\<close>.
\<close>

type_synonym collation = "string \<Rightarrow> string \<Rightarrow> bool"

definition q_ListNamespaces :: "collation \<Rightarrow> 'b db \<Rightarrow> (error + ns_row list) \<times> 'b db" where
  "q_ListNamespaces coll d =
     (Inr (order_by (\<lambda>a b. coll (ns_name a) (ns_name b)) (namespaces d)), d)"

section \<open>executions.sql\<close>

definition q_InsertCurrentExecution ::
  "int \<Rightarrow> string \<Rightarrow> string \<Rightarrow> string \<Rightarrow> 'b db \<Rightarrow> (error + nat) \<times> 'b db" where
  "q_InsertCurrentExecution ns wid rid req d =
     (if List.find (\<lambda>r. ce_key r = (ns, wid)) (current_executions d) \<noteq> None then (Inr 0, d)
      else (Inr 1, d\<lparr>current_executions := current_executions d @
              [\<lparr>ce_namespace_id = ns, ce_workflow_id = wid, ce_run_id = rid,
                ce_create_request_id = req\<rparr>]\<rparr>))"

definition q_GetCurrentExecution :: "int \<Rightarrow> string \<Rightarrow> 'b db \<Rightarrow> (error + ce_row) \<times> 'b db" where
  "q_GetCurrentExecution ns wid d =
     (case List.find (\<lambda>r. ce_key r = (ns, wid)) (current_executions d) of
        None \<Rightarrow> (Inl ErrNoRows, d) | Some r \<Rightarrow> (Inr r, d))"

definition q_ReplaceCurrentExecution ::
  "int \<Rightarrow> string \<Rightarrow> string \<Rightarrow> string \<Rightarrow> 'b db \<Rightarrow> (error + unit) \<times> 'b db" where
  "q_ReplaceCurrentExecution ns wid rid req d =
     (Inr (), d\<lparr>current_executions :=
        sql_update (\<lambda>r. ce_key r = (ns, wid))
          (\<lambda>r. r\<lparr>ce_run_id := rid, ce_create_request_id := req\<rparr>) (current_executions d)\<rparr>)"

record create_we_params =
  cp_namespace_id :: int
  cp_workflow_id :: string
  cp_run_id :: string
  cp_workflow_type :: string
  cp_task_queue :: string
  cp_shard_id :: int
  cp_execution_timeout_ns :: "int option"
  cp_run_timeout_ns :: "int option"
  cp_task_timeout_ns :: "int option"

definition new_we_row :: "timestamp \<Rightarrow> create_we_params \<Rightarrow> we_row" where
  "new_we_row now p =
     \<lparr>we_namespace_id = cp_namespace_id p, we_workflow_id = cp_workflow_id p,
      we_run_id = cp_run_id p, we_workflow_type = cp_workflow_type p,
      we_task_queue = cp_task_queue p, we_status = ''RUNNING'', we_next_event_id = 1,
      we_shard_id = cp_shard_id p, we_execution_timeout_ns = cp_execution_timeout_ns p,
      we_run_timeout_ns = cp_run_timeout_ns p, we_task_timeout_ns = cp_task_timeout_ns p,
      we_start_time = now, we_close_time = None, we_updated_at = now,
      we_sticky_worker_identity = None, we_sticky_expires_at = None\<rparr>"

definition q_CreateWorkflowExecution ::
  "timestamp \<Rightarrow> create_we_params \<Rightarrow> 'b db \<Rightarrow> (error + unit) \<times> 'b db" where
  "q_CreateWorkflowExecution now p d =
     (let r = new_we_row now p in
      if List.find (\<lambda>x. ns_id x = cp_namespace_id p) (namespaces d) = None
      then (Inl (ErrDB ''workflow_executions_namespace_id_fkey''), d)
      else if List.find (\<lambda>x. we_key x = we_key r) (workflow_executions d) \<noteq> None
      then (Inl (ErrDB ''workflow_executions_pkey''), d)
      else (Inr (), d\<lparr>workflow_executions := workflow_executions d @ [r]\<rparr>))"

definition q_GetWorkflowExecution :: "run_key \<Rightarrow> 'b db \<Rightarrow> (error + we_row) \<times> 'b db" where
  "q_GetWorkflowExecution k d =
     (case List.find (\<lambda>r. we_key r = k) (workflow_executions d) of
        None \<Rightarrow> (Inl ErrNoRows, d) | Some r \<Rightarrow> (Inr r, d))"

text \<open>
  The compare-and-swap on the version counter (ADR-0002, Mechanism B). \<^verbatim>\<open>next_event_id +
  increment\<close> outside the \<^verbatim>\<open>BIGINT\<close> range is an error of the statement.
\<close>

definition q_AdvanceNextEventID ::
  "timestamp \<Rightarrow> run_key \<Rightarrow> int \<Rightarrow> int \<Rightarrow> 'b db \<Rightarrow> (error + int) \<times> 'b db" where
  "q_AdvanceNextEventID now k inc expected d =
     (case List.find (\<lambda>r. we_key r = k \<and> we_next_event_id r = expected) (workflow_executions d) of
        None \<Rightarrow> (Inl ErrNoRows, d)
      | Some r \<Rightarrow>
          if \<not> bigint_ok (expected + inc) then (Inl (ErrDB ''bigint out of range''), d)
          else (Inr (expected + inc),
            d\<lparr>workflow_executions :=
               sql_update (\<lambda>r. we_key r = k \<and> we_next_event_id r = expected)
                 (\<lambda>r. r\<lparr>we_next_event_id := we_next_event_id r + inc, we_updated_at := now\<rparr>)
                 (workflow_executions d)\<rparr>))"

definition valid_statuses :: "string list" where
  "valid_statuses = [''RUNNING'', ''COMPLETED'', ''FAILED'', ''TERMINATED'', ''TIMED_OUT'', ''CONTINUED_AS_NEW'']"

definition q_CloseWorkflowExecution ::
  "timestamp \<Rightarrow> run_key \<Rightarrow> string \<Rightarrow> 'b db \<Rightarrow> (error + unit) \<times> 'b db" where
  "q_CloseWorkflowExecution now k st d =
     (if st \<notin> set valid_statuses then (Inl (ErrDB ''workflow_executions_status_check''), d)
      else (Inr (), d\<lparr>workflow_executions :=
        sql_update (\<lambda>r. we_key r = k)
          (\<lambda>r. r\<lparr>we_status := st, we_close_time := Some now, we_updated_at := now\<rparr>)
          (workflow_executions d)\<rparr>))"

definition q_SetStickyExecution ::
  "timestamp \<Rightarrow> run_key \<Rightarrow> string option \<Rightarrow> timestamp option \<Rightarrow> 'b db \<Rightarrow> (error + unit) \<times> 'b db" where
  "q_SetStickyExecution now k ident expires d =
     (Inr (), d\<lparr>workflow_executions :=
        sql_update (\<lambda>r. we_key r = k)
          (\<lambda>r. r\<lparr>we_sticky_worker_identity := ident, we_sticky_expires_at := expires,
                 we_updated_at := now\<rparr>)
          (workflow_executions d)\<rparr>)"

text \<open>The row-value comparison \<^verbatim>\<open>(start_time, workflow_id, run_id) <= (..)\<close>.\<close>

definition we_cursor :: "we_row \<Rightarrow> timestamp \<times> string \<times> string" where
  "we_cursor r = (we_start_time r, we_workflow_id r, we_run_id r)"

definition cursor_le ::
  "collation \<Rightarrow> timestamp \<times> string \<times> string \<Rightarrow> timestamp \<times> string \<times> string \<Rightarrow> bool" where
  "cursor_le coll a b =
     (case (a, b) of ((t, w, r), (t', w', r')) \<Rightarrow>
        t < t' \<or> t = t' \<and> (w \<noteq> w' \<and> coll w w' \<or> w = w' \<and> coll r r'))"

definition cursor_less ::
  "collation \<Rightarrow> timestamp \<times> string \<times> string \<Rightarrow> timestamp \<times> string \<times> string \<Rightarrow> bool" where
  "cursor_less coll a b \<longleftrightarrow> cursor_le coll a b \<and> a \<noteq> b"

definition q_ListWorkflowExecutions ::
  "collation \<Rightarrow> int \<Rightarrow> string option \<Rightarrow> string option \<Rightarrow> (timestamp \<times> string \<times> string) option \<Rightarrow>
   nat \<Rightarrow> 'b db \<Rightarrow> (error + we_row list) \<times> 'b db" where
  "q_ListWorkflowExecutions coll ns st queue cursor limit d =
     (Inr (take limit (order_by (\<lambda>a b. cursor_le coll (we_cursor b) (we_cursor a))
        (filter (\<lambda>r. we_namespace_id r = ns
            \<and> (st = None \<or> st = Some (we_status r))
            \<and> (queue = None \<or> queue = Some (we_task_queue r))
            \<and> (case cursor of None \<Rightarrow> True | Some c \<Rightarrow> cursor_less coll (we_cursor r) c))
          (workflow_executions d)))), d)"

section \<open>history.sql\<close>

definition q_InsertHistoryEvent ::
  "timestamp \<Rightarrow> run_key \<Rightarrow> int \<Rightarrow> string \<Rightarrow> 'b \<Rightarrow> 'b db \<Rightarrow> (error + unit) \<times> 'b db" where
  "q_InsertHistoryEvent now k eid etype attrs d =
     (if List.find (\<lambda>r. he_run r = k \<and> he_event_id r = eid) (history_events d) \<noteq> None
      then (Inl (ErrDB ''history_events_pkey''), d)
      else if List.find (\<lambda>r. we_key r = k) (workflow_executions d) = None
      then (Inl (ErrDB ''history_events_fkey''), d)
      else (Inr (), d\<lparr>history_events := history_events d @
        [\<lparr>he_namespace_id = fst k, he_workflow_id = fst (snd k), he_run_id = snd (snd k),
          he_event_id = eid, he_event_time = now, he_event_type = etype,
          he_attributes = attrs\<rparr>]\<rparr>))"

definition q_ListHistoryEvents ::
  "run_key \<Rightarrow> int \<Rightarrow> nat \<Rightarrow> 'b db \<Rightarrow> (error + 'b he_row list) \<times> 'b db" where
  "q_ListHistoryEvents k after limit d =
     (Inr (take limit (sort_key he_event_id
        (filter (\<lambda>r. he_run r = k \<and> he_event_id r > after) (history_events d)))), d)"

end
