(* ===== verification/TaskQueries.thy ===== *)
theory TaskQueries
  imports Persistence
begin

text \<open>
  The task tables: the queries of \<^verbatim>\<open>workflow_tasks.sql\<close>, \<^verbatim>\<open>activity_tasks.sql\<close>,
  \<^verbatim>\<open>query_tasks.sql\<close> and \<^verbatim>\<open>timers.sql\<close>, and the interpretations that give each task
  table the leased-queue contract (\<open>wtq\<close>, \<open>atq\<close>, \<open>qtq\<close>).
\<close>

text \<open>\<^verbatim>\<open>COALESCE(cardinality($p), 0) = 0 OR task_queue_partition = ANY($p)\<close>.\<close>

definition partition_ok :: "int list \<Rightarrow> int \<Rightarrow> bool" where
  "partition_ok partitions p \<longleftrightarrow> partitions = [] \<or> p \<in> set partitions"

abbreviation seconds :: "int \<Rightarrow> duration" where
  "seconds n \<equiv> n * 1000000000"

section \<open>workflow\_tasks.sql\<close>

record enqueue_wt_params =
  ep_namespace_id :: int
  ep_task_queue_name :: string
  ep_task_queue_partition :: int
  ep_workflow_id :: string
  ep_run_id :: string
  ep_scheduled_event_id :: int
  ep_preferred_worker_identity :: "string option"
  ep_sticky_deadline :: "timestamp option"

definition new_wt_row :: "timestamp \<Rightarrow> enqueue_wt_params \<Rightarrow> int \<Rightarrow> wt_row" where
  "new_wt_row now p tid =
     \<lparr>wt_task_id = tid, wt_namespace_id = ep_namespace_id p,
      wt_task_queue_name = ep_task_queue_name p,
      wt_task_queue_partition = ep_task_queue_partition p, wt_workflow_id = ep_workflow_id p,
      wt_run_id = ep_run_id p, wt_scheduled_event_id = ep_scheduled_event_id p,
      wt_status = PENDING, wt_visible_at = now, wt_lease_expiry = None, wt_lease_token = None,
      wt_created_at = now, wt_preferred_worker_identity = ep_preferred_worker_identity p,
      wt_sticky_deadline = ep_sticky_deadline p\<rparr>"

definition q_EnqueueWorkflowTask ::
  "timestamp \<Rightarrow> enqueue_wt_params \<Rightarrow> 'b db \<Rightarrow> (error + unit) \<times> 'b db" where
  "q_EnqueueWorkflowTask now p d =
     (Inr (), d\<lparr>workflow_tasks := workflow_tasks d @ [new_wt_row now p (wt_seq d)],
                wt_seq := wt_seq d + 1\<rparr>)"

definition wt_eligible ::
  "timestamp \<Rightarrow> int list \<Rightarrow> string \<Rightarrow> int \<Rightarrow> string option \<Rightarrow> int list \<Rightarrow> wt_row \<Rightarrow> bool" where
  "wt_eligible now locked queue ns ident partitions t \<longleftrightarrow>
     wt_task_queue_name t = queue \<and> wt_namespace_id t = ns \<and> wt_status t = PENDING
     \<and> wt_visible_at t \<le> now
     \<and> (wt_preferred_worker_identity t = None
        \<or> ident \<noteq> None \<and> wt_preferred_worker_identity t = ident
        \<or> (case wt_sticky_deadline t of Some dl \<Rightarrow> dl < now | None \<Rightarrow> False))
     \<and> partition_ok partitions (wt_task_queue_partition t)
     \<and> wt_task_id t \<notin> set locked"

definition wt_grant :: "int \<Rightarrow> uuid \<Rightarrow> timestamp \<Rightarrow> wt_row \<Rightarrow> wt_row" where
  "wt_grant secs u now t =
     t\<lparr>wt_status := STARTED, wt_lease_token := Some u, wt_lease_expiry := Some (now + seconds secs)\<rparr>"

definition wt_release :: "wt_row \<Rightarrow> wt_row" where
  "wt_release t = t\<lparr>wt_status := PENDING, wt_lease_token := None, wt_lease_expiry := None\<rparr>"

definition q_DequeueWorkflowTask ::
  "timestamp \<Rightarrow> uuid \<Rightarrow> int list \<Rightarrow> int \<Rightarrow> string \<Rightarrow> int \<Rightarrow> string option \<Rightarrow> int list \<Rightarrow>
   'b db \<Rightarrow> (error + wt_row) \<times> 'b db" where
  "q_DequeueWorkflowTask now u locked secs queue ns ident partitions d =
     (case lease_dequeue wt_task_id (wt_eligible now locked queue ns ident partitions)
             (wt_grant secs u now) (workflow_tasks d) of
        None \<Rightarrow> (Inl ErrNoRows, d)
      | Some (r, rows) \<Rightarrow> (Inr r, d\<lparr>workflow_tasks := rows\<rparr>))"

definition q_CompleteWorkflowTask :: "int \<Rightarrow> uuid option \<Rightarrow> 'b db \<Rightarrow> (error + nat) \<times> 'b db" where
  "q_CompleteWorkflowTask tid u d =
     (let m = lease_match wt_task_id wt_lease_token tid u in
      (Inr (rows_affected m (workflow_tasks d)),
       d\<lparr>workflow_tasks := sql_delete m (workflow_tasks d)\<rparr>))"

definition q_ReapExpiredWorkflowTasks :: "timestamp \<Rightarrow> 'b db \<Rightarrow> (error + nat) \<times> 'b db" where
  "q_ReapExpiredWorkflowTasks now d =
     (let e = lease_expired wt_status wt_lease_expiry now in
      (Inr (rows_affected e (workflow_tasks d)),
       d\<lparr>workflow_tasks := sql_update e wt_release (workflow_tasks d)\<rparr>))"

interpretation wtq: leased_table wt_task_id wt_status wt_lease_token wt_lease_expiry
  "wt_grant secs" wt_release for secs
  by unfold_locales (simp_all add: wt_grant_def wt_release_def)

section \<open>activity\_tasks.sql\<close>

text \<open>
  \<open>None\<close> in a bytes or array argument is a nil Go slice, which the driver binds as SQL NULL
  (see the comment on \<^verbatim>\<open>DequeueActivityTask\<close>); both columns are \<^verbatim>\<open>NOT NULL\<close>.
\<close>

record 'b enqueue_at_params =
  ap_namespace_id :: int
  ap_task_queue_name :: string
  ap_task_queue_partition :: int
  ap_workflow_id :: string
  ap_run_id :: string
  ap_activity_id :: int
  ap_activity_type :: string
  ap_scheduled_event_id :: int
  ap_input :: "'b option"
  ap_schedule_to_start_timeout_ns :: int
  ap_start_to_close_timeout_ns :: int
  ap_retry_initial_interval_ns :: int
  ap_retry_backoff_coefficient :: rat
  ap_retry_max_interval_ns :: int
  ap_retry_max_attempts :: int
  ap_retry_non_retryable_types :: "string list option"

definition new_at_row :: "timestamp \<Rightarrow> 'b enqueue_at_params \<Rightarrow> int \<Rightarrow> 'b \<Rightarrow> string list \<Rightarrow> 'b at_row" where
  "new_at_row now p tid inp types =
     \<lparr>at_task_id = tid, at_namespace_id = ap_namespace_id p,
      at_task_queue_name = ap_task_queue_name p,
      at_task_queue_partition = ap_task_queue_partition p, at_workflow_id = ap_workflow_id p,
      at_run_id = ap_run_id p, at_activity_id = ap_activity_id p,
      at_activity_type = ap_activity_type p, at_scheduled_event_id = ap_scheduled_event_id p,
      at_input = inp, at_status = PENDING, at_attempt = 1, at_visible_at = now,
      at_lease_expiry = None, at_lease_token = None,
      at_schedule_to_start_timeout_ns = ap_schedule_to_start_timeout_ns p,
      at_start_to_close_timeout_ns = ap_start_to_close_timeout_ns p,
      at_retry_initial_interval_ns = ap_retry_initial_interval_ns p,
      at_retry_backoff_coefficient = ap_retry_backoff_coefficient p,
      at_retry_max_interval_ns = ap_retry_max_interval_ns p,
      at_retry_max_attempts = ap_retry_max_attempts p,
      at_retry_non_retryable_types = types, at_created_at = now\<rparr>"

definition q_EnqueueActivityTask ::
  "timestamp \<Rightarrow> 'b enqueue_at_params \<Rightarrow> 'b db \<Rightarrow> (error + unit) \<times> 'b db" where
  "q_EnqueueActivityTask now p d =
     (case (ap_input p, ap_retry_non_retryable_types p) of
        (Some inp, Some types) \<Rightarrow>
          (Inr (), d\<lparr>activity_tasks := activity_tasks d @ [new_at_row now p (at_seq d) inp types],
                     at_seq := at_seq d + 1\<rparr>)
      | _ \<Rightarrow> (Inl (ErrDB ''not-null constraint''), d\<lparr>at_seq := at_seq d + 1\<rparr>))"

definition at_eligible :: "timestamp \<Rightarrow> int list \<Rightarrow> string \<Rightarrow> int \<Rightarrow> int list \<Rightarrow> 'b at_row \<Rightarrow> bool" where
  "at_eligible now locked queue ns partitions t \<longleftrightarrow>
     at_task_queue_name t = queue \<and> at_namespace_id t = ns \<and> at_status t = PENDING
     \<and> at_visible_at t \<le> now
     \<and> partition_ok partitions (at_task_queue_partition t)
     \<and> at_task_id t \<notin> set locked"

text \<open>The lease lasts for the activity's own start-to-close timeout.\<close>

definition at_grant :: "uuid \<Rightarrow> timestamp \<Rightarrow> 'b at_row \<Rightarrow> 'b at_row" where
  "at_grant u now t =
     t\<lparr>at_status := STARTED, at_lease_token := Some u,
       at_lease_expiry := Some (now + at_start_to_close_timeout_ns t)\<rparr>"

definition at_release :: "'b at_row \<Rightarrow> 'b at_row" where
  "at_release t = t\<lparr>at_status := PENDING, at_lease_token := None, at_lease_expiry := None\<rparr>"

definition q_DequeueActivityTask ::
  "timestamp \<Rightarrow> uuid \<Rightarrow> int list \<Rightarrow> string \<Rightarrow> int \<Rightarrow> int list \<Rightarrow> 'b db \<Rightarrow> (error + 'b at_row) \<times> 'b db" where
  "q_DequeueActivityTask now u locked queue ns partitions d =
     (case lease_dequeue at_task_id (at_eligible now locked queue ns partitions)
             (at_grant u now) (activity_tasks d) of
        None \<Rightarrow> (Inl ErrNoRows, d)
      | Some (r, rows) \<Rightarrow> (Inr r, d\<lparr>activity_tasks := rows\<rparr>))"

definition q_GetActivityTaskByLease :: "int \<Rightarrow> uuid option \<Rightarrow> 'b db \<Rightarrow> (error + 'b at_row) \<times> 'b db" where
  "q_GetActivityTaskByLease tid u d =
     (case List.find (lease_match at_task_id at_lease_token tid u) (activity_tasks d) of
        None \<Rightarrow> (Inl ErrNoRows, d) | Some r \<Rightarrow> (Inr r, d))"

definition q_CompleteActivityTask :: "int \<Rightarrow> uuid option \<Rightarrow> 'b db \<Rightarrow> (error + nat) \<times> 'b db" where
  "q_CompleteActivityTask tid u d =
     (let m = lease_match at_task_id at_lease_token tid u in
      (Inr (rows_affected m (activity_tasks d)),
       d\<lparr>activity_tasks := sql_delete m (activity_tasks d)\<rparr>))"

definition at_retry :: "timestamp \<Rightarrow> duration \<Rightarrow> 'b at_row \<Rightarrow> 'b at_row" where
  "at_retry now backoff t =
     t\<lparr>at_status := PENDING, at_attempt := at_attempt t + 1, at_visible_at := now + backoff,
       at_lease_token := None, at_lease_expiry := None\<rparr>"

definition q_RetryActivityTask ::
  "timestamp \<Rightarrow> int \<Rightarrow> uuid option \<Rightarrow> duration \<Rightarrow> 'b db \<Rightarrow> (error + nat) \<times> 'b db" where
  "q_RetryActivityTask now tid u backoff d =
     (let m = lease_match at_task_id at_lease_token tid u in
      (Inr (rows_affected m (activity_tasks d)),
       d\<lparr>activity_tasks := sql_update m (at_retry now backoff) (activity_tasks d)\<rparr>))"

definition q_ReapExpiredActivityTasks :: "timestamp \<Rightarrow> 'b db \<Rightarrow> (error + nat) \<times> 'b db" where
  "q_ReapExpiredActivityTasks now d =
     (let e = lease_expired at_status at_lease_expiry now in
      (Inr (rows_affected e (activity_tasks d)),
       d\<lparr>activity_tasks := sql_update e at_release (activity_tasks d)\<rparr>))"

interpretation atq: leased_table at_task_id at_status at_lease_token at_lease_expiry
  at_grant at_release
  by unfold_locales (simp_all add: at_grant_def at_release_def)

section \<open>query\_tasks.sql\<close>

definition new_qt_row ::
  "timestamp \<Rightarrow> int \<Rightarrow> int \<Rightarrow> string \<Rightarrow> string \<Rightarrow> string \<Rightarrow> string \<Rightarrow> 'b \<Rightarrow> 'b qt_row" where
  "new_qt_row now tid ns queue wid rid qtype args =
     \<lparr>qt_task_id = tid, qt_namespace_id = ns, qt_task_queue_name = queue,
      qt_workflow_id = wid, qt_run_id = rid, qt_query_type = qtype, qt_query_args = args,
      qt_status = PENDING, qt_result = None, qt_failure_message = None, qt_visible_at = now,
      qt_lease_expiry = None, qt_lease_token = None, qt_created_at = now\<rparr>"

definition q_EnqueueQueryTask ::
  "timestamp \<Rightarrow> int \<Rightarrow> string \<Rightarrow> string \<Rightarrow> string \<Rightarrow> string \<Rightarrow> 'b option \<Rightarrow> 'b db \<Rightarrow>
   (error + 'b qt_row) \<times> 'b db" where
  "q_EnqueueQueryTask now ns queue wid rid qtype args d =
     (case args of
        None \<Rightarrow> (Inl (ErrDB ''not-null constraint''), d\<lparr>qt_seq := qt_seq d + 1\<rparr>)
      | Some a \<Rightarrow>
          let r = new_qt_row now (qt_seq d) ns queue wid rid qtype a in
          (Inr r, d\<lparr>query_tasks := query_tasks d @ [r], qt_seq := qt_seq d + 1\<rparr>))"

definition qt_eligible :: "timestamp \<Rightarrow> int list \<Rightarrow> string \<Rightarrow> int \<Rightarrow> 'b qt_row \<Rightarrow> bool" where
  "qt_eligible now locked queue ns t \<longleftrightarrow>
     qt_task_queue_name t = queue \<and> qt_namespace_id t = ns \<and> qt_status t = PENDING
     \<and> qt_visible_at t \<le> now \<and> qt_task_id t \<notin> set locked"

definition qt_grant :: "int \<Rightarrow> uuid \<Rightarrow> timestamp \<Rightarrow> 'b qt_row \<Rightarrow> 'b qt_row" where
  "qt_grant secs u now t =
     t\<lparr>qt_status := STARTED, qt_lease_token := Some u, qt_lease_expiry := Some (now + seconds secs)\<rparr>"

definition qt_release :: "'b qt_row \<Rightarrow> 'b qt_row" where
  "qt_release t = t\<lparr>qt_status := PENDING, qt_lease_token := None, qt_lease_expiry := None\<rparr>"

definition q_DequeueQueryTask ::
  "timestamp \<Rightarrow> uuid \<Rightarrow> int list \<Rightarrow> int \<Rightarrow> string \<Rightarrow> int \<Rightarrow> 'b db \<Rightarrow> (error + 'b qt_row) \<times> 'b db" where
  "q_DequeueQueryTask now u locked secs queue ns d =
     (case lease_dequeue qt_task_id (qt_eligible now locked queue ns) (qt_grant secs u now)
             (query_tasks d) of
        None \<Rightarrow> (Inl ErrNoRows, d)
      | Some (r, rows) \<Rightarrow> (Inr r, d\<lparr>query_tasks := rows\<rparr>))"

definition q_CompleteQueryTask ::
  "int \<Rightarrow> uuid option \<Rightarrow> 'b option \<Rightarrow> 'b db \<Rightarrow> (error + nat) \<times> 'b db" where
  "q_CompleteQueryTask tid u result d =
     (let m = lease_match qt_task_id qt_lease_token tid u in
      (Inr (rows_affected m (query_tasks d)),
       d\<lparr>query_tasks := sql_update m (\<lambda>t. t\<lparr>qt_status := COMPLETED, qt_result := result\<rparr>)
           (query_tasks d)\<rparr>))"

definition q_FailQueryTask ::
  "int \<Rightarrow> uuid option \<Rightarrow> string \<Rightarrow> 'b db \<Rightarrow> (error + nat) \<times> 'b db" where
  "q_FailQueryTask tid u msg d =
     (let m = lease_match qt_task_id qt_lease_token tid u in
      (Inr (rows_affected m (query_tasks d)),
       d\<lparr>query_tasks := sql_update m (\<lambda>t. t\<lparr>qt_status := FAILED, qt_failure_message := Some msg\<rparr>)
           (query_tasks d)\<rparr>))"

definition q_GetQueryTask :: "int \<Rightarrow> int \<Rightarrow> 'b db \<Rightarrow> (error + 'b qt_row) \<times> 'b db" where
  "q_GetQueryTask tid ns d =
     (case List.find (\<lambda>t. qt_task_id t = tid \<and> qt_namespace_id t = ns) (query_tasks d) of
        None \<Rightarrow> (Inl ErrNoRows, d) | Some r \<Rightarrow> (Inr r, d))"

definition q_DeleteQueryTask :: "int \<Rightarrow> 'b db \<Rightarrow> (error + unit) \<times> 'b db" where
  "q_DeleteQueryTask tid d =
     (Inr (), d\<lparr>query_tasks := sql_delete (\<lambda>t. qt_task_id t = tid) (query_tasks d)\<rparr>)"

definition q_ReapExpiredQueryTasks :: "timestamp \<Rightarrow> 'b db \<Rightarrow> (error + nat) \<times> 'b db" where
  "q_ReapExpiredQueryTasks now d =
     (let e = lease_expired qt_status qt_lease_expiry now in
      (Inr (rows_affected e (query_tasks d)),
       d\<lparr>query_tasks := sql_update e qt_release (query_tasks d)\<rparr>))"

interpretation qtq: leased_table qt_task_id qt_status qt_lease_token qt_lease_expiry
  "qt_grant secs" qt_release for secs
  by unfold_locales (simp_all add: qt_grant_def qt_release_def)

section \<open>timers.sql\<close>

definition q_InsertTimer :: "tm_row \<Rightarrow> 'b db \<Rightarrow> (error + unit) \<times> 'b db" where
  "q_InsertTimer r d =
     (if List.find (\<lambda>t. tm_key t = tm_key r) (timers d) \<noteq> None
      then (Inl (ErrDB ''timers_pkey''), d)
      else (Inr (), d\<lparr>timers := timers d @ [r]\<rparr>))"

text \<open>\<open>locked\<close> here are the keys of timers other transactions are firing.\<close>

definition q_DequeueDueTimer ::
  "timestamp \<Rightarrow> (int \<times> string \<times> string \<times> int) list \<Rightarrow> 'b db \<Rightarrow> (error + tm_row) \<times> 'b db" where
  "q_DequeueDueTimer now locked d =
     (case min_by tm_fire_at (filter (\<lambda>t. tm_fire_at t \<le> now \<and> tm_key t \<notin> set locked) (timers d)) of
        None \<Rightarrow> (Inl ErrNoRows, d)
      | Some r \<Rightarrow> (Inr r, d\<lparr>timers := sql_delete (\<lambda>t. tm_key t = tm_key r) (timers d)\<rparr>))"

end
