(* ===== verification/Sharding.thy ===== *)
theory Sharding
  imports Prelude
begin

text \<open>
  \<^verbatim>\<open>internal/history/sharding.go\<close>: the deterministic routing of a workflow id into a shard or
  a task-queue partition, with the 32-bit FNV-1a hash of Go's \<^verbatim>\<open>hash/fnv\<close>.
\<close>

unbundle bit_operations_syntax

definition fnv_offset32 :: "32 word" where
  "fnv_offset32 = 2166136261"

definition fnv_prime32 :: "32 word" where
  "fnv_prime32 = 16777619"

text \<open>One byte of \<^verbatim>\<open>sum32a.Write\<close>: xor, then multiply (wrapping).\<close>

definition fnv_step :: "32 word \<Rightarrow> char \<Rightarrow> 32 word" where
  "fnv_step h c = (h XOR of_char c) * fnv_prime32"

definition fnv32a :: "string \<Rightarrow> 32 word" where
  "fnv32a key = foldl fnv_step fnv_offset32 key"

definition PartitionFor :: "string \<Rightarrow> int \<Rightarrow> int" where
  "PartitionFor key numPartitions =
     (if numPartitions \<le> 1 then 0
      else uint (fnv32a key mod word_of_int numPartitions))"

lemma uint_of_int32: "0 \<le> n \<Longrightarrow> n < 2 ^ 31 \<Longrightarrow> uint (word_of_int n :: 32 word) = n"
  by (simp add: uint_word_of_int_eq take_bit_int_eq_self)

lemma PartitionFor_eq:
  "1 < n \<Longrightarrow> n < 2 ^ 31 \<Longrightarrow> PartitionFor key n = uint (fnv32a key) mod n"
  by (simp add: PartitionFor_def uint_mod_distrib uint_of_int32)

text \<open>Hashing is incremental: what \<^verbatim>\<open>h.Write\<close> in two pieces computes is the hash of the whole.\<close>

lemma fnv32a_append: "fnv32a (xs @ ys) = foldl fnv_step (fnv32a xs) ys"
  by (simp add: fnv32a_def)

text \<open>
  A multiplication by the odd FNV prime is invertible modulo \<^verbatim>\<open>2^32\<close>, so one hashing step
  loses nothing of the running state.
\<close>

definition fnv_prime32_inv :: "32 word" where
  "fnv_prime32_inv = 899433627"

lemma fnv_prime32_inverse: "fnv_prime32 * fnv_prime32_inv = 1"
  by (simp add: fnv_prime32_def fnv_prime32_inv_def)

lemma fnv_step_inj: "fnv_step h c = fnv_step h' c \<longleftrightarrow> h = h'"
proof
  assume "fnv_step h c = fnv_step h' c"
  then have "(h XOR of_char c) * (fnv_prime32 * fnv_prime32_inv)
      = (h' XOR of_char c) * (fnv_prime32 * fnv_prime32_inv)"
    by (simp only: fnv_step_def flip: mult.assoc)
  then have "h XOR of_char c = h' XOR of_char c"
    by (simp add: fnv_prime32_inverse)
  then have "(h XOR of_char c) XOR of_char c = (h' XOR of_char c) XOR of_char c"
    by (rule arg_cong)
  then show "h = h'" by (simp only: xor.assoc xor_self_eq xor.right_neutral)
qed simp

end
