(* ===== verification/Notifier.thy ===== *)
theory Notifier
  imports Prelude
begin

text \<open>
  \<^verbatim>\<open>internal/history/notifier.go\<close>: the in-memory wake-up of long polls. A waiter is a Go
  channel of capacity one; a channel is modelled by its identity, and the notifier's state
  holds which channels have a buffered value and which waiters are registered under a key.
\<close>

type_synonym chan = nat

record notifier =
  waiters :: "string \<rightharpoonup> chan list"
  buffered :: "chan set"
  next_chan :: chan

definition newNotifier :: notifier where
  "newNotifier = \<lparr>waiters = (\<lambda>_. None), buffered = {}, next_chan = 0\<rparr>"

text \<open>Reading an absent key of a Go map gives the zero value, the nil slice.\<close>

definition waiters_of :: "notifier \<Rightarrow> string \<Rightarrow> chan list" where
  "waiters_of n key = (case waiters n key of None \<Rightarrow> [] | Some ws \<Rightarrow> ws)"

definition register :: "string \<Rightarrow> notifier \<Rightarrow> chan \<times> notifier" where
  "register key n =
     (let ch = next_chan n in
      (ch, n\<lparr>waiters := (waiters n)(key \<mapsto> waiters_of n key @ [ch]), next_chan := ch + 1\<rparr>))"

text \<open>The cancel function \<open>register\<close> returns: drop the first occurrence, then an empty entry.\<close>

definition cancel :: "string \<Rightarrow> chan \<Rightarrow> notifier \<Rightarrow> notifier" where
  "cancel key ch n =
     (let ws = waiters_of n key;
          ws' = (if ch \<in> set ws then remove1 ch ws else ws)
      in if ws' = [] then n\<lparr>waiters := (waiters n)(key := None)\<rparr>
         else if ch \<in> set ws then n\<lparr>waiters := (waiters n)(key \<mapsto> ws')\<rparr> else n)"

text \<open>A non-blocking send into a channel of capacity one leaves it full either way.\<close>

definition notify :: "string \<Rightarrow> notifier \<Rightarrow> notifier" where
  "notify key n =
     n\<lparr>waiters := (waiters n)(key := None), buffered := buffered n \<union> set (waiters_of n key)\<rparr>"

text \<open>
  \<open>wait\<close> registers, blocks in a three-way select, and cancels on return. The select's
  outcome is chosen by the environment; receiving needs a buffered value.
\<close>

datatype select_outcome = SelDone | SelRecv | SelTimeout

definition select_ready :: "select_outcome \<Rightarrow> bool \<Rightarrow> chan \<Rightarrow> notifier \<Rightarrow> bool" where
  "select_ready o' ctx_done ch n \<longleftrightarrow>
     (case o' of SelDone \<Rightarrow> ctx_done | SelRecv \<Rightarrow> ch \<in> buffered n | SelTimeout \<Rightarrow> True)"

definition wait_return :: "select_outcome \<Rightarrow> string \<Rightarrow> chan \<Rightarrow> notifier \<Rightarrow> bool \<times> notifier" where
  "wait_return o' key ch n =
     (let n' = (if o' = SelRecv then n\<lparr>buffered := buffered n - {ch}\<rparr> else n)
      in (o' \<noteq> SelDone, cancel key ch n'))"

section \<open>Queue keys\<close>

text \<open>Go's \<^verbatim>\<open>%d\<close>.\<close>

definition digit_char :: "nat \<Rightarrow> char" where
  "digit_char d = ''0123456789'' ! d"

fun decimal_nat :: "nat \<Rightarrow> string" where
  "decimal_nat n =
     (if n < 10 then [digit_char n] else decimal_nat (n div 10) @ [digit_char (n mod 10)])"

declare decimal_nat.simps [simp del]

definition decimal :: "int \<Rightarrow> string" where
  "decimal i = (if i < 0 then ''-'' @ decimal_nat (nat (- i)) else decimal_nat (nat i))"

definition workflowQueueKey :: "int \<Rightarrow> string \<Rightarrow> string" where
  "workflowQueueKey nsID taskQueue = ''wf/'' @ decimal nsID @ ''/'' @ taskQueue"

definition activityQueueKey :: "int \<Rightarrow> string \<Rightarrow> string" where
  "activityQueueKey nsID taskQueue = ''act/'' @ decimal nsID @ ''/'' @ taskQueue"

lemma upto_ten: "d < 10 \<Longrightarrow> d \<in> {0, 1, 2, 3, 4, 5, 6, 7, 8, 9 :: nat}"
  by auto

lemma digit_char_inj: "d < 10 \<Longrightarrow> e < 10 \<Longrightarrow> digit_char d = digit_char e \<Longrightarrow> d = e"
  using upto_ten [of d] upto_ten [of e] by (auto simp: digit_char_def)

lemma digit_char_not: "d < 10 \<Longrightarrow> digit_char d \<noteq> CHR ''/'' \<and> digit_char d \<noteq> CHR ''-''"
  using upto_ten [of d] by (auto simp: digit_char_def)

lemma decimal_nat_chars: "c \<in> set (decimal_nat n) \<Longrightarrow> c \<noteq> CHR ''/'' \<and> c \<noteq> CHR ''-''"
proof (induction n rule: decimal_nat.induct)
  case (1 n)
  then show ?case
    using digit_char_not [of "n mod 10"] digit_char_not [of n]
    by (subst (asm) (2) decimal_nat.simps) (auto split: if_splits)
qed

lemma decimal_nat_ne [simp]: "decimal_nat n \<noteq> []" "[] \<noteq> decimal_nat n"
  by (subst decimal_nat.simps, simp)+

lemma decimal_nat_inj: "decimal_nat m = decimal_nat n \<Longrightarrow> m = n"
proof (induction m arbitrary: n rule: decimal_nat.induct)
  case (1 m)
  have eq: "(if m < 10 then [digit_char m] else decimal_nat (m div 10) @ [digit_char (m mod 10)])
      = (if n < 10 then [digit_char n] else decimal_nat (n div 10) @ [digit_char (n mod 10)])"
    using "1.prems" by (simp only: flip: decimal_nat.simps)
  show ?case
  proof (cases "m < 10 \<or> n < 10")
    case True
    with eq show ?thesis by (auto split: if_splits dest: digit_char_inj)
  next
    case False
    with eq have "decimal_nat (m div 10) = decimal_nat (n div 10)"
      and "digit_char (m mod 10) = digit_char (n mod 10)" by auto
    with "1.IH" False have "m div 10 = n div 10" "m mod 10 = n mod 10"
      by (auto dest: digit_char_inj [rotated 2])
    then show ?thesis by (metis div_mult_mod_eq)
  qed
qed

lemma decimal_no_slash: "CHR ''/'' \<notin> set (decimal i)"
  using decimal_nat_chars by (auto simp: decimal_def split: if_splits)

lemma decimal_inj: "decimal i = decimal j \<Longrightarrow> i = j"
proof -
  assume eq: "decimal i = decimal j"
  have hd: "hd (decimal_nat n) \<noteq> CHR ''-''" for n
    using decimal_nat_chars [of "hd (decimal_nat n)" n] by simp
  have "\<not> (''-'' @ decimal_nat m = decimal_nat n)" for m n
    using hd [of n] by (metis append_Cons list.sel(1))
  with eq show "i = j"
    by (auto simp: decimal_def split: if_splits dest!: decimal_nat_inj) (metis)+
qed

lemma split_at_slash:
  "CHR ''/'' \<notin> set xs \<Longrightarrow> CHR ''/'' \<notin> set ys \<Longrightarrow> xs @ ''/'' @ as = ys @ ''/'' @ bs \<Longrightarrow> xs = ys \<and> as = bs"
  by (induction xs arbitrary: ys) (case_tac ys; auto)+

lemma queue_keys_inj:
  "workflowQueueKey n q = workflowQueueKey n' q' \<longleftrightarrow> n = n' \<and> q = q'"
  "activityQueueKey n q = activityQueueKey n' q' \<longleftrightarrow> n = n' \<and> q = q'"
  "workflowQueueKey n q \<noteq> activityQueueKey n' q'"
  unfolding workflowQueueKey_def activityQueueKey_def
  using split_at_slash [OF decimal_no_slash decimal_no_slash, of n q n' q'] decimal_inj [of n n']
  by auto

section \<open>No leak, no lost wake-up\<close>

text \<open>
  Every registered channel was allocated, is registered once, under one key, and no key is
  bound to an empty list.
\<close>

definition notifier_wf :: "notifier \<Rightarrow> bool" where
  "notifier_wf n \<longleftrightarrow>
     (\<forall>k ws. waiters n k = Some ws \<longrightarrow> ws \<noteq> [] \<and> distinct ws \<and> (\<forall>ch \<in> set ws. ch < next_chan n)) \<and>
     (\<forall>k k' ch. ch \<in> set (waiters_of n k) \<longrightarrow> ch \<in> set (waiters_of n k') \<longrightarrow> k = k')"

lemma waiters_of_new [simp]: "waiters_of newNotifier k = []"
  by (simp add: waiters_of_def newNotifier_def)

lemma newNotifier_wf: "notifier_wf newNotifier"
  by (simp add: notifier_wf_def newNotifier_def waiters_of_def)

lemma waiters_of_fresh: "notifier_wf n \<Longrightarrow> next_chan n \<notin> set (waiters_of n k)"
  by (cases "waiters n k") (auto simp: notifier_wf_def waiters_of_def)

lemma waiters_of_register:
  "waiters_of (snd (register key n)) k = (if k = key then waiters_of n key @ [next_chan n] else waiters_of n k)"
  by (simp add: waiters_of_def register_def Let_def)

lemma waiters_of_cancel:
  "waiters_of (cancel key ch n) k = (if k = key then remove1 ch (waiters_of n key) else waiters_of n k)"
  by (auto simp: waiters_of_def cancel_def Let_def remove1_idem)

lemma waiters_of_notify: "waiters_of (notify key n) k = (if k = key then [] else waiters_of n k)"
  by (simp add: waiters_of_def notify_def)

lemma register_wf:
  assumes "notifier_wf n" shows "notifier_wf (snd (register key n))"
proof -
  have "\<forall>k ws. waiters (snd (register key n)) k = Some ws \<longrightarrow>
      ws \<noteq> [] \<and> distinct ws \<and> (\<forall>ch \<in> set ws. ch < next_chan n + 1)"
    using assms waiters_of_fresh [OF assms, of key]
    by (auto simp: notifier_wf_def register_def Let_def waiters_of_def less_Suc_eq
        split: if_splits option.splits)
  moreover have "\<forall>k k' ch. ch \<in> set (waiters_of (snd (register key n)) k) \<longrightarrow>
      ch \<in> set (waiters_of (snd (register key n)) k') \<longrightarrow> k = k'"
    using assms waiters_of_fresh [OF assms]
    by (auto simp: waiters_of_register notifier_wf_def split: if_splits)
  ultimately show ?thesis by (simp add: notifier_wf_def register_def Let_def)
qed

lemma cancel_wf:
  assumes "notifier_wf n" shows "notifier_wf (cancel key ch n)"
proof -
  have "\<forall>k ws. waiters (cancel key ch n) k = Some ws \<longrightarrow>
      ws \<noteq> [] \<and> distinct ws \<and> (\<forall>c \<in> set ws. c < next_chan n)"
    using assms
    by (auto simp: notifier_wf_def cancel_def Let_def waiters_of_def distinct_remove1
        split: if_splits option.splits dest: notin_set_remove1 [rotated])
  moreover have "\<forall>k k' c. c \<in> set (waiters_of (cancel key ch n) k) \<longrightarrow>
      c \<in> set (waiters_of (cancel key ch n) k') \<longrightarrow> k = k'"
    using assms set_remove1_subset [of ch "waiters_of n key"]
    unfolding waiters_of_cancel notifier_wf_def by (auto split: if_splits)
  moreover have "next_chan (cancel key ch n) = next_chan n" by (simp add: cancel_def Let_def)
  ultimately show ?thesis by (simp add: notifier_wf_def)
qed

lemma notify_wf: "notifier_wf n \<Longrightarrow> notifier_wf (notify key n)"
  unfolding notifier_wf_def waiters_of_notify by (auto simp: notify_def)

lemma register_cancel_id:
  assumes "notifier_wf n"
  shows "waiters (cancel key (fst (register key n)) (snd (register key n))) = waiters n"
proof -
  have fresh: "next_chan n \<notin> set (waiters_of n key)" using assms by (rule waiters_of_fresh)
  have key: "waiters n key = (if waiters_of n key = [] then None else Some (waiters_of n key))"
    using assms by (cases "waiters n key") (auto simp: notifier_wf_def waiters_of_def)
  have "waiters_of (snd (register key n)) key = waiters_of n key @ [next_chan n]"
    by (simp add: waiters_of_register)
  then show ?thesis
    using fresh key unfolding cancel_def Let_def
    by (auto simp: remove1_append register_def Let_def fun_eq_iff)
qed

end
