(* ===== verification/Store.thy ===== *)
theory Store
  imports TaskQueries Sharding Notifier
begin

text \<open>
  The store's frame: third-party code as the parameter record \<open>ext\<close>, the values a call draws
  from its surroundings as the record \<open>env\<close>, the configuration and state of
  \<^verbatim>\<open>internal/history/store.go\<close>, transactions and the conflict retry of \<^verbatim>\<open>retry.go\<close>.
\<close>

section \<open>Code outside the repository\<close>

text \<open>
  \<^item> \<open>marshal_attrs\<close>/\<open>unmarshal_attrs\<close>: \<^verbatim>\<open>proto.Marshal\<close> and \<^verbatim>\<open>proto.Unmarshal\<close> of an attributes
    message (\<open>None\<close> is the error); decoding is told which message type to decode into.
  \<^item> \<open>marshal_payload\<close>: the two results of \<^verbatim>\<open>proto.Marshal\<close> on a possibly nil payload, the byte
    slice (\<open>None\<close> is the nil slice) and whether there was an error.
  \<^item> \<open>uuid_parse\<close>: \<^verbatim>\<open>uuid.Parse\<close> of google/uuid, giving the canonical text of the UUID.
  \<^item> \<open>json_token\<close>/\<open>json_untoken\<close>: \<^verbatim>\<open>encoding/json\<close> on a task token, given by its fields.
  \<^item> \<open>json_cursor\<close>/\<open>json_uncursor\<close>: the same on a page cursor.
  \<^item> \<open>float_to_int\<close>: Go's conversion of a float64 outside the int64 range, which the language
    leaves to the implementation.
  \<^item> \<open>collate\<close>: the collation of the database.
\<close>

type_synonym token_fields = "int \<times> string \<times> int \<times> string \<times> string \<times> int \<times> string"

record 'b ext =
  marshal_attrs :: "event_attributes \<Rightarrow> 'b option"
  unmarshal_attrs :: "history_event_type \<Rightarrow> 'b \<Rightarrow> event_attributes option"
  marshal_payload :: "payload option \<Rightarrow> 'b option \<times> bool"
  unmarshal_payload :: "'b \<Rightarrow> payload option"
  is_empty_bytes :: "'b \<Rightarrow> bool"
  uuid_parse :: "string \<Rightarrow> uuid option"
  json_token :: "token_fields \<Rightarrow> bytes option"
  json_untoken :: "bytes \<Rightarrow> token_fields option"
  json_cursor :: "timestamp \<times> string \<times> string \<Rightarrow> bytes option"
  json_uncursor :: "bytes \<Rightarrow> (timestamp \<times> string \<times> string) option"
  float_to_int :: "rat \<Rightarrow> int"
  collate :: collation

text \<open>
  What a call draws from outside: \<open>db_now i\<close> is \<^verbatim>\<open>now()\<close> of its \<open>i\<close>-th transaction or
  stand-alone statement, \<open>go_now i\<close> the \<open>i\<close>-th \<^verbatim>\<open>time.Now()\<close>, \<open>new_uuid i\<close> the \<open>i\<close>-th
  \<^verbatim>\<open>uuid.NewString()\<close>, \<open>lease_uuid i\<close> the \<^verbatim>\<open>gen_random_uuid()\<close> of statement \<open>i\<close>;
  \<open>locked\<close>, \<open>locked_q\<close> and \<open>locked_timers\<close> are the rows other transactions hold locked.
\<close>

record env =
  db_now :: "nat \<Rightarrow> timestamp"
  go_now :: "nat \<Rightarrow> timestamp"
  new_uuid :: "nat \<Rightarrow> uuid"
  lease_uuid :: "nat \<Rightarrow> uuid"
  locked :: "int list"
  locked_q :: "int list"
  locked_timers :: "(int \<times> string \<times> string \<times> int) list"

section \<open>Store, metrics, state\<close>

record store =
  numShards :: int
  numTaskQueuePartitions :: int
  taskTokenSigningKey :: bytes

record store_options =
  NumShards :: int
  NumTaskQueuePartitions :: int
  TaskTokenSigningKey :: bytes

text \<open>\<open>rnd\<close> is what \<^verbatim>\<open>rand.Read\<close> fills the 32-byte key with, \<open>None\<close> its failure (a panic).\<close>

definition NewStore :: "bytes option \<Rightarrow> store_options \<Rightarrow> error + store" where
  "NewStore rnd opts =
     (let shards = (if NumShards opts < 1 then 1 else NumShards opts);
          parts = (if NumTaskQueuePartitions opts < 1 then 1 else NumTaskQueuePartitions opts)
      in if TaskTokenSigningKey opts = [] then
           (case rnd of
              None \<Rightarrow> Inl (ErrPanic ''generate task token signing key'')
            | Some key \<Rightarrow> Inr \<lparr>numShards = shards, numTaskQueuePartitions = parts,
                              taskTokenSigningKey = key\<rparr>)
         else Inr \<lparr>numShards = shards, numTaskQueuePartitions = parts,
                   taskTokenSigningKey = TaskTokenSigningKey opts\<rparr>)"

text \<open>The Prometheus counters of \<^verbatim>\<open>internal/metrics\<close>.\<close>

record metrics =
  WorkflowStartedTotal :: nat
  WorkflowCompletedTotal :: "string \<Rightarrow> nat"
  ActivityRetryTotal :: nat
  WorkflowTaskFailedTotal :: nat
  WorkflowTaskDispatchedTotal :: nat
  ActivityTaskDispatchedTotal :: nat

text \<open>The state of one server process: the database, its notifier and its counters.\<close>

record 'b sys =
  sdb :: "'b db"
  notif :: notifier
  counters :: metrics

definition initial_sys :: "timestamp \<Rightarrow> 'b sys" where
  "initial_sys now = \<lparr>sdb = initial_db now, notif = newNotifier,
     counters = \<lparr>WorkflowStartedTotal = 0, WorkflowCompletedTotal = (\<lambda>_. 0), ActivityRetryTotal = 0,
       WorkflowTaskFailedTotal = 0, WorkflowTaskDispatchedTotal = 0, ActivityTaskDispatchedTotal = 0\<rparr>\<rparr>"

text \<open>A statement of the query layer, run on the store's database.\<close>

definition onDB :: "('b db \<Rightarrow> (error + 'a) \<times> 'b db) \<Rightarrow> 'b sys \<Rightarrow> (error + 'a) \<times> 'b sys" where
  [monad_simps]: "onDB m s = (case m (sdb s) of (r, d) \<Rightarrow> (r, s\<lparr>sdb := d\<rparr>))"

definition notifyM :: "string \<Rightarrow> 'b sys \<Rightarrow> (error + unit) \<times> 'b sys" where
  [monad_simps]: "notifyM key = modM (\<lambda>s. s\<lparr>notif := notify key (notif s)\<rparr>)"

definition count :: "(metrics \<Rightarrow> metrics) \<Rightarrow> 'b sys \<Rightarrow> (error + unit) \<times> 'b sys" where
  [monad_simps]: "count f = modM (\<lambda>s. s\<lparr>counters := f (counters s)\<rparr>)"

section \<open>Transactions\<close>

text \<open>
  A rollback restores every table; the sequences behind \<^verbatim>\<open>BIGSERIAL\<close> columns are not
  transactional and keep the values that were drawn.
\<close>

definition rollback :: "'b db \<Rightarrow> 'b db \<Rightarrow> 'b db" where
  "rollback before after =
     before\<lparr>ns_seq := ns_seq after, wt_seq := wt_seq after, at_seq := at_seq after,
            qt_seq := qt_seq after\<rparr>"

definition withTx :: "('b sys \<Rightarrow> (error + 'a) \<times> 'b sys) \<Rightarrow> 'b sys \<Rightarrow> (error + 'a) \<times> 'b sys" where
  "withTx fn s =
     (case fn s of
        (Inl e, s') \<Rightarrow> (Inl e, s'\<lparr>sdb := rollback (sdb s) (sdb s')\<rparr>)
      | (Inr x, s') \<Rightarrow> (Inr x, s'))"

definition maxConcurrentModificationRetries :: nat where
  "maxConcurrentModificationRetries = 5"

text \<open>
  The retry loop with \<open>n\<close> attempts left; \<open>fn i\<close> is the body as run by attempt \<open>i\<close>, \<open>err\<close> the
  last error (the loop variable).
\<close>

fun retryTx ::
  "nat \<Rightarrow> nat \<Rightarrow> (nat \<Rightarrow> 'b sys \<Rightarrow> (error + 'a) \<times> 'b sys) \<Rightarrow> error \<Rightarrow> 'b sys \<Rightarrow> (error + 'a) \<times> 'b sys" where
  "retryTx i 0 fn err s = (Inl err, s)"
| "retryTx i (Suc n) fn err s =
     (case withTx (fn i) s of
        (Inl e, s') \<Rightarrow> if e = ErrConcurrentModification then retryTx (Suc i) n fn e s' else (Inl e, s')
      | (Inr x, s') \<Rightarrow> (Inr x, s'))"

definition withTxRetryOnConflict ::
  "(nat \<Rightarrow> 'b sys \<Rightarrow> (error + 'a) \<times> 'b sys) \<Rightarrow> 'b sys \<Rightarrow> (error + 'a) \<times> 'b sys" where
  "withTxRetryOnConflict fn = retryTx 0 maxConcurrentModificationRetries fn ErrConcurrentModification"

definition getNamespaceID :: "string \<Rightarrow> 'b sys \<Rightarrow> (error + int) \<times> 'b sys" where
  "getNamespaceID name =
     bindM (mapErr (\<lambda>e. if e = ErrNoRows then ErrNamespaceNotFound else e) (onDB (q_GetNamespaceByName name)))
       (\<lambda>ns. ret (ns_id ns))"

section \<open>Facts about the frame\<close>

lemma withTx_Inr: "fn s = (Inr x, s') \<Longrightarrow> withTx fn s = (Inr x, s')"
  by (simp add: withTx_def)

lemma withTx_Inl: "fn s = (Inl e, s') \<Longrightarrow> withTx fn s = (Inl e, s'\<lparr>sdb := rollback (sdb s) (sdb s')\<rparr>)"
  by (simp add: withTx_def)

lemma rollback_self [simp]: "rollback d d = d"
  by (simp add: rollback_def)

lemma rollback_sel [simp]:
  "namespaces (rollback d d') = namespaces d"
  "current_executions (rollback d d') = current_executions d"
  "workflow_executions (rollback d d') = workflow_executions d"
  "history_events (rollback d d') = history_events d"
  "workflow_tasks (rollback d d') = workflow_tasks d"
  "activity_tasks (rollback d d') = activity_tasks d"
  "query_tasks (rollback d d') = query_tasks d"
  "timers (rollback d d') = timers d"
  by (simp_all add: rollback_def)

lemma onDB_bind: "onDB (bindM m f) = bindM (onDB m) (\<lambda>x. onDB (f x))"
  by (rule ext) (simp add: monad_simps split: prod.split sum.split)

lemma onDB_mapErr: "onDB (mapErr h m) = mapErr h (onDB m)"
  by (rule ext) (simp add: monad_simps split: prod.split sum.split)

lemma sys_eta [simp]: "s\<lparr>sdb := sdb s\<rparr> = s"
  by simp

lemma getNamespaceID_eq:
  "getNamespaceID name s =
     (case List.find (\<lambda>r. ns_name r = name) (namespaces (sdb s)) of
        None \<Rightarrow> (Inl ErrNamespaceNotFound, s) | Some r \<Rightarrow> (Inr (ns_id r), s))"
  by (simp add: getNamespaceID_def monad_simps q_GetNamespaceByName_def split: option.split)

text \<open>A failed transaction leaves every table as it was.\<close>

lemma withTx_atomic:
  assumes "withTx fn s = (Inl e, s')"
  shows "\<exists>d. sdb s' = rollback (sdb s) d"
  using assms by (auto simp: withTx_def split: prod.splits sum.splits)

text \<open>
  The conflict retry: the error of a retried call is the error of its last attempt, so any
  other error is reported at once; a body that conflicts on every attempt is run five times.
\<close>

lemma retryTx_result:
  "retryTx i n fn err s = (Inl e, s') \<Longrightarrow> e \<noteq> ErrConcurrentModification \<Longrightarrow> n > 0 \<Longrightarrow>
   \<exists>j s0 s1. i \<le> j \<and> j < i + n \<and> withTx (fn j) s0 = (Inl e, s1) \<and> s1 = s'"
proof (induction n arbitrary: i err s)
  case (Suc n)
  obtain r t where r: "withTx (fn i) s = (r, t)" by fastforce
  show ?case
  proof (cases r)
    case (Inl e')
    show ?thesis
    proof (cases "e' = ErrConcurrentModification \<and> n > 0")
      case True
      then have "retryTx (Suc i) n fn e' t = (Inl e, s')" using Suc.prems r Inl by simp
      with Suc.IH [OF this] Suc.prems True obtain j s0 s1
        where "Suc i \<le> j" "j < Suc i + n" "withTx (fn j) s0 = (Inl e, s1)" "s1 = s'" by blast
      then show ?thesis by (intro exI [of _ j]) auto
    next
      case False
      with Suc.prems r Inl have "e' = e" "t = s'" by (auto split: if_splits)
      with r Inl show ?thesis by auto
    qed
  next
    case Inr
    with Suc.prems r show ?thesis by simp
  qed
qed simp

lemma retryTx_success_first:
  "withTx (fn i) s = (Inr x, s') \<Longrightarrow> retryTx i (Suc n) fn err s = (Inr x, s')"
  by simp

lemma retryTx_other_error:
  "withTx (fn i) s = (Inl e, s') \<Longrightarrow> e \<noteq> ErrConcurrentModification \<Longrightarrow> retryTx i (Suc n) fn err s = (Inl e, s')"
  by simp

lemma keeps_retryTx:
  assumes "\<And>j. keeps I (withTx (fn j))"
  shows "keeps I (retryTx i n fn err)"
proof (induction n arbitrary: i err)
  case 0
  show ?case by (simp add: keeps_def)
next
  case (Suc n)
  show ?case
  proof (rule keepsI)
    fix s assume "I s"
    with assms have "I (snd (withTx (fn i) s))" by (rule keepsD)
    with Suc [of "Suc i" ErrConcurrentModification] show "I (snd (retryTx i (Suc n) fn err s))"
      by (auto simp: keeps_def split: prod.split sum.split)
  qed
qed

end
