(* ===== verification/Sha256.thy ===== *)
theory Sha256
  imports Prelude
begin

text \<open>
  The parts of Go's \<^verbatim>\<open>crypto/sha256\<close> and \<^verbatim>\<open>crypto/hmac\<close> that
  \<^verbatim>\<open>internal/history/tasktoken.go\<close> signs task tokens with, over 32-bit words.
\<close>

unbundle bit_operations_syntax

type_synonym w32 = "32 word"

definition sha256_K :: "w32 list" where
  "sha256_K =
   [1116352408, 1899447441, 3049323471, 3921009573, 961987163, 1508970993,
    2453635748, 2870763221, 3624381080, 310598401, 607225278, 1426881987,
    1925078388, 2162078206, 2614888103, 3248222580, 3835390401, 4022224774,
    264347078, 604807628, 770255983, 1249150122, 1555081692, 1996064986,
    2554220882, 2821834349, 2952996808, 3210313671, 3336571891, 3584528711,
    113926993, 338241895, 666307205, 773529912, 1294757372, 1396182291,
    1695183700, 1986661051, 2177026350, 2456956037, 2730485921, 2820302411,
    3259730800, 3345764771, 3516065817, 3600352804, 4094571909, 275423344,
    430227734, 506948616, 659060556, 883997877, 958139571, 1322822218,
    1537002063, 1747873779, 1955562222, 2024104815, 2227730452, 2361852424,
    2428436474, 2756734187, 3204031479, 3329325298]"

definition sha256_H0 :: "w32 list" where
  "sha256_H0 =
   [1779033703, 3144134277, 1013904242, 2773480762, 1359893119, 2600822924,
    528734635, 1541459225]"

definition rotr :: "nat \<Rightarrow> w32 \<Rightarrow> w32" where
  "rotr n w = (drop_bit n w) OR (push_bit (32 - n) w)"

definition small_sigma0 :: "w32 \<Rightarrow> w32" where
  "small_sigma0 x = rotr 7 x XOR rotr 18 x XOR drop_bit 3 x"

definition small_sigma1 :: "w32 \<Rightarrow> w32" where
  "small_sigma1 x = rotr 17 x XOR rotr 19 x XOR drop_bit 10 x"

definition big_sigma0 :: "w32 \<Rightarrow> w32" where
  "big_sigma0 x = rotr 2 x XOR rotr 13 x XOR rotr 22 x"

definition big_sigma1 :: "w32 \<Rightarrow> w32" where
  "big_sigma1 x = rotr 6 x XOR rotr 11 x XOR rotr 25 x"

text \<open>Big-endian bytes and words.\<close>

definition word_of_bytes :: "char list \<Rightarrow> w32" where
  "word_of_bytes bs = foldl (\<lambda>w c. push_bit 8 w OR of_char c) 0 bs"

definition bytes_of_word :: "w32 \<Rightarrow> char list" where
  "bytes_of_word w = map (\<lambda>k. char_of (unat (drop_bit k w) mod 256)) [24, 16, 8, 0]"

fun chunks :: "nat \<Rightarrow> nat \<Rightarrow> 'a list \<Rightarrow> 'a list list" where
  "chunks n 0 xs = []"
| "chunks n (Suc m) xs = take n xs # chunks n m (drop n xs)"

text \<open>
  Padding: the byte \<^verbatim>\<open>0x80\<close>, zeros, and the length in bits as eight bytes, to a multiple of 64
  bytes.
\<close>

definition length_bytes :: "nat \<Rightarrow> char list" where
  "length_bytes n = map (\<lambda>k. char_of (n * 8 div 256 ^ k mod 256)) [7, 6, 5, 4, 3, 2, 1, 0]"

definition sha256_pad :: "char list \<Rightarrow> char list" where
  "sha256_pad msg =
     msg @ [char_of (128 :: nat)] @ replicate ((119 - length msg mod 64) mod 64) (char_of (0 :: nat))
     @ length_bytes (length msg)"

text \<open>The message schedule: 48 further words, each from the sixteen before it (latest first).\<close>

fun expand :: "nat \<Rightarrow> w32 list \<Rightarrow> w32 list" where
  "expand 0 ws = ws"
| "expand (Suc n) ws =
     expand n ((small_sigma1 (ws ! 1) + ws ! 6 + small_sigma0 (ws ! 14) + ws ! 15) # ws)"

definition schedule :: "char list \<Rightarrow> w32 list" where
  "schedule block = rev (expand 48 (rev (map word_of_bytes (chunks 4 16 block))))"

fun sha256_round :: "w32 list \<Rightarrow> w32 \<times> w32 \<Rightarrow> w32 list" where
  "sha256_round [a, b, c, d, e, f, g, h] (k, w) =
     (let t1 = h + big_sigma1 e + ((e AND f) XOR (NOT e AND g)) + k + w;
          t2 = big_sigma0 a + ((a AND b) XOR (a AND c) XOR (b AND c))
      in [t1 + t2, a, b, c, d + t1, e, f, g])"
| "sha256_round s _ = s"

definition sha256_block :: "w32 list \<Rightarrow> char list \<Rightarrow> w32 list" where
  "sha256_block st block = map2 (+) st (foldl sha256_round st (zip sha256_K (schedule block)))"

definition sha256 :: "char list \<Rightarrow> char list" where
  "sha256 msg =
     (let p = sha256_pad msg
      in concat (map bytes_of_word (foldl sha256_block sha256_H0 (chunks 64 (length p div 64) p))))"

text \<open>\<^verbatim>\<open>hmac.New(sha256.New, key)\<close>, \<^verbatim>\<open>Write(msg)\<close>, \<^verbatim>\<open>Sum(nil)\<close>.\<close>

definition hmac_key :: "char list \<Rightarrow> char list" where
  "hmac_key key =
     (let k = (if length key > 64 then sha256 key else key)
      in k @ replicate (64 - length k) (char_of (0 :: nat)))"

definition xor_pad :: "nat \<Rightarrow> char list \<Rightarrow> char list" where
  "xor_pad p key = map (\<lambda>c. char_of ((of_char c :: nat) XOR p)) key"

definition hmac_sha256 :: "char list \<Rightarrow> char list \<Rightarrow> char list" where
  "hmac_sha256 key msg =
     sha256 (xor_pad 0x5c (hmac_key key) @ sha256 (xor_pad 0x36 (hmac_key key) @ msg))"

section \<open>A digest has 32 bytes\<close>

lemma sha256_round_length: "length s = 8 \<Longrightarrow> length (sha256_round s kw) = 8"
  by (cases "(s, kw)" rule: sha256_round.cases) (auto simp: Let_def)

lemma sha256_rounds_length: "length s = 8 \<Longrightarrow> length (foldl sha256_round s kws) = 8"
  by (induction kws arbitrary: s) (simp_all add: sha256_round_length)

lemma sha256_block_length: "length s = 8 \<Longrightarrow> length (sha256_block s b) = 8"
  by (simp add: sha256_block_def sha256_rounds_length)

lemma sha256_blocks_length: "length s = 8 \<Longrightarrow> length (foldl sha256_block s bs) = 8"
  by (induction bs arbitrary: s) (simp_all add: sha256_block_length)

lemma length_concat_bytes: "length (concat (map bytes_of_word ws)) = 4 * length ws"
  by (induction ws) (simp_all add: bytes_of_word_def)

lemma length_sha256 [simp]: "length (sha256 msg) = 32"
  by (simp add: sha256_def Let_def length_concat_bytes sha256_blocks_length sha256_H0_def)

lemma length_hmac_sha256 [simp]: "length (hmac_sha256 key msg) = 32"
  by (simp add: hmac_sha256_def)

text \<open>The padded message is a whole number of 64-byte blocks, so no byte is left out.\<close>

lemma pad_mod: "r < 64 \<Longrightarrow> (r + (119 - r) mod 64 + 9) mod 64 = (0 :: nat)"
proof (cases "r < 56")
  case True
  then have "119 - r = 64 + (55 - r)" by simp
  then have "(119 - r) mod 64 = 55 - r" by (simp only: mod_add_self1) simp
  with True show ?thesis by simp
next
  case False
  moreover assume "r < 64"
  ultimately have "(119 - r) mod 64 = 119 - r" by simp
  with \<open>r < 64\<close> show ?thesis by simp
qed

lemma length_sha256_pad: "length (sha256_pad msg) mod 64 = 0"
proof -
  let ?m = "length msg"
  have "length (sha256_pad msg) = ?m + ((119 - ?m mod 64) mod 64 + 9)"
    by (simp add: sha256_pad_def length_bytes_def)
  also have "\<dots> mod 64 = (?m mod 64 + ((119 - ?m mod 64) mod 64 + 9)) mod 64"
    by (rule mod_add_left_eq [symmetric])
  also have "\<dots> = 0" using pad_mod [of "?m mod 64"] by (simp add: add.assoc)
  finally show ?thesis .
qed

end
