(* ===== verification/TaskToken.thy ===== *)
theory TaskToken
  imports Store Sha256
begin

text \<open>
  \<^verbatim>\<open>internal/history/tasktoken.go\<close>: the signed token a poll hands to a worker and the worker
  echoes back. The wire format is the 32-byte HMAC-SHA256 of the JSON text, then the text.
\<close>

definition TaskTokenKindWorkflow :: string where "TaskTokenKindWorkflow = ''workflow''"
definition TaskTokenKindActivity :: string where "TaskTokenKindActivity = ''activity''"
definition TaskTokenKindQuery :: string where "TaskTokenKindQuery = ''query''"

lemma token_kinds_distinct [simp]:
  "TaskTokenKindWorkflow \<noteq> TaskTokenKindActivity" "TaskTokenKindWorkflow \<noteq> TaskTokenKindQuery"
  "TaskTokenKindActivity \<noteq> TaskTokenKindWorkflow" "TaskTokenKindActivity \<noteq> TaskTokenKindQuery"
  "TaskTokenKindQuery \<noteq> TaskTokenKindWorkflow" "TaskTokenKindQuery \<noteq> TaskTokenKindActivity"
  by (simp_all add: TaskTokenKindWorkflow_def TaskTokenKindActivity_def TaskTokenKindQuery_def)

record task_token =
  tk_V :: int
  tk_Kind :: string
  tk_NamespaceID :: int
  tk_WorkflowID :: string
  tk_RunID :: string
  tk_TaskID :: int
  tk_LeaseToken :: string

definition taskTokenVersion :: int where
  "taskTokenVersion = 2"

definition newTaskToken :: "string \<Rightarrow> int \<Rightarrow> string \<Rightarrow> string \<Rightarrow> int \<Rightarrow> string \<Rightarrow> task_token" where
  "newTaskToken kind namespaceID workflowID runID taskID leaseToken =
     \<lparr>tk_V = taskTokenVersion, tk_Kind = kind, tk_NamespaceID = namespaceID,
      tk_WorkflowID = workflowID, tk_RunID = runID, tk_TaskID = taskID,
      tk_LeaseToken = leaseToken\<rparr>"

definition token_fields_of :: "task_token \<Rightarrow> token_fields" where
  "token_fields_of t =
     (tk_V t, tk_Kind t, tk_NamespaceID t, tk_WorkflowID t, tk_RunID t, tk_TaskID t, tk_LeaseToken t)"

fun token_of_fields :: "token_fields \<Rightarrow> task_token" where
  "token_of_fields (v, k, ns, wid, rid, tid, lt) =
     \<lparr>tk_V = v, tk_Kind = k, tk_NamespaceID = ns, tk_WorkflowID = wid, tk_RunID = rid,
      tk_TaskID = tid, tk_LeaseToken = lt\<rparr>"

lemma token_of_fields_of [simp]: "token_of_fields (token_fields_of t) = t"
  by (simp add: token_fields_of_def)

definition signPayload :: "bytes \<Rightarrow> bytes \<Rightarrow> bytes" where
  "signPayload payload key = hmac_sha256 key payload"

definition Encode :: "'b ext \<Rightarrow> task_token \<Rightarrow> bytes \<Rightarrow> error + bytes" where
  "Encode X t key =
     (case json_token X (token_fields_of t) of
        None \<Rightarrow> Inl ErrTokenJSON
      | Some payload \<Rightarrow> Inr (signPayload payload key @ payload))"

definition DecodeTaskToken :: "'b ext \<Rightarrow> bytes \<Rightarrow> bytes \<Rightarrow> error + task_token" where
  "DecodeTaskToken X b key =
     (if length b < 32 then Inl ErrTokenTooShort
      else let sig = take 32 b; payload = drop 32 b in
        if sig \<noteq> signPayload payload key then Inl ErrTokenSignature
        else case json_untoken X payload of
               None \<Rightarrow> Inl ErrTokenJSON
             | Some f \<Rightarrow>
                 let t = token_of_fields f in
                 if tk_V t \<noteq> taskTokenVersion then Inl (ErrTokenVersion (tk_V t)) else Inr t)"

lemma length_signPayload [simp]: "length (signPayload p key) = 32"
  by (simp add: signPayload_def)

text \<open>What the code relies on of \<^verbatim>\<open>encoding/json\<close>: it decodes the text it encoded.\<close>

definition json_token_law :: "'b ext \<Rightarrow> task_token \<Rightarrow> bool" where
  "json_token_law X t \<longleftrightarrow>
     (\<exists>p. json_token X (token_fields_of t) = Some p \<and> json_untoken X p = Some (token_fields_of t))"

lemma Encode_length: "Encode X t key = Inr b \<Longrightarrow> 32 \<le> length b"
  by (auto simp: Encode_def split: option.splits)

lemma Encode_Decode:
  assumes "json_token_law X t" and "tk_V t = taskTokenVersion"
  obtains b where "Encode X t key = Inr b" and "DecodeTaskToken X b key = Inr t"
proof -
  from assms(1) obtain p where p: "json_token X (token_fields_of t) = Some p"
      "json_untoken X p = Some (token_fields_of t)"
    by (auto simp: json_token_law_def)
  show ?thesis
    by (rule that [of "signPayload p key @ p"]) (simp_all add: Encode_def DecodeTaskToken_def p assms(2))
qed

lemma Decode_InrD:
  assumes "DecodeTaskToken X b key = Inr t"
  shows "32 \<le> length b" and "take 32 b = hmac_sha256 key (drop 32 b)"
    and "json_untoken X (drop 32 b) = Some (token_fields_of t)" and "tk_V t = taskTokenVersion"
proof -
  from assms obtain f where len: "32 \<le> length b" and sig: "take 32 b = signPayload (drop 32 b) key"
    and f: "json_untoken X (drop 32 b) = Some f" "t = token_of_fields f"
      "tk_V t = taskTokenVersion"
    by (auto simp: DecodeTaskToken_def Let_def split: if_splits option.splits)
  then show "32 \<le> length b" "take 32 b = hmac_sha256 key (drop 32 b)" "tk_V t = taskTokenVersion"
    by (simp_all add: signPayload_def)
  obtain v k ns wid rid tid lt where "f = (v, k, ns, wid, rid, tid, lt)" by (cases f)
  with f show "json_untoken X (drop 32 b) = Some (token_fields_of t)"
    by (simp add: token_fields_of_def)
qed

end
