(* ===== verification/Append.thy ===== *)
theory Append
  imports TaskToken
begin

text \<open>
  \<^verbatim>\<open>append.go\<close>, \<^verbatim>\<open>attributes.go\<close> and \<^verbatim>\<open>util.go\<close>: the append chokepoint of every history write
  (the compare-and-swap on \<^verbatim>\<open>next_event_id\<close>), the decoding of stored events, and the
  parameter helpers of the operations.
\<close>

record new_event =
  NEType :: history_event_type
  NEAttributes :: event_attributes

abbreviation newEvent :: "history_event_type \<Rightarrow> event_attributes \<Rightarrow> new_event" where
  "newEvent t a \<equiv> \<lparr>NEType = t, NEAttributes = a\<rparr>"

section \<open>append.go\<close>

definition insert_event ::
  "'b ext \<Rightarrow> timestamp \<Rightarrow> run_key \<Rightarrow> int \<times> new_event \<Rightarrow> 'b db \<Rightarrow> (error + unit) \<times> 'b db" where
  "insert_event X now k p =
     (case marshal_attrs X (NEAttributes (snd p)) of
        None \<Rightarrow> throw ErrMarshal
      | Some b \<Rightarrow> q_InsertHistoryEvent now k (fst p) (event_type_String (NEType (snd p))) b)"

text \<open>
  The ids are \<^verbatim>\<open>expected + i\<close>; they are within the range because the advance succeeded.
\<close>

definition AppendHistory ::
  "'b ext \<Rightarrow> timestamp \<Rightarrow> run_key \<Rightarrow> int \<Rightarrow> new_event list \<Rightarrow> 'b db \<Rightarrow> (error + int \<times> int list) \<times> 'b db" where
  "AppendHistory X now k expected events =
     (if events = [] then ret (expected, [])
      else bindM
        (mapErr (\<lambda>e. if e = ErrNoRows then ErrConcurrentModification else e)
          (q_AdvanceNextEventID now k (int (length events)) expected))
        (\<lambda>newNext. bindM (forM (insert_event X now k) (zip (ids_from expected (length events)) events))
        (\<lambda>_. ret (newNext, ids_from expected (length events)))))"

section \<open>attributes.go\<close>

text \<open>The switch has a case for every event type but \<open>UNSPECIFIED\<close>, which is its default.\<close>

definition decodeHistoryEvent :: "'b ext \<Rightarrow> 'b he_row \<Rightarrow> error + history_event" where
  "decodeHistoryEvent X row =
     (let evType = HistoryEventType_value (he_event_type row) in
      if evType = EV_UNSPECIFIED then Inl (ErrUnknownEventType (he_event_type row) (he_event_id row))
      else case unmarshal_attrs X evType (he_attributes row) of
             None \<Rightarrow> Inl ErrUnmarshal
           | Some a \<Rightarrow> Inr \<lparr>EventId = he_event_id row, EventTime = he_event_time row,
                            EventType = evType, Attributes = a\<rparr>)"

text \<open>The decoding loop of the three readers: the first error ends it.\<close>

fun decode_rows :: "'b ext \<Rightarrow> 'b he_row list \<Rightarrow> error + history_event list" where
  "decode_rows X [] = Inr []"
| "decode_rows X (r # rs) =
     (case decodeHistoryEvent X r of
        Inl e \<Rightarrow> Inl e
      | Inr ev \<Rightarrow> (case decode_rows X rs of Inl e \<Rightarrow> Inl e | Inr evs \<Rightarrow> Inr (ev # evs)))"

definition liftE :: "error + 'a \<Rightarrow> 's \<Rightarrow> (error + 'a) \<times> 's" where
  [monad_simps]: "liftE r s = (r, s)"

section \<open>util.go\<close>

definition pgUUIDFromString :: "'b ext \<Rightarrow> string \<Rightarrow> uuid option" where
  "pgUUIDFromString X s = uuid_parse X s"

definition uuidString :: "uuid option \<Rightarrow> string" where
  "uuidString u = (case u of None \<Rightarrow> '''' | Some s \<Rightarrow> s)"

definition stringOrFallback :: "string \<Rightarrow> string \<Rightarrow> string" where
  "stringOrFallback v fallback = (if v \<noteq> '''' then v else fallback)"

definition durationToPgInt8 :: "duration \<Rightarrow> int option" where
  "durationToPgInt8 d = (if d \<le> 0 then None else Some d)"

definition durationOrFallback :: "duration option \<Rightarrow> int option \<Rightarrow> int option" where
  "durationOrFallback v fallback =
     (case v of None \<Rightarrow> fallback | Some d \<Rightarrow> durationToPgInt8 (AsDuration v))"

definition stickyEnqueueFields :: "timestamp \<Rightarrow> we_row \<Rightarrow> string option \<times> timestamp option" where
  "stickyEnqueueFields now we =
     (case (we_sticky_worker_identity we, we_sticky_expires_at we) of
        (Some w, Some e) \<Rightarrow> if e < now then (None, None) else (Some w, Some e)
      | _ \<Rightarrow> (None, None))"

definition workflowTaskLeaseSeconds :: int where "workflowTaskLeaseSeconds = 10"

definition queryTaskLeaseSeconds :: int where "queryTaskLeaseSeconds = 10"

definition defaultActivityStartToCloseTimeout :: duration where
  "defaultActivityStartToCloseTimeout = 30 * 1000000000"

definition activityEnqueueParams ::
  "'b ext \<Rightarrow> run_key \<Rightarrow> string \<Rightarrow> int \<Rightarrow> schedule_activity_cmd \<Rightarrow> 'b enqueue_at_params" where
  "activityEnqueueParams X k taskQueue taskQueuePartition cmd =
     (let inputBytes = fst (marshal_payload X (ActInput cmd));
          rp = ActRetryPolicy cmd;
          initialNs = (case rp of Some p \<Rightarrow> AsDuration (InitialInterval p) | None \<Rightarrow> 0);
          maxIntervalNs = (case rp of Some p \<Rightarrow> AsDuration (MaxInterval p) | None \<Rightarrow> 0);
          coeff = (case rp of Some p \<Rightarrow> if BackoffCoefficient p > 0 then BackoffCoefficient p else 2 | None \<Rightarrow> 2);
          maxAttempts = (case rp of Some p \<Rightarrow> MaxAttempts p | None \<Rightarrow> 0);
          nonRetryable = (case rp of
              Some p \<Rightarrow> if NonRetryableErrorTypes p = [] then None else Some (NonRetryableErrorTypes p)
            | None \<Rightarrow> Some []);
          startToCloseNs = (let ns = AsDuration (StartToCloseTimeout cmd)
                            in if ns \<le> 0 then defaultActivityStartToCloseTimeout else ns)
      in \<lparr>ap_namespace_id = fst k, ap_task_queue_name = taskQueue,
          ap_task_queue_partition = taskQueuePartition, ap_workflow_id = fst (snd k),
          ap_run_id = snd (snd k), ap_activity_id = ActivityId cmd,
          ap_activity_type = ActivityType cmd, ap_scheduled_event_id = 0, ap_input = inputBytes,
          ap_schedule_to_start_timeout_ns = AsDuration (ScheduleToStartTimeout cmd),
          ap_start_to_close_timeout_ns = startToCloseNs,
          ap_retry_initial_interval_ns = initialNs, ap_retry_backoff_coefficient = coeff,
          ap_retry_max_interval_ns = maxIntervalNs, ap_retry_max_attempts = maxAttempts,
          ap_retry_non_retryable_types = nonRetryable\<rparr>)"

end
