(* ===== verification/HistoryLog.thy ===== *)
theory HistoryLog
  imports Append
begin

text \<open>
  The contract of \<open>AppendHistory\<close>. \<open>log_wf\<close> is the invariant of the event log: the events of
  a run carry the ids \<open>1, 2, \<dots>, next_event_id - 1\<close>, in the order of insertion. Under it, the
  outcome of an append is determined on every branch, and the store refines an abstract
  machine that keeps one append-only list per run and accepts an append only at its end.
\<close>

section \<open>The log of a run\<close>

definition run_events :: "run_key \<Rightarrow> 'b db \<Rightarrow> 'b he_row list" where
  "run_events k d = filter (\<lambda>r. he_run r = k) (history_events d)"

definition find_we :: "run_key \<Rightarrow> 'b db \<Rightarrow> we_row option" where
  "find_we k d = List.find (\<lambda>r. we_key r = k) (workflow_executions d)"

definition we_keys :: "'b db \<Rightarrow> run_key set" where
  "we_keys d = we_key ` set (workflow_executions d)"

definition log_wf :: "'b db \<Rightarrow> bool" where
  "log_wf d \<longleftrightarrow>
     distinct (map we_key (workflow_executions d)) \<and>
     (\<forall>r \<in> set (workflow_executions d). 1 \<le> we_next_event_id r \<and> bigint_ok (we_next_event_id r) \<and>
        map he_event_id (run_events (we_key r) d) = ids_from 1 (nat (we_next_event_id r - 1))) \<and>
     (\<forall>h \<in> set (history_events d). he_run h \<in> we_keys d)"

lemma find_we_SomeD: "find_we k d = Some r \<Longrightarrow> we_key r = k \<and> r \<in> set (workflow_executions d)"
  by (auto simp: find_we_def dest: find_SomeD)

lemma find_we_None: "find_we k d = None \<longleftrightarrow> k \<notin> we_keys d"
  by (auto simp: find_we_def we_keys_def find_None_iff)

lemma find_we_mem: "log_wf d \<Longrightarrow> r \<in> set (workflow_executions d) \<Longrightarrow> find_we (we_key r) d = Some r"
  unfolding find_we_def log_wf_def by (blast intro: find_distinct)

lemma q_GetWorkflowExecution_eq:
  "q_GetWorkflowExecution k d =
     (case find_we k d of None \<Rightarrow> (Inl ErrNoRows, d) | Some r \<Rightarrow> (Inr r, d))"
  by (simp add: q_GetWorkflowExecution_def find_we_def split: option.split)

lemma log_wf_ids:
  "log_wf d \<Longrightarrow> find_we k d = Some r \<Longrightarrow>
   map he_event_id (run_events k d) = ids_from 1 (nat (we_next_event_id r - 1)) \<and>
   1 \<le> we_next_event_id r"
  by (auto simp: log_wf_def dest: find_we_SomeD)

lemma run_events_empty: "log_wf d \<Longrightarrow> k \<notin> we_keys d \<Longrightarrow> run_events k d = []"
  by (auto simp: log_wf_def run_events_def filter_empty_conv)

section \<open>The compare-and-swap\<close>

definition advance :: "timestamp \<Rightarrow> run_key \<Rightarrow> int \<Rightarrow> int \<Rightarrow> we_row list \<Rightarrow> we_row list" where
  "advance now k e n =
     sql_update (\<lambda>r. we_key r = k \<and> we_next_event_id r = e)
       (\<lambda>r. r\<lparr>we_next_event_id := we_next_event_id r + n, we_updated_at := now\<rparr>)"

lemma we_key_upd [simp]:
  "we_key (r\<lparr>we_next_event_id := a\<rparr>) = we_key r"
  "we_key (r\<lparr>we_updated_at := t\<rparr>) = we_key r"
  "we_key (r\<lparr>we_status := st\<rparr>) = we_key r"
  "we_key (r\<lparr>we_close_time := c\<rparr>) = we_key r"
  "we_key (r\<lparr>we_sticky_worker_identity := w\<rparr>) = we_key r"
  "we_key (r\<lparr>we_sticky_expires_at := x\<rparr>) = we_key r"
  by (simp_all add: we_key_def)

lemma map_we_key_advance [simp]: "map we_key (advance now k e n rows) = map we_key rows"
  unfolding advance_def by (rule map_sql_update) simp

lemma find_cas:
  assumes "distinct (map we_key rows)"
  shows "List.find (\<lambda>r. we_key r = k \<and> we_next_event_id r = e) rows =
    (case List.find (\<lambda>r. we_key r = k) rows of
       None \<Rightarrow> None | Some r \<Rightarrow> if we_next_event_id r = e then Some r else None)"
  using assms
proof (induction rows)
  case (Cons r rows)
  show ?case
  proof (cases "we_key r = k")
    case True
    with Cons.prems have "k \<notin> we_key ` set rows" by auto
    then have "List.find (\<lambda>x. we_key x = k \<and> we_next_event_id x = e) rows = None"
      by (auto simp: find_None_iff)
    with True show ?thesis by simp
  next
    case False
    with Cons show ?thesis by simp
  qed
qed simp

lemma q_AdvanceNextEventID_eq:
  assumes "log_wf d"
  shows "q_AdvanceNextEventID now k n e d =
    (case find_we k d of
       None \<Rightarrow> (Inl ErrNoRows, d)
     | Some r \<Rightarrow>
         if we_next_event_id r \<noteq> e then (Inl ErrNoRows, d)
         else if \<not> bigint_ok (e + n) then (Inl (ErrDB ''bigint out of range''), d)
         else (Inr (e + n), d\<lparr>workflow_executions := advance now k e n (workflow_executions d)\<rparr>))"
  using find_cas [of "workflow_executions d" k e] assms
  by (auto simp: q_AdvanceNextEventID_def find_we_def log_wf_def advance_def split: option.split)

section \<open>The insert loop\<close>

definition event_row :: "'b ext \<Rightarrow> timestamp \<Rightarrow> run_key \<Rightarrow> int \<times> new_event \<Rightarrow> 'b he_row" where
  "event_row X now k p =
     \<lparr>he_namespace_id = fst k, he_workflow_id = fst (snd k), he_run_id = snd (snd k),
      he_event_id = fst p, he_event_time = now, he_event_type = event_type_String (NEType (snd p)),
      he_attributes = the (marshal_attrs X (NEAttributes (snd p)))\<rparr>"

lemma event_row_sel [simp]:
  "he_run (event_row X now k p) = k" "he_event_id (event_row X now k p) = fst p"
  "he_event_time (event_row X now k p) = now"
  "he_event_type (event_row X now k p) = event_type_String (NEType (snd p))"
  by (simp_all add: event_row_def he_run_def)

definition marshals :: "'b ext \<Rightarrow> new_event list \<Rightarrow> bool" where
  "marshals X evs \<longleftrightarrow> list_all (\<lambda>ev. marshal_attrs X (NEAttributes ev) \<noteq> None) evs"

lemma insert_event_ok:
  assumes "find_we k d \<noteq> None" and "marshal_attrs X (NEAttributes (snd p)) \<noteq> None"
    and "\<forall>h \<in> set (run_events k d). he_event_id h \<noteq> fst p"
  shows "insert_event X now k p d = (Inr (), d\<lparr>history_events := history_events d @ [event_row X now k p]\<rparr>)"
  using assms
  by (auto simp: insert_event_def q_InsertHistoryEvent_def event_row_def find_we_def run_events_def
      find_None_iff find_Some_iff split: option.splits)

lemma insert_events_ok:
  assumes "find_we k d \<noteq> None" and "\<forall>p \<in> set ps. marshal_attrs X (NEAttributes (snd p)) \<noteq> None"
    and "distinct (map fst ps)" and "\<forall>h \<in> set (run_events k d). he_event_id h \<notin> fst ` set ps"
  shows "forM (insert_event X now k) ps d =
    (Inr (), d\<lparr>history_events := history_events d @ map (event_row X now k) ps\<rparr>)"
  using assms
proof (induction ps arbitrary: d)
  case Nil
  show ?case by (simp add: monad_simps)
next
  case (Cons p ps)
  let ?d = "d\<lparr>history_events := history_events d @ [event_row X now k p]\<rparr>"
  have "insert_event X now k p d = (Inr (), ?d)"
    using Cons.prems by (intro insert_event_ok) auto
  moreover have "forM (insert_event X now k) ps ?d =
      (Inr (), ?d\<lparr>history_events := history_events ?d @ map (event_row X now k) ps\<rparr>)"
    using Cons.prems by (intro Cons.IH) (auto simp: run_events_def find_we_def)
  ultimately show ?case by (simp add: bindM_Inr)
qed

lemma insert_event_unmarshalled:
  "marshal_attrs X (NEAttributes (snd p)) = None \<Longrightarrow> insert_event X now k p d = (Inl ErrMarshal, d)"
  by (simp add: insert_event_def monad_simps)

text \<open>A single event that does not marshal fails the loop at that event.\<close>

lemma insert_events_marshal_error:
  assumes "find_we k d \<noteq> None" and "\<exists>p \<in> set ps. marshal_attrs X (NEAttributes (snd p)) = None"
    and "distinct (map fst ps)" and "\<forall>h \<in> set (run_events k d). he_event_id h \<notin> fst ` set ps"
  shows "fst (forM (insert_event X now k) ps d) = Inl ErrMarshal"
  using assms
proof (induction ps arbitrary: d)
  case (Cons p ps)
  show ?case
  proof (cases "marshal_attrs X (NEAttributes (snd p)) = None")
    case True
    then show ?thesis by (simp add: bindM_Inl insert_event_unmarshalled)
  next
    case False
    let ?d = "d\<lparr>history_events := history_events d @ [event_row X now k p]\<rparr>"
    have "insert_event X now k p d = (Inr (), ?d)"
      using Cons.prems False by (intro insert_event_ok) auto
    moreover have "fst (forM (insert_event X now k) ps ?d) = Inl ErrMarshal"
      using Cons.prems False by (intro Cons.IH) (auto simp: run_events_def find_we_def)
    ultimately show ?thesis by (simp add: bindM_Inr)
  qed
qed simp

section \<open>AppendHistory on every branch\<close>

definition appended ::
  "'b ext \<Rightarrow> timestamp \<Rightarrow> run_key \<Rightarrow> int \<Rightarrow> new_event list \<Rightarrow> 'b db \<Rightarrow> 'b db" where
  "appended X now k e evs d =
     d\<lparr>workflow_executions := advance now k e (int (length evs)) (workflow_executions d),
       history_events := history_events d @
         map (event_row X now k) (zip (ids_from e (length evs)) evs)\<rparr>"

lemma AppendHistory_Nil [simp]: "AppendHistory X now k e [] = ret (e, [])"
  by (simp add: AppendHistory_def)

lemma AppendHistory_stale:
  assumes "log_wf d" and "evs \<noteq> []" and "\<forall>r. find_we k d = Some r \<longrightarrow> we_next_event_id r \<noteq> e"
  shows "AppendHistory X now k e evs d = (Inl ErrConcurrentModification, d)"
  using assms
  by (auto simp: AppendHistory_def monad_simps q_AdvanceNextEventID_eq split: option.split)

lemma fresh_ids:
  assumes "log_wf d" and "find_we k d = Some r"
  shows "\<forall>h \<in> set (run_events k d). he_event_id h \<notin> set (ids_from (we_next_event_id r) n)"
proof
  fix h assume "h \<in> set (run_events k d)"
  then have "he_event_id h \<in> set (map he_event_id (run_events k d))" by simp
  then show "he_event_id h \<notin> set (ids_from (we_next_event_id r) n)"
    using log_wf_ids [OF assms] by (simp add: set_ids_from)
qed

lemma zip_ids_fst: "map fst (zip (ids_from e (length evs)) evs) = ids_from e (length evs)"
  by simp

lemma zip_ids_marshal:
  "(\<forall>p \<in> set (zip (ids_from e (length evs)) evs). marshal_attrs X (NEAttributes (snd p)) \<noteq> None) \<longleftrightarrow>
   marshals X evs"
proof -
  have "set evs = snd ` set (zip (ids_from e (length evs)) evs)"
    by (metis length_ids_from list.set_map map_snd_zip)
  then show ?thesis by (auto simp: marshals_def list_all_iff)
qed

lemma AppendHistory_current:
  assumes wf: "log_wf d" and evs: "evs \<noteq> []" and r: "find_we k d = Some r"
    and e: "e = we_next_event_id r" and big: "bigint_ok (e + int (length evs))"
  shows "marshals X evs \<Longrightarrow> AppendHistory X now k e evs d =
      (Inr (e + int (length evs), ids_from e (length evs)), appended X now k e evs d)"
    and "\<not> marshals X evs \<Longrightarrow> fst (AppendHistory X now k e evs d) = Inl ErrMarshal"
proof -
  let ?d = "d\<lparr>workflow_executions := advance now k e (int (length evs)) (workflow_executions d)\<rparr>"
  let ?ps = "zip (ids_from e (length evs)) evs"
  have adv: "mapErr (\<lambda>e. if e = ErrNoRows then ErrConcurrentModification else e)
      (q_AdvanceNextEventID now k (int (length evs)) e) d = (Inr (e + int (length evs)), ?d)"
    using r e big by (simp add: monad_simps q_AdvanceNextEventID_eq [OF wf])
  have run: "find_we k ?d \<noteq> None"
    using r unfolding find_we_None by (metis find_we_None list.set_map map_we_key_advance
        option.distinct(1) we_keys_def db.select_convs(4) db.surjective db.update_convs(4))
  have fresh: "\<forall>h \<in> set (run_events k ?d). he_event_id h \<notin> fst ` set ?ps"
    using fresh_ids [OF wf r, of "length evs"]
    by (simp add: run_events_def e flip: set_map)
  have dist: "distinct (map fst ?ps)" by simp
  show "AppendHistory X now k e evs d =
      (Inr (e + int (length evs), ids_from e (length evs)), appended X now k e evs d)" if "marshals X evs"
  proof -
    have "forM (insert_event X now k) ?ps ?d =
        (Inr (), ?d\<lparr>history_events := history_events ?d @ map (event_row X now k) ?ps\<rparr>)"
      using zip_ids_marshal [of e evs X] that
      by (intro insert_events_ok [OF run _ dist fresh]) blast
    with adv evs show ?thesis
      by (simp add: AppendHistory_def bindM_Inr appended_def monad_simps)
  qed
  show "fst (AppendHistory X now k e evs d) = Inl ErrMarshal" if "\<not> marshals X evs"
  proof -
    have "\<exists>p \<in> set ?ps. marshal_attrs X (NEAttributes (snd p)) = None"
      using that unfolding zip_ids_marshal [of e evs X, symmetric] by simp
    from insert_events_marshal_error [OF run this dist fresh, of now] adv evs
    show ?thesis
      by (cases "forM (insert_event X now k) ?ps ?d") (simp add: AppendHistory_def bindM_Inr bindM_Inl)
  qed
qed

lemma AppendHistory_overflow:
  assumes "log_wf d" and "evs \<noteq> []" and "find_we k d = Some r" and "e = we_next_event_id r"
    and "\<not> bigint_ok (e + int (length evs))"
  shows "AppendHistory X now k e evs d = (Inl (ErrDB ''bigint out of range''), d)"
  using assms by (simp add: AppendHistory_def monad_simps q_AdvanceNextEventID_eq)

text \<open>What a successful append tells: this is the rule the operations use.\<close>

lemma AppendHistory_InrE:
  assumes wf: "log_wf d" and evs: "evs \<noteq> []"
    and app: "AppendHistory X now k e evs d = (Inr (n, ids), d')"
  obtains r where "find_we k d = Some r" and "we_next_event_id r = e"
    and "bigint_ok (e + int (length evs))" and "marshals X evs"
    and "n = e + int (length evs)" and "ids = ids_from e (length evs)"
    and "d' = appended X now k e evs d"
proof -
  obtain r where r: "find_we k d = Some r" "we_next_event_id r = e"
    using AppendHistory_stale [OF wf evs, of k e X now] app by fastforce
  have big: "bigint_ok (e + int (length evs))"
    using AppendHistory_overflow [OF wf evs r(1), of e X now] r(2) app by fastforce
  have m: "marshals X evs"
    using AppendHistory_current(2) [OF wf evs r(1) r(2) [symmetric] big, of X now] app by fastforce
  with AppendHistory_current(1) [OF wf evs r(1) r(2) [symmetric] big m, of now] app
  have "n = e + int (length evs) \<and> ids = ids_from e (length evs) \<and> d' = appended X now k e evs d"
    by simp
  with that [OF r big m] show ?thesis by blast
qed

lemma AppendHistory_succE:
  assumes wf: "log_wf d" and evs: "evs \<noteq> []" and app: "AppendHistory X now k e evs d = (Inr x, d')"
  obtains r where "find_we k d = Some r" and "we_next_event_id r = e"
    and "bigint_ok (e + int (length evs))" and "marshals X evs"
    and "x = (e + int (length evs), ids_from e (length evs))" and "d' = appended X now k e evs d"
proof -
  obtain n ids where x: "x = (n, ids)" by (cases x)
  with app have "AppendHistory X now k e evs d = (Inr (n, ids), d')" by simp
  then show ?thesis
    by (rule AppendHistory_InrE [OF wf evs]) (rule that; simp add: x)
qed

section \<open>The log after an append\<close>

lemma appended_sel [simp]:
  "namespaces (appended X now k e evs d) = namespaces d"
  "ns_seq (appended X now k e evs d) = ns_seq d"
  "current_executions (appended X now k e evs d) = current_executions d"
  "workflow_tasks (appended X now k e evs d) = workflow_tasks d"
  "wt_seq (appended X now k e evs d) = wt_seq d"
  "activity_tasks (appended X now k e evs d) = activity_tasks d"
  "at_seq (appended X now k e evs d) = at_seq d"
  "query_tasks (appended X now k e evs d) = query_tasks d"
  "qt_seq (appended X now k e evs d) = qt_seq d"
  "timers (appended X now k e evs d) = timers d"
  by (simp_all add: appended_def)

lemma we_keys_appended [simp]: "we_keys (appended X now k e evs d) = we_keys d"
  unfolding we_keys_def appended_def by simp (metis list.set_map map_we_key_advance)

lemma run_events_appended:
  "run_events k' (appended X now k e evs d) =
     run_events k' d @ (if k' = k then map (event_row X now k) (zip (ids_from e (length evs)) evs) else [])"
  by (auto simp: run_events_def appended_def filter_empty_conv intro: filter_True)

lemma find_we_appended:
  assumes "log_wf d" and "find_we k d = Some r" and "we_next_event_id r = e"
  shows "find_we k' (appended X now k e evs d) =
    (if k' = k then Some (r\<lparr>we_next_event_id := e + int (length evs), we_updated_at := now\<rparr>)
     else find_we k' d)"
proof -
  have "find_we k' (appended X now k e evs d) =
    map_option (\<lambda>r. if we_key r = k \<and> we_next_event_id r = e
       then r\<lparr>we_next_event_id := we_next_event_id r + int (length evs), we_updated_at := now\<rparr> else r)
      (find_we k' d)"
    unfolding find_we_def appended_def advance_def by simp (rule find_key_sql_update, simp)
  then show ?thesis using assms find_we_SomeD [of k' d]
    by (auto split: if_splits) (cases "find_we k' d"; fastforce dest: find_we_SomeD)+
qed

lemma log_wf_appended:
  assumes wf: "log_wf d" and r: "find_we k d = Some r" and e: "we_next_event_id r = e"
    and big: "bigint_ok (e + int (length evs))"
  shows "log_wf (appended X now k e evs d)"
proof -
  let ?d = "appended X now k e evs d"
  have keys: "map we_key (workflow_executions ?d) = map we_key (workflow_executions d)"
    by (simp add: appended_def)
  then have dist: "distinct (map we_key (workflow_executions ?d))"
    using wf by (simp add: log_wf_def)
  have "1 \<le> we_next_event_id x \<and> bigint_ok (we_next_event_id x) \<and>
      map he_event_id (run_events (we_key x) ?d) = ids_from 1 (nat (we_next_event_id x - 1))"
    if x: "x \<in> set (workflow_executions ?d)" for x
  proof -
    have fx: "find_we (we_key x) ?d = Some x"
      using find_distinct [OF dist x] by (simp add: find_we_def)
    show ?thesis
    proof (cases "we_key x = k")
      case True
      from log_wf_ids [OF wf r] e have ids: "map he_event_id (run_events k d) = ids_from 1 (nat (e - 1))" "1 \<le> e"
        by auto
      have xe: "we_next_event_id x = e + int (length evs)"
        using fx True find_we_appended [OF wf r e, of k X now evs] by auto
      have "nat (e + int (length evs) - 1) = nat (e - 1) + length evs" using ids(2) by simp
      then have "ids_from 1 (nat (e + int (length evs) - 1)) =
          ids_from 1 (nat (e - 1)) @ ids_from e (length evs)"
        using ids(2) by (simp add: ids_from_add)
      moreover have "map (he_event_id \<circ> event_row X now k) (zip (ids_from e (length evs)) evs) = ids_from e (length evs)"
        by (simp add: comp_def)
      ultimately show ?thesis using ids xe big True by (simp add: run_events_appended)
    next
      case False
      with fx find_we_appended [OF wf r e, of "we_key x" X now evs] have "find_we (we_key x) d = Some x" by simp
      then have "x \<in> set (workflow_executions d)" by (auto dest: find_we_SomeD)
      with wf False show ?thesis by (simp add: log_wf_def run_events_appended)
    qed
  qed
  moreover have "he_run h \<in> we_keys ?d" if "h \<in> set (history_events ?d)" for h
  proof -
    have "k \<in> we_keys d" using r find_we_None [of k d] by auto
    with that wf show ?thesis
      unfolding we_keys_appended by (auto simp: appended_def log_wf_def)
  qed
  ultimately show ?thesis using dist by (simp add: log_wf_def)
qed

lemma AppendHistory_log_wf:
  assumes "log_wf d" and "AppendHistory X now k e evs d = (Inr x, d')"
  shows "log_wf d'"
proof (cases "evs = []")
  case True
  with assms show ?thesis by (simp add: monad_simps)
next
  case False
  from assms(2) show ?thesis
    by (rule AppendHistory_succE [OF assms(1) False]) (simp add: log_wf_appended [OF assms(1)])
qed

end
