(* ===== verification/Executions.thy ===== *)
theory Executions
  imports HistoryLog
begin

text \<open>
  The operations on workflow executions that clients call: \<^verbatim>\<open>start.go\<close>, \<^verbatim>\<open>signal.go\<close>,
  \<^verbatim>\<open>cancel.go\<close>, \<^verbatim>\<open>query.go\<close> (history pages, describe, terminate), \<^verbatim>\<open>namespace.go\<close> and
  \<^verbatim>\<open>list.go\<close>. A transaction's body is a definition of its own (suffix \<open>_tx\<close>) in the query
  layer's monad; the operation runs it with \<open>withTx\<close> and then does what follows the commit.
\<close>

section \<open>start.go\<close>

record start_params =
  sp_Namespace :: string
  sp_WorkflowID :: string
  sp_WorkflowType :: string
  sp_TaskQueue :: string
  sp_Input :: "payload option"
  sp_WorkflowExecutionTimeout :: duration
  sp_WorkflowRunTimeout :: duration
  sp_WorkflowTaskTimeout :: duration
  sp_RetryPolicy :: "retry_policy option"
  sp_RequestID :: string

definition start_events :: "start_params \<Rightarrow> new_event list" where
  "start_events p =
     [newEvent EV_WORKFLOW_EXECUTION_STARTED
        (WorkflowExecutionStarted (sp_WorkflowType p) (sp_TaskQueue p) (sp_Input p) (sp_RetryPolicy p) ''''),
      newEvent EV_WORKFLOW_TASK_SCHEDULED (WorkflowTaskScheduled (sp_TaskQueue p))]"

text \<open>The branch for a workflow id that already has a current run.\<close>

definition start_existing ::
  "int \<Rightarrow> uuid \<Rightarrow> start_params \<Rightarrow> 'b db \<Rightarrow> (error + unit) \<times> 'b db" where
  "start_existing nsID newRunID p =
     bindM (q_GetCurrentExecution nsID (sp_WorkflowID p)) (\<lambda>existing.
       if ce_create_request_id existing = sp_RequestID p
       then throw (ErrIdempotentReplay (ce_run_id existing))
       else bindM (q_GetWorkflowExecution (nsID, sp_WorkflowID p, ce_run_id existing)) (\<lambda>we.
         if we_status we = ''RUNNING'' then throw ErrWorkflowAlreadyRunning
         else q_ReplaceCurrentExecution nsID (sp_WorkflowID p) newRunID (sp_RequestID p)))"

definition start_tx ::
  "'b ext \<Rightarrow> store \<Rightarrow> timestamp \<Rightarrow> int \<Rightarrow> uuid \<Rightarrow> start_params \<Rightarrow> 'b db \<Rightarrow> (error + unit) \<times> 'b db" where
  "start_tx X S now nsID newRunID p =
     bindM (q_InsertCurrentExecution nsID (sp_WorkflowID p) newRunID (sp_RequestID p)) (\<lambda>inserted.
     bindM (if inserted = 0 then start_existing nsID newRunID p else ret ()) (\<lambda>_.
     bindM (q_CreateWorkflowExecution now
         \<lparr>cp_namespace_id = nsID, cp_workflow_id = sp_WorkflowID p, cp_run_id = newRunID,
          cp_workflow_type = sp_WorkflowType p, cp_task_queue = sp_TaskQueue p,
          cp_shard_id = PartitionFor (sp_WorkflowID p) (numShards S),
          cp_execution_timeout_ns = durationToPgInt8 (sp_WorkflowExecutionTimeout p),
          cp_run_timeout_ns = durationToPgInt8 (sp_WorkflowRunTimeout p),
          cp_task_timeout_ns = durationToPgInt8 (sp_WorkflowTaskTimeout p)\<rparr>) (\<lambda>_.
     bindM (AppendHistory X now (nsID, sp_WorkflowID p, newRunID) 1 (start_events p)) (\<lambda>_.
     q_EnqueueWorkflowTask now
         \<lparr>ep_namespace_id = nsID, ep_task_queue_name = sp_TaskQueue p,
          ep_task_queue_partition = PartitionFor (sp_WorkflowID p) (numTaskQueuePartitions S),
          ep_workflow_id = sp_WorkflowID p, ep_run_id = newRunID, ep_scheduled_event_id = 2,
          ep_preferred_worker_identity = None, ep_sticky_deadline = None\<rparr>))))"

definition StartWorkflowExecution ::
  "'b ext \<Rightarrow> store \<Rightarrow> env \<Rightarrow> start_params \<Rightarrow> 'b sys \<Rightarrow> (error + string) \<times> 'b sys" where
  "StartWorkflowExecution X S E p =
     bindM (getNamespaceID (sp_Namespace p)) (\<lambda>nsID s.
       case withTx (onDB (start_tx X S (db_now E 0) nsID (new_uuid E 0) p)) s of
         (Inl (ErrIdempotentReplay rid), s') \<Rightarrow> (Inr rid, s')
       | (Inl e, s') \<Rightarrow> (Inl e, s')
       | (Inr _, s') \<Rightarrow>
           bindM (count (\<lambda>c. c\<lparr>WorkflowStartedTotal := WorkflowStartedTotal c + 1\<rparr>)) (\<lambda>_.
           bindM (notifyM (workflowQueueKey nsID (sp_TaskQueue p))) (\<lambda>_.
           ret (new_uuid E 0))) s')"

section \<open>Waking a run\<close>

text \<open>
  \<^verbatim>\<open>runID == ""\<close> means the current run (the block that opens signal, cancel, describe and
  terminate).
\<close>

definition resolve_run :: "int \<Rightarrow> string \<Rightarrow> string \<Rightarrow> 'b db \<Rightarrow> (error + string) \<times> 'b db" where
  "resolve_run nsID wid runID =
     (if runID = '''' then bindM (q_GetCurrentExecution nsID wid) (\<lambda>cur. ret (ce_run_id cur))
      else ret runID)"

text \<open>
  The block that closes signal, cancel, activity completion, terminal activity failure and timer
  firing: read the run, append the event with a \<open>WorkflowTaskScheduled\<close> behind it, enqueue a
  workflow task for the id the second event got; the result is the run's task queue.
\<close>

definition enqueue_wake ::
  "store \<Rightarrow> timestamp \<Rightarrow> timestamp \<Rightarrow> run_key \<Rightarrow> we_row \<Rightarrow> int \<Rightarrow> 'b db \<Rightarrow> (error + unit) \<times> 'b db" where
  "enqueue_wake S now gonow k we schedID =
     (let sf = stickyEnqueueFields gonow we in
      q_EnqueueWorkflowTask now
        \<lparr>ep_namespace_id = fst k, ep_task_queue_name = we_task_queue we,
         ep_task_queue_partition = PartitionFor (fst (snd k)) (numTaskQueuePartitions S),
         ep_workflow_id = fst (snd k), ep_run_id = snd (snd k), ep_scheduled_event_id = schedID,
         ep_preferred_worker_identity = fst sf, ep_sticky_deadline = snd sf\<rparr>)"

definition wake_run ::
  "'b ext \<Rightarrow> store \<Rightarrow> timestamp \<Rightarrow> timestamp \<Rightarrow> run_key \<Rightarrow> new_event \<Rightarrow> 'b db \<Rightarrow> (error + string) \<times> 'b db" where
  "wake_run X S now gonow k ev =
     bindM (q_GetWorkflowExecution k) (\<lambda>we.
     bindM (AppendHistory X now k (we_next_event_id we)
         [ev, newEvent EV_WORKFLOW_TASK_SCHEDULED (WorkflowTaskScheduled (we_task_queue we))]) (\<lambda>r.
     bindM (enqueue_wake S now gonow k we (snd r ! 1)) (\<lambda>_.
     ret (we_task_queue we))))"

section \<open>signal.go, cancel.go\<close>

record signal_params =
  sg_Namespace :: string
  sg_WorkflowID :: string
  sg_RunID :: string
  sg_SignalName :: string
  sg_Input :: "payload option"

definition signal_tx ::
  "'b ext \<Rightarrow> store \<Rightarrow> timestamp \<Rightarrow> timestamp \<Rightarrow> int \<Rightarrow> signal_params \<Rightarrow> 'b db \<Rightarrow> (error + string) \<times> 'b db" where
  "signal_tx X S now gonow nsID p =
     bindM (resolve_run nsID (sg_WorkflowID p) (sg_RunID p)) (\<lambda>runID.
       wake_run X S now gonow (nsID, sg_WorkflowID p, runID)
         (newEvent EV_WORKFLOW_EXECUTION_SIGNALED
            (WorkflowExecutionSignaled (sg_SignalName p) (sg_Input p))))"

definition SignalWorkflowExecution ::
  "'b ext \<Rightarrow> store \<Rightarrow> env \<Rightarrow> signal_params \<Rightarrow> 'b sys \<Rightarrow> (error + unit) \<times> 'b sys" where
  "SignalWorkflowExecution X S E p =
     bindM (getNamespaceID (sg_Namespace p)) (\<lambda>nsID.
     bindM (withTxRetryOnConflict (\<lambda>i. onDB (signal_tx X S (db_now E i) (go_now E i) nsID p))) (\<lambda>taskQueue.
     notifyM (workflowQueueKey nsID taskQueue)))"

record cancel_params =
  cn_Namespace :: string
  cn_WorkflowID :: string
  cn_RunID :: string
  cn_Reason :: string

definition cancel_tx ::
  "'b ext \<Rightarrow> store \<Rightarrow> timestamp \<Rightarrow> timestamp \<Rightarrow> int \<Rightarrow> cancel_params \<Rightarrow> 'b db \<Rightarrow> (error + string) \<times> 'b db" where
  "cancel_tx X S now gonow nsID p =
     bindM (resolve_run nsID (cn_WorkflowID p) (cn_RunID p)) (\<lambda>runID.
       wake_run X S now gonow (nsID, cn_WorkflowID p, runID)
         (newEvent EV_WORKFLOW_EXECUTION_CANCEL_REQUESTED
            (WorkflowExecutionCancelRequested (cn_Reason p))))"

definition RequestCancelWorkflowExecution ::
  "'b ext \<Rightarrow> store \<Rightarrow> env \<Rightarrow> cancel_params \<Rightarrow> 'b sys \<Rightarrow> (error + unit) \<times> 'b sys" where
  "RequestCancelWorkflowExecution X S E p =
     bindM (getNamespaceID (cn_Namespace p)) (\<lambda>nsID.
     bindM (withTxRetryOnConflict (\<lambda>i. onDB (cancel_tx X S (db_now E i) (go_now E i) nsID p))) (\<lambda>taskQueue.
     notifyM (workflowQueueKey nsID taskQueue)))"

section \<open>query.go\<close>

definition defaultHistoryPageSize :: int where
  "defaultHistoryPageSize = 1000"

text \<open>\<^verbatim>\<open>binary.BigEndian.Uint64\<close> converted to \<open>int64\<close>, and \<^verbatim>\<open>PutUint64\<close> of a \<open>uint64\<close> conversion.\<close>

definition be_uint64 :: "bytes \<Rightarrow> int" where
  "be_uint64 b = foldl (\<lambda>a c. a * 256 + of_char c) 0 b"

definition put_uint64 :: "int \<Rightarrow> bytes" where
  "put_uint64 v = map (\<lambda>i. char_of (nat (v mod 2 ^ 64) div 256 ^ i mod 256)) [7, 6, 5, 4, 3, 2, 1, 0]"

definition history_cursor :: "bytes \<Rightarrow> int" where
  "history_cursor pageToken = (if length pageToken = 8 then wrap64 (be_uint64 pageToken) else 0)"

definition page_size :: "int \<Rightarrow> int \<Rightarrow> int" where
  "page_size dflt pageSize = (if pageSize \<le> 0 then dflt else pageSize)"

text \<open>The nil token is the empty byte string.\<close>

definition GetHistory ::
  "'b ext \<Rightarrow> string \<Rightarrow> string \<Rightarrow> string \<Rightarrow> int \<Rightarrow> bytes \<Rightarrow> 'b sys \<Rightarrow>
   (error + history_event list \<times> bytes) \<times> 'b sys" where
  "GetHistory X namespace workflowID runID pageSize pageToken =
     bindM (getNamespaceID namespace) (\<lambda>nsID.
       let size = page_size defaultHistoryPageSize pageSize in
       bindM (onDB (q_ListHistoryEvents (nsID, workflowID, runID) (history_cursor pageToken) (nat size))) (\<lambda>rows.
       bindM (liftE (decode_rows X rows)) (\<lambda>events.
       ret (events, if int (length rows) = size then put_uint64 (EventId (last events)) else []))))"

definition statusFromString :: "string \<Rightarrow> execution_status" where
  "statusFromString s =
     (if s = ''RUNNING'' then ST_RUNNING
      else if s = ''COMPLETED'' then ST_COMPLETED
      else if s = ''FAILED'' then ST_FAILED
      else if s = ''TERMINATED'' then ST_TERMINATED
      else if s = ''TIMED_OUT'' then ST_TIMED_OUT
      else if s = ''CONTINUED_AS_NEW'' then ST_CONTINUED_AS_NEW
      else ST_UNSPECIFIED)"

record execution_summary =
  es_WorkflowId :: string
  es_RunId :: string
  es_WorkflowType :: string
  es_TaskQueue :: string
  es_Status :: execution_status

definition DescribeWorkflowExecution ::
  "string \<Rightarrow> string \<Rightarrow> string \<Rightarrow> 'b sys \<Rightarrow> (error + execution_summary) \<times> 'b sys" where
  "DescribeWorkflowExecution namespace workflowID runID =
     bindM (getNamespaceID namespace) (\<lambda>nsID.
     bindM (onDB (resolve_run nsID workflowID runID)) (\<lambda>runID.
     bindM (onDB (q_GetWorkflowExecution (nsID, workflowID, runID))) (\<lambda>we.
     ret \<lparr>es_WorkflowId = workflowID, es_RunId = runID, es_WorkflowType = we_workflow_type we,
          es_TaskQueue = we_task_queue we, es_Status = statusFromString (we_status we)\<rparr>)))"

definition terminate_tx ::
  "'b ext \<Rightarrow> timestamp \<Rightarrow> int \<Rightarrow> string \<Rightarrow> string \<Rightarrow> string \<Rightarrow> 'b db \<Rightarrow> (error + unit) \<times> 'b db" where
  "terminate_tx X now nsID workflowID runID reason =
     bindM (resolve_run nsID workflowID runID) (\<lambda>runID.
     bindM (q_GetWorkflowExecution (nsID, workflowID, runID)) (\<lambda>we.
     bindM (AppendHistory X now (nsID, workflowID, runID) (we_next_event_id we)
         [newEvent EV_WORKFLOW_EXECUTION_TERMINATED (WorkflowExecutionTerminated reason)]) (\<lambda>_.
     q_CloseWorkflowExecution now (nsID, workflowID, runID) ''TERMINATED'')))"

definition TerminateWorkflowExecution ::
  "'b ext \<Rightarrow> env \<Rightarrow> string \<Rightarrow> string \<Rightarrow> string \<Rightarrow> string \<Rightarrow> 'b sys \<Rightarrow> (error + unit) \<times> 'b sys" where
  "TerminateWorkflowExecution X E namespace workflowID runID reason =
     bindM (getNamespaceID namespace) (\<lambda>nsID.
       withTx (onDB (terminate_tx X (db_now E 0) nsID workflowID runID reason)))"

section \<open>namespace.go\<close>

record namespace_info =
  ni_Name :: string
  ni_CreatedAt :: timestamp

definition CreateNamespace :: "env \<Rightarrow> string \<Rightarrow> 'b sys \<Rightarrow> (error + namespace_info) \<times> 'b sys" where
  "CreateNamespace E name =
     bindM (mapErr (\<lambda>e. if e = ErrNoRows then ErrNamespaceAlreadyExists else e)
              (onDB (q_CreateNamespace (db_now E 0) name))) (\<lambda>ns.
     ret \<lparr>ni_Name = ns_name ns, ni_CreatedAt = ns_created_at ns\<rparr>)"

definition ListNamespaces :: "'b ext \<Rightarrow> 'b sys \<Rightarrow> (error + namespace_info list) \<times> 'b sys" where
  "ListNamespaces X =
     bindM (onDB (q_ListNamespaces (collate X))) (\<lambda>rows.
     ret (map (\<lambda>r. \<lparr>ni_Name = ns_name r, ni_CreatedAt = ns_created_at r\<rparr>) rows))"

section \<open>list.go\<close>

definition defaultListWorkflowsPageSize :: int where
  "defaultListWorkflowsPageSize = 50"

definition statusToString :: "execution_status \<Rightarrow> string" where
  "statusToString s =
     (case s of ST_RUNNING \<Rightarrow> ''RUNNING'' | ST_COMPLETED \<Rightarrow> ''COMPLETED'' | ST_FAILED \<Rightarrow> ''FAILED''
      | ST_TERMINATED \<Rightarrow> ''TERMINATED'' | ST_TIMED_OUT \<Rightarrow> ''TIMED_OUT''
      | ST_CONTINUED_AS_NEW \<Rightarrow> ''CONTINUED_AS_NEW'' | ST_UNSPECIFIED \<Rightarrow> '''')"

record list_params =
  lp_Namespace :: string
  lp_StatusFilter :: execution_status
  lp_TaskQueue :: string
  lp_PageSize :: int
  lp_PageToken :: bytes

record execution_info =
  wi_WorkflowID :: string
  wi_RunID :: string
  wi_WorkflowType :: string
  wi_TaskQueue :: string
  wi_Status :: execution_status
  wi_StartTime :: timestamp
  wi_CloseTime :: "timestamp option"

text \<open>The zero \<^verbatim>\<open>time.Time\<close> of an open execution's close time is \<open>None\<close>.\<close>

definition execution_info_of :: "we_row \<Rightarrow> execution_info" where
  "execution_info_of r =
     \<lparr>wi_WorkflowID = we_workflow_id r, wi_RunID = we_run_id r, wi_WorkflowType = we_workflow_type r,
      wi_TaskQueue = we_task_queue r, wi_Status = statusFromString (we_status r),
      wi_StartTime = we_start_time r, wi_CloseTime = we_close_time r\<rparr>"

definition decode_page_token ::
  "'b ext \<Rightarrow> bytes \<Rightarrow> error + (timestamp \<times> string \<times> string) option" where
  "decode_page_token X tok =
     (if tok = [] then Inr None
      else case json_uncursor X tok of None \<Rightarrow> Inl ErrInvalidPageToken | Some c \<Rightarrow> Inr (Some c))"

definition next_page_token :: "'b ext \<Rightarrow> int \<Rightarrow> we_row list \<Rightarrow> error + bytes" where
  "next_page_token X pageSize rows =
     (if int (length rows) = pageSize then
        (case json_cursor X (we_cursor (last rows)) of
           None \<Rightarrow> Inl ErrMarshal | Some b \<Rightarrow> Inr b)
      else Inr [])"

definition ListWorkflowExecutions ::
  "'b ext \<Rightarrow> list_params \<Rightarrow> 'b sys \<Rightarrow> (error + execution_info list \<times> bytes) \<times> 'b sys" where
  "ListWorkflowExecutions X p =
     bindM (getNamespaceID (lp_Namespace p)) (\<lambda>nsID.
       let size = page_size defaultListWorkflowsPageSize (lp_PageSize p) in
       bindM (liftE (decode_page_token X (lp_PageToken p))) (\<lambda>cursor.
       bindM (onDB (q_ListWorkflowExecutions (collate X) nsID
           (if lp_StatusFilter p = ST_UNSPECIFIED then None else Some (statusToString (lp_StatusFilter p)))
           (if lp_TaskQueue p = '''' then None else Some (lp_TaskQueue p))
           cursor (nat size))) (\<lambda>rows.
       bindM (liftE (next_page_token X size rows)) (\<lambda>nextToken.
       ret (map execution_info_of rows, nextToken)))))"

end
