(* ===== verification/WorkflowTask.thy ===== *)
theory WorkflowTask
  imports Executions
begin

text \<open>
  \<^verbatim>\<open>internal/history/workflow_task.go\<close>: the dispatch of workflow tasks (and of pending queries)
  and the processing of a worker's response, with continue-as-new and the failure path.
\<close>

section \<open>Dispatch\<close>

definition maxHistoryFetch :: nat where
  "maxHistoryFetch = 100000"

record dispatched_workflow_task =
  dw_TaskToken :: bytes
  dw_WorkflowId :: string
  dw_RunId :: string
  dw_WorkflowType :: string
  dw_History :: "history_event list"
  dw_PreviousStartedEventID :: int
  dw_Query :: "(string \<times> payload) option"

text \<open>The transaction that records the start of a dequeued task; its result is the event's id.\<close>

definition task_started_tx ::
  "'b ext \<Rightarrow> timestamp \<Rightarrow> run_key \<Rightarrow> new_event \<Rightarrow> 'b db \<Rightarrow> (error + int) \<times> 'b db" where
  "task_started_tx X now k ev =
     bindM (q_GetWorkflowExecution k) (\<lambda>we.
     bindM (AppendHistory X now k (we_next_event_id we) [ev]) (\<lambda>r.
     ret (snd r ! 0)))"

definition buildQueryDispatch ::
  "'b ext \<Rightarrow> store \<Rightarrow> int \<Rightarrow> 'b qt_row \<Rightarrow> 'b sys \<Rightarrow> (error + dispatched_workflow_task) \<times> 'b sys" where
  "buildQueryDispatch X S nsID qRow =
     (let k = (nsID, qt_workflow_id qRow, qt_run_id qRow) in
      bindM (onDB (q_ListHistoryEvents k 0 maxHistoryFetch)) (\<lambda>historyRows.
      bindM (liftE (decode_rows X historyRows)) (\<lambda>events.
      bindM (onDB (q_GetWorkflowExecution k)) (\<lambda>we.
      bindM (case unmarshal_payload X (qt_query_args qRow) of
               None \<Rightarrow> throw ErrUnmarshal | Some a \<Rightarrow> ret a) (\<lambda>args.
      bindM (liftE (Encode X (newTaskToken TaskTokenKindQuery nsID (qt_workflow_id qRow) (qt_run_id qRow)
               (qt_task_id qRow) (uuidString (qt_lease_token qRow))) (taskTokenSigningKey S))) (\<lambda>tokenBytes.
      ret \<lparr>dw_TaskToken = tokenBytes, dw_WorkflowId = qt_workflow_id qRow,
           dw_RunId = qt_run_id qRow, dw_WorkflowType = we_workflow_type we, dw_History = events,
           dw_PreviousStartedEventID = 0, dw_Query = Some (qt_query_type qRow, args)\<rparr>))))))"

text \<open>The part of \<open>DispatchWorkflowTask\<close> after a workflow task row was dequeued.\<close>

definition dispatch_workflow_row ::
  "'b ext \<Rightarrow> store \<Rightarrow> env \<Rightarrow> int \<Rightarrow> wt_row \<Rightarrow> 'b sys \<Rightarrow> (error + dispatched_workflow_task) \<times> 'b sys" where
  "dispatch_workflow_row X S E nsID row =
     (let k = (nsID, wt_workflow_id row, wt_run_id row) in
      bindM (withTx (onDB (task_started_tx X (db_now E 2) k
               (newEvent EV_WORKFLOW_TASK_STARTED (WorkflowTaskStarted ''''))))) (\<lambda>startedEventID.
      bindM (onDB (q_ListHistoryEvents k 0 maxHistoryFetch)) (\<lambda>historyRows.
      bindM (liftE (decode_rows X historyRows)) (\<lambda>events.
      bindM (liftE (Encode X (newTaskToken TaskTokenKindWorkflow nsID (wt_workflow_id row) (wt_run_id row)
               (wt_task_id row) (uuidString (wt_lease_token row))) (taskTokenSigningKey S))) (\<lambda>tokenBytes.
      bindM (onDB (q_GetWorkflowExecution k)) (\<lambda>we.
      bindM (count (\<lambda>c. c\<lparr>WorkflowTaskDispatchedTotal := WorkflowTaskDispatchedTotal c + 1\<rparr>)) (\<lambda>_.
      ret \<lparr>dw_TaskToken = tokenBytes, dw_WorkflowId = wt_workflow_id row,
           dw_RunId = wt_run_id row, dw_WorkflowType = we_workflow_type we, dw_History = events,
           dw_PreviousStartedEventID = startedEventID, dw_Query = None\<rparr>)))))))"

definition DispatchWorkflowTask ::
  "'b ext \<Rightarrow> store \<Rightarrow> env \<Rightarrow> string \<Rightarrow> string \<Rightarrow> string \<Rightarrow> int list \<Rightarrow> 'b sys \<Rightarrow>
   (error + dispatched_workflow_task) \<times> 'b sys" where
  "DispatchWorkflowTask X S E namespace taskQueue workerIdentity partitions =
     bindM (getNamespaceID namespace) (\<lambda>nsID s.
       case onDB (q_DequeueQueryTask (db_now E 0) (lease_uuid E 0) (locked_q E) queryTaskLeaseSeconds
                    taskQueue nsID) s of
         (Inr qRow, s') \<Rightarrow> buildQueryDispatch X S nsID qRow s'
       | (Inl e, s') \<Rightarrow>
           if e \<noteq> ErrNoRows then (Inl e, s')
           else bindM (mapErr (\<lambda>e. if e = ErrNoRows then ErrNoTaskAvailable else e)
                  (onDB (q_DequeueWorkflowTask (db_now E 1) (lease_uuid E 1) (locked E)
                     workflowTaskLeaseSeconds taskQueue nsID
                     (if workerIdentity \<noteq> '''' then Some workerIdentity else None) partitions)))
                (dispatch_workflow_row X S E nsID) s')"

section \<open>Completion\<close>

record sticky_attributes =
  sa_WorkerIdentity :: string
  sa_ScheduleToStartTimeout :: duration

text \<open>The local variables of the command loop.\<close>

record 'b cmd_acc =
  ca_events :: "new_event list"
  ca_closeStatus :: string
  ca_enqueues :: "('b enqueue_at_params \<times> nat) list"
  ca_timers :: "(start_timer_cmd \<times> nat) list"
  ca_terminal :: nat
  ca_scheduleOrTimer :: nat
  ca_continueAsNew :: "(continue_as_new_cmd \<times> uuid) option"

definition initial_acc :: "'b cmd_acc" where
  "initial_acc =
     \<lparr>ca_events = [newEvent EV_WORKFLOW_TASK_COMPLETED (WorkflowTaskCompleted '''')],
      ca_closeStatus = '''', ca_enqueues = [], ca_timers = [], ca_terminal = 0,
      ca_scheduleOrTimer = 0, ca_continueAsNew = None\<rparr>"

text \<open>
  One iteration of the loop. The index kept with an enqueue or a timer is the position of its
  event; the run id of a continuation is drawn when its command is reached.
\<close>

definition process_command ::
  "'b ext \<Rightarrow> store \<Rightarrow> env \<Rightarrow> run_key \<Rightarrow> we_row \<Rightarrow> command \<Rightarrow> 'b cmd_acc \<Rightarrow> error + 'b cmd_acc" where
  "process_command X S E k we cmd a =
     (case cmd of
        ScheduleActivityTask c \<Rightarrow>
          Inr (a\<lparr>ca_scheduleOrTimer := ca_scheduleOrTimer a + 1,
                 ca_events := ca_events a @ [newEvent EV_ACTIVITY_TASK_SCHEDULED
                   (ActivityTaskScheduled (ActivityId c) (ActivityType c) (ActInput c)
                      (ActRetryPolicy c) (ScheduleToStartTimeout c) (StartToCloseTimeout c))],
                 ca_enqueues := ca_enqueues a @
                   [(activityEnqueueParams X k (we_task_queue we)
                       (PartitionFor (fst (snd k)) (numTaskQueuePartitions S)) c,
                     length (ca_events a))]\<rparr>)
      | StartTimer c \<Rightarrow>
          Inr (a\<lparr>ca_scheduleOrTimer := ca_scheduleOrTimer a + 1,
                 ca_events := ca_events a @ [newEvent EV_TIMER_STARTED
                   (TimerStarted (TimerId c) (TimerDuration c))],
                 ca_timers := ca_timers a @ [(c, length (ca_events a))]\<rparr>)
      | CompleteWorkflowExecution result \<Rightarrow>
          Inr (a\<lparr>ca_terminal := ca_terminal a + 1,
                 ca_events := ca_events a @ [newEvent EV_WORKFLOW_EXECUTION_COMPLETED
                   (WorkflowExecutionCompleted result)],
                 ca_closeStatus := ''COMPLETED''\<rparr>)
      | FailWorkflowExecution failure \<Rightarrow>
          Inr (a\<lparr>ca_terminal := ca_terminal a + 1,
                 ca_events := ca_events a @ [newEvent EV_WORKFLOW_EXECUTION_FAILED
                   (WorkflowExecutionFailed failure)],
                 ca_closeStatus := ''FAILED''\<rparr>)
      | ContinueAsNewWorkflowExecution c \<Rightarrow>
          (let newRunID = new_uuid E (length (ca_events a)) in
           Inr (a\<lparr>ca_terminal := ca_terminal a + 1,
                  ca_continueAsNew := Some (c, newRunID),
                  ca_events := ca_events a @ [newEvent EV_WORKFLOW_EXECUTION_CONTINUED_AS_NEW
                    (WorkflowExecutionContinuedAsNew newRunID
                       (stringOrFallback (CanWorkflowType c) (we_workflow_type we))
                       (stringOrFallback (CanTaskQueue c) (we_task_queue we)) (CanInput c))],
                  ca_closeStatus := ''CONTINUED_AS_NEW''\<rparr>))
      | Command_Unset \<Rightarrow> Inl ErrUnsupportedCommand)"

fun process_commands ::
  "'b ext \<Rightarrow> store \<Rightarrow> env \<Rightarrow> run_key \<Rightarrow> we_row \<Rightarrow> command list \<Rightarrow> 'b cmd_acc \<Rightarrow> error + 'b cmd_acc" where
  "process_commands X S E k we [] a = Inr a"
| "process_commands X S E k we (c # cs) a =
     (case process_command X S E k we c a of
        Inl e \<Rightarrow> Inl e | Inr a' \<Rightarrow> process_commands X S E k we cs a')"

text \<open>The two checks on the whole response.\<close>

definition check_commands :: "'b cmd_acc \<Rightarrow> error + unit" where
  "check_commands a =
     (if ca_terminal a > 1 then Inl (ErrTerminalCommands (ca_terminal a))
      else if ca_continueAsNew a \<noteq> None \<and> ca_scheduleOrTimer a > 0 then Inl ErrContinueAsNewCombined
      else Inr ())"

definition continue_events :: "we_row \<Rightarrow> string \<Rightarrow> continue_as_new_cmd \<Rightarrow> new_event list" where
  "continue_events we fromRunID cmd =
     [newEvent EV_WORKFLOW_EXECUTION_STARTED
        (WorkflowExecutionStarted (stringOrFallback (CanWorkflowType cmd) (we_workflow_type we))
           (stringOrFallback (CanTaskQueue cmd) (we_task_queue we)) (CanInput cmd)
           (CanRetryPolicy cmd) fromRunID),
      newEvent EV_WORKFLOW_TASK_SCHEDULED
        (WorkflowTaskScheduled (stringOrFallback (CanTaskQueue cmd) (we_task_queue we)))]"

definition continueWorkflowAsNew ::
  "'b ext \<Rightarrow> store \<Rightarrow> timestamp \<Rightarrow> uuid \<Rightarrow> run_key \<Rightarrow> we_row \<Rightarrow> uuid \<Rightarrow> continue_as_new_cmd \<Rightarrow>
   'b db \<Rightarrow> (error + unit) \<times> 'b db" where
  "continueWorkflowAsNew X S now requestID k we newRunID cmd =
     (let nsID = fst k; wid = fst (snd k);
          newWorkflowType = stringOrFallback (CanWorkflowType cmd) (we_workflow_type we);
          newTaskQueue = stringOrFallback (CanTaskQueue cmd) (we_task_queue we)
      in
      bindM (q_ReplaceCurrentExecution nsID wid newRunID requestID) (\<lambda>_.
      bindM (q_CreateWorkflowExecution now
          \<lparr>cp_namespace_id = nsID, cp_workflow_id = wid, cp_run_id = newRunID,
           cp_workflow_type = newWorkflowType, cp_task_queue = newTaskQueue,
           cp_shard_id = PartitionFor wid (numShards S),
           cp_execution_timeout_ns = we_execution_timeout_ns we,
           cp_run_timeout_ns = durationOrFallback (CanRunTimeout cmd) (we_run_timeout_ns we),
           cp_task_timeout_ns = durationOrFallback (CanTaskTimeout cmd) (we_task_timeout_ns we)\<rparr>) (\<lambda>_.
      bindM (AppendHistory X now (nsID, wid, newRunID) 1 (continue_events we (snd (snd k)) cmd)) (\<lambda>_.
      q_EnqueueWorkflowTask now
          \<lparr>ep_namespace_id = nsID, ep_task_queue_name = newTaskQueue,
           ep_task_queue_partition = PartitionFor wid (numTaskQueuePartitions S),
           ep_workflow_id = wid, ep_run_id = newRunID, ep_scheduled_event_id = 2,
           ep_preferred_worker_identity = None, ep_sticky_deadline = None\<rparr>))))"

definition token_key :: "task_token \<Rightarrow> run_key" where
  "token_key t = (tk_NamespaceID t, tk_WorkflowID t, tk_RunID t)"

definition enqueue_activity ::
  "timestamp \<Rightarrow> int list \<Rightarrow> 'b enqueue_at_params \<times> nat \<Rightarrow> 'b db \<Rightarrow> (error + unit) \<times> 'b db" where
  "enqueue_activity now ids p =
     q_EnqueueActivityTask now ((fst p)\<lparr>ap_scheduled_event_id := ids ! snd p\<rparr>)"

definition insert_pending_timer ::
  "env \<Rightarrow> run_key \<Rightarrow> int list \<Rightarrow> nat \<times> start_timer_cmd \<times> nat \<Rightarrow> 'b db \<Rightarrow> (error + unit) \<times> 'b db" where
  "insert_pending_timer E k ids p =
     (case p of (i, st, ix) \<Rightarrow>
        q_InsertTimer
          \<lparr>tm_namespace_id = fst k, tm_workflow_id = fst (snd k), tm_run_id = snd (snd k),
           tm_timer_id = TimerId st, tm_fire_at = go_now E (Suc i) + AsDuration (TimerDuration st),
           tm_scheduled_event_id = ids ! ix\<rparr>)"

definition sticky_registration :: "timestamp \<Rightarrow> sticky_attributes option \<Rightarrow> string option \<times> timestamp option" where
  "sticky_registration gonow sticky =
     (case sticky of
        Some a \<Rightarrow> if sa_WorkerIdentity a \<noteq> ''''
                  then (Some (sa_WorkerIdentity a), Some (gonow + sa_ScheduleToStartTimeout a))
                  else (None, None)
      | None \<Rightarrow> (None, None))"

text \<open>The transaction up to and including the command checks: the row, the run, the commands.\<close>

definition complete_front ::
  "'b ext \<Rightarrow> store \<Rightarrow> env \<Rightarrow> task_token \<Rightarrow> command list \<Rightarrow> 'b db \<Rightarrow> (error + we_row \<times> 'b cmd_acc) \<times> 'b db" where
  "complete_front X S E token commands =
     bindM (q_CompleteWorkflowTask (tk_TaskID token) (pgUUIDFromString X (tk_LeaseToken token))) (\<lambda>affected.
     if affected = 0 then throw ErrTaskLeaseExpired
     else bindM (q_GetWorkflowExecution (token_key token)) (\<lambda>we.
       bindM (liftE (process_commands X S E (token_key token) we commands initial_acc)) (\<lambda>a.
       bindM (liftE (check_commands a)) (\<lambda>_. ret (we, a)))))"

text \<open>The history and the task rows the commands produce.\<close>

definition complete_effects ::
  "'b ext \<Rightarrow> env \<Rightarrow> run_key \<Rightarrow> we_row \<Rightarrow> 'b cmd_acc \<Rightarrow> 'b db \<Rightarrow> (error + unit) \<times> 'b db" where
  "complete_effects X E k we a =
     bindM (AppendHistory X (db_now E 0) k (we_next_event_id we) (ca_events a)) (\<lambda>r.
     bindM (forM (enqueue_activity (db_now E 0) (snd r)) (ca_enqueues a)) (\<lambda>_.
     forM (insert_pending_timer E k (snd r)) (enumerate 0 (ca_timers a))))"

definition complete_tx ::
  "'b ext \<Rightarrow> store \<Rightarrow> env \<Rightarrow> task_token \<Rightarrow> command list \<Rightarrow> sticky_attributes option \<Rightarrow>
   'b sys \<Rightarrow> (error + bool \<times> string \<times> string) \<times> 'b sys" where
  "complete_tx X S E token commands sticky =
     (let k = token_key token; now = db_now E 0 in
      bindM (onDB (complete_front X S E token commands)) (\<lambda>(we, a).
      bindM (onDB (complete_effects X E k we a)) (\<lambda>_.
      bindM (if ca_closeStatus a \<noteq> '''' then
               bindM (onDB (q_CloseWorkflowExecution now k (ca_closeStatus a))) (\<lambda>_.
               count (\<lambda>c. c\<lparr>WorkflowCompletedTotal :=
                 (WorkflowCompletedTotal c)(ca_closeStatus a := WorkflowCompletedTotal c (ca_closeStatus a) + 1)\<rparr>))
             else ret ()) (\<lambda>_.
      bindM (case ca_continueAsNew a of
               None \<Rightarrow> ret ''''
             | Some (cmd, newRunID) \<Rightarrow>
                 bindM (onDB (continueWorkflowAsNew X S now (new_uuid E 0) k we newRunID cmd)) (\<lambda>_.
                 bindM (count (\<lambda>c. c\<lparr>WorkflowStartedTotal := WorkflowStartedTotal c + 1\<rparr>)) (\<lambda>_.
                 ret (stringOrFallback (CanTaskQueue cmd) (we_task_queue we))))) (\<lambda>continuedTaskQueue.
      bindM (if ca_closeStatus a = '''' then
               (let reg = sticky_registration (go_now E 0) sticky
                in onDB (q_SetStickyExecution now k (fst reg) (snd reg)))
             else ret ()) (\<lambda>_.
      ret (ca_enqueues a \<noteq> [], we_task_queue we, continuedTaskQueue)))))))"

definition CompleteWorkflowTask ::
  "'b ext \<Rightarrow> store \<Rightarrow> env \<Rightarrow> task_token \<Rightarrow> command list \<Rightarrow> sticky_attributes option \<Rightarrow>
   'b sys \<Rightarrow> (error + unit) \<times> 'b sys" where
  "CompleteWorkflowTask X S E token commands sticky =
     (if tk_Kind token \<noteq> TaskTokenKindWorkflow then throw ErrNotWorkflowToken
      else bindM (withTx (complete_tx X S E token commands sticky))
        (\<lambda>(activitiesEnqueued, activityTaskQueue, continuedTaskQueue).
        bindM (if activitiesEnqueued
               then notifyM (activityQueueKey (tk_NamespaceID token) activityTaskQueue) else ret ()) (\<lambda>_.
        if continuedTaskQueue \<noteq> ''''
        then notifyM (workflowQueueKey (tk_NamespaceID token) continuedTaskQueue) else ret ())))"

section \<open>Failure\<close>

text \<open>Four stand-alone statements: each is committed before the next runs.\<close>

definition FailWorkflowTask ::
  "'b ext \<Rightarrow> store \<Rightarrow> env \<Rightarrow> task_token \<Rightarrow> 'b sys \<Rightarrow> (error + unit) \<times> 'b sys" where
  "FailWorkflowTask X S E token =
     (let k = token_key token in
      if tk_Kind token \<noteq> TaskTokenKindWorkflow then throw ErrNotWorkflowToken
      else bindM (count (\<lambda>c. c\<lparr>WorkflowTaskFailedTotal := WorkflowTaskFailedTotal c + 1\<rparr>)) (\<lambda>_.
        bindM (onDB (q_CompleteWorkflowTask (tk_TaskID token) (pgUUIDFromString X (tk_LeaseToken token)))) (\<lambda>affected.
        if affected = 0 then throw ErrTaskLeaseExpired
        else bindM (onDB (q_GetWorkflowExecution k)) (\<lambda>we.
          bindM (onDB (q_SetStickyExecution (db_now E 2) k None None)) (\<lambda>_.
          bindM (onDB (q_EnqueueWorkflowTask (db_now E 3)
              \<lparr>ep_namespace_id = tk_NamespaceID token, ep_task_queue_name = we_task_queue we,
               ep_task_queue_partition = PartitionFor (tk_WorkflowID token) (numTaskQueuePartitions S),
               ep_workflow_id = tk_WorkflowID token, ep_run_id = tk_RunID token,
               ep_scheduled_event_id = we_next_event_id we - 1,
               ep_preferred_worker_identity = None, ep_sticky_deadline = None\<rparr>)) (\<lambda>_.
          notifyM (workflowQueueKey (tk_NamespaceID token) (we_task_queue we))))))))"

end
