(* ===== verification/ActivityTask.thy ===== *)
theory ActivityTask
  imports WorkflowTask
begin

text \<open>
  \<^verbatim>\<open>internal/history/activity_task.go\<close> (dispatch, completion, server-side retry),
  \<^verbatim>\<open>timers.go\<close> and the lease reaper of \<^verbatim>\<open>internal/matching/reaper.go\<close>.
\<close>

section \<open>activity\_task.go\<close>

record dispatched_activity_task =
  da_TaskToken :: bytes
  da_WorkflowId :: string
  da_RunId :: string
  da_ActivityID :: int
  da_ActivityType :: string
  da_Input :: payload
  da_CurrentAttempt :: int
  da_StartToCloseTimeout :: duration

definition dispatch_activity_row ::
  "'b ext \<Rightarrow> store \<Rightarrow> env \<Rightarrow> int \<Rightarrow> 'b at_row \<Rightarrow> 'b sys \<Rightarrow> (error + dispatched_activity_task) \<times> 'b sys" where
  "dispatch_activity_row X S E nsID row =
     bindM (withTx (onDB (task_started_tx X (db_now E 1) (nsID, at_workflow_id row, at_run_id row)
              (newEvent EV_ACTIVITY_TASK_STARTED (ActivityTaskStarted (at_activity_id row) (at_attempt row)))))) (\<lambda>_.
     bindM (case unmarshal_payload X (at_input row) of None \<Rightarrow> throw ErrUnmarshal | Some a \<Rightarrow> ret a) (\<lambda>inp.
     bindM (liftE (Encode X (newTaskToken TaskTokenKindActivity nsID (at_workflow_id row) (at_run_id row)
              (at_task_id row) (uuidString (at_lease_token row))) (taskTokenSigningKey S))) (\<lambda>tokenBytes.
     bindM (count (\<lambda>c. c\<lparr>ActivityTaskDispatchedTotal := ActivityTaskDispatchedTotal c + 1\<rparr>)) (\<lambda>_.
     ret \<lparr>da_TaskToken = tokenBytes, da_WorkflowId = at_workflow_id row, da_RunId = at_run_id row,
          da_ActivityID = at_activity_id row, da_ActivityType = at_activity_type row, da_Input = inp,
          da_CurrentAttempt = at_attempt row,
          da_StartToCloseTimeout = at_start_to_close_timeout_ns row\<rparr>))))"

definition DispatchActivityTask ::
  "'b ext \<Rightarrow> store \<Rightarrow> env \<Rightarrow> string \<Rightarrow> string \<Rightarrow> int list \<Rightarrow> 'b sys \<Rightarrow>
   (error + dispatched_activity_task) \<times> 'b sys" where
  "DispatchActivityTask X S E namespace taskQueue partitions =
     bindM (getNamespaceID namespace) (\<lambda>nsID.
     bindM (mapErr (\<lambda>e. if e = ErrNoRows then ErrNoTaskAvailable else e)
              (onDB (q_DequeueActivityTask (db_now E 0) (lease_uuid E 0) (locked E) taskQueue nsID partitions)))
       (dispatch_activity_row X S E nsID))"

definition completeActivityTaskRow :: "'b ext \<Rightarrow> task_token \<Rightarrow> 'b db \<Rightarrow> (error + 'b at_row) \<times> 'b db" where
  "completeActivityTaskRow X token =
     (let u = pgUUIDFromString X (tk_LeaseToken token) in
      bindM (mapErr (\<lambda>e. if e = ErrNoRows then ErrTaskLeaseExpired else e)
               (q_GetActivityTaskByLease (tk_TaskID token) u)) (\<lambda>row.
      bindM (q_CompleteActivityTask (tk_TaskID token) u) (\<lambda>affected.
      if affected = 0 then throw ErrTaskLeaseExpired else ret row)))"

definition complete_activity_tx ::
  "'b ext \<Rightarrow> store \<Rightarrow> timestamp \<Rightarrow> timestamp \<Rightarrow> task_token \<Rightarrow> payload option \<Rightarrow> 'b db \<Rightarrow> (error + string) \<times> 'b db" where
  "complete_activity_tx X S now gonow token result =
     bindM (completeActivityTaskRow X token) (\<lambda>row.
       wake_run X S now gonow (token_key token)
         (newEvent EV_ACTIVITY_TASK_COMPLETED (ActivityTaskCompleted (at_activity_id row) result)))"

definition CompleteActivityTask ::
  "'b ext \<Rightarrow> store \<Rightarrow> env \<Rightarrow> task_token \<Rightarrow> payload option \<Rightarrow> 'b sys \<Rightarrow> (error + unit) \<times> 'b sys" where
  "CompleteActivityTask X S E token result =
     (if tk_Kind token \<noteq> TaskTokenKindActivity then throw ErrNotActivityToken
      else bindM (withTx (onDB (complete_activity_tx X S (db_now E 0) (go_now E 0) token result))) (\<lambda>taskQueue.
        notifyM (workflowQueueKey (tk_NamespaceID token) taskQueue)))"

text \<open>
  The scan of the non-retryable types; reading \<^verbatim>\<open>failure.Type\<close> of a nil failure panics.
\<close>

fun scan_non_retryable :: "string list \<Rightarrow> failure option \<Rightarrow> bool \<Rightarrow> error + bool" where
  "scan_non_retryable [] failure retryable = Inr retryable"
| "scan_non_retryable (t # ts) failure retryable =
     (case failure of
        None \<Rightarrow> Inl (ErrPanic ''nil pointer dereference'')
      | Some f \<Rightarrow> if t = FType f then Inr False else scan_non_retryable ts failure retryable)"

definition activity_retryable :: "'b at_row \<Rightarrow> failure option \<Rightarrow> error + bool" where
  "activity_retryable row failure =
     scan_non_retryable (at_retry_non_retryable_types row) failure
       (at_retry_max_attempts row = 0 \<or> at_attempt row < at_retry_max_attempts row)"

text \<open>
  \<^verbatim>\<open>time.Duration(float)\<close> truncates towards zero; outside the int64 range the result is the
  implementation's.
\<close>

definition float_to_duration :: "'b ext \<Rightarrow> rat \<Rightarrow> int" where
  "float_to_duration X q =
     (let t = (if q < 0 then \<lceil>q\<rceil> else \<lfloor>q\<rfloor>) in if bigint_ok t then t else float_to_int X q)"

definition activity_backoff :: "'b ext \<Rightarrow> 'b at_row \<Rightarrow> duration" where
  "activity_backoff X row =
     (let backoff = wrap64 (at_retry_initial_interval_ns row *
            float_to_duration X (at_retry_backoff_coefficient row ^ nat (at_attempt row - 1)));
          maxInterval = at_retry_max_interval_ns row
      in if maxInterval > 0 \<and> backoff > maxInterval then maxInterval else backoff)"

definition fail_activity_tx ::
  "'b ext \<Rightarrow> store \<Rightarrow> timestamp \<Rightarrow> timestamp \<Rightarrow> task_token \<Rightarrow> 'b at_row \<Rightarrow> failure option \<Rightarrow>
   'b db \<Rightarrow> (error + string) \<times> 'b db" where
  "fail_activity_tx X S now gonow token row failure =
     bindM (q_CompleteActivityTask (tk_TaskID token) (pgUUIDFromString X (tk_LeaseToken token))) (\<lambda>affected.
     if affected = 0 then throw ErrTaskLeaseExpired
     else wake_run X S now gonow (token_key token)
       (newEvent EV_ACTIVITY_TASK_FAILED
          (ActivityTaskFailed (at_activity_id row) failure (at_attempt row))))"

definition FailActivityTask ::
  "'b ext \<Rightarrow> store \<Rightarrow> env \<Rightarrow> task_token \<Rightarrow> failure option \<Rightarrow> 'b sys \<Rightarrow> (error + unit) \<times> 'b sys" where
  "FailActivityTask X S E token failure =
     (let u = pgUUIDFromString X (tk_LeaseToken token) in
      if tk_Kind token \<noteq> TaskTokenKindActivity then throw ErrNotActivityToken
      else bindM (mapErr (\<lambda>e. if e = ErrNoRows then ErrTaskLeaseExpired else e)
             (onDB (q_GetActivityTaskByLease (tk_TaskID token) u))) (\<lambda>row.
        bindM (liftE (activity_retryable row failure)) (\<lambda>retryable.
        if retryable then
          bindM (onDB (q_RetryActivityTask (db_now E 1) (tk_TaskID token) u (activity_backoff X row))) (\<lambda>affected.
          if affected = 0 then throw ErrTaskLeaseExpired
          else count (\<lambda>c. c\<lparr>ActivityRetryTotal := ActivityRetryTotal c + 1\<rparr>))
        else
          bindM (withTx (onDB (fail_activity_tx X S (db_now E 1) (go_now E 0) token row failure))) (\<lambda>taskQueue.
          notifyM (workflowQueueKey (tk_NamespaceID token) taskQueue)))))"

section \<open>timers.go\<close>

text \<open>\<open>None\<close>: no timer was due. Otherwise the namespace and queue to notify.\<close>

definition fire_tx ::
  "'b ext \<Rightarrow> store \<Rightarrow> env \<Rightarrow> 'b db \<Rightarrow> (error + (int \<times> string) option) \<times> 'b db" where
  "fire_tx X S E d =
     (case q_DequeueDueTimer (db_now E 0) (locked_timers E) d of
        (Inl e, d') \<Rightarrow> if e = ErrNoRows then (Inr None, d') else (Inl e, d')
      | (Inr t, d') \<Rightarrow>
          bindM (wake_run X S (db_now E 0) (go_now E 0) (tm_namespace_id t, tm_workflow_id t, tm_run_id t)
                   (newEvent EV_TIMER_FIRED (TimerFired (tm_timer_id t))))
            (\<lambda>taskQueue. ret (Some (tm_namespace_id t, taskQueue))) d')"

definition fireDueTimer :: "'b ext \<Rightarrow> store \<Rightarrow> env \<Rightarrow> 'b sys \<Rightarrow> bool \<times> 'b sys" where
  "fireDueTimer X S E s =
     (case withTx (onDB (fire_tx X S E)) s of
        (Inl e, s') \<Rightarrow> (False, s')
      | (Inr None, s') \<Rightarrow> (False, s')
      | (Inr (Some (nsID, taskQueue)), s') \<Rightarrow>
          (True, s'\<lparr>notif := notify (workflowQueueKey nsID taskQueue) (notif s')\<rparr>))"

text \<open>A fired timer has left the table, and nothing on the way adds one.\<close>

lemma timers_AppendHistory: "timers (snd (AppendHistory X now k e evs d)) = timers d"
proof -
  let ?I = "\<lambda>x. timers x = timers d"
  have "keeps ?I (insert_event X now k p)" for p
    by (rule keepsI) (auto simp: insert_event_def q_InsertHistoryEvent_def monad_simps split: option.split)
  moreover have "keeps ?I (q_AdvanceNextEventID now k n e)" for n
    by (rule keepsI) (auto simp: q_AdvanceNextEventID_def split: option.split)
  ultimately have "keeps ?I (AppendHistory X now k e evs)"
    unfolding AppendHistory_def by (intro keeps_if keeps_bindM keeps_mapErr keeps_forM keeps_ret)
  from keepsD [OF this, of d] show ?thesis by simp
qed

lemma timers_wake_run: "timers (snd (wake_run X S now gonow k ev d)) = timers d"
proof -
  have "keeps (\<lambda>x. timers x = timers d) (wake_run X S now gonow k ev)"
    unfolding wake_run_def enqueue_wake_def Let_def
    by (intro keeps_bindM keepsI)
      (auto simp: timers_AppendHistory q_GetWorkflowExecution_def q_EnqueueWorkflowTask_def
        monad_simps split: option.split)
  from keepsD [OF this, of d] show ?thesis by simp
qed

lemma fireDueTimer_decreases:
  assumes "fireDueTimer X S E s = (True, s')"
  shows "length (timers (sdb s')) < length (timers (sdb s))"
proof -
  from assms obtain r s1 where s1: "withTx (onDB (fire_tx X S E)) s = (Inr (Some r), s1)"
      and s': "sdb s' = sdb s1"
    by (auto simp: fireDueTimer_def split: prod.splits sum.splits option.splits)
  then have fire: "fire_tx X S E (sdb s) = (Inr (Some r), sdb s1)"
    by (auto simp: withTx_def onDB_def split: prod.splits sum.splits)
  then obtain t d where deq: "q_DequeueDueTimer (db_now E 0) (locked_timers E) (sdb s) = (Inr t, d)"
    by (auto simp: fire_tx_def split: prod.splits sum.splits if_splits)
  with fire have "timers (sdb s1) = timers d"
    using timers_wake_run [of X S "db_now E 0" "go_now E 0"
        "(tm_namespace_id t, tm_workflow_id t, tm_run_id t)"
        "newEvent EV_TIMER_FIRED (TimerFired (tm_timer_id t))" d]
    by (auto simp: fire_tx_def monad_simps split: prod.splits sum.splits)
  moreover from deq have "t \<in> set (timers (sdb s))"
    and "timers d = sql_delete (\<lambda>x. tm_key x = tm_key t) (timers (sdb s))"
    by (auto simp: q_DequeueDueTimer_def split: option.splits dest: min_by_mem)
  then have "length (timers d) < length (timers (sdb s))"
    by (auto simp: sql_delete_def intro: length_filter_less)
  ultimately show ?thesis using s' by simp
qed

text \<open>
  One tick of \<open>RunTimerFirer\<close>: \<^verbatim>\<open>for s.fireDueTimer(..) {}\<close>, the \<open>i\<close>-th call drawing on \<open>E i\<close>.
\<close>

function drainTimers :: "'b ext \<Rightarrow> store \<Rightarrow> (nat \<Rightarrow> env) \<Rightarrow> nat \<Rightarrow> 'b sys \<Rightarrow> 'b sys" where
  "drainTimers X S E i s =
     (case fireDueTimer X S (E i) s of
        (True, s') \<Rightarrow> drainTimers X S E (Suc i) s'
      | (False, s') \<Rightarrow> s')"
  by pat_completeness auto

termination
  by (relation "measure (\<lambda>(X, S, E, i, s). length (timers (sdb s)))")
    (auto dest: fireDueTimer_decreases [OF sym])

declare drainTimers.simps [simp del]

section \<open>reaper.go\<close>

text \<open>One tick; an error of one statement is logged and does not stop the next.\<close>

definition reaper_tick :: "env \<Rightarrow> 'b sys \<Rightarrow> 'b sys" where
  "reaper_tick E s =
     (let s1 = snd (onDB (q_ReapExpiredWorkflowTasks (db_now E 0)) s);
          s2 = snd (onDB (q_ReapExpiredActivityTasks (db_now E 1)) s1)
      in snd (onDB (q_ReapExpiredQueryTasks (db_now E 2)) s2))"

end
