(* ===== verification/WorkflowQuery.thy ===== *)
theory WorkflowQuery
  imports ActivityTask
begin

text \<open>
  \<^verbatim>\<open>internal/history/workflow_query.go\<close>: the life of a query task, from \<open>EnqueueQuery\<close> to the
  reader that deletes it.
\<close>

record enqueue_query_params =
  eq_Namespace :: string
  eq_WorkflowID :: string
  eq_RunID :: string
  eq_QueryType :: string
  eq_QueryArgs :: "payload option"

definition not_found :: "error \<Rightarrow> error" where
  "not_found e = (if e = ErrNoRows then ErrWorkflowNotFound else e)"

definition EnqueueQuery ::
  "'b ext \<Rightarrow> env \<Rightarrow> enqueue_query_params \<Rightarrow> 'b sys \<Rightarrow> (error + int \<times> int) \<times> 'b sys" where
  "EnqueueQuery X E p =
     bindM (getNamespaceID (eq_Namespace p)) (\<lambda>nsID.
     bindM (mapErr not_found (onDB (resolve_run nsID (eq_WorkflowID p) (eq_RunID p)))) (\<lambda>runID.
     bindM (mapErr not_found (onDB (q_GetWorkflowExecution (nsID, eq_WorkflowID p, runID)))) (\<lambda>we.
     case marshal_payload X (eq_QueryArgs p) of (argsBytes, err) \<Rightarrow>
       if err then throw ErrMarshal
       else bindM (onDB (q_EnqueueQueryTask (db_now E 0) nsID (we_task_queue we) (eq_WorkflowID p) runID
                     (eq_QueryType p) argsBytes)) (\<lambda>task.
         ret (nsID, qt_task_id task)))))"

record query_result =
  qr_Status :: task_status
  qr_Result :: "payload option"
  qr_FailureMessage :: string

definition GetQueryResult :: "'b ext \<Rightarrow> int \<Rightarrow> int \<Rightarrow> 'b sys \<Rightarrow> (error + query_result) \<times> 'b sys" where
  "GetQueryResult X namespaceID taskID =
     bindM (onDB (q_GetQueryTask taskID namespaceID)) (\<lambda>row.
       let res = \<lparr>qr_Status = qt_status row, qr_Result = None,
                  qr_FailureMessage = (case qt_failure_message row of None \<Rightarrow> '''' | Some m \<Rightarrow> m)\<rparr>
       in case qt_result row of
            None \<Rightarrow> ret res
          | Some b \<Rightarrow>
              if is_empty_bytes X b then ret res
              else (case unmarshal_payload X b of
                      None \<Rightarrow> throw ErrUnmarshal | Some p \<Rightarrow> ret (res\<lparr>qr_Result := Some p\<rparr>)))"

definition DeleteQueryTask :: "int \<Rightarrow> 'b sys \<Rightarrow> (error + unit) \<times> 'b sys" where
  "DeleteQueryTask taskID = onDB (q_DeleteQueryTask taskID)"

definition CompleteQuery ::
  "'b ext \<Rightarrow> task_token \<Rightarrow> payload option \<Rightarrow> 'b sys \<Rightarrow> (error + unit) \<times> 'b sys" where
  "CompleteQuery X token result =
     (if tk_Kind token \<noteq> TaskTokenKindQuery then throw ErrNotQueryToken
      else case marshal_payload X result of (resultBytes, err) \<Rightarrow>
        if err then throw ErrMarshal
        else bindM (onDB (q_CompleteQueryTask (tk_TaskID token)
                      (pgUUIDFromString X (tk_LeaseToken token)) resultBytes)) (\<lambda>affected.
          if affected = 0 then throw ErrTaskLeaseExpired else ret ()))"

definition FailQuery :: "'b ext \<Rightarrow> task_token \<Rightarrow> string \<Rightarrow> 'b sys \<Rightarrow> (error + unit) \<times> 'b sys" where
  "FailQuery X token msg =
     (if tk_Kind token \<noteq> TaskTokenKindQuery then throw ErrNotQueryToken
      else bindM (onDB (q_FailQueryTask (tk_TaskID token) (pgUUIDFromString X (tk_LeaseToken token)) msg)) (\<lambda>affected.
        if affected = 0 then throw ErrTaskLeaseExpired else ret ()))"

end
