(* ===== verification/Polling.thy ===== *)
theory Polling
  imports WorkflowQuery
begin

text \<open>
  \<^verbatim>\<open>internal/matching/poll.go\<close>: the long poll, and the waiting functions of
  \<^verbatim>\<open>internal/history/notifier.go\<close> it uses between two attempts. The loop may run as long as its
  context lives, so it is a partial function: \<open>None\<close> is a poll that never returns.

  While a poll waits, other requests run: \<open>pl_others\<close> is what they do to the state, \<open>pl_out\<close> the
  case of the select that ends the wait, \<open>pl_env\<close> the environment of the attempt. A receive can only be chosen
  when a value is buffered; otherwise the wait goes on until the timeout.
\<close>

record 'b attempt =
  pl_env :: env
  pl_out :: select_outcome
  pl_others :: "'b sys \<Rightarrow> 'b sys"

definition wait_notified :: "string \<Rightarrow> 'b attempt \<Rightarrow> 'b sys \<Rightarrow> (error + unit) \<times> 'b sys" where
  "wait_notified key a s =
     (case register key (notif s) of (ch, n1) \<Rightarrow>
      let s1 = pl_others a (s\<lparr>notif := n1\<rparr>);
          out = (if select_ready (pl_out a) (pl_out a = SelDone) ch (notif s1) then pl_out a else SelTimeout) in
      case wait_return out key ch (notif s1) of (again, n2) \<Rightarrow>
        (if again then Inr () else Inl ErrCtxDone, s1\<lparr>notif := n2\<rparr>))"

definition WaitForWorkflowTask :: "string \<Rightarrow> string \<Rightarrow> 'b attempt \<Rightarrow> 'b sys \<Rightarrow> (error + unit) \<times> 'b sys" where
  "WaitForWorkflowTask namespace taskQueue a =
     bindM (getNamespaceID namespace) (\<lambda>nsID. wait_notified (workflowQueueKey nsID taskQueue) a)"

definition WaitForActivityTask :: "string \<Rightarrow> string \<Rightarrow> 'b attempt \<Rightarrow> 'b sys \<Rightarrow> (error + unit) \<times> 'b sys" where
  "WaitForActivityTask namespace taskQueue a =
     bindM (getNamespaceID namespace) (\<lambda>nsID. wait_notified (activityQueueKey nsID taskQueue) a)"

text \<open>The loop both polls share: try to dispatch, wait, try again.\<close>

partial_function (option) poll ::
  "('b attempt \<Rightarrow> 'b sys \<Rightarrow> (error + 't) \<times> 'b sys) \<Rightarrow> ('b attempt \<Rightarrow> 'b sys \<Rightarrow> (error + unit) \<times> 'b sys) \<Rightarrow>
   (nat \<Rightarrow> 'b attempt) \<Rightarrow> nat \<Rightarrow> 'b sys \<Rightarrow> ((error + 't) \<times> 'b sys) option" where
  "poll dispatch wait A i s =
     (case dispatch (A i) s of
        (Inr task, s') \<Rightarrow> Some (Inr task, s')
      | (Inl e, s') \<Rightarrow>
          if e \<noteq> ErrNoTaskAvailable then Some (Inl e, s')
          else (case wait (A i) s' of
                  (Inl e', s'') \<Rightarrow> Some (Inl e', s'')
                | (Inr _, s'') \<Rightarrow> poll dispatch wait A (Suc i) s''))"

definition PollWorkflowTask ::
  "'b ext \<Rightarrow> store \<Rightarrow> string \<Rightarrow> string \<Rightarrow> string \<Rightarrow> int list \<Rightarrow> (nat \<Rightarrow> 'b attempt) \<Rightarrow> 'b sys \<Rightarrow>
   ((error + dispatched_workflow_task) \<times> 'b sys) option" where
  "PollWorkflowTask X S namespace taskQueue workerIdentity partitions A =
     poll (\<lambda>a. DispatchWorkflowTask X S (pl_env a) namespace taskQueue workerIdentity partitions)
       (WaitForWorkflowTask namespace taskQueue) A 0"

definition PollActivityTask ::
  "'b ext \<Rightarrow> store \<Rightarrow> string \<Rightarrow> string \<Rightarrow> int list \<Rightarrow> (nat \<Rightarrow> 'b attempt) \<Rightarrow> 'b sys \<Rightarrow>
   ((error + dispatched_activity_task) \<times> 'b sys) option" where
  "PollActivityTask X S namespace taskQueue partitions A =
     poll (\<lambda>a. DispatchActivityTask X S (pl_env a) namespace taskQueue partitions)
       (WaitForActivityTask namespace taskQueue) A 0"

end
