(* ===== verification/ServiceApi.thy ===== *)
theory ServiceApi
  imports Api
begin

text \<open>
  The request and response messages of \<^verbatim>\<open>WorkflowService\<close> (\<^verbatim>\<open>service.pb.go\<close>) that the frontend,
  the worker and the client exchange. A message field that may be absent is an option; an absent
  \<open>WorkflowExecution\<close> is \<open>None\<close>, a present one its workflow and run id.
\<close>

record start_workflow_request =
  sw_Namespace :: string
  sw_WorkflowId :: string
  sw_WorkflowType :: string
  sw_TaskQueue :: string
  sw_Input :: "payload option"
  sw_ExecutionTimeout :: "duration option"
  sw_RunTimeout :: "duration option"
  sw_TaskTimeout :: "duration option"
  sw_RetryPolicy :: "retry_policy option"
  sw_RequestId :: string
  sw_Identity :: string

record signal_workflow_request =
  sr_Namespace :: string
  sr_WorkflowId :: string
  sr_RunId :: string
  sr_SignalName :: string
  sr_Input :: "payload option"
  sr_RequestId :: string
  sr_Identity :: string

record cancel_workflow_request =
  cw_Namespace :: string
  cw_WorkflowId :: string
  cw_RunId :: string
  cw_Reason :: string
  cw_RequestId :: string
  cw_Identity :: string

record get_history_request =
  gh_Namespace :: string
  gh_WorkflowId :: string
  gh_RunId :: string
  gh_PageSize :: int
  gh_NextPageToken :: bytes

record describe_workflow_request =
  ds_Namespace :: string
  ds_WorkflowId :: string
  ds_RunId :: string

record terminate_workflow_request =
  te_Namespace :: string
  te_WorkflowId :: string
  te_RunId :: string
  te_Reason :: string
  te_Identity :: string

record list_workflows_request =
  lw_Namespace :: string
  lw_StatusFilter :: execution_status
  lw_TaskQueue :: string
  lw_PageSize :: int
  lw_NextPageToken :: bytes

record poll_request =
  po_Namespace :: string
  po_TaskQueue :: string
  po_Identity :: string
  po_TaskQueuePartitions :: "int list"

record poll_workflow_response =
  pw_TaskToken :: bytes
  pw_WorkflowExecution :: "(string \<times> string) option"
  pw_WorkflowType :: string
  pw_History :: "history_event list"
  pw_PreviousStartedEventId :: int
  pw_QueryTask :: "(string \<times> payload option) option"

record sticky_execution_attributes =
  se_WorkerIdentity :: string
  se_ScheduleToStartTimeout :: "duration option"

record respond_workflow_completed_request =
  rw_TaskToken :: bytes
  rw_Commands :: "command list"
  rw_Identity :: string
  rw_StickyExecutionAttributes :: "sticky_execution_attributes option"

record respond_failed_request =
  rf_TaskToken :: bytes
  rf_Failure :: "failure option"
  rf_Identity :: string

record poll_activity_response =
  pa_TaskToken :: bytes
  pa_WorkflowExecution :: "(string \<times> string) option"
  pa_ActivityId :: int
  pa_ActivityType :: string
  pa_Input :: "payload option"
  pa_CurrentAttempt :: int
  pa_StartToCloseTimeout :: "duration option"

record respond_activity_completed_request =
  ra_TaskToken :: bytes
  ra_Result :: "payload option"
  ra_Identity :: string

record respond_query_request =
  rq_TaskToken :: bytes
  rq_Result :: "payload option"
  rq_Failure :: "failure option"

record query_workflow_request =
  qw_Namespace :: string
  qw_WorkflowId :: string
  qw_RunId :: string
  qw_QueryType :: string
  qw_QueryArgs :: "payload option"

text \<open>The responses of a poll that timed out.\<close>

definition empty_workflow_response :: poll_workflow_response where
  "empty_workflow_response = \<lparr>pw_TaskToken = [], pw_WorkflowExecution = None, pw_WorkflowType = '''',
     pw_History = [], pw_PreviousStartedEventId = 0, pw_QueryTask = None\<rparr>"

definition empty_activity_response :: poll_activity_response where
  "empty_activity_response = \<lparr>pa_TaskToken = [], pa_WorkflowExecution = None, pa_ActivityId = 0, pa_ActivityType = '''',
     pa_Input = None, pa_CurrentAttempt = 0, pa_StartToCloseTimeout = None\<rparr>"

section \<open>Requests\<close>

text \<open>One constructor per RPC.\<close>

datatype rpc_request =
    StartWorkflowExecutionRequest start_workflow_request
  | SignalWorkflowExecutionRequest signal_workflow_request
  | RequestCancelWorkflowExecutionRequest cancel_workflow_request
  | GetWorkflowExecutionHistoryRequest get_history_request
  | DescribeWorkflowExecutionRequest describe_workflow_request
  | TerminateWorkflowExecutionRequest terminate_workflow_request
  | ListWorkflowExecutionsRequest list_workflows_request
  | PollWorkflowTaskQueueRequest poll_request
  | RespondWorkflowTaskCompletedRequest respond_workflow_completed_request
  | RespondWorkflowTaskFailedRequest respond_failed_request
  | PollActivityTaskQueueRequest poll_request
  | RespondActivityTaskCompletedRequest respond_activity_completed_request
  | RespondActivityTaskFailedRequest respond_failed_request
  | RespondQueryTaskCompletedRequest respond_query_request
  | QueryWorkflowExecutionRequest query_workflow_request
  | CreateNamespaceRequest string
  | ListNamespacesRequest

text \<open>The generated \<open>GetNamespace\<close>, for the messages that have the field.\<close>

fun GetNamespace :: "rpc_request \<Rightarrow> string option" where
  "GetNamespace (StartWorkflowExecutionRequest r) = Some (sw_Namespace r)"
| "GetNamespace (SignalWorkflowExecutionRequest r) = Some (sr_Namespace r)"
| "GetNamespace (RequestCancelWorkflowExecutionRequest r) = Some (cw_Namespace r)"
| "GetNamespace (GetWorkflowExecutionHistoryRequest r) = Some (gh_Namespace r)"
| "GetNamespace (DescribeWorkflowExecutionRequest r) = Some (ds_Namespace r)"
| "GetNamespace (TerminateWorkflowExecutionRequest r) = Some (te_Namespace r)"
| "GetNamespace (ListWorkflowExecutionsRequest r) = Some (lw_Namespace r)"
| "GetNamespace (PollWorkflowTaskQueueRequest r) = Some (po_Namespace r)"
| "GetNamespace (PollActivityTaskQueueRequest r) = Some (po_Namespace r)"
| "GetNamespace (QueryWorkflowExecutionRequest r) = Some (qw_Namespace r)"
| "GetNamespace (RespondWorkflowTaskCompletedRequest r) = None"
| "GetNamespace (RespondWorkflowTaskFailedRequest r) = None"
| "GetNamespace (RespondActivityTaskCompletedRequest r) = None"
| "GetNamespace (RespondActivityTaskFailedRequest r) = None"
| "GetNamespace (RespondQueryTaskCompletedRequest r) = None"
| "GetNamespace (CreateNamespaceRequest name) = None"
| "GetNamespace ListNamespacesRequest = None"

end
