(* ===== verification/Frontend.thy ===== *)
theory Frontend
  imports Polling ServiceApi "HOL-Library.Sublist"
begin

text \<open>
  \<^verbatim>\<open>internal/frontend\<close>: the gRPC service in front of the store. Every handler validates its
  request, calls the store, and maps the error; the API key interceptor stands before them.
\<close>

section \<open>Status codes\<close>

datatype code =
    InvalidArgument | Unauthenticated | PermissionDenied | AlreadyExists | NotFound | Aborted
  | DeadlineExceeded | Internal

text \<open>The message of a status is a store error's text, or a literal.\<close>

datatype status_text = ErrorText error | Text string

text \<open>A handler's failure: a gRPC status, or a panic, which is not an error value.\<close>

datatype rpc_error = Status code status_text | HandlerPanic string

definition grpc_code :: "error \<Rightarrow> code" where
  "grpc_code err =
     (if err = ErrWorkflowAlreadyRunning \<or> err = ErrNamespaceAlreadyExists then AlreadyExists
      else if err = ErrWorkflowNotFound \<or> err = ErrNamespaceNotFound then NotFound
      else if err = ErrTaskLeaseExpired then Aborted
      else if err = ErrConcurrentModification then Aborted
      else if err = ErrNoTaskAvailable then DeadlineExceeded
      else Internal)"

definition toGRPCError :: "error \<Rightarrow> rpc_error" where
  "toGRPCError err = (case err of ErrPanic msg \<Rightarrow> HandlerPanic msg | _ \<Rightarrow> Status (grpc_code err) (ErrorText err))"

section \<open>payload.go\<close>

definition maxPayloadBytes :: nat where
  "maxPayloadBytes = 2 * 1024 * 1024"

definition payload_too_large :: "payload option \<Rightarrow> bool" where
  "payload_too_large p = (case p of None \<Rightarrow> False | Some q \<Rightarrow> maxPayloadBytes < length (Data q))"

definition checkPayloadSize :: "payload option \<Rightarrow> rpc_error option" where
  "checkPayloadSize p =
     (case p of
        None \<Rightarrow> None
      | Some q \<Rightarrow> if payload_too_large p
          then Some (Status InvalidArgument (Text (''payload exceeds the '' @ decimal (int maxPayloadBytes) @
                 '' byte limit (got '' @ decimal (int (length (Data q))) @ '' bytes)'')))
          else None)"

fun checkCommandsPayloadSize :: "command list \<Rightarrow> rpc_error option" where
  "checkCommandsPayloadSize [] = None"
| "checkCommandsPayloadSize (c # cs) =
     (case (case c of
              ScheduleActivityTask a \<Rightarrow> checkPayloadSize (ActInput a)
            | CompleteWorkflowExecution r \<Rightarrow> checkPayloadSize r
            | ContinueAsNewWorkflowExecution n \<Rightarrow> checkPayloadSize (CanInput n)
            | _ \<Rightarrow> None) of
        Some err \<Rightarrow> Some err
      | None \<Rightarrow> checkCommandsPayloadSize cs)"

section \<open>service.go\<close>

definition defaultNamespace :: string where
  "defaultNamespace = ''default''"

definition namespaceOrDefault :: "string \<Rightarrow> string" where
  "namespaceOrDefault ns = (if ns = '''' then defaultNamespace else ns)"

datatype rpc_response =
    StartWorkflowExecutionResponse string
  | SignalWorkflowExecutionResponse
  | RequestCancelWorkflowExecutionResponse
  | GetWorkflowExecutionHistoryResponse "history_event list" bytes
  | DescribeWorkflowExecutionResponse execution_summary
  | ListWorkflowExecutionsResponse "execution_info list" bytes
  | TerminateWorkflowExecutionResponse
  | PollWorkflowTaskQueueResponse poll_workflow_response
  | RespondWorkflowTaskCompletedResponse
  | RespondWorkflowTaskFailedResponse
  | PollActivityTaskQueueResponse poll_activity_response
  | RespondActivityTaskCompletedResponse
  | RespondActivityTaskFailedResponse
  | RespondQueryTaskCompletedResponse
  | QueryWorkflowExecutionResponse "payload option"
  | CreateNamespaceResponse namespace_info
  | ListNamespacesResponse "namespace_info list"

text \<open>
  What surrounds one call: the environment of the store operation, a fresh uuid, the attempts of
  a long poll, whether the context has expired when a poll returns an error, the ticks a query
  waits before its deadline, what others do between them, and where in the last round the deadline falls:
  in the \<^verbatim>\<open>select\<close>, or earlier, so that the read, or the deletion after it, finds the context expired.
\<close>

datatype query_deadline = AtSelect | BeforeRead | BeforeDelete

record 'b call =
  ca_env :: env
  ca_uuid :: string
  ca_attempts :: "nat \<Rightarrow> 'b attempt"
  ca_expired :: bool
  ca_ticks :: nat
  ca_others :: "nat \<Rightarrow> 'b sys \<Rightarrow> 'b sys"
  ca_deadline :: query_deadline

type_synonym 'b outcome = "(rpc_error + rpc_response) \<times> 'b sys"

text \<open>Calling the store and mapping its error.\<close>

definition call_store :: "('b sys \<Rightarrow> (error + 'a) \<times> 'b sys) \<Rightarrow> ('a \<Rightarrow> rpc_response) \<Rightarrow> 'b sys \<Rightarrow> 'b outcome" where
  "call_store m f s = (case m s of (Inl e, s') \<Rightarrow> (Inl (toGRPCError e), s') | (Inr x, s') \<Rightarrow> (Inr (f x), s'))"

definition guarded :: "rpc_error option \<Rightarrow> ('b sys \<Rightarrow> 'b outcome) \<Rightarrow> 'b sys \<Rightarrow> 'b outcome" where
  "guarded err m s = (case err of Some e \<Rightarrow> (Inl e, s) | None \<Rightarrow> m s)"

definition with_token :: "'b ext \<Rightarrow> store \<Rightarrow> bytes \<Rightarrow> (task_token \<Rightarrow> 'b sys \<Rightarrow> 'b outcome) \<Rightarrow> 'b sys \<Rightarrow> 'b outcome" where
  "with_token X S tok m s = (case DecodeTaskToken X tok (taskTokenSigningKey S) of
     Inl e \<Rightarrow> (Inl (Status InvalidArgument (ErrorText e)), s)
   | Inr token \<Rightarrow> m token s)"

definition Server_StartWorkflowExecution :: "'b ext \<Rightarrow> store \<Rightarrow> 'b call \<Rightarrow> start_workflow_request \<Rightarrow> 'b sys \<Rightarrow> 'b outcome" where
  "Server_StartWorkflowExecution X S C req =
     guarded (checkPayloadSize (sw_Input req))
       (call_store (StartWorkflowExecution X S (ca_env C)
          \<lparr>sp_Namespace = namespaceOrDefault (sw_Namespace req), sp_WorkflowID = sw_WorkflowId req,
           sp_WorkflowType = sw_WorkflowType req, sp_TaskQueue = sw_TaskQueue req, sp_Input = sw_Input req,
           sp_WorkflowExecutionTimeout = AsDuration (sw_ExecutionTimeout req),
           sp_WorkflowRunTimeout = AsDuration (sw_RunTimeout req), sp_WorkflowTaskTimeout = AsDuration (sw_TaskTimeout req),
           sp_RetryPolicy = sw_RetryPolicy req,
           sp_RequestID = (if sw_RequestId req = '''' then ca_uuid C else sw_RequestId req)\<rparr>)
        StartWorkflowExecutionResponse)"

definition Server_SignalWorkflowExecution :: "'b ext \<Rightarrow> store \<Rightarrow> 'b call \<Rightarrow> signal_workflow_request \<Rightarrow> 'b sys \<Rightarrow> 'b outcome" where
  "Server_SignalWorkflowExecution X S C req =
     guarded (checkPayloadSize (sr_Input req))
       (call_store (SignalWorkflowExecution X S (ca_env C)
          \<lparr>sg_Namespace = namespaceOrDefault (sr_Namespace req), sg_WorkflowID = sr_WorkflowId req, sg_RunID = sr_RunId req,
           sg_SignalName = sr_SignalName req, sg_Input = sr_Input req\<rparr>) (\<lambda>_. SignalWorkflowExecutionResponse))"

definition Server_RequestCancelWorkflowExecution :: "'b ext \<Rightarrow> store \<Rightarrow> 'b call \<Rightarrow> cancel_workflow_request \<Rightarrow> 'b sys \<Rightarrow> 'b outcome" where
  "Server_RequestCancelWorkflowExecution X S C req =
     call_store (RequestCancelWorkflowExecution X S (ca_env C)
       \<lparr>cn_Namespace = namespaceOrDefault (cw_Namespace req), cn_WorkflowID = cw_WorkflowId req, cn_RunID = cw_RunId req,
        cn_Reason = cw_Reason req\<rparr>) (\<lambda>_. RequestCancelWorkflowExecutionResponse)"

definition Server_GetWorkflowExecutionHistory :: "'b ext \<Rightarrow> get_history_request \<Rightarrow> 'b sys \<Rightarrow> 'b outcome" where
  "Server_GetWorkflowExecutionHistory X req =
     call_store (GetHistory X (namespaceOrDefault (gh_Namespace req)) (gh_WorkflowId req) (gh_RunId req) (gh_PageSize req)
       (gh_NextPageToken req)) (\<lambda>(events, nextToken). GetWorkflowExecutionHistoryResponse events nextToken)"

definition Server_DescribeWorkflowExecution :: "describe_workflow_request \<Rightarrow> 'b sys \<Rightarrow> 'b outcome" where
  "Server_DescribeWorkflowExecution req =
     call_store (DescribeWorkflowExecution (namespaceOrDefault (ds_Namespace req)) (ds_WorkflowId req) (ds_RunId req))
       DescribeWorkflowExecutionResponse"

definition Server_ListWorkflowExecutions :: "'b ext \<Rightarrow> list_workflows_request \<Rightarrow> 'b sys \<Rightarrow> 'b outcome" where
  "Server_ListWorkflowExecutions X req =
     call_store (ListWorkflowExecutions X
       \<lparr>lp_Namespace = namespaceOrDefault (lw_Namespace req), lp_StatusFilter = lw_StatusFilter req,
        lp_TaskQueue = lw_TaskQueue req, lp_PageSize = lw_PageSize req, lp_PageToken = lw_NextPageToken req\<rparr>)
       (\<lambda>(infos, nextToken). ListWorkflowExecutionsResponse infos nextToken)"

definition Server_TerminateWorkflowExecution :: "'b ext \<Rightarrow> 'b call \<Rightarrow> terminate_workflow_request \<Rightarrow> 'b sys \<Rightarrow> 'b outcome" where
  "Server_TerminateWorkflowExecution X C req =
     call_store (TerminateWorkflowExecution X (ca_env C) (namespaceOrDefault (te_Namespace req)) (te_WorkflowId req)
       (te_RunId req) (te_Reason req)) (\<lambda>_. TerminateWorkflowExecutionResponse)"

text \<open>A poll whose context has expired answers with an empty response.\<close>

definition poll_answer ::
  "'b call \<Rightarrow> rpc_response \<Rightarrow> ('t \<Rightarrow> rpc_response) \<Rightarrow> (error + 't) \<times> 'b sys \<Rightarrow> 'b outcome" where
  "poll_answer C none f r = (case r of
     (Inl e, s') \<Rightarrow> if e = ErrCtxDone \<or> ca_expired C then (Inr none, s') else (Inl (toGRPCError e), s')
   | (Inr task, s') \<Rightarrow> (Inr (f task), s'))"

definition Server_PollWorkflowTaskQueue :: "'b ext \<Rightarrow> store \<Rightarrow> 'b call \<Rightarrow> poll_request \<Rightarrow> 'b sys \<Rightarrow> 'b outcome option" where
  "Server_PollWorkflowTaskQueue X S C req s =
     map_option (poll_answer C (PollWorkflowTaskQueueResponse empty_workflow_response)
       (\<lambda>task. PollWorkflowTaskQueueResponse
          \<lparr>pw_TaskToken = dw_TaskToken task, pw_WorkflowExecution = Some (dw_WorkflowId task, dw_RunId task),
           pw_WorkflowType = dw_WorkflowType task, pw_History = dw_History task,
           pw_PreviousStartedEventId = dw_PreviousStartedEventID task,
           pw_QueryTask = map_option (\<lambda>(queryType, args). (queryType, Some args)) (dw_Query task)\<rparr>))
       (PollWorkflowTask X S (namespaceOrDefault (po_Namespace req)) (po_TaskQueue req) (po_Identity req)
          (po_TaskQueuePartitions req) (ca_attempts C) s)"

definition Server_PollActivityTaskQueue :: "'b ext \<Rightarrow> store \<Rightarrow> 'b call \<Rightarrow> poll_request \<Rightarrow> 'b sys \<Rightarrow> 'b outcome option" where
  "Server_PollActivityTaskQueue X S C req s =
     map_option (poll_answer C (PollActivityTaskQueueResponse empty_activity_response)
       (\<lambda>task. PollActivityTaskQueueResponse
          \<lparr>pa_TaskToken = da_TaskToken task, pa_WorkflowExecution = Some (da_WorkflowId task, da_RunId task),
           pa_ActivityId = da_ActivityID task, pa_ActivityType = da_ActivityType task, pa_Input = Some (da_Input task),
           pa_CurrentAttempt = da_CurrentAttempt task,
           pa_StartToCloseTimeout = Some (da_StartToCloseTimeout task)\<rparr>))
       (PollActivityTask X S (namespaceOrDefault (po_Namespace req)) (po_TaskQueue req) (po_TaskQueuePartitions req)
          (ca_attempts C) s)"

definition Server_RespondWorkflowTaskCompleted ::
  "'b ext \<Rightarrow> store \<Rightarrow> 'b call \<Rightarrow> respond_workflow_completed_request \<Rightarrow> 'b sys \<Rightarrow> 'b outcome" where
  "Server_RespondWorkflowTaskCompleted X S C req =
     guarded (checkCommandsPayloadSize (rw_Commands req))
       (with_token X S (rw_TaskToken req) (\<lambda>token.
          call_store (CompleteWorkflowTask X S (ca_env C) token (rw_Commands req)
            (map_option (\<lambda>a. \<lparr>sa_WorkerIdentity = se_WorkerIdentity a,
               sa_ScheduleToStartTimeout = AsDuration (se_ScheduleToStartTimeout a)\<rparr>) (rw_StickyExecutionAttributes req)))
            (\<lambda>_. RespondWorkflowTaskCompletedResponse)))"

definition Server_RespondWorkflowTaskFailed :: "'b ext \<Rightarrow> store \<Rightarrow> 'b call \<Rightarrow> respond_failed_request \<Rightarrow> 'b sys \<Rightarrow> 'b outcome" where
  "Server_RespondWorkflowTaskFailed X S C req =
     with_token X S (rf_TaskToken req) (\<lambda>token.
       call_store (FailWorkflowTask X S (ca_env C) token) (\<lambda>_. RespondWorkflowTaskFailedResponse))"

definition Server_RespondActivityTaskCompleted ::
  "'b ext \<Rightarrow> store \<Rightarrow> 'b call \<Rightarrow> respond_activity_completed_request \<Rightarrow> 'b sys \<Rightarrow> 'b outcome" where
  "Server_RespondActivityTaskCompleted X S C req =
     guarded (checkPayloadSize (ra_Result req))
       (with_token X S (ra_TaskToken req) (\<lambda>token.
          call_store (CompleteActivityTask X S (ca_env C) token (ra_Result req)) (\<lambda>_. RespondActivityTaskCompletedResponse)))"

definition Server_RespondActivityTaskFailed :: "'b ext \<Rightarrow> store \<Rightarrow> 'b call \<Rightarrow> respond_failed_request \<Rightarrow> 'b sys \<Rightarrow> 'b outcome" where
  "Server_RespondActivityTaskFailed X S C req =
     with_token X S (rf_TaskToken req) (\<lambda>token.
       call_store (FailActivityTask X S (ca_env C) token (rf_Failure req)) (\<lambda>_. RespondActivityTaskFailedResponse))"

definition Server_CreateNamespace :: "'b call \<Rightarrow> string \<Rightarrow> 'b sys \<Rightarrow> 'b outcome" where
  "Server_CreateNamespace C name =
     guarded (if name = '''' then Some (Status InvalidArgument (Text ''name is required'')) else None)
       (call_store (CreateNamespace (ca_env C) name) CreateNamespaceResponse)"

definition Server_ListNamespaces :: "'b ext \<Rightarrow> 'b sys \<Rightarrow> 'b outcome" where
  "Server_ListNamespaces X = call_store (ListNamespaces X) ListNamespacesResponse"

definition Server_RespondQueryTaskCompleted :: "'b ext \<Rightarrow> store \<Rightarrow> respond_query_request \<Rightarrow> 'b sys \<Rightarrow> 'b outcome" where
  "Server_RespondQueryTaskCompleted X S req =
     guarded (checkPayloadSize (rq_Result req))
       (with_token X S (rq_TaskToken req) (\<lambda>token.
          call_store (case rq_Failure req of
              Some f \<Rightarrow> FailQuery X token (Message f)
            | None \<Rightarrow> CompleteQuery X token (rq_Result req)) (\<lambda>_. RespondQueryTaskCompletedResponse)))"

text \<open>
  The wait of \<open>QueryWorkflowExecution\<close> with \<open>n\<close> ticks left before its deadline. Once the deadline has passed a
  read of the row fails, and a failure to delete it is logged only; the deletion after a timeout has a context of its own.
\<close>

fun await_query ::
  "'b ext \<Rightarrow> (nat \<Rightarrow> 'b sys \<Rightarrow> 'b sys) \<Rightarrow> query_deadline \<Rightarrow> int \<Rightarrow> int \<Rightarrow> nat \<Rightarrow> 'b sys \<Rightarrow> 'b outcome" where
  "await_query X others deadline nsID taskID n s =
     (case (if n = 0 \<and> deadline = BeforeRead then (Inl ErrCtxDone, s) else GetQueryResult X nsID taskID s) of
        (Inl e, s') \<Rightarrow> (Inl (toGRPCError e), s')
      | (Inr r, s') \<Rightarrow>
          let deleted = (if n = 0 \<and> deadline = BeforeDelete then s' else snd (DeleteQueryTask taskID s')) in
          (if qr_Status r = COMPLETED then (Inr (QueryWorkflowExecutionResponse (qr_Result r)), deleted)
           else if qr_Status r = FAILED then (Inl (Status Internal (Text (qr_FailureMessage r))), deleted)
           else (case n of
               0 \<Rightarrow> (Inl (Status DeadlineExceeded (Text ''query timed out waiting for a worker to answer'')),
                       snd (DeleteQueryTask taskID s'))
             | Suc m \<Rightarrow> await_query X others deadline nsID taskID m (others m s'))))"

declare await_query.simps [simp del]

definition Server_QueryWorkflowExecution :: "'b ext \<Rightarrow> 'b call \<Rightarrow> query_workflow_request \<Rightarrow> 'b sys \<Rightarrow> 'b outcome" where
  "Server_QueryWorkflowExecution X C req =
     guarded (checkPayloadSize (qw_QueryArgs req))
       (guarded (if qw_QueryType req = '''' then Some (Status InvalidArgument (Text ''query_type is required'')) else None)
         (\<lambda>s. case EnqueueQuery X (ca_env C)
                 \<lparr>eq_Namespace = namespaceOrDefault (qw_Namespace req), eq_WorkflowID = qw_WorkflowId req,
                  eq_RunID = qw_RunId req, eq_QueryType = qw_QueryType req, eq_QueryArgs = qw_QueryArgs req\<rparr> s of
            (Inl e, s') \<Rightarrow> (Inl (toGRPCError e), s')
          | (Inr (nsID, taskID), s') \<Rightarrow> await_query X (ca_others C) (ca_deadline C) nsID taskID (ca_ticks C) s'))"

text \<open>The service: one handler per RPC.\<close>

fun handle :: "'b ext \<Rightarrow> store \<Rightarrow> 'b call \<Rightarrow> rpc_request \<Rightarrow> 'b sys \<Rightarrow> 'b outcome option" where
  "handle X S C (StartWorkflowExecutionRequest r) s = Some (Server_StartWorkflowExecution X S C r s)"
| "handle X S C (SignalWorkflowExecutionRequest r) s = Some (Server_SignalWorkflowExecution X S C r s)"
| "handle X S C (RequestCancelWorkflowExecutionRequest r) s = Some (Server_RequestCancelWorkflowExecution X S C r s)"
| "handle X S C (GetWorkflowExecutionHistoryRequest r) s = Some (Server_GetWorkflowExecutionHistory X r s)"
| "handle X S C (DescribeWorkflowExecutionRequest r) s = Some (Server_DescribeWorkflowExecution r s)"
| "handle X S C (TerminateWorkflowExecutionRequest r) s = Some (Server_TerminateWorkflowExecution X C r s)"
| "handle X S C (ListWorkflowExecutionsRequest r) s = Some (Server_ListWorkflowExecutions X r s)"
| "handle X S C (PollWorkflowTaskQueueRequest r) s = Server_PollWorkflowTaskQueue X S C r s"
| "handle X S C (RespondWorkflowTaskCompletedRequest r) s = Some (Server_RespondWorkflowTaskCompleted X S C r s)"
| "handle X S C (RespondWorkflowTaskFailedRequest r) s = Some (Server_RespondWorkflowTaskFailed X S C r s)"
| "handle X S C (PollActivityTaskQueueRequest r) s = Server_PollActivityTaskQueue X S C r s"
| "handle X S C (RespondActivityTaskCompletedRequest r) s = Some (Server_RespondActivityTaskCompleted X S C r s)"
| "handle X S C (RespondActivityTaskFailedRequest r) s = Some (Server_RespondActivityTaskFailed X S C r s)"
| "handle X S C (RespondQueryTaskCompletedRequest r) s = Some (Server_RespondQueryTaskCompleted X S r s)"
| "handle X S C (QueryWorkflowExecutionRequest r) s = Some (Server_QueryWorkflowExecution X C r s)"
| "handle X S C (CreateNamespaceRequest name) s = Some (Server_CreateNamespace C name s)"
| "handle X S C ListNamespacesRequest s = Some (Server_ListNamespaces X s)"

section \<open>auth.go\<close>

text \<open>\<^verbatim>\<open>strings.Cut\<close>, \<^verbatim>\<open>strings.SplitSeq\<close> on one byte, and \<^verbatim>\<open>strings.TrimSpace\<close> with Unicode's white space in UTF-8.\<close>

definition cut :: "char \<Rightarrow> string \<Rightarrow> string \<times> string \<times> bool" where
  "cut sep s = (takeWhile (\<lambda>c. c \<noteq> sep) s, drop 1 (dropWhile (\<lambda>c. c \<noteq> sep) s), sep \<in> set s)"

fun split_on :: "char \<Rightarrow> string \<Rightarrow> string list" where
  "split_on sep [] = [[]]"
| "split_on sep (c # cs) = (if c = sep then [] # split_on sep cs
     else case split_on sep cs of [] \<Rightarrow> [[c]] | p # ps \<Rightarrow> (c # p) # ps)"

definition space_sequences :: "string list" where
  "space_sequences = map (map char_of)
     ([[9], [10], [11], [12], [13], [32], [0xC2, 0x85], [0xC2, 0xA0], [0xE1, 0x9A, 0x80],
       [0xE2, 0x80, 0xA8], [0xE2, 0x80, 0xA9], [0xE2, 0x80, 0xAF], [0xE2, 0x81, 0x9F], [0xE3, 0x80, 0x80]] @
      map (\<lambda>i. [0xE2, 0x80, 0x80 + i]) [0..<11] :: nat list list)"

fun strip_prefixes :: "string list \<Rightarrow> nat \<Rightarrow> string \<Rightarrow> string" where
  "strip_prefixes ps 0 s = s"
| "strip_prefixes ps (Suc n) s = (case List.find (\<lambda>p. prefix p s) ps of
     None \<Rightarrow> s | Some p \<Rightarrow> strip_prefixes ps n (drop (length p) s))"

definition TrimSpace :: "string \<Rightarrow> string" where
  "TrimSpace s =
     (let l = strip_prefixes space_sequences (length s) s
      in rev (strip_prefixes (map rev space_sequences) (length l) (rev l)))"

text \<open>\<open>None\<close> is the nil set: any namespace.\<close>

record api_key_scope =
  ks_namespaces :: "string list option"

definition allows :: "api_key_scope \<Rightarrow> string \<Rightarrow> bool" where
  "allows scope ns = (case ks_namespaces scope of None \<Rightarrow> True | Some l \<Rightarrow> ns \<in> set l)"

text \<open>The inner loop: the namespaces, or \<open>None\<close> once a star is met.\<close>

fun scope_namespaces :: "string list \<Rightarrow> string list \<Rightarrow> string list option" where
  "scope_namespaces [] acc = Some acc"
| "scope_namespaces (part # parts) acc =
     (let ns = TrimSpace part in
      if ns = '''' then scope_namespaces parts acc
      else if ns = ''*'' then None
      else scope_namespaces parts (ns # acc))"

definition key_entry :: "string \<Rightarrow> (string \<times> api_key_scope) option" where
  "key_entry entry =
     (case cut (CHR '':'') entry of (k, nsList, hasScope) \<Rightarrow>
      let key = TrimSpace k in
      if key = '''' then None
      else if \<not> hasScope then Some (key, \<lparr>ks_namespaces = None\<rparr>)
      else Some (key, \<lparr>ks_namespaces = scope_namespaces (split_on (CHR ''|'') nsList) []\<rparr>))"

fun parseAPIKeys :: "string list \<Rightarrow> (string \<Rightarrow> api_key_scope option) \<Rightarrow> string \<Rightarrow> api_key_scope option" where
  "parseAPIKeys [] table = table"
| "parseAPIKeys (entry # entries) table =
     parseAPIKeys entries (case key_entry entry of None \<Rightarrow> table | Some (key, scope) \<Rightarrow> table(key \<mapsto> scope))"

text \<open>\<open>quote\<close> is the \<^verbatim>\<open>%q\<close> verb; \<open>md\<close>: the values of the API key header, \<open>None\<close> when the call has no metadata.\<close>

definition APIKeyInterceptor ::
  "(string \<Rightarrow> string) \<Rightarrow> string list \<Rightarrow> string list option \<Rightarrow> rpc_request \<Rightarrow> ('b sys \<Rightarrow> 'b outcome option) \<Rightarrow> 'b sys \<Rightarrow> 'b outcome option" where
  "APIKeyInterceptor quote keys md req handler s =
     (case md of
        None \<Rightarrow> Some (Inl (Status Unauthenticated (Text ''missing credentials'')), s)
      | Some vals \<Rightarrow>
          if vals = [] \<or> vals ! 0 = '''' then Some (Inl (Status Unauthenticated (Text ''missing api key'')), s)
          else (case parseAPIKeys keys (\<lambda>_. None) (vals ! 0) of
              None \<Rightarrow> Some (Inl (Status Unauthenticated (Text ''invalid api key'')), s)
            | Some scope \<Rightarrow>
                (case GetNamespace req of
                   Some ns \<Rightarrow>
                     if allows scope (namespaceOrDefault ns) then handler s
                     else Some (Inl (Status PermissionDenied (Text (''api key not authorized for namespace '' @ quote (namespaceOrDefault ns)))), s)
                 | None \<Rightarrow> handler s)))"

end
