(* ===== verification/Flowd.thy ===== *)
theory Flowd
  imports Config
begin

text \<open>
  \<^verbatim>\<open>cmd/flowd/main.go\<close>: how a configuration becomes a running server. What the outside
  answers (the database, the listener, the files, the dialled connection) is the record \<open>world\<close>; the
  HTTP servers themselves are not modelled.
\<close>

record world =
  wo_migrate :: "string \<Rightarrow> bool"
  wo_pool :: "string \<Rightarrow> bool"
  wo_random :: "bytes option"
  wo_listen :: "string \<Rightarrow> bool"
  wo_key_pair :: "string \<Rightarrow> string \<Rightarrow> bytes option"
  wo_read :: "string \<Rightarrow> bytes option"
  wo_pem :: "bytes \<Rightarrow> bool"
  wo_dial :: "string \<Rightarrow> bool"
  wo_ui :: bool

datatype tls_error = LoadKeyPair | ReadCA | ParseCA string

record tls_config =
  tl_certificate :: bytes
  tl_client_cas :: "bytes option"

text \<open>\<open>None\<close>: plaintext. A client CA makes client certificates required and verified.\<close>

definition serverTLSCredentials :: "world \<Rightarrow> config \<Rightarrow> tls_error + tls_config option" where
  "serverTLSCredentials W cfg =
     (if cf_TLSCertFile cfg = '''' \<and> cf_TLSKeyFile cfg = '''' then Inr None
      else case wo_key_pair W (cf_TLSCertFile cfg) (cf_TLSKeyFile cfg) of
        None \<Rightarrow> Inl LoadKeyPair
      | Some cert \<Rightarrow>
          if cf_TLSClientCAFile cfg \<noteq> '''' then
            (case wo_read W (cf_TLSClientCAFile cfg) of
               None \<Rightarrow> Inl ReadCA
             | Some pem \<Rightarrow>
                 if \<not> wo_pem W pem then Inl (ParseCA (cf_TLSClientCAFile cfg))
                 else Inr (Some \<lparr>tl_certificate = cert, tl_client_cas = Some pem\<rparr>))
          else Inr (Some \<lparr>tl_certificate = cert, tl_client_cas = None\<rparr>))"

definition loopbackDialTarget :: "string \<Rightarrow> string" where
  "loopbackDialTarget addr = (if prefix '':'' addr then ''127.0.0.1'' @ addr else addr)"

datatype startup_error =
    RunMigrations | ConnectPostgres | StartPanic string | ListenOn string | ConfigureTLS tls_error
  | DialLoopback | BuildWebUI

text \<open>The running server: \<open>rn_webui\<close> is the address its dashboard's own client dials.\<close>

record running =
  rn_store :: store
  rn_reaper :: duration
  rn_timer_firer :: duration
  rn_creds :: "tls_config option"
  rn_keys :: "string list"
  rn_webui :: "string option"

definition flowd_run :: "world \<Rightarrow> config \<Rightarrow> startup_error + running" where
  "flowd_run W cfg =
     (if \<not> wo_migrate W (cf_DatabaseDSN cfg) then Inl RunMigrations
      else if \<not> wo_pool W (cf_DatabaseDSN cfg) then Inl ConnectPostgres
      else case NewStore (wo_random W)
          \<lparr>NumShards = cf_NumShards cfg, NumTaskQueuePartitions = cf_NumTaskQueuePartitions cfg,
           TaskTokenSigningKey = cf_TaskTokenSigningKey cfg\<rparr> of
        Inl e \<Rightarrow> Inl (StartPanic (case e of ErrPanic msg \<Rightarrow> msg | _ \<Rightarrow> ''''))
      | Inr store \<Rightarrow>
          if \<not> wo_listen W (cf_GRPCAddr cfg) then Inl (ListenOn (cf_GRPCAddr cfg))
          else case serverTLSCredentials W cfg of
            Inl e \<Rightarrow> Inl (ConfigureTLS e)
          | Inr creds \<Rightarrow>
              let srv = \<lparr>rn_store = store, rn_reaper = cf_ReaperInterval cfg, rn_timer_firer = cf_TimerFirerInterval cfg,
                         rn_creds = creds, rn_keys = cf_APIKeys cfg, rn_webui = None\<rparr>
              in if creds \<noteq> None then Inr srv
                 else if \<not> wo_dial W (loopbackDialTarget (cf_GRPCAddr cfg)) then Inl DialLoopback
                 else if \<not> wo_ui W then Inl BuildWebUI
                 else Inr (srv\<lparr>rn_webui := Some (loopbackDialTarget (cf_GRPCAddr cfg))\<rparr>))"

text \<open>
  The two background loops start with \<^verbatim>\<open>time.NewTicker\<close>, which panics for an interval that is not
  positive; a panic in either goroutine ends the process.
\<close>

definition NewTicker :: "duration \<Rightarrow> string + duration" where
  "NewTicker d = (if d \<le> 0 then Inl ''non-positive interval for NewTicker'' else Inr d)"

definition background_loops :: "running \<Rightarrow> string + duration \<times> duration" where
  "background_loops srv =
     (case NewTicker (rn_reaper srv) of
        Inl e \<Rightarrow> Inl e
      | Inr r \<Rightarrow> (case NewTicker (rn_timer_firer srv) of Inl e \<Rightarrow> Inl e | Inr t \<Rightarrow> Inr (r, t)))"

text \<open>A call that reaches the server: through the interceptor exactly when keys are configured.\<close>

definition serve_rpc ::
  "(string \<Rightarrow> string) \<Rightarrow> running \<Rightarrow> 'b ext \<Rightarrow> 'b call \<Rightarrow> string list option \<Rightarrow> rpc_request \<Rightarrow> 'b sys \<Rightarrow> 'b outcome option" where
  "serve_rpc quote srv X C md req =
     (if rn_keys srv \<noteq> [] then APIKeyInterceptor quote (rn_keys srv) md req (handle X (rn_store srv) C req)
      else handle X (rn_store srv) C req)"

end
