(* ===== verification/Invariant.thy ===== *)
theory Invariant
  imports WorkflowQuery
begin

text \<open>
  The well-formedness of the database, and that every transaction and every stand-alone
  statement of the store keeps it. A transaction breaks parts of it half-way (a current
  execution points to a run that is inserted two statements later), so the parts are stated
  with the set of runs they are relaxed for; a failed transaction is rolled back.
\<close>

section \<open>The invariant\<close>

definition wt_run :: "wt_row \<Rightarrow> run_key" where
  "wt_run t = (wt_namespace_id t, wt_workflow_id t, wt_run_id t)"

definition at_run :: "'b at_row \<Rightarrow> run_key" where
  "at_run t = (at_namespace_id t, at_workflow_id t, at_run_id t)"

definition qt_run :: "'b qt_row \<Rightarrow> run_key" where
  "qt_run t = (qt_namespace_id t, qt_workflow_id t, qt_run_id t)"

definition tm_run :: "tm_row \<Rightarrow> run_key" where
  "tm_run t = (tm_namespace_id t, tm_workflow_id t, tm_run_id t)"

definition ce_run :: "ce_row \<Rightarrow> run_key" where
  "ce_run c = (ce_namespace_id c, ce_workflow_id c, ce_run_id c)"

definition ns_wf :: "'b db \<Rightarrow> bool" where
  "ns_wf d \<longleftrightarrow> distinct (map ns_id (namespaces d)) \<and> distinct (map ns_name (namespaces d)) \<and>
     (\<forall>r \<in> set (namespaces d). ns_id r < ns_seq d)"

text \<open>Executions belong to a namespace and have one of the six statuses.\<close>

definition we_wf :: "'b db \<Rightarrow> bool" where
  "we_wf d \<longleftrightarrow> (\<forall>r \<in> set (workflow_executions d).
     we_namespace_id r \<in> ns_id ` set (namespaces d) \<and> we_status r \<in> set valid_statuses)"

text \<open>The history of every run opens with the started and the first scheduled event.\<close>

definition opens :: "'b he_row list \<Rightarrow> bool" where
  "opens rows \<longleftrightarrow> take 2 (map he_event_type rows) =
     [event_type_String EV_WORKFLOW_EXECUTION_STARTED, event_type_String EV_WORKFLOW_TASK_SCHEDULED]"

definition started_wf :: "run_key set \<Rightarrow> 'b db \<Rightarrow> bool" where
  "started_wf K d \<longleftrightarrow> (\<forall>k \<in> we_keys d - K. opens (run_events k d))"

definition ce_wf :: "run_key set \<Rightarrow> 'b db \<Rightarrow> bool" where
  "ce_wf K d \<longleftrightarrow> distinct (map ce_key (current_executions d)) \<and>
     ce_run ` set (current_executions d) \<subseteq> we_keys d \<union> K"

text \<open>Task rows: leases, ids below the sequence, and the run they are for.\<close>

definition wt_wf :: "'b db \<Rightarrow> bool" where
  "wt_wf d \<longleftrightarrow> wtq.leases_wf (workflow_tasks d) \<and>
     (\<forall>t \<in> set (workflow_tasks d). wt_task_id t < wt_seq d \<and> wt_run t \<in> we_keys d)"

definition at_wf :: "'b db \<Rightarrow> bool" where
  "at_wf d \<longleftrightarrow> atq.leases_wf (activity_tasks d) \<and>
     (\<forall>t \<in> set (activity_tasks d). at_task_id t < at_seq d \<and> at_run t \<in> we_keys d \<and>
        1 \<le> at_attempt t \<and> 0 < at_start_to_close_timeout_ns t)"

definition qt_wf :: "'b db \<Rightarrow> bool" where
  "qt_wf d \<longleftrightarrow> qtq.leases_wf (query_tasks d) \<and>
     (\<forall>t \<in> set (query_tasks d). qt_task_id t < qt_seq d \<and> qt_run t \<in> we_keys d)"

definition tm_wf :: "'b db \<Rightarrow> bool" where
  "tm_wf d \<longleftrightarrow> distinct (map tm_key (timers d)) \<and> tm_run ` set (timers d) \<subseteq> we_keys d"

definition gen_wf :: "run_key set \<Rightarrow> run_key set \<Rightarrow> 'b db \<Rightarrow> bool" where
  "gen_wf C K d \<longleftrightarrow> ns_wf d \<and> log_wf d \<and> we_wf d \<and> started_wf K d \<and> ce_wf C d \<and>
     wt_wf d \<and> at_wf d \<and> qt_wf d \<and> tm_wf d"

definition db_wf :: "'b db \<Rightarrow> bool" where
  "db_wf d \<longleftrightarrow> gen_wf {} {} d"

lemmas wf_parts = ns_wf_def we_wf_def started_wf_def ce_wf_def wt_wf_def at_wf_def qt_wf_def tm_wf_def

lemma initial_db_wf: "db_wf (initial_db now)"
  by (simp add: db_wf_def gen_wf_def wf_parts log_wf_def initial_db_def we_keys_def
      wtq.leases_wf_def atq.leases_wf_def qtq.leases_wf_def)

lemma db_wf_log [dest]: "db_wf d \<Longrightarrow> log_wf d"
  by (simp add: db_wf_def gen_wf_def)

section \<open>Success triples\<close>

text \<open>\<open>succ P m Q\<close>: a run of \<open>m\<close> from \<open>P\<close> that returns a value ends in \<open>Q\<close> for it.\<close>

definition succ :: "('s \<Rightarrow> bool) \<Rightarrow> ('s \<Rightarrow> ('e + 'a) \<times> 's) \<Rightarrow> ('a \<Rightarrow> 's \<Rightarrow> bool) \<Rightarrow> bool" where
  "succ P m Q \<longleftrightarrow> valid P m Q (\<lambda>_ _. True)"

lemma succI: "(\<And>s x s'. P s \<Longrightarrow> m s = (Inr x, s') \<Longrightarrow> Q x s') \<Longrightarrow> succ P m Q"
  unfolding succ_def by (rule validI) auto

lemma succD: "succ P m Q \<Longrightarrow> P s \<Longrightarrow> m s = (Inr x, s') \<Longrightarrow> Q x s'"
  unfolding succ_def by (rule validD_Inr)

lemma succ_bind:
  assumes "succ P m Q" and "\<And>x. succ (Q x) (f x) R"
  shows "succ P (bindM m f) R"
  by (rule succI) (auto elim!: bindM_InrE dest: succD [OF assms(1)] succD [OF assms(2)])

lemma succ_ret: "(\<And>s. P s \<Longrightarrow> Q x s) \<Longrightarrow> succ P (ret x) Q"
  by (rule succI) (simp add: monad_simps)

lemma succ_throw: "succ P (throw e) Q"
  by (rule succI) (simp add: monad_simps)

lemma succ_if: "(b \<Longrightarrow> succ P m Q) \<Longrightarrow> (\<not> b \<Longrightarrow> succ P n Q) \<Longrightarrow> succ P (if b then m else n) Q"
  by simp

lemma succ_liftE: "(\<And>s x. P s \<Longrightarrow> r = Inr x \<Longrightarrow> Q x s) \<Longrightarrow> succ P (liftE r) Q"
  by (rule succI) (simp add: monad_simps)

lemma succ_mapErr: "succ P m Q \<Longrightarrow> succ P (mapErr h m) Q"
  by (rule succI) (auto simp: mapErr_def split: prod.splits sum.splits dest: succD)

lemma succ_forM: "(\<And>x. x \<in> set xs \<Longrightarrow> succ I (f x) (\<lambda>_. I)) \<Longrightarrow> succ I (forM f xs) (\<lambda>_. I)"
  by (induction xs) (auto intro: succ_ret succ_bind)

lemma succ_pre: "succ P m Q \<Longrightarrow> (\<And>s. P' s \<Longrightarrow> P s) \<Longrightarrow> succ P' m Q"
  by (rule succI) (auto dest: succD)

lemma succ_post: "succ P m Q \<Longrightarrow> (\<And>x s. Q x s \<Longrightarrow> Q' x s) \<Longrightarrow> succ P m Q'"
  by (rule succI) (auto dest: succD)

section \<open>Frames\<close>

text \<open>What a change of one table has to re-establish.\<close>

lemmas gen_wf_unfold = gen_wf_def wf_parts log_wf_def we_keys_def run_events_def

lemma gen_wf_workflow_tasks_seq:
  "gen_wf C K d \<Longrightarrow> wt_wf (d\<lparr>workflow_tasks := rows, wt_seq := n\<rparr>) \<Longrightarrow>
   gen_wf C K (d\<lparr>workflow_tasks := rows, wt_seq := n\<rparr>)"
  by (simp add: gen_wf_unfold)

lemma gen_wf_activity_tasks_seq:
  "gen_wf C K d \<Longrightarrow> at_wf (d\<lparr>activity_tasks := rows, at_seq := n\<rparr>) \<Longrightarrow>
   gen_wf C K (d\<lparr>activity_tasks := rows, at_seq := n\<rparr>)"
  by (simp add: gen_wf_unfold)

lemma gen_wf_query_tasks_seq:
  "gen_wf C K d \<Longrightarrow> qt_wf (d\<lparr>query_tasks := rows, qt_seq := n\<rparr>) \<Longrightarrow>
   gen_wf C K (d\<lparr>query_tasks := rows, qt_seq := n\<rparr>)"
  by (simp add: gen_wf_unfold)

lemma gen_wf_timers: "gen_wf C K d \<Longrightarrow> tm_wf (d\<lparr>timers := rows\<rparr>) \<Longrightarrow> gen_wf C K (d\<lparr>timers := rows\<rparr>)"
  by (simp add: gen_wf_unfold)

lemma gen_wf_current_executions:
  "gen_wf C K d \<Longrightarrow> ce_wf C' (d\<lparr>current_executions := rows\<rparr>) \<Longrightarrow>
   gen_wf C' K (d\<lparr>current_executions := rows\<rparr>)"
  by (simp add: gen_wf_unfold)

lemma we_keys_frame [simp]:
  "we_keys (d\<lparr>workflow_tasks := a\<rparr>) = we_keys d" "we_keys (d\<lparr>wt_seq := n\<rparr>) = we_keys d"
  "we_keys (d\<lparr>activity_tasks := b\<rparr>) = we_keys d" "we_keys (d\<lparr>at_seq := n\<rparr>) = we_keys d"
  "we_keys (d\<lparr>query_tasks := c\<rparr>) = we_keys d" "we_keys (d\<lparr>qt_seq := n\<rparr>) = we_keys d"
  "we_keys (d\<lparr>timers := e\<rparr>) = we_keys d" "we_keys (d\<lparr>current_executions := f\<rparr>) = we_keys d"
  by (simp_all add: we_keys_def)

text \<open>A change of one task table that keeps its leases, its ids and the runs of its rows.\<close>

lemma gen_wf_workflow_tasks:
  assumes "gen_wf C K d" and "wtq.leases_wf rows"
    and "\<And>t. t \<in> set rows \<Longrightarrow> \<exists>t0 \<in> set (workflow_tasks d). wt_task_id t = wt_task_id t0 \<and> wt_run t = wt_run t0"
  shows "gen_wf C K (d\<lparr>workflow_tasks := rows\<rparr>)"
proof -
  have "wt_wf (d\<lparr>workflow_tasks := rows, wt_seq := wt_seq d\<rparr>)"
    using assms by (fastforce simp: gen_wf_def wt_wf_def)
  from gen_wf_workflow_tasks_seq [OF assms(1) this] show ?thesis by simp
qed

lemma gen_wf_activity_tasks:
  assumes "gen_wf C K d" and "atq.leases_wf rows"
    and "\<And>t. t \<in> set rows \<Longrightarrow> \<exists>t0 \<in> set (activity_tasks d). at_task_id t = at_task_id t0 \<and> at_run t = at_run t0 \<and>
           at_attempt t0 \<le> at_attempt t \<and> at_start_to_close_timeout_ns t = at_start_to_close_timeout_ns t0"
  shows "gen_wf C K (d\<lparr>activity_tasks := rows\<rparr>)"
proof -
  have "at_wf (d\<lparr>activity_tasks := rows, at_seq := at_seq d\<rparr>)"
    using assms by (fastforce simp: gen_wf_def at_wf_def)
  from gen_wf_activity_tasks_seq [OF assms(1) this] show ?thesis by simp
qed

lemma gen_wf_query_tasks:
  assumes "gen_wf C K d" and "qtq.leases_wf rows"
    and "\<And>t. t \<in> set rows \<Longrightarrow> \<exists>t0 \<in> set (query_tasks d). qt_task_id t = qt_task_id t0 \<and> qt_run t = qt_run t0"
  shows "gen_wf C K (d\<lparr>query_tasks := rows\<rparr>)"
proof -
  have "qt_wf (d\<lparr>query_tasks := rows, qt_seq := qt_seq d\<rparr>)"
    using assms by (fastforce simp: gen_wf_def qt_wf_def)
  from gen_wf_query_tasks_seq [OF assms(1) this] show ?thesis by simp
qed

section \<open>Queries\<close>

lemma gen_wf_weaken_ce: "gen_wf C K d \<Longrightarrow> C \<subseteq> C' \<Longrightarrow> gen_wf C' K d"
  by (auto simp: gen_wf_def ce_wf_def)

lemma gen_wf_we_keys_upd:
  assumes "gen_wf C K d"
    and keys: "map we_key (workflow_executions d') = map we_key (workflow_executions d)"
    and tables: "d' = d\<lparr>workflow_executions := workflow_executions d'\<rparr>"
    and log: "log_wf d'" and we: "we_wf d'"
  shows "gen_wf C K d'"
proof -
  have k: "we_keys d' = we_keys d" unfolding we_keys_def using keys by (metis list.set_map)
  have "run_events k d' = run_events k d" for k
    by (subst tables) (simp add: run_events_def)
  moreover have "namespaces d' = namespaces d" "ns_seq d' = ns_seq d" "current_executions d' = current_executions d"
      "workflow_tasks d' = workflow_tasks d" "wt_seq d' = wt_seq d" "activity_tasks d' = activity_tasks d"
      "at_seq d' = at_seq d" "query_tasks d' = query_tasks d" "qt_seq d' = qt_seq d" "timers d' = timers d"
    by (subst tables, simp)+
  ultimately show ?thesis
    using assms(1) k log we by (simp add: gen_wf_def ns_wf_def started_wf_def ce_wf_def wt_wf_def at_wf_def qt_wf_def tm_wf_def)
qed

text \<open>An \<open>UPDATE\<close> of executions that leaves keys and counters alone.\<close>

lemma gen_wf_update_we:
  assumes wf: "gen_wf C K d"
    and f: "\<And>r. we_key (f r) = we_key r" "\<And>r. we_next_event_id (f r) = we_next_event_id r"
      "\<And>r. we_status r \<in> set valid_statuses \<Longrightarrow> we_status (f r) \<in> set valid_statuses"
  shows "gen_wf C K (d\<lparr>workflow_executions := sql_update P f (workflow_executions d)\<rparr>)"
    (is "gen_wf C K ?d")
proof (rule gen_wf_we_keys_upd [OF wf])
  show keys: "map we_key (workflow_executions ?d) = map we_key (workflow_executions d)"
    using f(1) by (simp add: map_sql_update)
  have "we_keys ?d = we_keys d" unfolding we_keys_def using keys by (metis list.set_map)
  then show "log_wf ?d"
    using wf keys f(1,2) by (auto simp: gen_wf_def log_wf_def set_sql_update run_events_def split: if_splits)
  have "we_namespace_id (f r) = we_namespace_id r" for r
    using f(1) [of r] by (simp add: we_key_def)
  then show "we_wf ?d"
    using wf f(3) by (auto simp: gen_wf_def we_wf_def set_sql_update split: if_splits)
qed simp

lemma CloseWorkflowExecution_wf:
  "succ (gen_wf C K) (q_CloseWorkflowExecution now k st) (\<lambda>_. gen_wf C K)"
  by (rule succI) (auto simp: q_CloseWorkflowExecution_def split: if_splits intro!: gen_wf_update_we)

lemma SetStickyExecution_wf:
  "gen_wf C K d \<Longrightarrow> gen_wf C K (snd (q_SetStickyExecution now k w e d))"
  by (auto simp: q_SetStickyExecution_def intro!: gen_wf_update_we)

lemma GetWorkflowExecution_wf:
  "succ P (q_GetWorkflowExecution k) (\<lambda>we d. P d \<and> find_we k d = Some we)"
  by (rule succI) (auto simp: q_GetWorkflowExecution_eq split: option.splits)

lemma find_we_key: "find_we k d = Some r \<Longrightarrow> k \<in> we_keys d"
  using find_we_None [of k d] by auto

lemma EnqueueWorkflowTask_wf:
  assumes "gen_wf C K d" and "(ep_namespace_id p, ep_workflow_id p, ep_run_id p) \<in> we_keys d"
  shows "gen_wf C K (snd (q_EnqueueWorkflowTask now p d))"
proof -
  have "wt_seq d \<notin> wt_task_id ` set (workflow_tasks d)"
    using assms(1) by (auto simp: gen_wf_def wt_wf_def)
  then have "wtq.leases_wf (workflow_tasks d @ [new_wt_row now p (wt_seq d)])"
    using assms(1) by (intro wtq.append_wf) (auto simp: gen_wf_def wt_wf_def new_wt_row_def)
  with assms have "wt_wf (d\<lparr>workflow_tasks := workflow_tasks d @ [new_wt_row now p (wt_seq d)], wt_seq := wt_seq d + 1\<rparr>)"
    by (fastforce simp: gen_wf_def wt_wf_def new_wt_row_def wt_run_def)
  then show ?thesis
    using assms(1) by (simp add: q_EnqueueWorkflowTask_def gen_wf_workflow_tasks_seq)
qed

lemma EnqueueActivityTask_wf:
  "succ (\<lambda>d. gen_wf C K d \<and> (ap_namespace_id p, ap_workflow_id p, ap_run_id p) \<in> we_keys d \<and>
           0 < ap_start_to_close_timeout_ns p)
     (q_EnqueueActivityTask now p) (\<lambda>_. gen_wf C K)"
proof (rule succI, elim conjE)
  fix d x d'
  assume wf: "gen_wf C K d" and run: "(ap_namespace_id p, ap_workflow_id p, ap_run_id p) \<in> we_keys d"
    and pos: "0 < ap_start_to_close_timeout_ns p" and q: "q_EnqueueActivityTask now p d = (Inr x, d')"
  from q obtain inp types where d': "d' = d\<lparr>activity_tasks := activity_tasks d @ [new_at_row now p (at_seq d) inp types],
      at_seq := at_seq d + 1\<rparr>"
    by (auto simp: q_EnqueueActivityTask_def split: option.splits)
  have "at_seq d \<notin> at_task_id ` set (activity_tasks d)"
    using wf by (auto simp: gen_wf_def at_wf_def)
  then have "atq.leases_wf (activity_tasks d @ [new_at_row now p (at_seq d) inp types])"
    using wf by (intro atq.append_wf) (auto simp: gen_wf_def at_wf_def new_at_row_def)
  with wf run pos have "at_wf d'"
    by (fastforce simp: d' gen_wf_def at_wf_def new_at_row_def at_run_def)
  then show "gen_wf C K d'"
    using wf unfolding d' by (intro gen_wf_activity_tasks_seq)
qed

lemma InsertTimer_wf:
  "succ (\<lambda>d. gen_wf C K d \<and> tm_run r \<in> we_keys d) (q_InsertTimer r) (\<lambda>_. gen_wf C K)"
proof (rule succI, elim conjE)
  fix d x d'
  assume wf: "gen_wf C K d" and run: "tm_run r \<in> we_keys d" and q: "q_InsertTimer r d = (Inr x, d')"
  then have d': "d' = d\<lparr>timers := timers d @ [r]\<rparr>" and "\<forall>t \<in> set (timers d). tm_key t \<noteq> tm_key r"
    by (auto simp: q_InsertTimer_def find_None_iff split: if_splits)
  with wf run have "tm_wf d'"
    by (force simp: gen_wf_def tm_wf_def)
  with wf show "gen_wf C K d'" unfolding d' by (rule gen_wf_timers)
qed

lemma row_fields [simp]:
  "wt_run (wt_grant s u n t) = wt_run t" "wt_run (wt_release t) = wt_run t"
  "at_run (at_grant u n t') = at_run t'" "at_run (at_release t') = at_run t'"
  "at_attempt (at_grant u n t') = at_attempt t'" "at_attempt (at_release t') = at_attempt t'"
  "at_start_to_close_timeout_ns (at_grant u n t') = at_start_to_close_timeout_ns t'"
  "at_start_to_close_timeout_ns (at_release t') = at_start_to_close_timeout_ns t'"
  "at_run (at_retry n b t') = at_run t'" "at_task_id (at_retry n b t') = at_task_id t'"
  "at_attempt (at_retry n b t') = at_attempt t' + 1"
  "at_start_to_close_timeout_ns (at_retry n b t') = at_start_to_close_timeout_ns t'"
  "qt_run (qt_grant s u n q) = qt_run q" "qt_run (qt_release q) = qt_run q"
  by (simp_all add: wt_grant_def wt_release_def at_grant_def at_release_def at_retry_def qt_grant_def
      qt_release_def wt_run_def at_run_def qt_run_def)

lemma gen_wf_leases:
  "gen_wf C K d \<Longrightarrow> wtq.leases_wf (workflow_tasks d)"
  "gen_wf C K d \<Longrightarrow> atq.leases_wf (activity_tasks d)"
  "gen_wf C K d \<Longrightarrow> qtq.leases_wf (query_tasks d)"
  by (simp_all add: gen_wf_def wt_wf_def at_wf_def qt_wf_def)

lemma wt_update_wf:
  assumes "gen_wf C K d" and "wtq.leases_wf (sql_update P f (workflow_tasks d))"
    and "\<And>t. wt_task_id (f t) = wt_task_id t" "\<And>t. wt_run (f t) = wt_run t"
  shows "gen_wf C K (d\<lparr>workflow_tasks := sql_update P f (workflow_tasks d)\<rparr>)"
  using assms(1,2) by (rule gen_wf_workflow_tasks) (auto simp: set_sql_update assms(3,4))

lemma at_update_wf:
  assumes "gen_wf C K d" and "atq.leases_wf (sql_update P f (activity_tasks d))"
    and "\<And>t. at_task_id (f t) = at_task_id t" "\<And>t. at_run (f t) = at_run t"
      "\<And>t. at_attempt t \<le> at_attempt (f t)"
      "\<And>t. at_start_to_close_timeout_ns (f t) = at_start_to_close_timeout_ns t"
  shows "gen_wf C K (d\<lparr>activity_tasks := sql_update P f (activity_tasks d)\<rparr>)"
  using assms(1,2) by (rule gen_wf_activity_tasks) (auto simp: set_sql_update assms(3-6))

lemma qt_update_wf:
  assumes "gen_wf C K d" and "qtq.leases_wf (sql_update P f (query_tasks d))"
    and "\<And>t. qt_task_id (f t) = qt_task_id t" "\<And>t. qt_run (f t) = qt_run t"
  shows "gen_wf C K (d\<lparr>query_tasks := sql_update P f (query_tasks d)\<rparr>)"
  using assms(1,2) by (rule gen_wf_query_tasks) (auto simp: set_sql_update assms(3,4))

lemma DequeueWorkflowTask_wf:
  assumes "gen_wf C K d" shows "gen_wf C K (snd (q_DequeueWorkflowTask now u lk secs q ns w ps d))"
proof (cases "lease_dequeue wt_task_id (wt_eligible now lk q ns w ps) (wt_grant secs u now) (workflow_tasks d)")
  case (Some p)
  obtain r rows where deq: "lease_dequeue wt_task_id (wt_eligible now lk q ns w ps) (wt_grant secs u now)
      (workflow_tasks d) = Some (r, rows)" using Some by (cases p) auto
  have "wtq.leases_wf rows" using gen_wf_leases(1) [OF assms] deq by (rule wtq.dequeue_wf)
  with deq show ?thesis
    by (auto simp: q_DequeueWorkflowTask_def intro!: wt_update_wf [OF assms] elim!: wtq.dequeue_SomeE)
qed (simp add: q_DequeueWorkflowTask_def assms)

lemma DequeueActivityTask_wf:
  assumes "gen_wf C K d" shows "gen_wf C K (snd (q_DequeueActivityTask now u lk q ns ps d))"
proof (cases "lease_dequeue at_task_id (at_eligible now lk q ns ps) (at_grant u now) (activity_tasks d)")
  case (Some p)
  obtain r rows where deq: "lease_dequeue at_task_id (at_eligible now lk q ns ps) (at_grant u now)
      (activity_tasks d) = Some (r, rows)" using Some by (cases p) auto
  have "atq.leases_wf rows" using gen_wf_leases(2) [OF assms] deq by (rule atq.dequeue_wf)
  with deq show ?thesis
    by (auto simp: q_DequeueActivityTask_def intro!: at_update_wf [OF assms] elim!: atq.dequeue_SomeE)
qed (simp add: q_DequeueActivityTask_def assms)

lemma DequeueQueryTask_wf:
  assumes "gen_wf C K d" shows "gen_wf C K (snd (q_DequeueQueryTask now u lk secs q ns d))"
proof (cases "lease_dequeue qt_task_id (qt_eligible now lk q ns) (qt_grant secs u now) (query_tasks d)")
  case (Some p)
  obtain r rows where deq: "lease_dequeue qt_task_id (qt_eligible now lk q ns) (qt_grant secs u now)
      (query_tasks d) = Some (r, rows)" using Some by (cases p) auto
  have "qtq.leases_wf rows" using gen_wf_leases(3) [OF assms] deq by (rule qtq.dequeue_wf)
  with deq show ?thesis
    by (auto simp: q_DequeueQueryTask_def intro!: qt_update_wf [OF assms] elim!: qtq.dequeue_SomeE)
qed (simp add: q_DequeueQueryTask_def assms)

lemma CompleteWorkflowTask_row_wf:
  "gen_wf C K d \<Longrightarrow> gen_wf C K (snd (q_CompleteWorkflowTask tid u d))"
  by (auto simp: q_CompleteWorkflowTask_def Let_def set_sql_delete
      intro!: gen_wf_workflow_tasks wtq.delete_wf gen_wf_leases)

lemma CompleteActivityTask_row_wf:
  "gen_wf C K d \<Longrightarrow> gen_wf C K (snd (q_CompleteActivityTask tid u d))"
  by (auto simp: q_CompleteActivityTask_def Let_def set_sql_delete
      intro!: gen_wf_activity_tasks atq.delete_wf gen_wf_leases)

lemma DeleteQueryTask_row_wf: "gen_wf C K d \<Longrightarrow> gen_wf C K (snd (q_DeleteQueryTask tid d))"
  by (auto simp: q_DeleteQueryTask_def set_sql_delete
      intro!: gen_wf_query_tasks qtq.delete_wf gen_wf_leases)

lemma RetryActivityTask_wf:
  "gen_wf C K d \<Longrightarrow> gen_wf C K (snd (q_RetryActivityTask now tid u b d))"
proof -
  assume wf: "gen_wf C K d"
  have "atq.leases_wf (sql_update (lease_match at_task_id at_lease_token tid u) (at_retry now b) (activity_tasks d))"
    using gen_wf_leases(2) [OF wf]
    by (auto simp: atq.leases_wf_def map_sql_update set_sql_update at_retry_def split: if_splits)
  with wf show ?thesis
    by (auto simp: q_RetryActivityTask_def Let_def intro!: at_update_wf)
qed

lemma answer_query_wf:
  assumes "gen_wf C K d" and "\<And>t. qt_task_id (f t) = qt_task_id t" "\<And>t. qt_run (f t) = qt_run t"
    "\<And>t. qt_status (f t) \<noteq> PENDING \<and> qt_status (f t) \<noteq> STARTED"
  shows "gen_wf C K (d\<lparr>query_tasks := sql_update P f (query_tasks d)\<rparr>)"
proof -
  have "qtq.leases_wf (sql_update P f (query_tasks d))"
    using gen_wf_leases(3) [OF assms(1)] assms(2,4)
    by (auto simp: qtq.leases_wf_def map_sql_update set_sql_update split: if_splits)
  with assms show ?thesis by (intro qt_update_wf)
qed

lemma AnswerQueryTask_wf:
  "gen_wf C K d \<Longrightarrow> gen_wf C K (snd (q_CompleteQueryTask tid u res d))"
  "gen_wf C K d \<Longrightarrow> gen_wf C K (snd (q_FailQueryTask tid u msg d))"
  by (auto simp: q_CompleteQueryTask_def q_FailQueryTask_def Let_def qt_run_def intro!: answer_query_wf)

lemma Reap_wf:
  "gen_wf C K d \<Longrightarrow> gen_wf C K (snd (q_ReapExpiredWorkflowTasks now d))"
  "gen_wf C K d \<Longrightarrow> gen_wf C K (snd (q_ReapExpiredActivityTasks now d))"
  "gen_wf C K d \<Longrightarrow> gen_wf C K (snd (q_ReapExpiredQueryTasks now d))"
  by (auto simp: q_ReapExpiredWorkflowTasks_def q_ReapExpiredActivityTasks_def q_ReapExpiredQueryTasks_def
      Let_def intro!: wt_update_wf at_update_wf qt_update_wf wtq.reap_wf atq.reap_wf qtq.reap_wf gen_wf_leases)

lemma EnqueueQueryTask_wf:
  assumes "gen_wf C K d" and "(ns, wid, rid) \<in> we_keys d"
  shows "gen_wf C K (snd (q_EnqueueQueryTask now ns q wid rid qt args d))"
proof (cases args)
  case None
  have "qt_wf (d\<lparr>query_tasks := query_tasks d, qt_seq := qt_seq d + 1\<rparr>)"
    using assms(1) by (fastforce simp: gen_wf_def qt_wf_def)
  from gen_wf_query_tasks_seq [OF assms(1) this] None show ?thesis by (simp add: q_EnqueueQueryTask_def)
next
  case (Some a)
  let ?r = "new_qt_row now (qt_seq d) ns q wid rid qt a"
  have "qt_seq d \<notin> qt_task_id ` set (query_tasks d)" using assms(1) by (auto simp: gen_wf_def qt_wf_def)
  then have "qtq.leases_wf (query_tasks d @ [?r])"
    using gen_wf_leases(3) [OF assms(1)] by (intro qtq.append_wf) (auto simp: new_qt_row_def)
  then have "qt_wf (d\<lparr>query_tasks := query_tasks d @ [?r], qt_seq := qt_seq d + 1\<rparr>)"
    using assms by (fastforce simp: gen_wf_def qt_wf_def new_qt_row_def qt_run_def)
  from gen_wf_query_tasks_seq [OF assms(1) this] Some show ?thesis
    by (simp add: q_EnqueueQueryTask_def Let_def)
qed

lemma DequeueDueTimer_wf:
  "succ (gen_wf C K) (q_DequeueDueTimer now lk)
     (\<lambda>t d. gen_wf C K d \<and> (tm_namespace_id t, tm_workflow_id t, tm_run_id t) \<in> we_keys d)"
proof (rule succI)
  fix d t d'
  assume wf: "gen_wf C K d" and q: "q_DequeueDueTimer now lk d = (Inr t, d')"
  then have t: "t \<in> set (timers d)" and d': "d' = d\<lparr>timers := sql_delete (\<lambda>x. tm_key x = tm_key t) (timers d)\<rparr>"
    by (auto simp: q_DequeueDueTimer_def split: option.splits dest: min_by_mem)
  have "tm_wf d'"
    using wf by (auto simp: d' gen_wf_def tm_wf_def set_sql_delete distinct_map_sql_delete)
  with wf have "gen_wf C K d'" unfolding d' by (rule gen_wf_timers)
  moreover have "tm_run t \<in> we_keys d'" using wf t by (auto simp: d' gen_wf_def tm_wf_def)
  ultimately show "gen_wf C K d' \<and> (tm_namespace_id t, tm_workflow_id t, tm_run_id t) \<in> we_keys d'"
    by (simp add: tm_run_def)
qed

lemma CreateNamespace_wf:
  assumes "gen_wf C K d" shows "gen_wf C K (snd (q_CreateNamespace now name d))"
proof -
  have "ns_seq d \<notin> ns_id ` set (namespaces d)" using assms by (auto simp: gen_wf_def ns_wf_def)
  with assms have "ns_wf (snd (q_CreateNamespace now name d)) \<and> we_wf (snd (q_CreateNamespace now name d))"
    by (fastforce simp: q_CreateNamespace_def Let_def gen_wf_def ns_wf_def we_wf_def find_None_iff)
  with assms show ?thesis
    by (simp add: q_CreateNamespace_def Let_def gen_wf_unfold)
qed

end
