(* ===== verification/Transactions.thy ===== *)
theory Transactions
  imports Invariant
begin

text \<open>
  Every transaction of the store keeps the database invariant: appends first, then the
  creation of a run, and from these the bodies of the operations.
\<close>

section \<open>Appending to a log\<close>

lemma opens_append: "opens rows \<Longrightarrow> opens (rows @ xs)"
proof -
  assume o: "opens rows"
  then have "length (take 2 (map he_event_type rows)) = 2" by (simp add: opens_def)
  then have "2 \<le> length (map he_event_type rows)" by simp
  then have "take 2 (map he_event_type (rows @ xs)) = take 2 (map he_event_type rows)" by simp
  with o show ?thesis by (simp add: opens_def)
qed

lemma opens_start:
  assumes "map NEType evs = [EV_WORKFLOW_EXECUTION_STARTED, EV_WORKFLOW_TASK_SCHEDULED]"
  shows "opens (map (event_row X now k) (zip (ids_from e (length evs)) evs))"
proof -
  have "map he_event_type (map (event_row X now k) (zip (ids_from e (length evs)) evs))
      = map (\<lambda>p. event_type_String (NEType (snd p))) (zip (ids_from e (length evs)) evs)"
    by (simp add: comp_def)
  also have "\<dots> = map event_type_String (map NEType (map snd (zip (ids_from e (length evs)) evs)))"
    by (simp only: map_map comp_def)
  also have "\<dots> = map event_type_String (map NEType evs)" by (simp only: map_snd_zip length_ids_from)
  finally show ?thesis using assms by (simp add: opens_def)
qed

lemma we_wf_appended: "we_wf d \<Longrightarrow> we_wf (appended X now k e evs d)"
  by (auto simp: we_wf_def appended_def advance_def set_sql_update split: if_splits)

lemma gen_wf_appended:
  assumes wf: "gen_wf C K d" and r: "find_we k d = Some r" "we_next_event_id r = e"
    and big: "bigint_ok (e + int (length evs))"
    and st: "started_wf K' (appended X now k e evs d)"
  shows "gen_wf C K' (appended X now k e evs d)"
proof -
  have "log_wf (appended X now k e evs d)"
    using log_wf_appended [OF _ r big] wf by (simp add: gen_wf_def)
  with wf st show ?thesis
    by (simp add: gen_wf_def we_wf_appended ns_wf_def ce_wf_def wt_wf_def at_wf_def qt_wf_def tm_wf_def)
qed

lemma started_wf_appended: "started_wf K d \<Longrightarrow> started_wf K (appended X now k e evs d)"
  by (auto simp: started_wf_def run_events_appended opens_append)

lemma AppendHistory_gen_wf:
  "succ (gen_wf C K) (AppendHistory X now k e evs) (\<lambda>_. gen_wf C K)"
proof (rule succI)
  fix d x d'
  assume wf: "gen_wf C K d" and app: "AppendHistory X now k e evs d = (Inr x, d')"
  show "gen_wf C K d'"
  proof (cases "evs = []")
    case True
    with wf app show ?thesis by (simp add: monad_simps)
  next
    case False
    have log: "log_wf d" and st: "started_wf K d" using wf by (simp_all add: gen_wf_def)
    from app obtain r where r: "find_we k d = Some r" "we_next_event_id r = e"
      and big: "bigint_ok (e + int (length evs))" and d': "d' = appended X now k e evs d"
      by (rule AppendHistory_succE [OF log False])
    show ?thesis unfolding d' by (rule gen_wf_appended [OF wf r big started_wf_appended [OF st]])
  qed
qed

lemma AppendHistory_start_wf:
  assumes "map NEType evs = [EV_WORKFLOW_EXECUTION_STARTED, EV_WORKFLOW_TASK_SCHEDULED]"
  shows "succ (\<lambda>d. gen_wf C (insert k K) d \<and> run_events k d = [] \<and> k \<in> we_keys d)
     (AppendHistory X now k e evs) (\<lambda>_ d. gen_wf C K d \<and> k \<in> we_keys d)"
proof (rule succI, elim conjE)
  fix d x d'
  assume wf: "gen_wf C (insert k K) d" and emp: "run_events k d = []" and k: "k \<in> we_keys d"
    and app: "AppendHistory X now k e evs d = (Inr x, d')"
  from assms have ne: "evs \<noteq> []" by auto
  have log: "log_wf d" using wf by (simp add: gen_wf_def)
  from app obtain r where r: "find_we k d = Some r" "we_next_event_id r = e"
    and big: "bigint_ok (e + int (length evs))" and d': "d' = appended X now k e evs d"
    by (rule AppendHistory_succE [OF log ne])
  have "started_wf K (appended X now k e evs d)"
    using wf emp opens_start [OF assms, of X now k e]
    by (auto simp: gen_wf_def started_wf_def run_events_appended opens_append)
  from gen_wf_appended [OF wf r big this] k show "gen_wf C K d' \<and> k \<in> we_keys d'" by (simp add: d')
qed

section \<open>Creating a run\<close>

lemma CreateWorkflowExecution_wf:
  "succ (gen_wf C K) (q_CreateWorkflowExecution now p)
     (\<lambda>_ d. let k = (cp_namespace_id p, cp_workflow_id p, cp_run_id p)
           in gen_wf (C - {k}) (insert k K) d \<and> run_events k d = [] \<and> k \<in> we_keys d)"
proof (rule succI, unfold Let_def)
  fix d x d'
  let ?r = "new_we_row now p" and ?k = "(cp_namespace_id p, cp_workflow_id p, cp_run_id p)"
  have key: "we_key ?r = ?k" by (simp add: we_key_def new_we_row_def)
  have nxt: "we_next_event_id ?r = 1" by (simp add: new_we_row_def)
  assume wf: "gen_wf C K d" and q: "q_CreateWorkflowExecution now p d = (Inr x, d')"
  then have d': "d' = d\<lparr>workflow_executions := workflow_executions d @ [?r]\<rparr>" and fresh: "?k \<notin> we_keys d"
    and ns: "cp_namespace_id p \<in> ns_id ` set (namespaces d)"
    by (auto simp: q_CreateWorkflowExecution_def Let_def we_keys_def find_None_iff find_Some_iff key
        split: if_splits dest: find_SomeD) (metis imageI)
  have keys: "we_keys d' = insert ?k (we_keys d)" by (simp add: d' we_keys_def key)
  have emp: "run_events ?k d = []"
    using wf fresh run_events_empty by (auto simp: gen_wf_def)
  have ev: "run_events k' d' = run_events k' d" for k' by (simp add: d' run_events_def)
  have "log_wf d'"
    using wf fresh emp ev keys
    by (auto simp: gen_wf_def log_wf_def d' key nxt we_keys_def bigint_ok_def)
  moreover have "we_wf d'"
    using wf ns by (auto simp: gen_wf_def we_wf_def d' new_we_row_def valid_statuses_def)
  moreover have "started_wf (insert ?k K) d'"
    using wf by (auto simp: gen_wf_def started_wf_def keys ev)
  moreover have "ce_wf (C - {?k}) d'"
    using wf keys by (auto simp: gen_wf_def ce_wf_def d')
  moreover have "ns_wf d' \<and> wt_wf d' \<and> at_wf d' \<and> qt_wf d' \<and> tm_wf d'"
    using wf keys by (auto simp: gen_wf_def ns_wf_def wt_wf_def at_wf_def qt_wf_def tm_wf_def d')
  ultimately show "gen_wf (C - {?k}) (insert ?k K) d' \<and> run_events ?k d' = [] \<and> ?k \<in> we_keys d'"
    using emp ev keys by (simp add: gen_wf_def)
qed

text \<open>The three statements by which start and continue-as-new create a run.\<close>

lemma create_run_wf:
  assumes k: "k = (cp_namespace_id p, cp_workflow_id p, cp_run_id p)"
      "k = (ep_namespace_id q, ep_workflow_id q, ep_run_id q)"
    and evs: "map NEType evs = [EV_WORKFLOW_EXECUTION_STARTED, EV_WORKFLOW_TASK_SCHEDULED]"
  shows "succ (gen_wf {k} {}) (bindM (q_CreateWorkflowExecution now p) (\<lambda>_.
     bindM (AppendHistory X now k 1 evs) (\<lambda>_. q_EnqueueWorkflowTask now q))) (\<lambda>_. db_wf)"
proof (rule succ_bind)
  show "succ (gen_wf {k} {}) (q_CreateWorkflowExecution now p)
      (\<lambda>_ d. gen_wf {} (insert k {}) d \<and> run_events k d = [] \<and> k \<in> we_keys d)"
    by (rule succ_post [OF CreateWorkflowExecution_wf]) (simp add: Let_def k(1))
  show "succ (\<lambda>d. gen_wf {} (insert k {}) d \<and> run_events k d = [] \<and> k \<in> we_keys d)
      (bindM (AppendHistory X now k 1 evs) (\<lambda>_. q_EnqueueWorkflowTask now q)) (\<lambda>_. db_wf)"
  proof (rule succ_bind [OF AppendHistory_start_wf [OF evs]])
    show "succ (\<lambda>d. gen_wf {} {} d \<and> k \<in> we_keys d) (q_EnqueueWorkflowTask now q) (\<lambda>_. db_wf)"
      by (rule succI) (metis EnqueueWorkflowTask_wf db_wf_def k(2) snd_conv)
  qed
qed

section \<open>Current executions\<close>

lemma ReplaceCurrentExecution_wf:
  assumes "gen_wf C K d"
  shows "gen_wf (insert (ns, wid, rid) C) K (snd (q_ReplaceCurrentExecution ns wid rid req d))"
proof -
  let ?rows = "sql_update (\<lambda>r. ce_key r = (ns, wid))
      (\<lambda>r. r\<lparr>ce_run_id := rid, ce_create_request_id := req\<rparr>) (current_executions d)"
  have "map ce_key ?rows = map ce_key (current_executions d)"
    by (rule map_sql_update) (simp add: ce_key_def)
  then have "ce_wf (insert (ns, wid, rid) C) (d\<lparr>current_executions := ?rows\<rparr>)"
    using assms
    by (auto simp: gen_wf_def ce_wf_def set_sql_update ce_run_def ce_key_def split: if_splits)
  with assms show ?thesis
    by (simp add: q_ReplaceCurrentExecution_def gen_wf_current_executions)
qed

lemma InsertCurrentExecution_wf:
  "succ (gen_wf {} K) (q_InsertCurrentExecution ns wid rid req)
     (\<lambda>n d. gen_wf (if n = 0 then {} else {(ns, wid, rid)}) K d)"
proof (rule succI)
  fix d n d'
  assume wf: "gen_wf {} K d" and q: "q_InsertCurrentExecution ns wid rid req d = (Inr n, d')"
  show "gen_wf (if n = 0 then {} else {(ns, wid, rid)}) K d'"
  proof (cases "n = 0")
    case True
    with wf q show ?thesis by (auto simp: q_InsertCurrentExecution_def split: if_splits)
  next
    case False
    let ?c = "\<lparr>ce_namespace_id = ns, ce_workflow_id = wid, ce_run_id = rid, ce_create_request_id = req\<rparr>"
    from q False have d': "d' = d\<lparr>current_executions := current_executions d @ [?c]\<rparr>"
      and "\<forall>r \<in> set (current_executions d). ce_key r \<noteq> (ns, wid)"
      by (auto simp: q_InsertCurrentExecution_def find_None_iff split: if_splits)
    with wf have "ce_wf {(ns, wid, rid)} d'"
      by (force simp: gen_wf_def ce_wf_def ce_run_def ce_key_def)
    with wf False show ?thesis unfolding d' by (simp add: gen_wf_current_executions)
  qed
qed

lemma succ_get: "succ (gen_wf C K) (q_GetWorkflowExecution k) (\<lambda>_. gen_wf C K)"
  by (rule succ_post [OF GetWorkflowExecution_wf]) simp

lemma start_existing_wf:
  "succ (gen_wf {} K) (start_existing nsID rid p) (\<lambda>_. gen_wf {(nsID, sp_WorkflowID p, rid)} K)"
proof -
  have get: "succ (gen_wf {} K) (q_GetCurrentExecution nsID (sp_WorkflowID p)) (\<lambda>_. gen_wf {} K)"
    by (rule succI) (auto simp: q_GetCurrentExecution_def split: option.splits)
  have "succ (gen_wf {} K) (q_ReplaceCurrentExecution nsID (sp_WorkflowID p) rid req)
      (\<lambda>_. gen_wf {(nsID, sp_WorkflowID p, rid)} K)" for req
    by (rule succI) (metis ReplaceCurrentExecution_wf snd_conv)
  then show ?thesis
    unfolding start_existing_def
    by (intro succ_bind [OF get] succ_if succ_throw succ_bind [OF succ_get])
qed

section \<open>The bodies\<close>

theorem start_tx_wf: "succ db_wf (start_tx X S now nsID rid p) (\<lambda>_. db_wf)"
proof -
  let ?k = "(nsID, sp_WorkflowID p, rid)"
  have evs: "map NEType (start_events p) = [EV_WORKFLOW_EXECUTION_STARTED, EV_WORKFLOW_TASK_SCHEDULED]"
    by (simp add: start_events_def)
  have ex: "succ (gen_wf (if n = 0 then {} else {?k}) {})
      (if n = 0 then start_existing nsID rid p else ret ()) (\<lambda>_. gen_wf {?k} {})" for n :: nat
    by (auto intro: start_existing_wf succ_ret)
  show ?thesis
    unfolding start_tx_def db_wf_def
    by (rule succ_bind [OF InsertCurrentExecution_wf], rule succ_bind [OF ex],
        rule create_run_wf [OF _ _ evs, unfolded db_wf_def]) simp_all
qed

lemma wake_run_wf: "succ (gen_wf C K) (wake_run X S now gonow k ev) (\<lambda>_. gen_wf C K)"
proof -
  have enq: "succ (\<lambda>d. gen_wf C K d \<and> k \<in> we_keys d) (enqueue_wake S now gonow k we i) (\<lambda>_. gen_wf C K)" for we i
    by (rule succI, unfold enqueue_wake_def Let_def) (drule arg_cong [of _ _ snd], auto intro!: EnqueueWorkflowTask_wf)
  have app: "succ (\<lambda>d. gen_wf C K d \<and> find_we k d = Some we) (AppendHistory X now k e evs)
      (\<lambda>_ d. gen_wf C K d \<and> k \<in> we_keys d)" if "evs \<noteq> []" for we e evs
  proof (rule succI, elim conjE)
    fix d x d'
    assume wf: "gen_wf C K d" "find_we k d = Some we" and a: "AppendHistory X now k e evs d = (Inr x, d')"
    have "log_wf d" using wf(1) by (simp add: gen_wf_def)
    from this that a have "we_keys d' = we_keys d" by (rule AppendHistory_succE) simp
    with find_we_key [OF wf(2)] succD [OF AppendHistory_gen_wf wf(1) a] show "gen_wf C K d' \<and> k \<in> we_keys d'" by auto
  qed
  show ?thesis
    unfolding wake_run_def
    by (intro succ_bind [OF GetWorkflowExecution_wf [of "gen_wf C K"]] succ_bind [OF app] succ_bind [OF enq] succ_ret)
      simp_all
qed

lemma resolve_run_wf: "succ P (resolve_run nsID wid rid) (\<lambda>_. P)"
  by (rule succI)
    (auto simp: resolve_run_def monad_simps q_GetCurrentExecution_def split: if_splits option.splits)

lemma signal_tx_wf: "succ (gen_wf C K) (signal_tx X S now gonow nsID p) (\<lambda>_. gen_wf C K)"
  unfolding signal_tx_def by (intro succ_bind [OF resolve_run_wf] wake_run_wf)

lemma cancel_tx_wf: "succ (gen_wf C K) (cancel_tx X S now gonow nsID p) (\<lambda>_. gen_wf C K)"
  unfolding cancel_tx_def by (intro succ_bind [OF resolve_run_wf] wake_run_wf)

lemma terminate_tx_wf: "succ (gen_wf C K) (terminate_tx X now nsID wid rid reason) (\<lambda>_. gen_wf C K)"
  unfolding terminate_tx_def
  by (intro succ_bind [OF resolve_run_wf] succ_bind [OF succ_get] succ_bind [OF AppendHistory_gen_wf]
      CloseWorkflowExecution_wf)

lemma task_started_tx_wf: "succ (gen_wf C K) (task_started_tx X now k ev) (\<lambda>_. gen_wf C K)"
  unfolding task_started_tx_def
  by (intro succ_bind [OF succ_get] succ_bind [OF AppendHistory_gen_wf] succ_ret)

lemma succ_row: "(\<And>d. gen_wf C K d \<Longrightarrow> gen_wf C K (snd (m d))) \<Longrightarrow> succ (gen_wf C K) m (\<lambda>_. gen_wf C K)"
  by (rule succI) (metis snd_conv)

lemma complete_activity_tx_wf:
  "succ (gen_wf C K) (complete_activity_tx X S now gonow token res) (\<lambda>_. gen_wf C K)"
proof -
  have get: "succ (gen_wf C K) (q_GetActivityTaskByLease i u) (\<lambda>_. gen_wf C K)" for i u
    by (rule succI) (auto simp: q_GetActivityTaskByLease_def split: option.splits)
  have del: "succ (gen_wf C K) (q_CompleteActivityTask i u) (\<lambda>_. gen_wf C K)" for i u
    by (rule succ_row) (rule CompleteActivityTask_row_wf)
  have "succ (gen_wf C K) (completeActivityTaskRow X token) (\<lambda>_. gen_wf C K)"
    unfolding completeActivityTaskRow_def Let_def
    by (rule succ_bind [OF succ_mapErr [OF get]], rule succ_bind [OF del])
      (intro succ_if succ_throw succ_ret)
  then show ?thesis
    unfolding complete_activity_tx_def by (rule succ_bind) (rule wake_run_wf)
qed

lemma fail_activity_tx_wf:
  "succ (gen_wf C K) (fail_activity_tx X S now gonow token row f) (\<lambda>_. gen_wf C K)"
  unfolding fail_activity_tx_def
  by (intro succ_bind [OF succ_row] CompleteActivityTask_row_wf succ_if succ_throw wake_run_wf)

lemma fire_tx_wf: "succ (gen_wf C K) (fire_tx X S E) (\<lambda>_. gen_wf C K)"
proof (rule succI)
  fix d x d'
  assume wf: "gen_wf C K d" and f: "fire_tx X S E d = (Inr x, d')"
  show "gen_wf C K d'"
  proof (cases "q_DequeueDueTimer (db_now E 0) (locked_timers E) d")
    case (Pair r d1)
    show ?thesis
    proof (cases r)
      case (Inl e)
      then have "d1 = d" using Pair by (auto simp: q_DequeueDueTimer_def split: option.splits)
      with wf f Pair Inl show ?thesis by (auto simp: fire_tx_def split: if_splits)
    next
      case (Inr t)
      with succD [OF DequeueDueTimer_wf wf] Pair have wf1: "gen_wf C K d1" by blast
      from f Pair Inr obtain y where "wake_run X S (db_now E 0) (go_now E 0)
          (tm_namespace_id t, tm_workflow_id t, tm_run_id t)
          (newEvent EV_TIMER_FIRED (TimerFired (tm_timer_id t))) d1 = (Inr y, d')"
        by (auto simp: fire_tx_def monad_simps split: prod.splits sum.splits)
      from succD [OF wake_run_wf wf1 this] show ?thesis .
    qed
  qed
qed

end
