(* ===== verification/System.thy ===== *)
theory System
  imports Transactions
begin

text \<open>
  The store as a state machine over the database. A step is one committed or rolled-back
  transaction, or one stand-alone statement, of any operation with any arguments: the
  operations of concurrent servers interleave at this granularity. Reachable databases are
  well-formed, and no step changes or removes an event.
\<close>

section \<open>What never shrinks\<close>

definition seq_le :: "'b db \<Rightarrow> 'b db \<Rightarrow> bool" where
  "seq_le d d' \<longleftrightarrow> ns_seq d \<le> ns_seq d' \<and> wt_seq d \<le> wt_seq d' \<and> at_seq d \<le> at_seq d' \<and> qt_seq d \<le> qt_seq d'"

definition log_ext :: "'b db \<Rightarrow> 'b db \<Rightarrow> bool" where
  "log_ext d d' \<longleftrightarrow> (\<exists>xs. history_events d' = history_events d @ xs) \<and> we_keys d \<subseteq> we_keys d'"

text \<open>A task row keeps its id and its run; the ids of new rows are new.\<close>

definition at_names :: "'b at_row \<Rightarrow> int \<times> run_key" where
  "at_names r = (at_task_id r, at_run r)"

definition wt_names :: "wt_row \<Rightarrow> int \<times> run_key" where
  "wt_names r = (wt_task_id r, wt_run r)"

definition rows_ext :: "'b db \<Rightarrow> 'b db \<Rightarrow> bool" where
  "rows_ext d d' \<longleftrightarrow>
     at_names ` set (activity_tasks d') \<subseteq> at_names ` set (activity_tasks d) \<union> {p. at_seq d \<le> fst p} \<and>
     wt_names ` set (workflow_tasks d') \<subseteq> wt_names ` set (workflow_tasks d) \<union> {p. wt_seq d \<le> fst p}"

definition grows :: "'b db \<Rightarrow> 'b db \<Rightarrow> bool" where
  "grows d d' \<longleftrightarrow> seq_le d d' \<and> log_ext d d' \<and> rows_ext d d'"

lemma grows_refl [simp]: "grows d d"
  by (simp add: grows_def seq_le_def log_ext_def rows_ext_def)

lemma new_ids_trans:
  "A \<subseteq> B \<union> {p. n \<le> fst p} \<Longrightarrow> B \<subseteq> C \<union> {p. m \<le> fst p} \<Longrightarrow> m \<le> n \<Longrightarrow> A \<subseteq> C \<union> {p. m \<le> fst p}"
  for n m :: int
  by force

lemma grows_trans: "grows d d' \<Longrightarrow> grows d' d'' \<Longrightarrow> grows d d''"
proof -
  assume g: "grows d d'" "grows d' d''"
  then have "seq_le d d''" "log_ext d d''" by (auto simp: grows_def seq_le_def log_ext_def)
  moreover have "rows_ext d d''"
    using g unfolding grows_def rows_ext_def seq_le_def
    by (elim conjE, intro conjI) (erule (1) new_ids_trans, assumption)+
  ultimately show ?thesis by (simp add: grows_def)
qed

lemma keeps_growsI: "(\<And>d. grows d (snd (m d))) \<Longrightarrow> keeps (grows d0) m"
  by (rule keepsI) (blast intro: grows_trans)

lemma we_keys_sql_update: "(\<And>r. we_key (f r) = we_key r) \<Longrightarrow>
   we_keys (d\<lparr>workflow_executions := sql_update P f (workflow_executions d)\<rparr>) = we_keys d"
  unfolding we_keys_def by simp (metis list.set_map map_sql_update)

lemma names_update [simp]:
  "at_names (at_grant u now t) = at_names t" "at_names (at_release t) = at_names t"
  "at_names (at_retry now b t) = at_names t"
  "wt_names (wt_grant secs u now w) = wt_names w" "wt_names (wt_release w) = wt_names w"
  by (simp_all add: at_names_def wt_names_def at_run_def wt_run_def at_grant_def at_release_def at_retry_def
      wt_grant_def wt_release_def)

lemma rows_update: "(\<And>t. f (g t) = f t) \<Longrightarrow> f ` set (sql_update P g rows) = f ` set rows"
  by (metis list.set_map map_sql_update)

lemma rows_dequeue: "lease_dequeue tid elig g rows = Some (r, rows') \<Longrightarrow> (\<And>t. f (g t) = f t) \<Longrightarrow>
  f ` set rows' = f ` set rows"
  by (clarsimp simp: lease_dequeue_def split: option.splits) (rule rows_update, simp)

lemma rows_new:
  "at_names (new_at_row now p i inp types) = (i, ap_namespace_id p, ap_workflow_id p, ap_run_id p)"
  "wt_names (new_wt_row now q i) = (i, ep_namespace_id q, ep_workflow_id q, ep_run_id q)"
  by (simp_all add: at_names_def wt_names_def at_run_def wt_run_def new_at_row_def new_wt_row_def)

lemmas grows_defs = grows_def seq_le_def log_ext_def rows_ext_def

lemma keeps_grows_tasks:
  "keeps (grows d0) (q_EnqueueWorkflowTask now ep)"
  "keeps (grows d0) (q_CompleteWorkflowTask tid u)"
  "keeps (grows d0) (q_DequeueWorkflowTask now u0 lk secs q ns w ps)"
  "keeps (grows d0) (q_ReapExpiredWorkflowTasks now)"
  "keeps (grows d0) (q_EnqueueActivityTask now ap)"
  "keeps (grows d0) (q_CompleteActivityTask tid u)"
  "keeps (grows d0) (q_RetryActivityTask now tid u b)"
  "keeps (grows d0) (q_DequeueActivityTask now u0 lk q ns ps)"
  "keeps (grows d0) (q_ReapExpiredActivityTasks now)"
  by (rule keeps_growsI; simp add: grows_defs we_keys_def Let_def rows_new rows_update set_sql_delete q_EnqueueWorkflowTask_def
      q_CompleteWorkflowTask_def q_DequeueWorkflowTask_def q_ReapExpiredWorkflowTasks_def q_EnqueueActivityTask_def
      q_CompleteActivityTask_def q_RetryActivityTask_def q_DequeueActivityTask_def q_ReapExpiredActivityTasks_def
      split: option.split prod.split; auto simp: rows_dequeue [where f = at_names] rows_dequeue [where f = wt_names])+

lemma keeps_grows_queries:
  "keeps (grows d0) (q_InsertCurrentExecution ns wid rid req)"
  "keeps (grows d0) (q_GetCurrentExecution ns wid)"
  "keeps (grows d0) (q_ReplaceCurrentExecution ns wid rid req)"
  "keeps (grows d0) (q_GetWorkflowExecution k)"
  "keeps (grows d0) (q_InsertTimer tr)"
  "keeps (grows d0) (q_GetActivityTaskByLease tid u)"
  "keeps (grows d0) (q_DequeueDueTimer now tlk)"
  "keeps (grows d0) (q_DequeueQueryTask now u0 lk secs q ns)"
  "keeps (grows d0) (q_EnqueueQueryTask now ns q wid rid qt args)"
  "keeps (grows d0) (q_CompleteQueryTask tid u res)"
  "keeps (grows d0) (q_FailQueryTask tid u msg)"
  "keeps (grows d0) (q_DeleteQueryTask tid)"
  "keeps (grows d0) (q_ReapExpiredQueryTasks now)"
  by (rule keeps_growsI; simp add: grows_defs we_keys_def Let_def q_InsertCurrentExecution_def
      q_GetCurrentExecution_def q_ReplaceCurrentExecution_def q_GetWorkflowExecution_def
      q_InsertTimer_def
      q_GetActivityTaskByLease_def
      q_DequeueDueTimer_def q_DequeueQueryTask_def
      q_EnqueueQueryTask_def q_CompleteQueryTask_def q_FailQueryTask_def q_DeleteQueryTask_def
      q_ReapExpiredQueryTasks_def
      split: option.split prod.split)+

lemma keeps_grows_namespace: "keeps (grows d0) (q_CreateNamespace now name)"
  by (rule keeps_growsI) (auto simp: q_CreateNamespace_def Let_def grows_defs we_keys_def)

lemma keeps_grows_create: "keeps (grows d0) (q_CreateWorkflowExecution now p)"
  by (rule keeps_growsI) (auto simp: q_CreateWorkflowExecution_def Let_def grows_defs we_keys_def)

lemma keeps_grows_close: "keeps (grows d0) (q_CloseWorkflowExecution now k st)"
  by (rule keeps_growsI) (simp add: q_CloseWorkflowExecution_def grows_defs we_keys_sql_update)

lemma keeps_grows_sticky: "keeps (grows d0) (q_SetStickyExecution now k w e)"
  by (rule keeps_growsI) (simp add: q_SetStickyExecution_def grows_defs we_keys_sql_update)

lemma keeps_grows_append: "keeps (grows d0) (AppendHistory X now k e evs)"
proof -
  have "keeps (grows d0) (insert_event X now k p)" for p
    by (rule keeps_growsI)
      (auto simp: insert_event_def q_InsertHistoryEvent_def monad_simps grows_defs we_keys_def split: option.split)
  moreover have "keeps (grows d0) (q_AdvanceNextEventID now k n e)" for n
    by (rule keeps_growsI) (simp add: q_AdvanceNextEventID_def grows_defs we_keys_sql_update split: option.split)
  ultimately show ?thesis
    unfolding AppendHistory_def by (intro keeps_if keeps_bindM keeps_mapErr keeps_forM keeps_ret)
qed

lemma keeps_liftE [intro, simp]: "keeps I (liftE r)"
  by (simp add: keeps_def monad_simps)

lemmas keeps_grows =
  keeps_grows_tasks keeps_grows_queries keeps_grows_namespace keeps_grows_create keeps_grows_close keeps_grows_sticky
  keeps_grows_append

lemma keeps_grows_start: "keeps (grows d0) (start_tx X S now ns rid p)"
  unfolding start_tx_def start_existing_def
  by (intro keeps_bindM keeps_if keeps_grows keeps_ret keeps_throw)

section \<open>What the queries keep, the bodies keep\<close>

text \<open>
  A property of the database that the single queries keep is kept by the bodies of the transactions composed of them. Only
  the queries that open, close or complete are left to the clients of the interface.
\<close>

locale kept_by_queries =
  fixes I :: "'b db \<Rightarrow> bool"
  assumes kept_current: "keeps I (q_GetCurrentExecution ns wid)"
    and kept_execution: "keeps I (q_GetWorkflowExecution k)"
    and kept_append: "keeps I (AppendHistory X now k e evs)"
    and kept_task: "keeps I (q_EnqueueWorkflowTask now ep)"
    and kept_activity: "keeps I (q_EnqueueActivityTask now ap)"
    and kept_activity_done: "keeps I (q_CompleteActivityTask tid u)"
    and kept_activity_lease: "keeps I (q_GetActivityTaskByLease tid u)"
    and kept_timer: "keeps I (q_InsertTimer tr)"
    and kept_due: "keeps I (q_DequeueDueTimer now lk)"
    and kept_terminated: "keeps I (q_CloseWorkflowExecution now k ''TERMINATED'')"
begin

lemmas kept = kept_current kept_execution kept_append kept_task kept_activity kept_activity_done
  kept_activity_lease kept_timer kept_due kept_terminated

lemma kept_wake: "keeps I (wake_run X S now gonow k ev)"
  unfolding wake_run_def enqueue_wake_def Let_def by (intro keeps_bindM kept keeps_ret)

lemma kept_bodies:
  "keeps I (signal_tx X S now gonow ns sp)"
  "keeps I (cancel_tx X S now gonow ns cp)"
  "keeps I (terminate_tx X now ns wid rid reason)"
  "keeps I (task_started_tx X now k ev)"
  "keeps I (complete_activity_tx X S now gonow token res)"
  "keeps I (fail_activity_tx X S now gonow token row f)"
proof -
  have resolve: "keeps I (resolve_run ns wid rid)" for ns wid rid
    unfolding resolve_run_def by (intro keeps_if keeps_bindM kept keeps_ret)
  show "keeps I (signal_tx X S now gonow ns sp)" "keeps I (cancel_tx X S now gonow ns cp)"
    "keeps I (terminate_tx X now ns wid rid reason)" "keeps I (task_started_tx X now k ev)"
    "keeps I (complete_activity_tx X S now gonow token res)" "keeps I (fail_activity_tx X S now gonow token row f)"
    unfolding signal_tx_def cancel_tx_def terminate_tx_def task_started_tx_def complete_activity_tx_def
      completeActivityTaskRow_def fail_activity_tx_def Let_def
    by (intro keeps_bindM keeps_mapErr keeps_if kept kept_wake resolve keeps_ret keeps_throw)+
qed

lemma kept_fire: "keeps I (fire_tx X S E)"
proof (rule keepsI)
  fix d assume "I d"
  obtain r d1 where deq: "q_DequeueDueTimer (db_now E 0) (locked_timers E) d = (r, d1)" by fastforce
  have d1: "I d1" using keepsD [OF kept_due \<open>I d\<close>, of "db_now E 0" "locked_timers E"] deq by simp
  show "I (snd (fire_tx X S E d))"
  proof (cases r)
    case (Inr t)
    have "keeps I (bindM (wake_run X S (db_now E 0) (go_now E 0)
        (tm_namespace_id t, tm_workflow_id t, tm_run_id t) (newEvent EV_TIMER_FIRED (TimerFired (tm_timer_id t))))
        (\<lambda>taskQueue. ret (Some (tm_namespace_id t, taskQueue))))"
      by (intro keeps_bindM kept_wake keeps_ret)
    from keepsD [OF this d1] deq Inr show ?thesis by (simp add: fire_tx_def)
  qed (use deq d1 in \<open>simp add: fire_tx_def\<close>)
qed

lemma kept_effects: "keeps I (complete_effects X E k we a)"
  unfolding complete_effects_def enqueue_activity_def insert_pending_timer_def
  by (intro keeps_bindM keeps_forM kept) (auto split: prod.split intro!: kept)

end

interpretation gr: kept_by_queries "grows d0" for d0 :: "'b db"
  by unfold_locales (rule keeps_grows)+

section \<open>Transactions keep the invariant\<close>

definition tx :: "('b db \<Rightarrow> (error + 'a) \<times> 'b db) \<Rightarrow> 'b db \<Rightarrow> 'b db" where
  "tx m d = (case m d of (Inl e, d') \<Rightarrow> rollback d d' | (Inr x, d') \<Rightarrow> d')"

lemma withTx_onDB: "sdb (snd (withTx (onDB m) s)) = tx m (sdb s)"
  by (simp add: withTx_def onDB_def tx_def split: prod.split sum.split)

lemma rollback_seq [simp]:
  "ns_seq (rollback d d') = ns_seq d'" "wt_seq (rollback d d') = wt_seq d'"
  "at_seq (rollback d d') = at_seq d'" "qt_seq (rollback d d') = qt_seq d'"
  by (simp_all add: rollback_def)

lemma we_keys_rollback [simp]: "we_keys (rollback d d') = we_keys d"
  by (simp add: we_keys_def)

lemma run_events_rollback [simp]: "run_events k (rollback d d') = run_events k d"
  by (simp add: run_events_def)

lemma db_wf_rollback:
  assumes "db_wf d" and "seq_le d d'" shows "db_wf (rollback d d')"
  using assms
  by (fastforce simp: db_wf_def gen_wf_def wf_parts log_wf_def seq_le_def)

lemma grows_rollback: "grows d d' \<Longrightarrow> grows d (rollback d d')"
  by (simp add: grows_defs we_keys_def rollback_def)

lemma tx_grows: "(\<And>d0. keeps (grows d0) m) \<Longrightarrow> grows d (tx m d)"
proof -
  assume k: "\<And>d0. keeps (grows d0) m"
  have "grows d (snd (m d))" using keepsD [OF k, of d d] by simp
  then show ?thesis by (auto simp: tx_def grows_rollback split: prod.split sum.split)
qed

lemma tx_wf:
  assumes "succ db_wf m (\<lambda>_. db_wf)" and "\<And>d0. keeps (grows d0) m" and "db_wf d"
  shows "db_wf (tx m d)"
proof -
  have "grows d (snd (m d))" using keepsD [OF assms(2), of d d] by simp
  with assms(1,3) show ?thesis
    by (auto simp: tx_def grows_def split: prod.split sum.split intro: db_wf_rollback dest: succD)
qed

lemma succ_db_wf: "succ (gen_wf {} {}) m (\<lambda>_. gen_wf {} {}) \<Longrightarrow> succ db_wf m (\<lambda>_. db_wf)"
  unfolding succ_def valid_def db_wf_def .

section \<open>Completing a workflow task\<close>

lemma succ_onDB: "succ P m Q \<Longrightarrow> succ (\<lambda>s. P (sdb s)) (onDB m) (\<lambda>x s. Q x (sdb s))"
  by (rule succI) (auto simp: onDB_def split: prod.splits dest: succD)

lemma succ_count: "succ (\<lambda>s. P (sdb s)) (count f) (\<lambda>_ s. P (sdb s))"
  by (rule succI) (auto simp: monad_simps)

lemma keeps_onDB: "keeps I m \<Longrightarrow> keeps (\<lambda>s. I (sdb s)) (onDB m)"
  by (auto simp: keeps_def onDB_def split: prod.split)

lemma keeps_count: "keeps (\<lambda>s. I (sdb s)) (count f)"
  by (simp add: keeps_def monad_simps)

text \<open>What the command loop collects for the run \<open>k\<close>.\<close>

definition acc_ok :: "run_key \<Rightarrow> 'b cmd_acc \<Rightarrow> bool" where
  "acc_ok k a \<longleftrightarrow> ca_events a \<noteq> [] \<and> (\<forall>p \<in> set (ca_enqueues a).
     (ap_namespace_id (fst p), ap_workflow_id (fst p), ap_run_id (fst p)) = k \<and>
     0 < ap_start_to_close_timeout_ns (fst p))"

lemma activityEnqueueParams_ok:
  "(ap_namespace_id (activityEnqueueParams X k q n c), ap_workflow_id (activityEnqueueParams X k q n c),
    ap_run_id (activityEnqueueParams X k q n c)) = k"
  "0 < ap_start_to_close_timeout_ns (activityEnqueueParams X k q n c)"
  by (simp_all add: activityEnqueueParams_def Let_def defaultActivityStartToCloseTimeout_def)

lemma process_command_ok: "acc_ok k a \<Longrightarrow> process_command X S E k we c a = Inr a' \<Longrightarrow> acc_ok k a'"
  using activityEnqueueParams_ok [of X k]
  by (auto simp: process_command_def acc_ok_def Let_def split: command.splits)

lemma process_commands_ok:
  "acc_ok k a \<Longrightarrow> process_commands X S E k we cs a = Inr a' \<Longrightarrow> acc_ok k a'"
proof (induction cs arbitrary: a)
  case (Cons c cs)
  then show ?case by (auto split: sum.splits dest: process_command_ok)
qed simp

lemma initial_acc_ok: "acc_ok k initial_acc"
  by (simp add: acc_ok_def initial_acc_def)

lemma complete_front_wf:
  "succ (gen_wf {} {}) (complete_front X S E token cmds)
     (\<lambda>(we, a) d. gen_wf {} {} d \<and> token_key token \<in> we_keys d \<and> acc_ok (token_key token) a)"
proof -
  let ?k = "token_key token"
  have del: "succ (gen_wf {} {}) (q_CompleteWorkflowTask i u) (\<lambda>_. gen_wf {} {})" for i u
    by (rule succ_row) (rule CompleteWorkflowTask_row_wf)
  have proc: "succ (\<lambda>d. gen_wf {} {} d \<and> find_we ?k d = Some we)
      (liftE (process_commands X S E ?k we cmds initial_acc))
      (\<lambda>a d. gen_wf {} {} d \<and> ?k \<in> we_keys d \<and> acc_ok ?k a)" for we
    by (rule succ_liftE) (use process_commands_ok [OF initial_acc_ok] find_we_key in blast)
  have chk: "succ P (liftE r) (\<lambda>_. P)" for P :: "'a db \<Rightarrow> bool" and r :: "error + unit"
    by (rule succ_liftE)
  show ?thesis
    unfolding complete_front_def
    by (rule succ_bind [OF del], rule succ_if, rule succ_throw,
        rule succ_bind [OF GetWorkflowExecution_wf [of "gen_wf {} {}"]], rule succ_bind [OF proc],
        rule succ_bind [OF chk], rule succ_ret) simp
qed

lemma complete_effects_wf:
  assumes "acc_ok k a"
  shows "succ (\<lambda>d. gen_wf {} {} d \<and> k \<in> we_keys d) (complete_effects X E k we a)
     (\<lambda>_ d. gen_wf {} {} d \<and> k \<in> we_keys d)"
proof -
  let ?I = "\<lambda>d :: 'a db. gen_wf {} {} d \<and> k \<in> we_keys d"
  have keys: "succ ?I m (\<lambda>_. ?I)" if "succ ?I m (\<lambda>_. gen_wf {} {})" "\<And>d0. keeps (grows d0) m"
    for m :: "'a db \<Rightarrow> (error + 'c) \<times> 'a db"
  proof (rule succI, rule conjI)
    fix d x d' assume I: "?I d" and m: "m d = (Inr x, d')"
    show "gen_wf {} {} d'" by (rule succD [OF that(1) I m])
    have "grows d d'" using keepsD [OF that(2), of d d] m by simp
    with I show "k \<in> we_keys d'" by (auto simp: grows_def log_ext_def)
  qed
  have app: "succ ?I (AppendHistory X now k e evs) (\<lambda>_. ?I)" for now e evs
    by (intro keys succ_pre [OF AppendHistory_gen_wf] keeps_grows) simp
  have act: "succ ?I (enqueue_activity now ids p) (\<lambda>_. ?I)" if "p \<in> set (ca_enqueues a)" for now ids p
    unfolding enqueue_activity_def
    by (intro keys succ_pre [OF EnqueueActivityTask_wf] keeps_grows)
      (use assms that in \<open>auto simp: acc_ok_def\<close>)
  have tim: "succ ?I (insert_pending_timer E k ids p) (\<lambda>_. ?I)" for ids p
    unfolding insert_pending_timer_def
    by (cases p) (auto intro!: keys succ_pre [OF InsertTimer_wf] keeps_grows simp: tm_run_def)
  show ?thesis
    unfolding complete_effects_def
    by (intro succ_bind [OF app] succ_bind [OF succ_forM] succ_forM act tim)
qed

lemma continueWorkflowAsNew_wf:
  "succ (gen_wf {} {}) (continueWorkflowAsNew X S now req k we rid cmd) (\<lambda>_. gen_wf {} {})"
proof -
  let ?k = "(fst k, fst (snd k), rid)"
  have evs: "map NEType (continue_events we rid0 cmd) =
      [EV_WORKFLOW_EXECUTION_STARTED, EV_WORKFLOW_TASK_SCHEDULED]" for rid0
    by (simp add: continue_events_def)
  have "succ (gen_wf {} {}) (q_ReplaceCurrentExecution (fst k) (fst (snd k)) rid req) (\<lambda>_. gen_wf {?k} {})"
    by (rule succI) (metis ReplaceCurrentExecution_wf snd_conv)
  then show ?thesis
    unfolding continueWorkflowAsNew_def Let_def
    by (rule succ_bind) (rule create_run_wf [OF _ _ evs, unfolded db_wf_def]; simp)
qed

lemma complete_tx_succ:
  "succ (\<lambda>s. db_wf (sdb s)) (complete_tx X S E token cmds sticky) (\<lambda>_ s. db_wf (sdb s))"
proof -
  let ?I = "\<lambda>s :: 'a sys. gen_wf {} {} (sdb s)"
  let ?k = "token_key token"
  have eff: "succ (\<lambda>s. gen_wf {} {} (sdb s) \<and> ?k \<in> we_keys (sdb s) \<and> acc_ok ?k a)
      (onDB (complete_effects X E ?k we a)) (\<lambda>_. ?I)" for we a
  proof (cases "acc_ok ?k a")
    case True
    then show ?thesis
      by (intro succ_post [OF succ_pre [OF succ_onDB [OF complete_effects_wf [OF True]]]]) auto
  qed (simp add: succ_def valid_def)
  have close: "succ ?I (bindM (onDB (q_CloseWorkflowExecution now k st)) (\<lambda>_. count f)) (\<lambda>_. ?I)" for now k st f
    by (rule succ_bind [OF succ_onDB [OF CloseWorkflowExecution_wf]]) (rule succ_count)
  have can: "succ ?I (case o' of None \<Rightarrow> ret '''' | Some (cmd, rid) \<Rightarrow>
      bindM (onDB (continueWorkflowAsNew X S now req k we rid cmd)) (\<lambda>_. bindM (count f) (\<lambda>_. ret (g cmd)))) (\<lambda>_. ?I)"
    for o' now req k we f and g :: "continue_as_new_cmd \<Rightarrow> string"
    by (auto split: option.split intro!: succ_ret succ_bind [OF succ_onDB [OF continueWorkflowAsNew_wf]]
        succ_bind [OF succ_count])
  have stick: "succ ?I (onDB (q_SetStickyExecution now k w e)) (\<lambda>_. ?I)" for now k w e
    by (rule succ_onDB) (rule succ_row, rule SetStickyExecution_wf)
  show ?thesis
    unfolding complete_tx_def db_wf_def Let_def
    apply (rule succ_bind [OF succ_onDB [OF complete_front_wf]])
    apply (rename_tac p, case_tac p, simp only: prod.case)
    apply (rule succ_bind [OF eff])
    apply (rule succ_bind [where Q = "\<lambda>_. ?I"], (rule succ_if, rule close, rule succ_ret, assumption))
    apply (rule succ_bind [OF can])
    apply (rule succ_bind [where Q = "\<lambda>_. ?I"], (rule succ_if, rule stick, rule succ_ret, assumption))
    apply (rule succ_ret, assumption)
    done
qed

lemma keeps_grows_complete: "keeps (\<lambda>s. grows d0 (sdb s)) (complete_tx X S E token cmds sticky)"
proof -
  have front: "keeps (grows d0) (complete_front X S E token cmds)"
    unfolding complete_front_def by (intro keeps_bindM keeps_if keeps_grows keeps_throw keeps_ret keeps_liftE)
  have can: "keeps (grows d0) (continueWorkflowAsNew X S now req k we rid cmd)" for now req k we rid cmd
    unfolding continueWorkflowAsNew_def Let_def by (intro keeps_bindM keeps_grows)
  show ?thesis
    unfolding complete_tx_def Let_def
    by (rule keeps_bindM [OF keeps_onDB [OF front]])
      (auto split: prod.split option.split intro!: keeps_bindM keeps_onDB [of "grows d0"] keeps_count [of "grows d0"]
        gr.kept_effects can keeps_grows)
qed

lemma complete_tx_wf:
  assumes "db_wf (sdb s)"
  shows "db_wf (sdb (snd (withTx (complete_tx X S E token cmds sticky) s)))"
    and "grows (sdb s) (sdb (snd (withTx (complete_tx X S E token cmds sticky) s)))"
proof -
  obtain r s' where m: "complete_tx X S E token cmds sticky s = (r, s')" by fastforce
  have g: "grows (sdb s) (sdb s')"
    using keepsD [OF keeps_grows_complete, of "sdb s" s X S E token cmds sticky] m by simp
  show "db_wf (sdb (snd (withTx (complete_tx X S E token cmds sticky) s)))"
    using m g assms succD [OF complete_tx_succ, of s X S E token cmds sticky]
    by (cases r) (auto simp: withTx_def grows_def intro: db_wf_rollback)
  show "grows (sdb s) (sdb (snd (withTx (complete_tx X S E token cmds sticky) s)))"
    using m g by (cases r) (simp_all add: withTx_def grows_rollback)
qed

section \<open>The step relation\<close>

text \<open>
  The parameter \<open>P\<close> says which tokens are presented in answers to tasks. \<open>R\<close> says whether the statements by which
  \<open>FailWorkflowTask\<close>, which opens no transaction, releases and enqueues a task are steps of their own. \<open>Q\<close> says which query tasks may be
  answered or deleted. \<open>db_step\<close> is the relation without any of the restrictions.
\<close>

inductive token_step :: "'b ext \<Rightarrow> store \<Rightarrow> (task_token \<Rightarrow> bool) \<Rightarrow> bool \<Rightarrow> (int \<Rightarrow> bool) \<Rightarrow> 'b db \<Rightarrow> 'b db \<Rightarrow> bool" for X S P R Q where
  start: "token_step X S P R Q d (tx (start_tx X S now ns rid p) d)"
| signal: "token_step X S P R Q d (tx (signal_tx X S now gonow ns sp) d)"
| cancel: "token_step X S P R Q d (tx (cancel_tx X S now gonow ns cp) d)"
| terminate: "token_step X S P R Q d (tx (terminate_tx X now ns wid rid reason) d)"
| namespace: "token_step X S P R Q d (snd (q_CreateNamespace now name d))"
| dequeue_query: "token_step X S P R Q d (snd (q_DequeueQueryTask now u lk secs q ns d))"
| dequeue_workflow: "token_step X S P R Q d (snd (q_DequeueWorkflowTask now u lk secs q ns w ps d))"
| dequeue_activity: "token_step X S P R Q d (snd (q_DequeueActivityTask now u lk q ns ps d))"
| started:
    "NEType ev = attributes_type (NEAttributes ev) \<Longrightarrow> NEType ev \<in> {EV_WORKFLOW_TASK_STARTED, EV_ACTIVITY_TASK_STARTED} \<Longrightarrow>
     token_step X S P R Q d (tx (task_started_tx X now k ev) d)"
| complete_workflow:
    "tk_Kind token = TaskTokenKindWorkflow \<Longrightarrow> P token \<Longrightarrow>
     token_step X S P R Q (sdb s) (sdb (snd (withTx (complete_tx X S E token cmds sticky) s)))"
| release_workflow: "R \<Longrightarrow> token_step X S P R Q d (snd (q_CompleteWorkflowTask tid lu d))"
| set_sticky: "token_step X S P R Q d (snd (q_SetStickyExecution now k w e d))"
| enqueue_workflow:
    "R \<Longrightarrow> (ep_namespace_id ep, ep_workflow_id ep, ep_run_id ep) \<in> we_keys d \<Longrightarrow>
     token_step X S P R Q d (snd (q_EnqueueWorkflowTask now ep d))"
| complete_activity:
    "tk_Kind token = TaskTokenKindActivity \<Longrightarrow> P token \<Longrightarrow>
     token_step X S P R Q d (tx (complete_activity_tx X S now gonow token res) d)"
| retry_activity: "token_step X S P R Q d (snd (q_RetryActivityTask now tid lu b d))"
| fail_activity:
    "tk_Kind token = TaskTokenKindActivity \<Longrightarrow> P token \<Longrightarrow>
     token_step X S P R Q d (tx (fail_activity_tx X S now gonow token row f) d)"
| fire_timer: "token_step X S P R Q d (tx (fire_tx X S E) d)"
| enqueue_query:
    "(ns, wid, rid) \<in> we_keys d \<Longrightarrow>
     token_step X S P R Q d (snd (q_EnqueueQueryTask now ns q wid rid qt args d))"
| complete_query: "Q tid \<Longrightarrow> token_step X S P R Q d (snd (q_CompleteQueryTask tid lu result d))"
| fail_query: "Q tid \<Longrightarrow> token_step X S P R Q d (snd (q_FailQueryTask tid lu msg d))"
| delete_query: "Q tid \<Longrightarrow> token_step X S P R Q d (snd (q_DeleteQueryTask tid d))"
| reap_workflow: "token_step X S P R Q d (snd (q_ReapExpiredWorkflowTasks now d))"
| reap_activity: "token_step X S P R Q d (snd (q_ReapExpiredActivityTasks now d))"
| reap_query: "token_step X S P R Q d (snd (q_ReapExpiredQueryTasks now d))"

abbreviation db_step :: "'b ext \<Rightarrow> store \<Rightarrow> 'b db \<Rightarrow> 'b db \<Rightarrow> bool" where
  "db_step X S \<equiv> token_step X S (\<lambda>_. True) True (\<lambda>_. True)"

lemma snd_grows: "keeps (grows d) m \<Longrightarrow> grows d (snd (m d))"
  using keepsD [of "grows d" m d] by simp

lemma token_step_wf: "token_step X S P R Q d d' \<Longrightarrow> db_wf d \<Longrightarrow> db_wf d'"
proof (induction rule: token_step.induct)
  case start show ?case by (rule tx_wf [OF start_tx_wf keeps_grows_start start])
next
  case signal show ?case by (rule tx_wf [OF succ_db_wf [OF signal_tx_wf] gr.kept_bodies(1) signal])
next
  case cancel show ?case by (rule tx_wf [OF succ_db_wf [OF cancel_tx_wf] gr.kept_bodies(2) cancel])
next
  case terminate show ?case by (rule tx_wf [OF succ_db_wf [OF terminate_tx_wf] gr.kept_bodies(3) terminate])
next
  case started
  then show ?case by (intro tx_wf [OF succ_db_wf [OF task_started_tx_wf] gr.kept_bodies(4)])
next
  case complete_activity
  show ?case by (rule tx_wf [OF succ_db_wf [OF complete_activity_tx_wf] gr.kept_bodies(5) complete_activity(3)])
next
  case fail_activity
  show ?case by (rule tx_wf [OF succ_db_wf [OF fail_activity_tx_wf] gr.kept_bodies(6) fail_activity(3)])
next
  case fire_timer show ?case by (rule tx_wf [OF succ_db_wf [OF fire_tx_wf] gr.kept_fire fire_timer])
next
  case complete_workflow from complete_workflow(3) show ?case by (rule complete_tx_wf)
qed (simp_all add: db_wf_def CreateNamespace_wf DequeueQueryTask_wf DequeueWorkflowTask_wf
    DequeueActivityTask_wf CompleteWorkflowTask_row_wf SetStickyExecution_wf EnqueueWorkflowTask_wf
    RetryActivityTask_wf EnqueueQueryTask_wf AnswerQueryTask_wf DeleteQueryTask_row_wf Reap_wf)

lemma token_step_grows: "token_step X S P R Q d d' \<Longrightarrow> grows d d'"
proof (induction rule: token_step.induct)
  case (complete_workflow token s E cmds sticky)
  obtain r s' where m: "complete_tx X S E token cmds sticky s = (r, s')" by fastforce
  have "grows (sdb s) (sdb s')"
    using keepsD [OF keeps_grows_complete, of "sdb s" s X S E token cmds sticky] m by simp
  with m show ?case by (cases r) (simp_all add: withTx_def grows_rollback)
qed (intro tx_grows snd_grows keeps_grows keeps_grows_start gr.kept_bodies gr.kept_fire)+

lemma token_step_mono: "token_step X S P R Q d d' \<Longrightarrow> (\<And>t. P t \<Longrightarrow> P' t) \<Longrightarrow> (R \<Longrightarrow> R') \<Longrightarrow> (\<And>i. Q i \<Longrightarrow> Q' i) \<Longrightarrow>
   token_step X S P' R' Q' d d'"
  by (induction rule: token_step.induct) (auto intro: token_step.intros)

lemmas db_step_wf = token_step_wf [where P = "\<lambda>_. True" and R = True and Q = "\<lambda>_. True"]
  and db_step_grows = token_step_grows [where P = "\<lambda>_. True" and R = True and Q = "\<lambda>_. True"]

text \<open>Databases reachable from the migrated schema.\<close>

inductive reachable :: "'b ext \<Rightarrow> store \<Rightarrow> 'b db \<Rightarrow> bool" for X S where
  init: "reachable X S (initial_db now)"
| step: "reachable X S d \<Longrightarrow> db_step X S d d' \<Longrightarrow> reachable X S d'"

lemma reachable_wf: "reachable X S d \<Longrightarrow> db_wf d"
  by (induction rule: reachable.induct) (auto intro: initial_db_wf db_step_wf)

interpretation dbs: growing_system "db_step X S" db_wf grows for X :: "'b ext" and S
  by unfold_locales (auto intro: db_step_wf db_step_grows grows_trans)

lemma steps_reachable: "(db_step X S)\<^sup>*\<^sup>* d d' \<Longrightarrow> reachable X S d \<Longrightarrow> reachable X S d'"
  by (induction rule: rtranclp_induct) (auto intro: reachable.step)

end
