(* ===== verification/Server.thy ===== *)
theory Server
  imports System
begin

text \<open>
  The operations of the store as requests to a server process, each executed as the code
  composes it: transactions, stand-alone statements, and what follows a commit. Every request
  is a sequence of steps of the state machine, so what holds of reachable databases holds
  after any number of requests, served in any order by any number of processes.
\<close>

datatype request =
    ReqStart start_params
  | ReqSignal signal_params
  | ReqCancel cancel_params
  | ReqTerminate string string string string
  | ReqDescribe string string string
  | ReqGetHistory string string string int bytes
  | ReqList list_params
  | ReqCreateNamespace string
  | ReqListNamespaces
  | ReqPollWorkflow string string string "int list"
  | ReqCompleteWorkflow task_token "command list" "sticky_attributes option"
  | ReqFailWorkflow task_token
  | ReqPollActivity string string "int list"
  | ReqCompleteActivity task_token "payload option"
  | ReqFailActivity task_token "failure option"
  | ReqEnqueueQuery enqueue_query_params
  | ReqGetQueryResult int int
  | ReqDeleteQuery int
  | ReqCompleteQuery task_token "payload option"
  | ReqFailQuery task_token string
  | ReqFireTimer
  | ReqReap

text \<open>The state a request leaves; \<open>ReqPoll\<dots>\<close> is one dispatch attempt of a long poll.\<close>

fun serve :: "'b ext \<Rightarrow> store \<Rightarrow> env \<Rightarrow> request \<Rightarrow> 'b sys \<Rightarrow> 'b sys" where
  "serve X S E (ReqStart p) s = snd (StartWorkflowExecution X S E p s)"
| "serve X S E (ReqSignal p) s = snd (SignalWorkflowExecution X S E p s)"
| "serve X S E (ReqCancel p) s = snd (RequestCancelWorkflowExecution X S E p s)"
| "serve X S E (ReqTerminate ns wid rid reason) s = snd (TerminateWorkflowExecution X E ns wid rid reason s)"
| "serve X S E (ReqDescribe ns wid rid) s = snd (DescribeWorkflowExecution ns wid rid s)"
| "serve X S E (ReqGetHistory ns wid rid n tok) s = snd (GetHistory X ns wid rid n tok s)"
| "serve X S E (ReqList p) s = snd (ListWorkflowExecutions X p s)"
| "serve X S E (ReqCreateNamespace name) s = snd (CreateNamespace E name s)"
| "serve X S E ReqListNamespaces s = snd (ListNamespaces X s)"
| "serve X S E (ReqPollWorkflow ns q w ps) s = snd (DispatchWorkflowTask X S E ns q w ps s)"
| "serve X S E (ReqCompleteWorkflow t cs st) s = snd (CompleteWorkflowTask X S E t cs st s)"
| "serve X S E (ReqFailWorkflow t) s = snd (FailWorkflowTask X S E t s)"
| "serve X S E (ReqPollActivity ns q ps) s = snd (DispatchActivityTask X S E ns q ps s)"
| "serve X S E (ReqCompleteActivity t r) s = snd (CompleteActivityTask X S E t r s)"
| "serve X S E (ReqFailActivity t f) s = snd (FailActivityTask X S E t f s)"
| "serve X S E (ReqEnqueueQuery p) s = snd (EnqueueQuery X E p s)"
| "serve X S E (ReqGetQueryResult ns tid) s = snd (GetQueryResult X ns tid s)"
| "serve X S E (ReqDeleteQuery tid) s = snd (DeleteQueryTask tid s)"
| "serve X S E (ReqCompleteQuery t r) s = snd (CompleteQuery X t r s)"
| "serve X S E (ReqFailQuery t m) s = snd (FailQuery X t m s)"
| "serve X S E ReqFireTimer s = snd (fireDueTimer X S E s)"
| "serve X S E ReqReap s = reaper_tick E s"

section \<open>Requests as steps\<close>

definition traced ::
  "'b ext \<Rightarrow> store \<Rightarrow> (task_token \<Rightarrow> bool) \<Rightarrow> bool \<Rightarrow> (int \<Rightarrow> bool) \<Rightarrow> ('b sys \<Rightarrow> (error + 'a) \<times> 'b sys) \<Rightarrow> bool" where
  "traced X S P R Q m \<longleftrightarrow> (\<forall>s. (token_step X S P R Q)\<^sup>*\<^sup>* (sdb s) (sdb (snd (m s))))"

lemma tracedI: "(\<And>s. (token_step X S P R Q)\<^sup>*\<^sup>* (sdb s) (sdb (snd (m s)))) \<Longrightarrow> traced X S P R Q m"
  by (simp add: traced_def)

lemma traced_silent: "(\<And>s. sdb (snd (m s)) = sdb s) \<Longrightarrow> traced X S P R Q m"
  by (simp add: traced_def)

lemma traced_bind: "traced X S P R Q m \<Longrightarrow> (\<And>x. traced X S P R Q (f x)) \<Longrightarrow> traced X S P R Q (bindM m f)"
proof (rule tracedI)
  fix s
  assume m: "traced X S P R Q m" and f: "\<And>x. traced X S P R Q (f x)"
  obtain r s1 where r: "m s = (r, s1)" by fastforce
  with m have "(token_step X S P R Q)\<^sup>*\<^sup>* (sdb s) (sdb s1)" unfolding traced_def by (metis snd_conv)
  then show "(token_step X S P R Q)\<^sup>*\<^sup>* (sdb s) (sdb (snd (bindM m f s)))"
    using f unfolding traced_def by (cases r) (auto simp: bindM_def r intro: rtranclp_trans)
qed

lemma traced_case:
  assumes "traced X S P R Q m" and "\<And>x. traced X S P R Q (f x)" and "\<And>e. traced X S P R Q (g e)"
  shows "traced X S P R Q (\<lambda>s. case m s of (Inl e, s') \<Rightarrow> g e s' | (Inr x, s') \<Rightarrow> f x s')"
proof (rule tracedI)
  fix s
  obtain r s1 where r: "m s = (r, s1)" by fastforce
  with assms(1) have "(token_step X S P R Q)\<^sup>*\<^sup>* (sdb s) (sdb s1)" unfolding traced_def by (metis snd_conv)
  moreover have "(token_step X S P R Q)\<^sup>*\<^sup>* (sdb s1) (sdb (snd (case r of Inl e \<Rightarrow> g e s1 | Inr x \<Rightarrow> f x s1)))"
    using assms(2,3) unfolding traced_def by (cases r) simp_all
  ultimately show "(token_step X S P R Q)\<^sup>*\<^sup>* (sdb s)
      (sdb (snd (case m s of (Inl e, s') \<Rightarrow> g e s' | (Inr x, s') \<Rightarrow> f x s')))"
    using r by simp
qed

lemma traced_pure:
  "traced X S P R Q (ret x)" "traced X S P R Q (throw e)" "traced X S P R Q (liftE r)" "traced X S P R Q (notifyM k)" "traced X S P R Q (count f)"
  by (simp_all add: traced_def monad_simps)

lemma traced_mapErr: "traced X S P R Q m \<Longrightarrow> traced X S P R Q (mapErr h m)"
  unfolding traced_def by (auto simp: mapErr_def split: prod.split sum.split) (metis snd_conv)+

lemma traced_if: "traced X S P R Q m \<Longrightarrow> traced X S P R Q n \<Longrightarrow> traced X S P R Q (if b then m else n)"
  by simp

lemma traced_read: "(\<And>d. snd (m d) = d) \<Longrightarrow> traced X S P R Q (onDB m)"
  by (rule traced_silent) (simp add: onDB_def split: prod.split, metis snd_conv)

lemma traced_query: "(\<And>d. token_step X S P R Q d (snd (m d))) \<Longrightarrow> traced X S P R Q (onDB m)"
  by (rule tracedI, rule r_into_rtranclp) (simp add: onDB_def split: prod.split, metis snd_conv)

lemma traced_tx: "(\<And>d. token_step X S P R Q d (tx m d)) \<Longrightarrow> traced X S P R Q (withTx (onDB m))"
  by (rule tracedI) (simp add: withTx_onDB r_into_rtranclp)

lemma traced_retry: "(\<And>i. traced X S P R Q (withTx (fn i))) \<Longrightarrow> traced X S P R Q (withTxRetryOnConflict fn)"
proof -
  assume fn: "\<And>i. traced X S P R Q (withTx (fn i))"
  have "traced X S P R Q (retryTx i n fn err)" for i n err
  proof (induction n arbitrary: i err)
    case 0
    show ?case by (simp add: traced_def)
  next
    case (Suc n)
    show ?case
    proof (rule tracedI)
      fix s
      obtain r s1 where r: "withTx (fn i) s = (r, s1)" by fastforce
      with fn have "(token_step X S P R Q)\<^sup>*\<^sup>* (sdb s) (sdb s1)" unfolding traced_def by (metis snd_conv)
      then show "(token_step X S P R Q)\<^sup>*\<^sup>* (sdb s) (sdb (snd (retryTx i (Suc n) fn err s)))"
        using Suc [of "Suc i"] unfolding traced_def
        by (cases r) (auto simp: r intro: rtranclp_trans)
    qed
  qed
  then show ?thesis by (simp add: withTxRetryOnConflict_def)
qed

lemma reads_silent:
  "snd (q_GetNamespaceByName name d) = d" "snd (q_GetCurrentExecution ns wid d) = d"
  "snd (q_GetWorkflowExecution k d) = d" "snd (q_ListHistoryEvents k a l d) = d"
  "snd (q_ListNamespaces coll d) = d" "snd (q_ListWorkflowExecutions coll ns st q c l d) = d"
  "snd (q_GetActivityTaskByLease tid u d) = d" "snd (q_GetQueryTask tid ns d) = d"
  "snd (resolve_run ns wid rid d) = d"
  by (auto simp: q_GetNamespaceByName_def q_GetCurrentExecution_def q_GetWorkflowExecution_def
      q_ListHistoryEvents_def q_ListNamespaces_def q_ListWorkflowExecutions_def
      q_GetActivityTaskByLease_def q_GetQueryTask_def resolve_run_def monad_simps split: option.split)

lemma traced_namespaceID: "traced X S P R Q (getNamespaceID name)"
  by (rule traced_silent) (simp add: getNamespaceID_eq split: option.split)

lemmas traced_rules =
  traced_bind traced_pure traced_mapErr traced_if traced_namespaceID
  traced_read [OF reads_silent(2)] traced_read [OF reads_silent(3)] traced_read [OF reads_silent(4)]
  traced_read [OF reads_silent(5)] traced_read [OF reads_silent(6)] traced_read [OF reads_silent(7)]
  traced_read [OF reads_silent(8)] traced_read [OF reads_silent(9)]

lemma traced_start: "traced X S P R Q (StartWorkflowExecution X S E p)"
  unfolding StartWorkflowExecution_def
  by (intro traced_bind traced_namespaceID traced_case traced_tx token_step.start traced_pure traced_silent)
    (simp split: error.split)

lemma traced_build: "traced X S P R Q (buildQueryDispatch X S' ns row)"
  unfolding buildQueryDispatch_def Let_def
  by (intro traced_rules) (auto split: option.split intro: traced_pure)

lemma traced_dispatch: "traced X S P R Q (DispatchWorkflowTask X S E ns q w ps)"
proof -
  have row: "traced X S P R Q (dispatch_workflow_row X S E n r)" for n r
    unfolding dispatch_workflow_row_def Let_def by (intro traced_rules traced_tx token_step.started) simp_all
  have deq: "traced X S P R Q (bindM (mapErr h (onDB (q_DequeueWorkflowTask now u lk secs q n w' ps)))
      (dispatch_workflow_row X S E n))" for h now u lk secs n w'
    by (intro traced_bind traced_mapErr traced_query token_step.dequeue_workflow row)
  have no: "traced X S P R Q (\<lambda>s. if e \<noteq> ErrNoRows then (Inl e, s) else m s)" if "traced X S P R Q m"
    for e and m :: "'a sys \<Rightarrow> (error + 'c) \<times> 'a sys"
    using that by (simp add: traced_def)
  show ?thesis
    unfolding DispatchWorkflowTask_def
    by (intro traced_bind traced_namespaceID traced_case traced_query [OF token_step.dequeue_query]
        traced_build no deq)
qed

lemma traced_fail_workflow: "traced X S P True Q (FailWorkflowTask X S E token)"
proof (cases "tk_Kind token = TaskTokenKindWorkflow")
  case False
  then show ?thesis by (simp add: FailWorkflowTask_def traced_pure)
next
  case True
  have stick: "traced X S P True Q (onDB (q_SetStickyExecution now k w e))" for now k w e
    by (intro traced_query token_step.set_sticky)
  have tail: "traced X S P True Q (bindM (onDB (q_GetWorkflowExecution (token_key token))) (\<lambda>we.
      bindM (onDB (q_SetStickyExecution now (token_key token) None None)) (\<lambda>_.
      bindM (onDB (q_EnqueueWorkflowTask now' (ep we))) (\<lambda>_. notifyM (key we)))))"
    if ep: "\<And>we. (ep_namespace_id (ep we), ep_workflow_id (ep we), ep_run_id (ep we)) = token_key token"
    for now now' key and ep :: "we_row \<Rightarrow> enqueue_wt_params"
  proof (rule tracedI)
    fix s
    let ?m = "bindM (onDB (q_GetWorkflowExecution (token_key token))) (\<lambda>we.
      bindM (onDB (q_SetStickyExecution now (token_key token) None None)) (\<lambda>_.
      bindM (onDB (q_EnqueueWorkflowTask now' (ep we))) (\<lambda>_. notifyM (key we))))"
    show "(token_step X S P True Q)\<^sup>*\<^sup>* (sdb s) (sdb (snd (?m s)))"
    proof (cases "find_we (token_key token) (sdb s)")
      case None
      then show ?thesis by (simp add: monad_simps q_GetWorkflowExecution_eq)
    next
      case (Some we)
      let ?d = "snd (q_SetStickyExecution now (token_key token) None None (sdb s))"
      have "token_key token \<in> we_keys ?d"
        using find_we_key [OF Some] snd_grows [OF keeps_grows_sticky, of "sdb s" now "token_key token" None None]
        by (auto simp: grows_def log_ext_def)
      with ep have "token_step X S P True Q ?d (snd (q_EnqueueWorkflowTask now' (ep we) ?d))"
        by (intro token_step.enqueue_workflow) simp_all
      moreover have "token_step X S P True Q (sdb s) ?d" by (rule token_step.set_sticky)
      ultimately have "(token_step X S P True Q)\<^sup>*\<^sup>* (sdb s) (snd (q_EnqueueWorkflowTask now' (ep we) ?d))"
        by (meson r_into_rtranclp rtranclp.rtrancl_into_rtrancl)
      then show ?thesis
        using Some by (simp add: monad_simps q_GetWorkflowExecution_eq q_SetStickyExecution_def q_EnqueueWorkflowTask_def)
    qed
  qed
  show ?thesis
    unfolding FailWorkflowTask_def Let_def using True
    by (auto intro!: traced_bind traced_pure traced_if tail traced_query [OF token_step.release_workflow [where R = True, simplified]]
        simp: token_key_def)
qed

lemma traced_enqueue_query: "traced X S P R Q (EnqueueQuery X E p)"
proof -
  have tail: "traced X S P R Q (bindM (mapErr not_found (onDB (q_GetWorkflowExecution (ns, wid, rid)))) (\<lambda>we.
      case pr of (args, err) \<Rightarrow> if err then throw ErrMarshal
       else bindM (onDB (q_EnqueueQueryTask now ns (we_task_queue we) wid rid qt args)) (\<lambda>task.
         ret (ns, qt_task_id task))))" for ns wid rid qt now pr
  proof (rule tracedI)
    fix s
    show "(token_step X S P R Q)\<^sup>*\<^sup>* (sdb s) (sdb (snd (bindM (mapErr not_found (onDB (q_GetWorkflowExecution (ns, wid, rid)))) (\<lambda>we.
      case pr of (args, err) \<Rightarrow> if err then throw ErrMarshal
       else bindM (onDB (q_EnqueueQueryTask now ns (we_task_queue we) wid rid qt args)) (\<lambda>task.
         ret (ns, qt_task_id task))) s)))"
    proof (cases "find_we (ns, wid, rid) (sdb s)")
      case (Some we)
      have "token_step X S P R Q (sdb s) (snd (q_EnqueueQueryTask now ns (we_task_queue we) wid rid qt (fst pr) (sdb s)))"
        using find_we_key [OF Some] by (rule token_step.enqueue_query)
      then show ?thesis
        using Some by (auto simp: monad_simps q_GetWorkflowExecution_eq split: prod.split sum.split)
    qed (simp add: monad_simps q_GetWorkflowExecution_eq)
  qed
  show ?thesis
    unfolding EnqueueQuery_def by (intro traced_bind traced_rules tail)
qed

lemma traced_fire: "(token_step X S P R Q)\<^sup>*\<^sup>* (sdb s) (sdb (snd (fireDueTimer X S E s)))"
proof -
  obtain r s1 where r: "withTx (onDB (fire_tx X S E)) s = (r, s1)" by fastforce
  then have "token_step X S P R Q (sdb s) (sdb s1)" by (metis token_step.fire_timer snd_conv withTx_onDB)
  then show ?thesis by (auto simp: fireDueTimer_def r split: sum.split option.split)
qed

lemma traced_reap: "(token_step X S P R Q)\<^sup>*\<^sup>* (sdb s) (sdb (reaper_tick E s))"
proof -
  let ?d1 = "snd (q_ReapExpiredWorkflowTasks (db_now E 0) (sdb s))"
  let ?d2 = "snd (q_ReapExpiredActivityTasks (db_now E 1) ?d1)"
  have "sdb (reaper_tick E s) = snd (q_ReapExpiredQueryTasks (db_now E 2) ?d2)"
    by (simp add: reaper_tick_def Let_def onDB_def split_beta)
  moreover have "token_step X S P R Q (sdb s) ?d1" "token_step X S P R Q ?d1 ?d2"
      "token_step X S P R Q ?d2 (snd (q_ReapExpiredQueryTasks (db_now E 2) ?d2))"
    by (rule token_step.intros)+
  ultimately show ?thesis by (metis (full_types) rtranclp.simps)
qed

lemma traced_complete_workflow:
  assumes "tk_Kind token = TaskTokenKindWorkflow \<Longrightarrow> P token"
  shows "traced X S P R Q (CompleteWorkflowTask X S E token cmds sticky)"
proof -
  have "traced X S P R Q (withTx (complete_tx X S E token cmds sticky))" if "tk_Kind token = TaskTokenKindWorkflow"
    by (rule tracedI) (rule r_into_rtranclp, rule token_step.complete_workflow, fact that, rule assms, fact that)
  then show ?thesis
    unfolding CompleteWorkflowTask_def by (auto intro!: traced_bind traced_pure traced_if split: prod.split)
qed

lemma traced_others:
  "traced X S P R Q (SignalWorkflowExecution X S E sp)"
  "traced X S P R Q (RequestCancelWorkflowExecution X S E cp)"
  "traced X S P R Q (TerminateWorkflowExecution X E ns wid rid reason)"
  "traced X S P R Q (DescribeWorkflowExecution ns wid rid)"
  "traced X S P R Q (GetHistory X ns wid rid n tok)"
  "traced X S P R Q (ListWorkflowExecutions X lp)"
  "traced X S P R Q (CreateNamespace E name)"
  "traced X S P R Q (ListNamespaces X)"
  unfolding SignalWorkflowExecution_def RequestCancelWorkflowExecution_def TerminateWorkflowExecution_def
    DescribeWorkflowExecution_def GetHistory_def ListWorkflowExecutions_def CreateNamespace_def ListNamespaces_def
    Let_def
  by (intro traced_rules traced_retry traced_tx traced_query token_step.signal token_step.cancel token_step.terminate
      token_step.namespace)+

lemma traced_dispatch_activity: "traced X S P R Q (DispatchActivityTask X S E ns q ps)"
proof -
  have row: "traced X S P R Q (dispatch_activity_row X S E n r)" for n r
    unfolding dispatch_activity_row_def
    by (intro traced_rules traced_tx token_step.started) (auto split: option.split intro: traced_pure)
  then show "traced X S P R Q (DispatchActivityTask X S E ns q ps)"
    unfolding DispatchActivityTask_def by (intro traced_rules traced_query token_step.dequeue_activity)
qed

text \<open>Only the two answers to an activity task present its token.\<close>

lemma traced_answer_activity:
  assumes "tk_Kind token = TaskTokenKindActivity \<Longrightarrow> P token"
  shows "traced X S P R Q (CompleteActivityTask X S E token res)"
    and "traced X S P R Q (FailActivityTask X S E token f)"
proof -
  show "traced X S P R Q (CompleteActivityTask X S E token res)"
    unfolding CompleteActivityTask_def
    using assms by (auto intro!: traced_rules traced_tx token_step.complete_activity)
  show "traced X S P R Q (FailActivityTask X S E token f)"
    unfolding FailActivityTask_def Let_def
    using assms by (auto intro!: traced_rules traced_tx traced_query token_step.retry_activity token_step.fail_activity)
qed

lemma traced_result: "traced X S P R Q (GetQueryResult X ns tid)"
  unfolding GetQueryResult_def Let_def by (auto intro!: traced_rules split: option.split)

lemma traced_queries:
  assumes "Q tid"
  shows "traced X S P R Q (DeleteQueryTask tid)"
    and "tk_TaskID token = tid \<Longrightarrow> traced X S P R Q (CompleteQuery X token r)"
    and "tk_TaskID token = tid \<Longrightarrow> traced X S P R Q (FailQuery X token msg)"
  unfolding DeleteQueryTask_def CompleteQuery_def FailQuery_def Let_def
  using assms
  by (auto intro!: traced_rules traced_query token_step.delete_query token_step.complete_query token_step.fail_query
      split: prod.split)

text \<open>The task tokens a request presents, when they are of the kind it asks for.\<close>

fun presented :: "request \<Rightarrow> task_token set" where
  "presented (ReqCompleteWorkflow t cs st) = (if tk_Kind t = TaskTokenKindWorkflow then {t} else {})"
| "presented (ReqFailWorkflow t) = (if tk_Kind t = TaskTokenKindWorkflow then {t} else {})"
| "presented (ReqCompleteActivity t r) = (if tk_Kind t = TaskTokenKindActivity then {t} else {})"
| "presented (ReqFailActivity t f) = (if tk_Kind t = TaskTokenKindActivity then {t} else {})"
| "presented _ = {}"

text \<open>The query tasks a request may answer or delete.\<close>

fun touches :: "request \<Rightarrow> int set" where
  "touches (ReqDeleteQuery tid) = {tid}"
| "touches (ReqCompleteQuery t r) = {tk_TaskID t}"
| "touches (ReqFailQuery t m) = {tk_TaskID t}"
| "touches _ = {}"

lemma serve_token_steps:
  assumes "\<And>t. t \<in> presented req \<Longrightarrow> P t" and "\<And>t. req = ReqFailWorkflow t \<Longrightarrow> R" and "\<And>i. i \<in> touches req \<Longrightarrow> Q i"
  shows "(token_step X S P R Q)\<^sup>*\<^sup>* (sdb s) (sdb (serve X S E req s))"
proof -
  have t: "traced X S P R Q m \<Longrightarrow> (token_step X S P R Q)\<^sup>*\<^sup>* (sdb s) (sdb (snd (m s)))" for m :: "'a sys \<Rightarrow> (error + 'c) \<times> 'a sys"
    by (simp add: traced_def)
  have f: "R \<Longrightarrow> traced X S P R Q (FailWorkflowTask X S E token)" for token
    using traced_fail_workflow [of X S P Q E token] by simp
  show ?thesis
  proof (cases req)
    case (ReqCompleteWorkflow token cs st)
    have "traced X S P R Q (CompleteWorkflowTask X S E token cs st)"
      by (rule traced_complete_workflow, rule assms(1)) (simp add: ReqCompleteWorkflow)
    from t [OF this] show ?thesis by (simp add: ReqCompleteWorkflow)
  next
    case (ReqFailWorkflow token)
    from t [OF f [OF assms(2) [OF this]]] show ?thesis by (simp add: ReqFailWorkflow)
  next
    case (ReqCompleteActivity token r)
    have "traced X S P R Q (CompleteActivityTask X S E token r)"
      by (rule traced_answer_activity, rule assms(1)) (simp add: ReqCompleteActivity)
    from t [OF this] show ?thesis by (simp add: ReqCompleteActivity)
  next
    case (ReqFailActivity token r)
    have "traced X S P R Q (FailActivityTask X S E token r)"
      by (rule traced_answer_activity, rule assms(1)) (simp add: ReqFailActivity)
    from t [OF this] show ?thesis by (simp add: ReqFailActivity)
  next
    case (ReqDeleteQuery tid)
    from t [OF traced_queries(1) [OF assms(3)]] show ?thesis by (simp add: ReqDeleteQuery)
  next
    case (ReqCompleteQuery token r)
    from t [OF traced_queries(2) [OF assms(3) refl]] show ?thesis by (simp add: ReqCompleteQuery)
  next
    case (ReqFailQuery token msg)
    from t [OF traced_queries(3) [OF assms(3) refl]] show ?thesis by (simp add: ReqFailQuery)
  qed (simp_all only: serve.simps, (intro t traced_start traced_others traced_dispatch traced_dispatch_activity
      traced_enqueue_query traced_result traced_fire traced_reap)+)
qed

lemma serve_steps: "(db_step X S)\<^sup>*\<^sup>* (sdb s) (sdb (serve X S E req s))"
  by (rule serve_token_steps) simp_all

end
