(* ===== verification/Demo.thy ===== *)
theory Demo
  imports Server
begin

text \<open>
  Concrete inputs for the witnesses: an instance of the third-party code in which a marshalled
  message is the message itself, a store with one shard and one partition, and small databases.
\<close>

datatype blob = BAttrs event_attributes | BPayload payload

definition demo_fields :: token_fields where
  "demo_fields = (2, ''workflow'', 1, ''w'', ''r1'', 1, ''L'')"

text \<open>The byte-wise order of strings (the C collation).\<close>

fun byte_le :: "string \<Rightarrow> string \<Rightarrow> bool" where
  "byte_le [] t = True"
| "byte_le (a # s) [] = False"
| "byte_le (a # s) (b # t) = (of_char a < (of_char b :: nat) \<or> a = b \<and> byte_le s t)"

definition demo_ext :: "blob ext" where
  "demo_ext =
     \<lparr>marshal_attrs = (\<lambda>a. Some (BAttrs a)),
      unmarshal_attrs = (\<lambda>t b. case b of
          BAttrs a \<Rightarrow> if attributes_type a = t then Some a else None | BPayload _ \<Rightarrow> None),
      marshal_payload = (\<lambda>p. (map_option BPayload p, False)),
      unmarshal_payload = (\<lambda>b. case b of BPayload p \<Rightarrow> Some p | BAttrs _ \<Rightarrow> None),
      is_empty_bytes = (\<lambda>_. False),
      uuid_parse = (\<lambda>s. if s = '''' then None else Some s),
      json_token = (\<lambda>f. if f = demo_fields then Some ''{}'' else None),
      json_untoken = (\<lambda>b. if b = ''{}'' then Some demo_fields else None),
      json_cursor = (\<lambda>c. if c = (10, ''w'', ''r1'') then Some ''c'' else None),
      json_uncursor = (\<lambda>b. if b = ''c'' then Some (10, ''w'', ''r1'') else None),
      float_to_int = (\<lambda>_. - (2 ^ 63)),
      collate = byte_le\<rparr>"

definition demo_store :: store where
  "demo_store = \<lparr>numShards = 1, numTaskQueuePartitions = 1, taskTokenSigningKey = ''k''\<rparr>"

definition demo_env :: env where
  "demo_env =
     \<lparr>db_now = (\<lambda>_. 10), go_now = (\<lambda>_. 10), new_uuid = (\<lambda>n. if n = 0 then ''r1'' else ''r2''),
      lease_uuid = (\<lambda>_. ''L''), locked = [], locked_q = [], locked_timers = []\<rparr>"

definition demo_start :: start_params where
  "demo_start =
     \<lparr>sp_Namespace = ''default'', sp_WorkflowID = ''w'', sp_WorkflowType = ''t'', sp_TaskQueue = ''q'',
      sp_Input = None, sp_WorkflowExecutionTimeout = 0, sp_WorkflowRunTimeout = 0,
      sp_WorkflowTaskTimeout = 0, sp_RetryPolicy = None, sp_RequestID = ''req''\<rparr>"

text \<open>The database after \<open>demo_start\<close> has run on the migrated schema.\<close>

definition demo_we :: we_row where
  "demo_we =
     \<lparr>we_namespace_id = 1, we_workflow_id = ''w'', we_run_id = ''r1'', we_workflow_type = ''t'',
      we_task_queue = ''q'', we_status = ''RUNNING'', we_next_event_id = 3, we_shard_id = 0,
      we_execution_timeout_ns = None, we_run_timeout_ns = None, we_task_timeout_ns = None,
      we_start_time = 10, we_close_time = None, we_updated_at = 10,
      we_sticky_worker_identity = None, we_sticky_expires_at = None\<rparr>"

definition demo_wt :: wt_row where
  "demo_wt =
     \<lparr>wt_task_id = 1, wt_namespace_id = 1, wt_task_queue_name = ''q'', wt_task_queue_partition = 0,
      wt_workflow_id = ''w'', wt_run_id = ''r1'', wt_scheduled_event_id = 2, wt_status = PENDING,
      wt_visible_at = 10, wt_lease_expiry = None, wt_lease_token = None, wt_created_at = 10,
      wt_preferred_worker_identity = None, wt_sticky_deadline = None\<rparr>"

definition demo_key :: run_key where
  "demo_key = (1, ''w'', ''r1'')"

definition demo_db :: "blob db" where
  "demo_db =
     (initial_db 0)\<lparr>current_executions := [\<lparr>ce_namespace_id = 1, ce_workflow_id = ''w'',
          ce_run_id = ''r1'', ce_create_request_id = ''req''\<rparr>],
        workflow_executions := [demo_we],
        history_events := map (event_row demo_ext 10 demo_key) (zip [1, 2] (start_events demo_start)),
        workflow_tasks := [demo_wt], wt_seq := 2\<rparr>"

definition demo_sys :: "blob sys" where
  "demo_sys = (initial_sys 0)\<lparr>sdb := demo_db\<rparr>"

lemmas demo_defs = demo_ext_def demo_store_def demo_env_def demo_start_def demo_we_def demo_wt_def
  demo_key_def demo_db_def demo_sys_def initial_db_def initial_sys_def

text \<open>The server reaches it: starting the workflow on the migrated schema produces exactly it.\<close>

lemma demo_start_tx:
  "start_tx demo_ext demo_store 10 1 ''r1'' demo_start (initial_db 0) = (Inr (), demo_db)"
  by (simp add: demo_defs start_tx_def monad_simps q_InsertCurrentExecution_def
      q_CreateWorkflowExecution_def Let_def new_we_row_def we_key_def AppendHistory_def start_events_def
      q_AdvanceNextEventID_def bigint_ok_def ids_from_def insert_event_def q_InsertHistoryEvent_def he_run_def
      q_EnqueueWorkflowTask_def new_wt_row_def PartitionFor_def durationToPgInt8_def event_row_def)

lemma demo_db_reachable: "reachable demo_ext demo_store demo_db"
proof -
  have "db_step demo_ext demo_store (initial_db 0) (tx (start_tx demo_ext demo_store 10 1 ''r1'' demo_start) (initial_db 0))"
    by (rule token_step.start)
  then show ?thesis
    by (auto simp: tx_def demo_start_tx intro: reachable.intros)
qed

lemma demo_db_wf: "db_wf demo_db"
  using demo_db_reachable by (rule reachable_wf)

lemma demo_find_we: "find_we demo_key demo_db = Some demo_we"
  by (simp add: find_we_def demo_defs we_key_def)

text \<open>A second workflow beside the first.\<close>

definition demo_start2 :: start_params where
  "demo_start2 = demo_start\<lparr>sp_WorkflowID := ''v''\<rparr>"

definition demo_key2 :: run_key where
  "demo_key2 = (1, ''v'', ''r9'')"

definition demo_db2 :: "blob db" where
  "demo_db2 = tx (start_tx demo_ext demo_store 10 1 ''r9'' demo_start2) demo_db"

lemma demo_db2_wf: "db_wf demo_db2"
  unfolding demo_db2_def by (rule db_step_wf [OF token_step.start demo_db_wf])

lemma demo_find_we2:
  "find_we demo_key demo_db2 = Some demo_we"
  "find_we demo_key2 demo_db2 = Some (demo_we\<lparr>we_workflow_id := ''v'', we_run_id := ''r9''\<rparr>)"
  by (simp_all add: find_we_def tx_def demo_db2_def demo_start2_def demo_key2_def demo_defs start_tx_def monad_simps
      q_InsertCurrentExecution_def ce_key_def q_CreateWorkflowExecution_def Let_def new_we_row_def we_key_def
      AppendHistory_def start_events_def q_AdvanceNextEventID_def bigint_ok_def ids_from_def insert_event_def
      q_InsertHistoryEvent_def he_run_def q_EnqueueWorkflowTask_def new_wt_row_def PartitionFor_def
      durationToPgInt8_def event_row_def)

end
