(* ===== verification/LogProps.thy ===== *)
theory LogProps
  imports Demo
begin

text \<open>
  The event log as an abstract data type: an interface of append-only logs with optimistic
  writers, its interpretation on \<open>AppendHistory\<close>, and the properties of the log over runs of
  the whole store.
\<close>

section \<open>Append-only logs with optimistic writers\<close>

locale optimistic_log =
  fixes inv :: "'s \<Rightarrow> bool"
    and content :: "'s \<Rightarrow> 'k \<Rightarrow> 'e list option"
    and enc :: "'n \<Rightarrow> 'e"
    and app :: "'t \<Rightarrow> 'k \<Rightarrow> int \<Rightarrow> 'n list \<Rightarrow> 's \<Rightarrow> 's option"
  assumes app_inv: "inv s \<Longrightarrow> app t k e ns s = Some s' \<Longrightarrow> inv s'"
    and app_own: "inv s \<Longrightarrow> ns \<noteq> [] \<Longrightarrow> app t k e ns s = Some s' \<Longrightarrow>
      \<exists>l. content s k = Some l \<and> e = int (length l) + 1 \<and> content s' k = Some (l @ map enc ns)"
    and app_other: "inv s \<Longrightarrow> ns \<noteq> [] \<Longrightarrow> app t k e ns s = Some s' \<Longrightarrow> k' \<noteq> k \<Longrightarrow> content s' k' = content s k'"
begin

text \<open>Of two writers that read the same version at most one succeeds.\<close>

lemma one_winner:
  assumes "inv s" and "ns \<noteq> []" and "ms \<noteq> []" and "app t k e ns s = Some s1"
  shows "app t' k e ms s1 = None"
proof (rule ccontr)
  assume "app t' k e ms s1 \<noteq> None"
  then obtain s2 where s2: "app t' k e ms s1 = Some s2" by auto
  from app_own [OF assms(1,2,4)] obtain l where l: "content s1 k = Some (l @ map enc ns)" "e = int (length l) + 1"
    by auto
  from app_own [OF app_inv [OF assms(1,4)] assms(3) s2] l assms(2) show False by auto
qed

text \<open>Writers of different logs do not disturb each other.\<close>

lemma independent:
  assumes "inv s" and "ns \<noteq> []" and "ms \<noteq> []" and "k' \<noteq> k"
    and "app t k e ns s = Some s1" and "app t' k' e' ms s1 = Some s2"
  shows "\<exists>l l'. content s k = Some l \<and> content s k' = Some l' \<and>
    content s2 k = Some (l @ map enc ns) \<and> content s2 k' = Some (l' @ map enc ms)"
  using app_own [OF assms(1,2,5)] app_other [OF assms(1,2,5,4)]
    app_own [OF app_inv [OF assms(1,5)] assms(3,6)] app_other [OF app_inv [OF assms(1,5)] assms(3,6), of k] assms(4)
  by auto

end

text \<open>The log of a run as the list of its stored (type, attributes) pairs.\<close>

definition run_log :: "'b db \<Rightarrow> run_key \<Rightarrow> (string \<times> 'b) list option" where
  "run_log d k =
     (if k \<in> we_keys d then Some (map (\<lambda>r. (he_event_type r, he_attributes r)) (run_events k d)) else None)"

definition log_entry :: "'b ext \<Rightarrow> new_event \<Rightarrow> string \<times> 'b" where
  "log_entry X ev = (event_type_String (NEType ev), the (marshal_attrs X (NEAttributes ev)))"

definition append_op :: "'b ext \<Rightarrow> timestamp \<Rightarrow> run_key \<Rightarrow> int \<Rightarrow> new_event list \<Rightarrow> 'b db \<Rightarrow> 'b db option" where
  "append_op X now k e evs d =
     (case AppendHistory X now k e evs d of (Inl _, _) \<Rightarrow> None | (Inr _, d') \<Rightarrow> Some d')"

lemma append_op_Some: "append_op X now k e evs d = Some d' \<Longrightarrow> \<exists>x. AppendHistory X now k e evs d = (Inr x, d')"
  by (auto simp: append_op_def split: prod.splits sum.splits)

lemma map_entries:
  "map (\<lambda>r. (he_event_type r, he_attributes r)) (map (event_row X now k) (zip (ids_from e (length evs)) evs))
     = map (log_entry X) evs"
proof -
  have "map (\<lambda>r. (he_event_type r, he_attributes r)) (map (event_row X now k) (zip (ids_from e (length evs)) evs))
      = map (log_entry X) (map snd (zip (ids_from e (length evs)) evs))"
    by (simp add: event_row_def log_entry_def del: map_snd_zip)
  then show ?thesis by (simp only: map_snd_zip length_ids_from)
qed

lemma run_log_appended:
  "k \<in> we_keys d \<Longrightarrow> run_log (appended X now k e evs d) k' =
     (if k' = k then Some (map (\<lambda>r. (he_event_type r, he_attributes r)) (run_events k d) @ map (log_entry X) evs)
      else run_log d k')"
  using map_entries [of X now k e evs] by (simp add: run_log_def run_events_appended)

lemma run_events_length:
  "log_wf d \<Longrightarrow> find_we k d = Some r \<Longrightarrow> we_next_event_id r = int (length (run_events k d)) + 1"
  using log_wf_ids [of d k r] by (metis (no_types, lifting) add.commute diff_add_cancel length_ids_from
      length_map nat_0_le zle_diff1_eq add_increasing2 diff_ge_0_iff_ge)

interpretation hlog: optimistic_log log_wf run_log "log_entry X" "append_op X"
  for X :: "'b ext"
proof
  fix d d' :: "'b db" and now k e evs
  assume wf: "log_wf d" and "append_op X now k e evs d = Some d'"
  then show "log_wf d'" by (auto dest!: append_op_Some intro: AppendHistory_log_wf)
next
  fix d d' :: "'b db" and now k e and evs :: "new_event list"
  assume wf: "log_wf d" and ne: "evs \<noteq> []" and "append_op X now k e evs d = Some d'"
  then obtain x where "AppendHistory X now k e evs d = (Inr x, d')" by (auto dest: append_op_Some)
  then obtain r where r: "find_we k d = Some r" "we_next_event_id r = e" and d': "d' = appended X now k e evs d"
    by (rule AppendHistory_succE [OF wf ne])
  with find_we_key [OF r(1)] run_events_length [OF wf r(1)]
  show "\<exists>l. run_log d k = Some l \<and> e = int (length l) + 1 \<and> run_log d' k = Some (l @ map (log_entry X) evs)"
    by (simp add: run_log_appended) (simp add: run_log_def)
next
  fix d d' :: "'b db" and now k e k' and evs :: "new_event list"
  assume wf: "log_wf d" and ne: "evs \<noteq> []" and "append_op X now k e evs d = Some d'" and k': "k' \<noteq> k"
  then obtain x where "AppendHistory X now k e evs d = (Inr x, d')" by (auto dest: append_op_Some)
  then obtain r where "find_we k d = Some r" and "d' = appended X now k e evs d"
    by (rule AppendHistory_succE [OF wf ne])
  with k' show "run_log d' k' = run_log d k'" by (simp add: run_log_appended find_we_key)
qed

section \<open>The version of a run never goes back\<close>

lemma run_events_grow: "grows d d' \<Longrightarrow> \<exists>xs. run_events k d' = run_events k d @ xs"
  by (auto simp: grows_def log_ext_def run_events_def)

lemma version_mono:
  assumes "grows d d'" and "log_wf d" and "log_wf d'" and "find_we k d = Some r"
  obtains r' where "find_we k d' = Some r'" and "we_next_event_id r \<le> we_next_event_id r'"
proof -
  have "k \<in> we_keys d'" using find_we_key [OF assms(4)] assms(1) by (auto simp: grows_def log_ext_def)
  then obtain r' where r': "find_we k d' = Some r'" by (metis find_we_None not_None_eq)
  from run_events_grow [OF assms(1)] obtain xs where "run_events k d' = run_events k d @ xs" by blast
  with run_events_length [OF assms(2,4)] run_events_length [OF assms(3) r']
  have "we_next_event_id r \<le> we_next_event_id r'" by simp
  with r' that show ?thesis by blast
qed

section \<open>Properties\<close>

text \<open>
  (C1) In every database the store can reach from the migrated schema, by any interleaving of
  transactions and statements, the events of a run have exactly the ids 1, 2, ... up to
  \<^verbatim>\<open>next_event_id - 1\<close>, in the order they were written, and the first two are
  \<^verbatim>\<open>WorkflowExecutionStarted\<close> and \<^verbatim>\<open>WorkflowTaskScheduled\<close>.
\<close>

theorem reachable_history_contiguous:
  assumes "reachable X S d" and "find_we k d = Some r"
  shows "map he_event_id (run_events k d) = ids_from 1 (nat (we_next_event_id r - 1)) \<and>
    take 2 (map he_event_type (run_events k d)) =
      [''HISTORY_EVENT_TYPE_WORKFLOW_EXECUTION_STARTED'', ''HISTORY_EVENT_TYPE_WORKFLOW_TASK_SCHEDULED'']"
proof -
  have wf: "db_wf d" using assms(1) by (rule reachable_wf)
  then have "opens (run_events k d)"
    using find_we_key [OF assms(2)] by (auto simp: db_wf_def gen_wf_def started_wf_def)
  moreover have "event_type_String EV_WORKFLOW_EXECUTION_STARTED = ''HISTORY_EVENT_TYPE_WORKFLOW_EXECUTION_STARTED''"
      "event_type_String EV_WORKFLOW_TASK_SCHEDULED = ''HISTORY_EVENT_TYPE_WORKFLOW_TASK_SCHEDULED''"
    by (simp_all add: event_type_String_def HistoryEventType_names_def)
  ultimately show ?thesis
    using log_wf_ids [OF _ assms(2)] wf by (auto simp: opens_def)
qed

theorem reachable_history_contiguous_witness:
  "map he_event_id (run_events demo_key demo_db) = [1, 2] \<and>
   take 2 (map he_event_type (run_events demo_key demo_db)) =
     [''HISTORY_EVENT_TYPE_WORKFLOW_EXECUTION_STARTED'', ''HISTORY_EVENT_TYPE_WORKFLOW_TASK_SCHEDULED'']"
  using reachable_history_contiguous [OF demo_db_reachable demo_find_we]
  by (simp add: demo_we_def ids_from_def upt_rec)

text \<open>
  (C2) A request is never able to rewrite history: whatever sequence of requests is served, in
  whatever environment, the events a run had are a prefix of the events it has afterwards.
\<close>

theorem served_history_append_only:
  "\<exists>xs. run_events k (sdb (foldl (\<lambda>s (E, req). serve X S E req s) s rs)) = run_events k (sdb s) @ xs"
proof -
  have "(db_step X S)\<^sup>*\<^sup>* (sdb s) (sdb (foldl (\<lambda>s (E, req). serve X S E req s) s rs))"
    by (induction rs arbitrary: s) (auto intro: rtranclp_trans serve_steps)
  then have "grows (sdb s) (sdb (foldl (\<lambda>s (E, req). serve X S E req s) s rs))"
    by (rule dbs.steps_le)
  then show ?thesis by (rule run_events_grow)
qed

text \<open>
  (C3) Serving any sequence of requests from the migrated schema keeps the database well-formed:
  keys unique, every task, timer and current execution pointing to an existing run, leases
  consistent with task states, ids below their sequences, statuses among the six valid ones.
\<close>

theorem served_db_wf:
  "db_wf (sdb (foldl (\<lambda>s (E, req). serve X S E req s) (initial_sys t) rs))"
proof -
  have "(db_step X S)\<^sup>*\<^sup>* (sdb s) (sdb (foldl (\<lambda>s (E, req). serve X S E req s) s rs))" for s
    by (induction rs arbitrary: s) (auto intro: rtranclp_trans serve_steps)
  then show ?thesis
    by (rule dbs.steps_inv) (simp add: initial_sys_def initial_db_wf)
qed

text \<open>
  (C6) \<open>AppendHistory\<close> on every branch: with a current \<open>expected\<close> it stores the events under the
  ids expected, expected + 1, ... and advances the version by their number; with a stale one it
  reports a conflict and changes nothing; an overflow of the counter and an event that does not
  marshal are errors.
\<close>

theorem AppendHistory_outcome:
  fixes k :: run_key
  assumes "log_wf d" and "evs \<noteq> []"
  shows "case find_we k d of
      Some r \<Rightarrow>
        if we_next_event_id r \<noteq> e then AppendHistory X now k e evs d = (Inl ErrConcurrentModification, d)
        else if \<not> bigint_ok (e + int (length evs))
        then AppendHistory X now k e evs d = (Inl (ErrDB ''bigint out of range''), d)
        else if \<not> marshals X evs then fst (AppendHistory X now k e evs d) = Inl ErrMarshal
        else \<exists>d'. AppendHistory X now k e evs d = (Inr (e + int (length evs), ids_from e (length evs)), d')
          \<and> run_events k d' = run_events k d @ map (event_row X now k) (zip (ids_from e (length evs)) evs)
          \<and> find_we k d' = Some (r\<lparr>we_next_event_id := e + int (length evs), we_updated_at := now\<rparr>)
    | None \<Rightarrow> AppendHistory X now k e evs d = (Inl ErrConcurrentModification, d)"
proof (cases "find_we k d")
  case None
  with AppendHistory_stale [OF assms] show ?thesis by simp
next
  case (Some r)
  consider "we_next_event_id r \<noteq> e" | "we_next_event_id r = e" "\<not> bigint_ok (e + int (length evs))"
    | "we_next_event_id r = e" "bigint_ok (e + int (length evs))" by blast
  then show ?thesis
  proof cases
    case 1
    with Some AppendHistory_stale [OF assms, of k e] show ?thesis by simp
  next
    case 2
    with Some AppendHistory_overflow [OF assms Some, of e] show ?thesis by simp
  next
    case 3
    note cur = AppendHistory_current [OF assms Some 3(1) [symmetric] 3(2)]
    show ?thesis
      using Some 3 cur [of X now] find_we_appended [OF assms(1) Some 3(1), of k X now evs]
      by (simp add: run_events_appended)
  qed
qed

theorem AppendHistory_outcome_witness:
  "AppendHistory demo_ext 11 demo_key 2 (start_events demo_start) demo_db = (Inl ErrConcurrentModification, demo_db)"
  using AppendHistory_outcome [where d = demo_db and evs = "start_events demo_start" and k = demo_key and e = 2 and X = demo_ext
      and now = 11, OF db_wf_log [OF demo_db_wf]]
  by (simp add: demo_find_we start_events_def demo_we_def)

text \<open>
  (C7) Mechanism B of ADR-0002: once a writer has appended at version \<open>e\<close>, a second writer that
  read the same version is rejected, with nothing changed, in every later state of the store.
\<close>

theorem stale_writer_rejected_forever:
  assumes "db_wf d" and "evs \<noteq> []" and "evs' \<noteq> []"
    and "AppendHistory X now k e evs d = (Inr x, d1)" and "(db_step X S)\<^sup>*\<^sup>* d1 d2"
  shows "AppendHistory X now' k e evs' d2 = (Inl ErrConcurrentModification, d2)"
proof -
  have wf: "log_wf d" "db_wf d" using assms(1) by auto
  obtain r where r: "find_we k d = Some r" "we_next_event_id r = e" and d1: "d1 = appended X now k e evs d"
    by (rule AppendHistory_succE [OF wf(1) assms(2,4)])
  have wf1: "db_wf d1"
    using succD [OF AppendHistory_gen_wf, of "{}" "{}" d] assms(1,4) unfolding db_wf_def by blast
  have wf2: "db_wf d2" by (rule dbs.steps_inv [OF assms(5) wf1])
  have f1: "find_we k d1 = Some (r\<lparr>we_next_event_id := e + int (length evs), we_updated_at := now\<rparr>)"
    using find_we_appended [OF wf(1) r] by (simp add: d1)
  obtain r2 where "find_we k d2 = Some r2" and "e + int (length evs) \<le> we_next_event_id r2"
    using version_mono [OF dbs.steps_le [OF assms(5)] db_wf_log [OF wf1] db_wf_log [OF wf2] f1] by auto
  moreover from this have "we_next_event_id r2 \<noteq> e" using assms(2) by (cases evs) auto
  ultimately show ?thesis
    using AppendHistory_stale [OF db_wf_log [OF wf2] assms(3), of k e X now'] by simp
qed

theorem stale_writer_rejected_forever_witness:
  "AppendHistory demo_ext 12 demo_key 3 (start_events demo_start)
     (appended demo_ext 11 demo_key 3 (start_events demo_start) demo_db)
   = (Inl ErrConcurrentModification, appended demo_ext 11 demo_key 3 (start_events demo_start) demo_db)"
proof (rule stale_writer_rejected_forever [OF demo_db_wf _ _ _ rtranclp.rtrancl_refl])
  show "AppendHistory demo_ext 11 demo_key 3 (start_events demo_start) demo_db =
      (Inr (5, ids_from 3 (Suc (Suc 0))), appended demo_ext 11 demo_key 3 (start_events demo_start) demo_db)"
    using AppendHistory_current(1) [OF db_wf_log [OF demo_db_wf] _ demo_find_we, of "start_events demo_start" 3 demo_ext 11]
    by (simp add: start_events_def demo_we_def bigint_ok_def marshals_def demo_ext_def)
qed (simp_all add: start_events_def)

text \<open>
  (C8) Refinement: seen as one list of (type, attributes) entries per run, the store is a map of
  append-only logs. An append succeeds in the store exactly when its version is the length of
  the list plus one, and then its effect is the abstract one: its run's list gets the new
  entries at its end and every other list stays.
\<close>

definition log_append ::
  "run_key \<Rightarrow> int \<Rightarrow> (string \<times> 'b) list \<Rightarrow> (run_key \<Rightarrow> (string \<times> 'b) list option) \<Rightarrow>
   (run_key \<Rightarrow> (string \<times> 'b) list option) option" where
  "log_append k e es L =
     (case L k of
        None \<Rightarrow> None
      | Some l \<Rightarrow> if e = int (length l) + 1 then Some (L(k \<mapsto> l @ es)) else None)"

theorem AppendHistory_refines_log:
  assumes "log_wf d" and "evs \<noteq> []" and "marshals X evs" and "bigint_ok (e + int (length evs))"
  shows "map_option run_log (append_op X now k e evs d) = log_append k e (map (log_entry X) evs) (run_log d)"
proof (cases "find_we k d")
  case None
  then have "run_log d k = None" by (simp add: run_log_def find_we_None)
  moreover have "AppendHistory X now k e evs d = (Inl ErrConcurrentModification, d)"
    using AppendHistory_stale [OF assms(1,2)] None by simp
  ultimately show ?thesis by (simp add: log_append_def append_op_def)
next
  case (Some r)
  have L: "run_log d k = Some (map (\<lambda>r. (he_event_type r, he_attributes r)) (run_events k d))"
    using find_we_key [OF Some] by (simp add: run_log_def)
  have v: "we_next_event_id r = int (length (run_events k d)) + 1"
    using run_events_length [OF assms(1) Some] .
  show ?thesis
  proof (cases "we_next_event_id r = e")
    case True
    have "AppendHistory X now k e evs d = (Inr (e + int (length evs), ids_from e (length evs)), appended X now k e evs d)"
      using AppendHistory_current(1) [OF assms(1,2) Some True [symmetric] assms(4,3)] .
    moreover have "run_log (appended X now k e evs d) = (run_log d)(k \<mapsto>
        map (\<lambda>r. (he_event_type r, he_attributes r)) (run_events k d) @ map (log_entry X) evs)"
      using run_log_appended [OF find_we_key [OF Some]] by (auto simp: fun_eq_iff)
    ultimately show ?thesis using True v L by (simp add: append_op_def log_append_def)
  next
    case False
    with AppendHistory_stale [OF assms(1,2), of k e X now] Some v L show ?thesis
      by (simp add: append_op_def log_append_def)
  qed
qed

theorem AppendHistory_refines_log_witness:
  "map_option run_log (append_op demo_ext 11 demo_key 3 (start_events demo_start) demo_db) =
     log_append demo_key 3 (map (log_entry demo_ext) (start_events demo_start)) (run_log demo_db)"
  by (rule AppendHistory_refines_log)
    (simp_all add: db_wf_log demo_db_wf start_events_def bigint_ok_def marshals_def demo_ext_def)

text \<open>
  Writers of different runs do not disturb each other: when both appends succeed, one after
  the other, each run's log has exactly its own writer's entries added.
\<close>

lemma AppendHistory_independent_runs:
  assumes "log_wf d" and "evs \<noteq> []" and "evs' \<noteq> []" and "k' \<noteq> k"
    and "append_op X now k e evs d = Some d1" and "append_op X now' k' e' evs' d1 = Some d2"
  shows "\<exists>l l'. run_log d k = Some l \<and> run_log d k' = Some l' \<and>
    run_log d2 k = Some (l @ map (log_entry X) evs) \<and> run_log d2 k' = Some (l' @ map (log_entry X) evs')"
  by (rule hlog.independent [OF assms])

end
