(* ===== verification/ExecProps.thy ===== *)
theory ExecProps
  imports LogProps
begin

text \<open>
  What the client-facing operations of the store do: starting a workflow (new run, retried
  request, conflict), signals and cancel requests, termination, history pages, status names.
\<close>

section \<open>Creating a run\<close>

lemma advance_append:
  assumes "k \<notin> we_key ` set rows" and "we_key r = k" and "we_next_event_id r = e"
  shows "advance now k e n (rows @ [r]) = rows @ [r\<lparr>we_next_event_id := e + n, we_updated_at := now\<rparr>]"
proof -
  have "sql_update P f rows = rows" if "\<And>x. x \<in> set rows \<Longrightarrow> \<not> P x" for P and f :: "we_row \<Rightarrow> we_row"
    using that by (rule sql_update_none)
  then have "advance now k e n rows = rows"
    unfolding advance_def using assms(1) by (metis (mono_tags, lifting) image_eqI)
  then show ?thesis using assms(2,3) by (simp add: advance_def)
qed

text \<open>The database after the three statements that create a run.\<close>

definition created ::
  "'b ext \<Rightarrow> timestamp \<Rightarrow> create_we_params \<Rightarrow> new_event list \<Rightarrow> enqueue_wt_params \<Rightarrow> 'b db \<Rightarrow> 'b db" where
  "created X now p evs q d =
     d\<lparr>workflow_executions := workflow_executions d @ [(new_we_row now p)\<lparr>we_next_event_id := 1 + int (length evs)\<rparr>],
       history_events := history_events d @ map (event_row X now (cp_namespace_id p, cp_workflow_id p, cp_run_id p))
         (zip (ids_from 1 (length evs)) evs),
       workflow_tasks := workflow_tasks d @ [new_wt_row now q (wt_seq d)], wt_seq := wt_seq d + 1\<rparr>"

text \<open>The row of the new run: its key is fresh, its history empty.\<close>

lemma create_row:
  assumes wf: "log_wf d" and fresh: "k \<notin> we_keys d" and k: "k = (cp_namespace_id p, cp_workflow_id p, cp_run_id p)"
  shows "log_wf (d\<lparr>workflow_executions := workflow_executions d @ [new_we_row now p]\<rparr>)"
    and "find_we k (d\<lparr>workflow_executions := workflow_executions d @ [new_we_row now p]\<rparr>) = Some (new_we_row now p)"
proof -
  let ?r = "new_we_row now p"
  let ?d = "d\<lparr>workflow_executions := workflow_executions d @ [?r]\<rparr>"
  have key: "we_key ?r = k" by (simp add: we_key_def new_we_row_def k)
  have keys: "we_keys ?d = insert k (we_keys d)" by (simp add: we_keys_def key)
  show wf': "log_wf ?d"
    using wf run_events_empty [OF wf fresh] fresh
    by (auto simp: log_wf_def keys run_events_def we_keys_def key new_we_row_def [THEN arg_cong [of _ _ we_next_event_id]]
        bigint_ok_def)
  show "find_we k ?d = Some ?r"
    using find_we_mem [OF wf', of ?r] key by simp
qed

lemma create_run_eq:
  assumes wf: "log_wf d" and ns: "cp_namespace_id p \<in> ns_id ` set (namespaces d)"
    and fresh: "k \<notin> we_keys d" and k: "k = (cp_namespace_id p, cp_workflow_id p, cp_run_id p)"
    and evs: "evs \<noteq> []" "marshals X evs" "bigint_ok (1 + int (length evs))"
  shows "bindM (q_CreateWorkflowExecution now p) (\<lambda>_. bindM (AppendHistory X now k 1 evs) (\<lambda>_.
      q_EnqueueWorkflowTask now q)) d = (Inr (), created X now p evs q d)"
proof -
  let ?r = "new_we_row now p"
  have key: "we_key ?r = k" by (simp add: we_key_def new_we_row_def k)
  let ?d = "d\<lparr>workflow_executions := workflow_executions d @ [?r]\<rparr>"
  have "List.find (\<lambda>x. ns_id x = cp_namespace_id p) (namespaces d) \<noteq> None"
    using ns by (auto simp: find_None_iff)
  moreover have "List.find (\<lambda>x. we_key x = we_key ?r) (workflow_executions d) = None"
    using fresh by (auto simp: find_None_iff we_keys_def key)
  ultimately have c: "q_CreateWorkflowExecution now p d = (Inr (), ?d)"
    by (simp add: q_CreateWorkflowExecution_def Let_def)
  note row = create_row [OF wf fresh k, of now]
  have a: "AppendHistory X now k 1 evs ?d = (Inr (1 + int (length evs), ids_from 1 (length evs)), appended X now k 1 evs ?d)"
    by (rule AppendHistory_current(1) [OF row(1) evs(1) row(2) _ evs(3,2)]) (simp add: new_we_row_def)
  have "advance now k 1 (int (length evs)) (workflow_executions d @ [?r]) =
      workflow_executions d @ [?r\<lparr>we_next_event_id := 1 + int (length evs), we_updated_at := now\<rparr>]"
    using fresh key by (intro advance_append) (simp_all add: we_keys_def new_we_row_def)
  then have "appended X now k 1 evs ?d = d\<lparr>
      workflow_executions := workflow_executions d @ [?r\<lparr>we_next_event_id := 1 + int (length evs)\<rparr>],
      history_events := history_events d @ map (event_row X now k) (zip (ids_from 1 (length evs)) evs)\<rparr>"
    by (simp add: appended_def new_we_row_def)
  with c a show ?thesis
    by (simp add: bindM_Inr q_EnqueueWorkflowTask_def created_def k)
qed

text \<open>Conversely, success means that the namespace exists, the key was fresh and the events marshal.\<close>

lemma create_run_InrD:
  assumes run: "bindM (q_CreateWorkflowExecution now p) (\<lambda>_. bindM (AppendHistory X now k 1 evs) (\<lambda>_.
      q_EnqueueWorkflowTask now q)) d = (Inr u, d')"
    and wf: "log_wf d" and k: "k = (cp_namespace_id p, cp_workflow_id p, cp_run_id p)"
    and evs: "evs \<noteq> []" "bigint_ok (1 + int (length evs))"
  shows "k \<notin> we_keys d \<and> d' = created X now p evs q d"
proof -
  have key: "we_key (new_we_row now p) = k" by (simp add: we_key_def new_we_row_def k)
  from run obtain d1 x d2 where c: "q_CreateWorkflowExecution now p d = (Inr (), d1)"
      and a: "AppendHistory X now k 1 evs d1 = (Inr x, d2)" by (elim bindM_InrE) auto
  from c key have ns: "cp_namespace_id p \<in> ns_id ` set (namespaces d)" and fresh: "k \<notin> we_keys d"
      and d1: "d1 = d\<lparr>workflow_executions := workflow_executions d @ [new_we_row now p]\<rparr>"
    by (auto simp: q_CreateWorkflowExecution_def Let_def we_keys_def find_None_iff find_Some_iff intro: rev_image_eqI split: if_splits)
  have "marshals X evs"
    by (rule AppendHistory_succE [OF create_row(1) [OF wf fresh k, of now] evs(1) a [unfolded d1]])
  from create_run_eq [OF wf ns fresh k evs(1) this evs(2), of now q] run fresh show ?thesis by simp
qed

lemma find_we_created:
  assumes "log_wf d" and "k \<notin> we_keys d" and "k = (cp_namespace_id p, cp_workflow_id p, cp_run_id p)"
  shows "find_we k (created X now p evs q d) = Some ((new_we_row now p)\<lparr>we_next_event_id := 1 + int (length evs)\<rparr>)"
    and "run_events k (created X now p evs q d) = map (event_row X now k) (zip (ids_from 1 (length evs)) evs)"
proof -
  have "List.find (\<lambda>x. we_key x = k) (workflow_executions d) = None"
    using assms(2) by (auto simp: find_None_iff we_keys_def)
  then show "find_we k (created X now p evs q d) = Some ((new_we_row now p)\<lparr>we_next_event_id := 1 + int (length evs)\<rparr>)"
    by (simp add: find_we_def created_def find_append we_key_def new_we_row_def assms(3))
  show "run_events k (created X now p evs q d) = map (event_row X now k) (zip (ids_from 1 (length evs)) evs)"
    using run_events_empty [OF assms(1,2)]
    by (auto simp: run_events_def created_def assms(3) [symmetric] intro: filter_True)
qed

section \<open>Starting a workflow\<close>

definition current_run :: "int \<Rightarrow> string \<Rightarrow> 'b db \<Rightarrow> ce_row option" where
  "current_run ns wid d = List.find (\<lambda>c. ce_key c = (ns, wid)) (current_executions d)"

definition namespace_id :: "string \<Rightarrow> 'b db \<Rightarrow> int option" where
  "namespace_id name d = map_option ns_id (List.find (\<lambda>n. ns_name n = name) (namespaces d))"

lemma getNamespaceID_Some: "namespace_id name (sdb s) = Some n \<Longrightarrow> getNamespaceID name s = (Inr n, s)"
  by (auto simp: namespace_id_def getNamespaceID_eq)

lemma getNamespaceID_None: "namespace_id name (sdb s) = None \<Longrightarrow> getNamespaceID name s = (Inl ErrNamespaceNotFound, s)"
  by (auto simp: namespace_id_def getNamespaceID_eq)

text \<open>No current run, or one that is closed and was started by another request.\<close>

definition startable :: "int \<Rightarrow> start_params \<Rightarrow> 'b db \<Rightarrow> bool" where
  "startable ns p d =
     (case current_run ns (sp_WorkflowID p) d of
        None \<Rightarrow> True
      | Some c \<Rightarrow> ce_create_request_id c \<noteq> sp_RequestID p \<and>
          (case find_we (ns, sp_WorkflowID p, ce_run_id c) d of
             None \<Rightarrow> False | Some we \<Rightarrow> we_status we \<noteq> ''RUNNING''))"

definition point_current :: "int \<Rightarrow> uuid \<Rightarrow> start_params \<Rightarrow> 'b db \<Rightarrow> 'b db" where
  "point_current ns rid p d =
     (if current_run ns (sp_WorkflowID p) d = None
      then d\<lparr>current_executions := current_executions d @ [\<lparr>ce_namespace_id = ns, ce_workflow_id = sp_WorkflowID p,
             ce_run_id = rid, ce_create_request_id = sp_RequestID p\<rparr>]\<rparr>
      else d\<lparr>current_executions := sql_update (\<lambda>c. ce_key c = (ns, sp_WorkflowID p))
             (\<lambda>c. c\<lparr>ce_run_id := rid, ce_create_request_id := sp_RequestID p\<rparr>) (current_executions d)\<rparr>)"

definition start_create :: "store \<Rightarrow> int \<Rightarrow> uuid \<Rightarrow> start_params \<Rightarrow> create_we_params" where
  "start_create S ns rid p =
     \<lparr>cp_namespace_id = ns, cp_workflow_id = sp_WorkflowID p, cp_run_id = rid,
      cp_workflow_type = sp_WorkflowType p, cp_task_queue = sp_TaskQueue p,
      cp_shard_id = PartitionFor (sp_WorkflowID p) (numShards S),
      cp_execution_timeout_ns = durationToPgInt8 (sp_WorkflowExecutionTimeout p),
      cp_run_timeout_ns = durationToPgInt8 (sp_WorkflowRunTimeout p),
      cp_task_timeout_ns = durationToPgInt8 (sp_WorkflowTaskTimeout p)\<rparr>"

definition start_enqueue :: "store \<Rightarrow> int \<Rightarrow> uuid \<Rightarrow> start_params \<Rightarrow> enqueue_wt_params" where
  "start_enqueue S ns rid p =
     \<lparr>ep_namespace_id = ns, ep_task_queue_name = sp_TaskQueue p,
      ep_task_queue_partition = PartitionFor (sp_WorkflowID p) (numTaskQueuePartitions S),
      ep_workflow_id = sp_WorkflowID p, ep_run_id = rid, ep_scheduled_event_id = 2,
      ep_preferred_worker_identity = None, ep_sticky_deadline = None\<rparr>"

lemma point_current_sel [simp]:
  "namespaces (point_current ns rid p d) = namespaces d"
  "workflow_executions (point_current ns rid p d) = workflow_executions d"
  "history_events (point_current ns rid p d) = history_events d"
  "workflow_tasks (point_current ns rid p d) = workflow_tasks d"
  "wt_seq (point_current ns rid p d) = wt_seq d"
  by (simp_all add: point_current_def)

lemma log_wf_point_current [simp]: "log_wf (point_current ns rid p d) = log_wf d"
  by (simp add: log_wf_def we_keys_def run_events_def)

lemma current_run_point_current:
  "current_run ns (sp_WorkflowID p) (point_current ns rid p d) =
     Some (case current_run ns (sp_WorkflowID p) d of
       None \<Rightarrow> \<lparr>ce_namespace_id = ns, ce_workflow_id = sp_WorkflowID p, ce_run_id = rid,
               ce_create_request_id = sp_RequestID p\<rparr>
     | Some c \<Rightarrow> c\<lparr>ce_run_id := rid, ce_create_request_id := sp_RequestID p\<rparr>)"
proof -
  have "List.find (\<lambda>c. ce_key c = k) (sql_update (\<lambda>c. ce_key c = k) f rows) =
      map_option (\<lambda>c. if ce_key c = k then f c else c) (List.find (\<lambda>c. ce_key c = k) rows)"
    if "\<And>c. ce_key (f c) = ce_key c" for k f rows
    using that by (rule find_key_sql_update)
  from this [of "\<lambda>c. c\<lparr>ce_run_id := rid, ce_create_request_id := sp_RequestID p\<rparr>" "(ns, sp_WorkflowID p)"
      "current_executions d"]
  show ?thesis
    by (auto simp: current_run_def point_current_def find_append ce_key_def split: option.split dest: find_SomeD)
qed

lemma start_tx_new:
  assumes wf: "log_wf d" and ns: "ns \<in> ns_id ` set (namespaces d)" and st: "startable ns p d"
    and fresh: "(ns, sp_WorkflowID p, rid) \<notin> we_keys d" and m: "marshals X (start_events p)"
  shows "start_tx X S now ns rid p d =
    (Inr (), created X now (start_create S ns rid p) (start_events p) (start_enqueue S ns rid p)
       (point_current ns rid p d))"
proof -
  let ?d = "point_current ns rid p d"
  have front: "bindM (q_InsertCurrentExecution ns (sp_WorkflowID p) rid (sp_RequestID p)) (\<lambda>inserted.
      bindM (if inserted = 0 then start_existing ns rid p else ret ()) f) d = f () ?d" for f :: "unit \<Rightarrow> 'a db \<Rightarrow> (error + unit) \<times> 'a db"
    using st
    by (auto simp: monad_simps q_InsertCurrentExecution_def start_existing_def startable_def current_run_def
        point_current_def q_GetCurrentExecution_def q_GetWorkflowExecution_eq q_ReplaceCurrentExecution_def
        split: option.splits)
  have "we_keys ?d = we_keys d" by (simp add: we_keys_def)
  then have "bindM (q_CreateWorkflowExecution now (start_create S ns rid p)) (\<lambda>_.
      bindM (AppendHistory X now (ns, sp_WorkflowID p, rid) 1 (start_events p)) (\<lambda>_.
      q_EnqueueWorkflowTask now (start_enqueue S ns rid p))) ?d =
      (Inr (), created X now (start_create S ns rid p) (start_events p) (start_enqueue S ns rid p) ?d)"
    using wf ns fresh m
    by (intro create_run_eq) (simp_all add: start_create_def start_events_def bigint_ok_def)
  then show ?thesis
    unfolding start_tx_def front start_create_def start_enqueue_def .
qed

lemma start_tx_replay:
  assumes "current_run ns (sp_WorkflowID p) d = Some c" and "ce_create_request_id c = sp_RequestID p"
  shows "start_tx X S now ns rid p d = (Inl (ErrIdempotentReplay (ce_run_id c)), d)"
  using assms
  by (simp add: start_tx_def monad_simps q_InsertCurrentExecution_def start_existing_def current_run_def
      q_GetCurrentExecution_def)

lemma start_tx_conflict:
  assumes "current_run ns (sp_WorkflowID p) d = Some c" and "ce_create_request_id c \<noteq> sp_RequestID p"
    and "find_we (ns, sp_WorkflowID p, ce_run_id c) d = Some we" and "we_status we = ''RUNNING''"
  shows "start_tx X S now ns rid p d = (Inl ErrWorkflowAlreadyRunning, d)"
  using assms
  by (simp add: start_tx_def monad_simps q_InsertCurrentExecution_def start_existing_def current_run_def
      q_GetCurrentExecution_def q_GetWorkflowExecution_eq)

lemma namespace_id_mem: "namespace_id name d = Some n \<Longrightarrow> n \<in> ns_id ` set (namespaces d)"
  by (auto simp: namespace_id_def dest: find_SomeD)

lemma StartWorkflowExecution_new:
  assumes "log_wf (sdb s)" and "namespace_id (sp_Namespace p) (sdb s) = Some ns" and "startable ns p (sdb s)"
    and "(ns, sp_WorkflowID p, new_uuid E 0) \<notin> we_keys (sdb s)" and "marshals X (start_events p)"
  shows "StartWorkflowExecution X S E p s =
    (Inr (new_uuid E 0),
     s\<lparr>sdb := created X (db_now E 0) (start_create S ns (new_uuid E 0) p) (start_events p)
         (start_enqueue S ns (new_uuid E 0) p) (point_current ns (new_uuid E 0) p (sdb s)),
       counters := (counters s)\<lparr>WorkflowStartedTotal := WorkflowStartedTotal (counters s) + 1\<rparr>,
       notif := notify (workflowQueueKey ns (sp_TaskQueue p)) (notif s)\<rparr>)"
  using start_tx_new [OF assms(1) namespace_id_mem [OF assms(2)] assms(3,4,5), of S "db_now E 0"]
    getNamespaceID_Some [OF assms(2)]
  by (simp add: StartWorkflowExecution_def bindM_Inr withTx_def onDB_def) (simp add: monad_simps)

section \<open>Properties of start\<close>

text \<open>
  (C9) Starting a workflow whose id has no open run: the call returns the new run id; the run
  exists with status RUNNING and exactly the two opening events, with ids 1 and 2; the current
  execution of the workflow id is the new run; one PENDING workflow task for event 2 is added
  behind the existing ones; pollers of the queue are notified.
\<close>

theorem start_creates_run:
  assumes "db_wf (sdb s)" and "namespace_id (sp_Namespace p) (sdb s) = Some ns" and "startable ns p (sdb s)"
    and "(ns, sp_WorkflowID p, new_uuid E 0) \<notin> we_keys (sdb s)" and "marshals X (start_events p)"
  shows "\<exists>s' r t c. StartWorkflowExecution X S E p s = (Inr (new_uuid E 0), s') \<and>
    find_we (ns, sp_WorkflowID p, new_uuid E 0) (sdb s') = Some r \<and>
    we_status r = ''RUNNING'' \<and> we_next_event_id r = 3 \<and> we_task_queue r = sp_TaskQueue p \<and>
    run_events (ns, sp_WorkflowID p, new_uuid E 0) (sdb s') =
      map (event_row X (db_now E 0) (ns, sp_WorkflowID p, new_uuid E 0)) (zip [1, 2] (start_events p)) \<and>
    current_run ns (sp_WorkflowID p) (sdb s') = Some c \<and> ce_run_id c = new_uuid E 0 \<and>
    workflow_tasks (sdb s') = workflow_tasks (sdb s) @ [t] \<and> wt_status t = PENDING \<and>
    wt_run t = (ns, sp_WorkflowID p, new_uuid E 0) \<and> wt_scheduled_event_id t = 2 \<and>
    notif s' = notify (workflowQueueKey ns (sp_TaskQueue p)) (notif s)"
proof -
  let ?k = "(ns, sp_WorkflowID p, new_uuid E 0)" and ?d = "point_current ns (new_uuid E 0) p (sdb s)"
  let ?d' = "created X (db_now E 0) (start_create S ns (new_uuid E 0) p) (start_events p)
      (start_enqueue S ns (new_uuid E 0) p) ?d"
  have wf: "log_wf ?d" using assms(1) by (simp add: db_wf_log)
  have fresh: "?k \<notin> we_keys ?d" using assms(4) by (simp add: we_keys_def)
  have k: "?k = (cp_namespace_id (start_create S ns (new_uuid E 0) p), cp_workflow_id (start_create S ns (new_uuid E 0) p),
      cp_run_id (start_create S ns (new_uuid E 0) p))" by (simp add: start_create_def)
  note call = StartWorkflowExecution_new [OF db_wf_log [OF assms(1)] assms(2-5), of S]
  note run = find_we_created [OF wf fresh k, of X "db_now E 0" "start_events p" "start_enqueue S ns (new_uuid E 0) p"]
  have two: "ids_from 1 (length (start_events p)) = [1, 2]"
    by (simp add: start_events_def ids_from_def upt_rec)
  obtain c where "current_run ns (sp_WorkflowID p) ?d = Some c" "ce_run_id c = new_uuid E 0"
    using current_run_point_current [of ns p "new_uuid E 0" "sdb s"] by (auto split: option.splits)
  then have "current_run ns (sp_WorkflowID p) ?d' = Some c" "ce_run_id c = new_uuid E 0"
    by (simp_all add: current_run_def created_def)
  then show ?thesis
    using call run two
    by (simp add: new_we_row_def start_create_def created_def new_wt_row_def start_enqueue_def wt_run_def
        start_events_def)
qed

theorem start_creates_run_witness:
  "\<exists>s' r t c. StartWorkflowExecution demo_ext demo_store demo_env demo_start (initial_sys 0) = (Inr ''r1'', s') \<and>
    find_we demo_key (sdb s') = Some r \<and>
    we_status r = ''RUNNING'' \<and> we_next_event_id r = 3 \<and> we_task_queue r = ''q'' \<and>
    run_events demo_key (sdb s') = map (event_row demo_ext 10 demo_key) (zip [1, 2] (start_events demo_start)) \<and>
    current_run 1 ''w'' (sdb s') = Some c \<and> ce_run_id c = ''r1'' \<and>
    workflow_tasks (sdb s') = workflow_tasks (sdb (initial_sys 0)) @ [t] \<and> wt_status t = PENDING \<and>
    wt_run t = demo_key \<and> wt_scheduled_event_id t = 2 \<and>
    notif s' = notify (workflowQueueKey 1 ''q'') (notif (initial_sys 0))"
  using start_creates_run [of "initial_sys 0" demo_start 1 demo_env demo_ext demo_store]
    initial_db_wf [of 0]
  by (simp add: demo_defs namespace_id_def startable_def current_run_def we_keys_def marshals_def start_events_def)


text \<open>The two halves of the transaction: pointing the workflow id at the run, and creating the run.\<close>

definition start_point :: "int \<Rightarrow> uuid \<Rightarrow> start_params \<Rightarrow> 'b db \<Rightarrow> (error + unit) \<times> 'b db" where
  "start_point ns rid p =
     bindM (q_InsertCurrentExecution ns (sp_WorkflowID p) rid (sp_RequestID p)) (\<lambda>inserted.
       if inserted = 0 then start_existing ns rid p else ret ())"

definition start_run ::
  "'b ext \<Rightarrow> store \<Rightarrow> timestamp \<Rightarrow> int \<Rightarrow> uuid \<Rightarrow> start_params \<Rightarrow> 'b db \<Rightarrow> (error + unit) \<times> 'b db" where
  "start_run X S now ns rid p =
     bindM (q_CreateWorkflowExecution now (start_create S ns rid p)) (\<lambda>_.
     bindM (AppendHistory X now (ns, sp_WorkflowID p, rid) 1 (start_events p)) (\<lambda>_.
     q_EnqueueWorkflowTask now (start_enqueue S ns rid p)))"

lemma start_tx_split: "start_tx X S now ns rid p = bindM (start_point ns rid p) (\<lambda>_. start_run X S now ns rid p)"
  by (simp add: start_tx_def start_point_def start_run_def bind_assoc start_create_def start_enqueue_def)

lemma start_point_eq:
  "start_point ns rid p d =
     (case current_run ns (sp_WorkflowID p) d of
        None \<Rightarrow> (Inr (), point_current ns rid p d)
      | Some c \<Rightarrow>
          if ce_create_request_id c = sp_RequestID p then (Inl (ErrIdempotentReplay (ce_run_id c)), d)
          else case find_we (ns, sp_WorkflowID p, ce_run_id c) d of
                 None \<Rightarrow> (Inl ErrNoRows, d)
               | Some we \<Rightarrow> if we_status we = ''RUNNING'' then (Inl ErrWorkflowAlreadyRunning, d)
                            else (Inr (), point_current ns rid p d))"
  by (auto simp: start_point_def monad_simps q_InsertCurrentExecution_def start_existing_def current_run_def
      point_current_def q_GetCurrentExecution_def q_GetWorkflowExecution_eq q_ReplaceCurrentExecution_def
      split: option.splits)

lemma keeps_start_run: "keeps (\<lambda>d. current_executions d = c \<and> namespaces d = n) (start_run X S now ns rid p)"
  unfolding start_run_def AppendHistory_def
  by (intro keeps_bindM keeps_if keeps_mapErr keeps_forM keeps_ret keepsI)
    (auto simp: q_CreateWorkflowExecution_def Let_def q_AdvanceNextEventID_def insert_event_def
      q_InsertHistoryEvent_def q_EnqueueWorkflowTask_def monad_simps split: option.split)

lemma start_run_no_replay: "never (ErrIdempotentReplay r) (start_run X S now ns rid p)"
  unfolding start_run_def AppendHistory_def
  by (intro never_bindM never_if never_forM never_ret neverI)
    (auto simp: q_CreateWorkflowExecution_def Let_def q_AdvanceNextEventID_def insert_event_def
      q_InsertHistoryEvent_def q_EnqueueWorkflowTask_def monad_simps split: option.splits)

text \<open>After a commit the workflow id points at the new run; a replay found it pointing at the old one.\<close>

lemma start_tx_InrD:
  assumes "start_tx X S now ns rid p d = (Inr u, d')"
  shows "namespaces d' = namespaces d \<and>
    (\<exists>c. current_run ns (sp_WorkflowID p) d' = Some c \<and> ce_run_id c = rid \<and> ce_create_request_id c = sp_RequestID p)"
proof -
  obtain d1 where d1: "start_point ns rid p d = (Inr (), d1)" "start_run X S now ns rid p d1 = (Inr u, d')"
    using assms unfolding start_tx_split by (auto elim: bindM_InrE)
  then have "d1 = point_current ns rid p d"
    by (auto simp: start_point_eq split: option.splits if_splits)
  moreover have "current_executions d' = current_executions d1 \<and> namespaces d' = namespaces d1"
    using keepsD [OF keeps_start_run, where s = d1] d1(2) by (metis snd_conv)
  ultimately show ?thesis
    using current_run_point_current [of ns p rid d] by (auto simp: current_run_def split: option.splits)
qed

lemma start_tx_replayD:
  assumes "start_tx X S now ns rid p d = (Inl (ErrIdempotentReplay r), d')"
  shows "d' = d \<and> (\<exists>c. current_run ns (sp_WorkflowID p) d = Some c \<and> ce_run_id c = r \<and>
    ce_create_request_id c = sp_RequestID p)"
  using assms neverD [OF start_run_no_replay [of r X S now ns rid p]]
  unfolding start_tx_split bindM_def start_point_eq
  by (auto split: option.splits if_splits)

text \<open>
  (C10) Idempotence: whatever a successful start did, repeating it with the same parameters,
  in any environment, returns the same run id and changes nothing at all.
\<close>

theorem start_idempotent:
  assumes "StartWorkflowExecution X S E p s = (Inr rid, s')"
  shows "StartWorkflowExecution X S E' p s' = (Inr rid, s')"
proof -
  obtain ns where ns: "namespace_id (sp_Namespace p) (sdb s) = Some ns"
    using assms getNamespaceID_None [of "sp_Namespace p" s]
    by (cases "namespace_id (sp_Namespace p) (sdb s)") (auto simp: StartWorkflowExecution_def bindM_Inl)
  obtain r d' where tx: "start_tx X S (db_now E 0) ns (new_uuid E 0) p (sdb s) = (r, d')"
    by fastforce
  have "namespaces (sdb s') = namespaces (sdb s) \<and> (\<exists>c. current_run ns (sp_WorkflowID p) (sdb s') = Some c \<and>
      ce_run_id c = rid \<and> ce_create_request_id c = sp_RequestID p)"
  proof (cases r)
    case (Inl e)
    with assms tx getNamespaceID_Some [OF ns] have "e = ErrIdempotentReplay rid" "sdb s' = rollback (sdb s) d'"
      by (auto simp: StartWorkflowExecution_def bindM_Inr withTx_def onDB_def split: error.splits)
    with Inl tx start_tx_replayD [of X S "db_now E 0" ns "new_uuid E 0" p "sdb s" rid d'] show ?thesis
      by auto
  next
    case (Inr u)
    with assms tx getNamespaceID_Some [OF ns] have "rid = new_uuid E 0" "sdb s' = d'"
      by (auto simp: StartWorkflowExecution_def bindM_Inr withTx_def onDB_def monad_simps)
    with Inr tx start_tx_InrD [of X S "db_now E 0" ns "new_uuid E 0" p "sdb s" u d'] show ?thesis
      by auto
  qed
  then obtain c where c: "namespaces (sdb s') = namespaces (sdb s)" "current_run ns (sp_WorkflowID p) (sdb s') = Some c"
      "ce_run_id c = rid" "ce_create_request_id c = sp_RequestID p" by blast
  from c(1) ns have "namespace_id (sp_Namespace p) (sdb s') = Some ns" by (simp add: namespace_id_def)
  with start_tx_replay [OF c(2,4), of X S "db_now E' 0" "new_uuid E' 0"] c(3) show ?thesis
    by (simp add: StartWorkflowExecution_def bindM_Inr getNamespaceID_Some withTx_def onDB_def)
qed

theorem start_idempotent_witness:
  "StartWorkflowExecution demo_ext demo_store demo_env demo_start demo_sys = (Inr ''r1'', demo_sys) \<and>
   StartWorkflowExecution demo_ext demo_store (demo_env\<lparr>new_uuid := (\<lambda>_. ''other'')\<rparr>) demo_start demo_sys =
     (Inr ''r1'', demo_sys)"
proof -
  have "StartWorkflowExecution demo_ext demo_store demo_env demo_start demo_sys = (Inr ''r1'', demo_sys)"
    by (simp add: demo_defs StartWorkflowExecution_def getNamespaceID_eq bindM_def withTx_def onDB_def start_tx_def
        monad_simps q_InsertCurrentExecution_def ce_key_def start_existing_def q_GetCurrentExecution_def)
  with start_idempotent [OF this] show ?thesis by blast
qed

text \<open>
  (C11) Mutual exclusion of runs: with an open current run that another request started, the
  call fails with \<open>ErrWorkflowAlreadyRunning\<close> and nothing changes.
\<close>

theorem start_conflict:
  assumes "namespace_id (sp_Namespace p) (sdb s) = Some ns"
    and "current_run ns (sp_WorkflowID p) (sdb s) = Some c" and "ce_create_request_id c \<noteq> sp_RequestID p"
    and "find_we (ns, sp_WorkflowID p, ce_run_id c) (sdb s) = Some we" and "we_status we = ''RUNNING''"
  shows "StartWorkflowExecution X S E p s = (Inl ErrWorkflowAlreadyRunning, s)"
  using start_tx_conflict [OF assms(2-5), of X S "db_now E 0" "new_uuid E 0"] getNamespaceID_Some [OF assms(1)]
  by (simp add: StartWorkflowExecution_def bindM_Inr withTx_def onDB_def)

theorem start_conflict_witness:
  "StartWorkflowExecution demo_ext demo_store demo_env (demo_start\<lparr>sp_RequestID := ''req2''\<rparr>) demo_sys =
     (Inl ErrWorkflowAlreadyRunning, demo_sys)"
  by (rule start_conflict [where ns = 1 and we = demo_we and c = "\<lparr>ce_namespace_id = 1, ce_workflow_id = ''w'',
          ce_run_id = ''r1'', ce_create_request_id = ''req''\<rparr>"])
    (simp_all add: demo_defs namespace_id_def current_run_def ce_key_def find_we_def we_key_def)

end
