(* ===== verification/WakeProps.thy ===== *)
theory WakeProps
  imports ExecProps
begin

text \<open>
  The operations that append an event to an open run and wake its workflow: signal, cancel
  request, and termination, which closes it instead. Their shared block \<open>wake_run\<close> is
  characterised once.
\<close>

section \<open>The shared block\<close>

definition scheduled_event :: "we_row \<Rightarrow> new_event" where
  "scheduled_event we = newEvent EV_WORKFLOW_TASK_SCHEDULED (WorkflowTaskScheduled (we_task_queue we))"

definition wake_task :: "store \<Rightarrow> timestamp \<Rightarrow> run_key \<Rightarrow> we_row \<Rightarrow> enqueue_wt_params" where
  "wake_task S gonow k we =
     \<lparr>ep_namespace_id = fst k, ep_task_queue_name = we_task_queue we,
      ep_task_queue_partition = PartitionFor (fst (snd k)) (numTaskQueuePartitions S),
      ep_workflow_id = fst (snd k), ep_run_id = snd (snd k), ep_scheduled_event_id = we_next_event_id we + 1,
      ep_preferred_worker_identity = fst (stickyEnqueueFields gonow we),
      ep_sticky_deadline = snd (stickyEnqueueFields gonow we)\<rparr>"

text \<open>The database after the block.\<close>

definition woken ::
  "'b ext \<Rightarrow> store \<Rightarrow> timestamp \<Rightarrow> timestamp \<Rightarrow> run_key \<Rightarrow> new_event \<Rightarrow> we_row \<Rightarrow> 'b db \<Rightarrow> 'b db" where
  "woken X S now gonow k ev we d =
     (appended X now k (we_next_event_id we) [ev, scheduled_event we] d)
       \<lparr>workflow_tasks := workflow_tasks d @ [new_wt_row now (wake_task S gonow k we) (wt_seq d)],
        wt_seq := wt_seq d + 1\<rparr>"

text \<open>The run exists, its counter has room for two events and both can be marshalled.\<close>

definition wakeable :: "'b ext \<Rightarrow> run_key \<Rightarrow> new_event \<Rightarrow> we_row \<Rightarrow> 'b db \<Rightarrow> bool" where
  "wakeable X k ev we d \<longleftrightarrow> find_we k d = Some we \<and> bigint_ok (we_next_event_id we + 2) \<and>
     marshals X [ev, scheduled_event we]"

lemma wake_run_eq:
  assumes "log_wf d" and "wakeable X k ev we d"
  shows "wake_run X S now gonow k ev d = (Inr (we_task_queue we), woken X S now gonow k ev we d)"
proof -
  have we: "find_we k d = Some we" using assms(2) by (simp add: wakeable_def)
  have "AppendHistory X now k (we_next_event_id we) [ev, scheduled_event we] d =
      (Inr (we_next_event_id we + int 2, ids_from (we_next_event_id we) 2),
       appended X now k (we_next_event_id we) [ev, scheduled_event we] d)"
    using AppendHistory_current(1) [OF assms(1) _ we refl, of "[ev, scheduled_event we]" X now] assms(2)
    by (simp add: wakeable_def numeral_2_eq_2)
  then show ?thesis
    using we
    by (simp add: wake_run_def bindM_def q_GetWorkflowExecution_eq scheduled_event_def enqueue_wake_def
        q_EnqueueWorkflowTask_def woken_def wake_task_def ret_def Let_def)
qed

lemma woken_sel [simp]:
  "namespaces (woken X S now gonow k ev we d) = namespaces d"
  "current_executions (woken X S now gonow k ev we d) = current_executions d"
  "activity_tasks (woken X S now gonow k ev we d) = activity_tasks d"
  "query_tasks (woken X S now gonow k ev we d) = query_tasks d"
  "timers (woken X S now gonow k ev we d) = timers d"
  "workflow_tasks (woken X S now gonow k ev we d) =
     workflow_tasks d @ [new_wt_row now (wake_task S gonow k we) (wt_seq d)]"
  by (simp_all add: woken_def)

lemma run_events_woken:
  "run_events k' (woken X S now gonow k ev we d) =
     run_events k' d @ (if k' = k then map (event_row X now k)
       [(we_next_event_id we, ev), (we_next_event_id we + 1, scheduled_event we)] else [])"
proof -
  have "run_events k' (woken X S now gonow k ev we d) =
      run_events k' (appended X now k (we_next_event_id we) [ev, scheduled_event we] d)"
    by (simp add: woken_def run_events_def)
  also have "ids_from (we_next_event_id we) (length [ev, scheduled_event we]) =
      [we_next_event_id we, we_next_event_id we + 1]"
    by (simp add: ids_from_Suc)
  then have "run_events k' (appended X now k (we_next_event_id we) [ev, scheduled_event we] d) =
     run_events k' d @ (if k' = k then map (event_row X now k)
       [(we_next_event_id we, ev), (we_next_event_id we + 1, scheduled_event we)] else [])"
    unfolding run_events_appended by simp
  finally show ?thesis .
qed

lemma wake_run_missing: "find_we k d = None \<Longrightarrow> wake_run X S now gonow k ev d = (Inl ErrNoRows, d)"
  by (simp add: wake_run_def bindM_def q_GetWorkflowExecution_eq)

text \<open>What a client sees of a woken run; the statement the operations share.\<close>

definition wakes ::
  "'b ext \<Rightarrow> timestamp \<Rightarrow> run_key \<Rightarrow> new_event \<Rightarrow> we_row \<Rightarrow> 'b sys \<Rightarrow> 'b sys \<Rightarrow> bool" where
  "wakes X now k ev we s s' \<longleftrightarrow>
     run_events k (sdb s') = run_events k (sdb s) @
       map (event_row X now k) [(we_next_event_id we, ev), (we_next_event_id we + 1, scheduled_event we)] \<and>
     (\<forall>k'. k' \<noteq> k \<longrightarrow> run_events k' (sdb s') = run_events k' (sdb s)) \<and>
     (\<exists>t. workflow_tasks (sdb s') = workflow_tasks (sdb s) @ [t] \<and> wt_status t = PENDING \<and>
        wt_run t = k \<and> wt_task_queue_name t = we_task_queue we \<and>
        wt_scheduled_event_id t = we_next_event_id we + 1) \<and>
     notif s' = notify (workflowQueueKey (fst k) (we_task_queue we)) (notif s)"

lemma wakesI:
  assumes "sdb s' = woken X S now gonow k ev we d"
    and "history_events d = history_events (sdb s)" "workflow_tasks d = workflow_tasks (sdb s)"
    and "notif s' = notify (workflowQueueKey (fst k) (we_task_queue we)) (notif s)"
  shows "wakes X now k ev we s s'"
proof -
  have "run_events k' (sdb s) = run_events k' d" for k' using assms(2) by (simp add: run_events_def)
  then show ?thesis
    using assms by (auto simp: wakes_def run_events_woken new_wt_row_def wake_task_def wt_run_def)
qed

section \<open>Signal and cancel\<close>

lemma resolve_run_eq:
  "resolve_run ns wid rid d =
     (if rid \<noteq> '''' then (Inr rid, d)
      else case current_run ns wid d of None \<Rightarrow> (Inl ErrNoRows, d) | Some c \<Rightarrow> (Inr (ce_run_id c), d))"
  by (simp add: resolve_run_def monad_simps q_GetCurrentExecution_def current_run_def split: option.split)

lemma retry_first:
  "onDB (fn 0) s = (Inr x, s') \<Longrightarrow> withTxRetryOnConflict (\<lambda>i. onDB (fn i)) s = (Inr x, s')"
  by (simp add: withTxRetryOnConflict_def maxConcurrentModificationRetries_def numeral_eq_Suc withTx_def)

text \<open>The run a request names: the given run id, or the current run when it is empty.\<close>

definition target_run :: "int \<Rightarrow> string \<Rightarrow> string \<Rightarrow> 'b db \<Rightarrow> string option" where
  "target_run ns wid rid d = (if rid \<noteq> '''' then Some rid else map_option ce_run_id (current_run ns wid d))"

lemma resolve_run_target:
  "resolve_run ns wid rid d = (case target_run ns wid rid d of None \<Rightarrow> (Inl ErrNoRows, d) | Some r \<Rightarrow> (Inr r, d))"
  by (simp add: resolve_run_eq target_run_def split: option.split)

abbreviation signal_event :: "signal_params \<Rightarrow> new_event" where
  "signal_event p \<equiv> newEvent EV_WORKFLOW_EXECUTION_SIGNALED (WorkflowExecutionSignaled (sg_SignalName p) (sg_Input p))"

abbreviation cancel_event :: "cancel_params \<Rightarrow> new_event" where
  "cancel_event p \<equiv> newEvent EV_WORKFLOW_EXECUTION_CANCEL_REQUESTED (WorkflowExecutionCancelRequested (cn_Reason p))"

text \<open>
  (C12) A signal to an existing run (named, or the current one) succeeds at the first attempt:
  the run's history grows by the signal event and a task-scheduled event with the next two
  ids, no other run's history changes, one PENDING workflow task pointing at the second event
  is added behind the queue, and the pollers of the run's task queue are notified.
\<close>

theorem signal_wakes_run:
  assumes "db_wf (sdb s)" and "namespace_id (sg_Namespace p) (sdb s) = Some ns"
    and "target_run ns (sg_WorkflowID p) (sg_RunID p) (sdb s) = Some rid"
    and "wakeable X (ns, sg_WorkflowID p, rid) (signal_event p) we (sdb s)"
  shows "\<exists>s'. SignalWorkflowExecution X S E p s = (Inr (), s') \<and>
    wakes X (db_now E 0) (ns, sg_WorkflowID p, rid) (signal_event p) we s s'"
proof -
  let ?d = "woken X S (db_now E 0) (go_now E 0) (ns, sg_WorkflowID p, rid) (signal_event p) we (sdb s)"
  have "onDB (signal_tx X S (db_now E 0) (go_now E 0) ns p) s = (Inr (we_task_queue we), s\<lparr>sdb := ?d\<rparr>)"
    using wake_run_eq [OF db_wf_log [OF assms(1)] assms(4)] assms(3)
    by (simp add: onDB_def signal_tx_def bindM_def resolve_run_target)
  from retry_first [where fn = "\<lambda>i. signal_tx X S (db_now E i) (go_now E i) ns p", OF this]
  have "SignalWorkflowExecution X S E p s =
      (Inr (), s\<lparr>sdb := ?d, notif := notify (workflowQueueKey ns (we_task_queue we)) (notif s)\<rparr>)"
    using getNamespaceID_Some [OF assms(2)]
    by (simp add: SignalWorkflowExecution_def bindM_Inr) (simp add: monad_simps)
  then show ?thesis
    by (intro exI [of _ "s\<lparr>sdb := ?d, notif := notify (workflowQueueKey ns (we_task_queue we)) (notif s)\<rparr>"] conjI)
      (auto intro!: wakesI [where d = "sdb s"])
qed

definition demo_signal :: signal_params where
  "demo_signal = \<lparr>sg_Namespace = ''default'', sg_WorkflowID = ''w'', sg_RunID = '''', sg_SignalName = ''go'',
     sg_Input = None\<rparr>"

lemma demo_namespace: "namespace_id ''default'' demo_db = Some 1"
  by (simp add: namespace_id_def demo_defs)

lemma demo_wakeable: "wakeable demo_ext demo_key ev demo_we demo_db"
  using demo_find_we by (simp add: wakeable_def marshals_def bigint_ok_def) (simp add: demo_ext_def demo_we_def)

lemma demo_target: "target_run 1 ''w'' '''' demo_db = Some ''r1''"
  by (simp add: target_run_def current_run_def demo_defs ce_key_def)

theorem signal_wakes_run_witness:
  "\<exists>s'. SignalWorkflowExecution demo_ext demo_store demo_env demo_signal demo_sys = (Inr (), s') \<and>
    wakes demo_ext (db_now demo_env 0) demo_key (signal_event demo_signal) demo_we demo_sys s'"
proof -
  have "sdb demo_sys = demo_db" by (simp add: demo_sys_def)
  then show ?thesis
    using signal_wakes_run [of demo_sys demo_signal 1 "''r1''" demo_ext demo_we demo_store demo_env]
      demo_db_wf demo_namespace demo_target demo_wakeable [of "signal_event demo_signal"]
    by (simp add: demo_signal_def demo_key_def)
qed

text \<open>The same for a cancel request, with the cancel-requested event; the status does not change.\<close>

lemma cancel_wakes_run:
  assumes "db_wf (sdb s)" and "namespace_id (cn_Namespace p) (sdb s) = Some ns"
    and "target_run ns (cn_WorkflowID p) (cn_RunID p) (sdb s) = Some rid"
    and "wakeable X (ns, cn_WorkflowID p, rid) (cancel_event p) we (sdb s)"
  shows "\<exists>s'. RequestCancelWorkflowExecution X S E p s = (Inr (), s') \<and>
    wakes X (db_now E 0) (ns, cn_WorkflowID p, rid) (cancel_event p) we s s' \<and>
    (\<exists>we'. find_we (ns, cn_WorkflowID p, rid) (sdb s') = Some we' \<and> we_status we' = we_status we)"
proof -
  let ?k = "(ns, cn_WorkflowID p, rid)"
  let ?d = "woken X S (db_now E 0) (go_now E 0) ?k (cancel_event p) we (sdb s)"
  let ?s = "s\<lparr>sdb := ?d, notif := notify (workflowQueueKey ns (we_task_queue we)) (notif s)\<rparr>"
  have wf: "log_wf (sdb s)" using assms(1) by (rule db_wf_log)
  have "onDB (cancel_tx X S (db_now E 0) (go_now E 0) ns p) s = (Inr (we_task_queue we), s\<lparr>sdb := ?d\<rparr>)"
    using wake_run_eq [OF wf assms(4)] assms(3)
    by (simp add: onDB_def cancel_tx_def bindM_def resolve_run_target)
  from retry_first [where fn = "\<lambda>i. cancel_tx X S (db_now E i) (go_now E i) ns p", OF this]
  have "RequestCancelWorkflowExecution X S E p s = (Inr (), ?s)"
    using getNamespaceID_Some [OF assms(2)]
    by (simp add: RequestCancelWorkflowExecution_def bindM_Inr) (simp add: monad_simps)
  moreover have "wakes X (db_now E 0) ?k (cancel_event p) we s ?s"
    by (auto intro!: wakesI [where d = "sdb s"])
  moreover have "find_we ?k (woken X S n g ?k ev we (sdb s)) =
      find_we ?k (appended X n ?k (we_next_event_id we) [ev, scheduled_event we] (sdb s))" for n g ev
    by (simp add: woken_def find_we_def)
  then have "\<exists>we'. find_we ?k ?d = Some we' \<and> we_status we' = we_status we"
    using find_we_appended [OF wf _ refl, of ?k we ?k] assms(4) by (simp add: wakeable_def)
  ultimately show ?thesis by (intro exI [of _ ?s]) simp
qed

section \<open>Termination\<close>

text \<open>
  (C13) Terminating an existing run appends exactly one terminated event and closes the run with
  status TERMINATED and a close time. It adds no workflow task and removes none: a task that was
  already queued for the run stays queued.
\<close>

theorem terminate_closes_run:
  assumes "db_wf (sdb s)" and "namespace_id nm (sdb s) = Some ns"
    and "target_run ns wid rid0 (sdb s) = Some rid" and "find_we (ns, wid, rid) (sdb s) = Some we"
    and "bigint_ok (we_next_event_id we + 1)"
    and "marshals X [newEvent EV_WORKFLOW_EXECUTION_TERMINATED (WorkflowExecutionTerminated reason)]"
  shows "\<exists>s' we'. TerminateWorkflowExecution X E nm wid rid0 reason s = (Inr (), s') \<and>
    run_events (ns, wid, rid) (sdb s') = run_events (ns, wid, rid) (sdb s) @
      [event_row X (db_now E 0) (ns, wid, rid) (we_next_event_id we,
         newEvent EV_WORKFLOW_EXECUTION_TERMINATED (WorkflowExecutionTerminated reason))] \<and>
    find_we (ns, wid, rid) (sdb s') = Some we' \<and> we_status we' = ''TERMINATED'' \<and>
    we_close_time we' = Some (db_now E 0) \<and> workflow_tasks (sdb s') = workflow_tasks (sdb s) \<and>
    notif s' = notif s"
proof -
  let ?k = "(ns, wid, rid)" and ?e = "we_next_event_id we" and ?now = "db_now E 0"
  let ?ev = "newEvent EV_WORKFLOW_EXECUTION_TERMINATED (WorkflowExecutionTerminated reason)"
  let ?a = "appended X ?now ?k ?e [?ev] (sdb s)"
  define d where "d = snd (q_CloseWorkflowExecution ?now ?k ''TERMINATED'' ?a)"
  have wf: "log_wf (sdb s)" using assms(1) by (rule db_wf_log)
  have close: "q_CloseWorkflowExecution ?now ?k ''TERMINATED'' ?a = (Inr (), d)"
    by (simp add: d_def q_CloseWorkflowExecution_def valid_statuses_def)
  have "AppendHistory X ?now ?k ?e [?ev] (sdb s) = (Inr (?e + int 1, ids_from ?e 1), ?a)"
    using AppendHistory_current(1) [OF wf _ assms(4) refl _ assms(6)] assms(5) by simp
  then have tx: "TerminateWorkflowExecution X E nm wid rid0 reason s = (Inr (), s\<lparr>sdb := d\<rparr>)"
    using getNamespaceID_Some [OF assms(2)] assms(3,4) close
    by (simp add: TerminateWorkflowExecution_def bindM_def withTx_def onDB_def terminate_tx_def
        resolve_run_target q_GetWorkflowExecution_eq)
  have hist: "run_events ?k d = run_events ?k (sdb s) @ [event_row X ?now ?k (?e, ?ev)]"
  proof -
    have "run_events ?k d = run_events ?k ?a"
      by (simp add: d_def q_CloseWorkflowExecution_def valid_statuses_def run_events_def)
    then show ?thesis by (simp add: run_events_appended ids_from_Suc)
  qed
  have "find_we ?k d = map_option (\<lambda>r. if we_key r = ?k
      then r\<lparr>we_status := ''TERMINATED'', we_close_time := Some ?now, we_updated_at := ?now\<rparr> else r) (find_we ?k ?a)"
    unfolding find_we_def d_def q_CloseWorkflowExecution_def
    by (simp add: valid_statuses_def) (rule find_key_sql_update, simp)
  with find_we_appended [OF wf assms(4) refl, of ?k X ?now "[?ev]"] find_we_SomeD [OF assms(4)]
  have "\<exists>we'. find_we ?k d = Some we' \<and> we_status we' = ''TERMINATED'' \<and> we_close_time we' = Some ?now"
    by simp
  with tx hist show ?thesis
    by (auto simp: d_def q_CloseWorkflowExecution_def valid_statuses_def)
qed

theorem terminate_closes_run_witness:
  "\<exists>s' we'. TerminateWorkflowExecution demo_ext demo_env ''default'' ''w'' '''' ''why'' demo_sys = (Inr (), s') \<and>
    run_events demo_key (sdb s') = run_events demo_key demo_db @
      [event_row demo_ext (db_now demo_env 0) demo_key
        (3, newEvent EV_WORKFLOW_EXECUTION_TERMINATED (WorkflowExecutionTerminated ''why''))] \<and>
    find_we demo_key (sdb s') = Some we' \<and> we_status we' = ''TERMINATED'' \<and>
    we_close_time we' = Some (db_now demo_env 0) \<and> workflow_tasks (sdb s') = workflow_tasks demo_db \<and>
    notif s' = notif demo_sys"
proof -
  have "sdb demo_sys = demo_db" "we_next_event_id demo_we = 3" "marshal_attrs demo_ext a \<noteq> None" for a
    by (simp_all add: demo_sys_def demo_we_def demo_ext_def)
  then show ?thesis
    using terminate_closes_run [of demo_sys "''default''" 1 "''w''" "''''" "''r1''" demo_we demo_ext "''why''" demo_env]
      demo_db_wf demo_namespace demo_target demo_find_we
    by (simp add: demo_key_def marshals_def bigint_ok_def)
qed

section \<open>Retry on conflict\<close>

text \<open>The first \<open>n\<close> attempts from attempt \<open>i\<close> on all fail with a conflict, leading from \<open>s\<close> to \<open>s'\<close>.\<close>

fun conflicts :: "(nat \<Rightarrow> 'b sys \<Rightarrow> (error + 'a) \<times> 'b sys) \<Rightarrow> nat \<Rightarrow> nat \<Rightarrow> 'b sys \<Rightarrow> 'b sys \<Rightarrow> bool" where
  "conflicts fn i 0 s s' \<longleftrightarrow> s' = s"
| "conflicts fn i (Suc n) s s' \<longleftrightarrow>
     (\<exists>s1. withTx (fn i) s = (Inl ErrConcurrentModification, s1) \<and> conflicts fn (Suc i) n s1 s')"

lemma retryTx_cases:
  "(\<exists>j < n. \<exists>s1 r s2. conflicts fn i j s s1 \<and> withTx (fn (i + j)) s1 = (r, s2) \<and>
      r \<noteq> Inl ErrConcurrentModification \<and> retryTx i n fn ErrConcurrentModification s = (r, s2)) \<or>
   (\<exists>s'. conflicts fn i n s s' \<and>
      retryTx i n fn ErrConcurrentModification s = (Inl ErrConcurrentModification, s'))"
proof (induction n arbitrary: i s)
  case (Suc n)
  obtain r t where r: "withTx (fn i) s = (r, t)" by fastforce
  show ?case
  proof (cases "r = Inl ErrConcurrentModification")
    case False
    with r have "conflicts fn i 0 s s \<and> withTx (fn (i + 0)) s = (r, t) \<and>
        retryTx i (Suc n) fn ErrConcurrentModification s = (r, t)"
      by (auto split: sum.split)
    with False show ?thesis by blast
  next
    case True
    with r have step: "retryTx i (Suc n) fn ErrConcurrentModification s = retryTx (Suc i) n fn ErrConcurrentModification t"
      by simp
    have more: "conflicts fn (Suc i) j t u \<Longrightarrow> conflicts fn i (Suc j) s u" for j u
      using r True by auto
    from Suc.IH [of "Suc i" t] show ?thesis
    proof (elim disjE exE conjE)
      fix j s1 q s2
      assume *: "j < n" "conflicts fn (Suc i) j t s1" "withTx (fn (Suc i + j)) s1 = (q, s2)"
        "q \<noteq> Inl ErrConcurrentModification" "retryTx (Suc i) n fn ErrConcurrentModification t = (q, s2)"
      then show ?thesis
        unfolding step using more [OF *(2)]
        by (intro disjI1 exI [of _ "Suc j"] conjI exI [of _ s1] exI [of _ q] exI [of _ s2]) (simp_all del: conflicts.simps)
    next
      fix s' assume "conflicts fn (Suc i) n t s'"
        "retryTx (Suc i) n fn ErrConcurrentModification t = (Inl ErrConcurrentModification, s')"
      then show ?thesis unfolding step using more by blast
    qed
  qed
qed simp

lemma conflicts_tables: "conflicts fn i n s s' \<Longrightarrow> \<exists>d. sdb s' = rollback (sdb s) d"
proof (induction n arbitrary: i s)
  case 0
  then show ?case by (intro exI [of _ "sdb s"]) simp
next
  case (Suc n)
  then obtain s1 where s1: "withTx (fn i) s = (Inl ErrConcurrentModification, s1)" "conflicts fn (Suc i) n s1 s'" by auto
  from withTx_atomic [OF s1(1)] Suc.IH [OF s1(2)] show ?case by (auto simp: rollback_def)
qed

text \<open>
  The conflict retry, for any body: either some attempt \<open>j < 5\<close>, after \<open>j\<close> conflicts, gives the
  result (a success or another error), or all five conflict and the conflict is reported.
  In both cases the conflicting attempts left every table as it was.
\<close>

lemma retry_on_conflict_outcome:
  "(\<exists>j < 5. \<exists>s1 d r s2. conflicts fn 0 j s s1 \<and> sdb s1 = rollback (sdb s) d \<and> withTx (fn j) s1 = (r, s2) \<and>
      r \<noteq> Inl ErrConcurrentModification \<and> withTxRetryOnConflict fn s = (r, s2)) \<or>
   (\<exists>s' d. conflicts fn 0 5 s s' \<and> sdb s' = rollback (sdb s) d \<and>
      withTxRetryOnConflict fn s = (Inl ErrConcurrentModification, s'))"
  using retryTx_cases [of maxConcurrentModificationRetries fn 0 s] conflicts_tables [of fn 0 _ s]
  unfolding withTxRetryOnConflict_def maxConcurrentModificationRetries_def by (metis add_0)

end
