(* ===== verification/Codec.thy ===== *)
theory Codec
  imports WakeProps
begin

text \<open>
  The storage format of events: what \<open>AppendHistory\<close> writes, \<open>decodeHistoryEvent\<close> reads back.
  The law of the protobuf library is that a marshalled message of some type unmarshals to
  itself as that type. Every event the store writes carries the event type of its attributes,
  so in every reachable database every stored event decodes.
\<close>

definition proto_law :: "'b ext \<Rightarrow> bool" where
  "proto_law X \<longleftrightarrow> (\<forall>a b. marshal_attrs X a = Some b \<longrightarrow> unmarshal_attrs X (attributes_type a) b = Some a)"

lemma demo_proto_law: "proto_law demo_ext"
  by (auto simp: proto_law_def demo_ext_def)

definition typed :: "new_event \<Rightarrow> bool" where
  "typed ev \<longleftrightarrow> NEType ev = attributes_type (NEAttributes ev)"

text \<open>A stored row is the image of some attributes; \<open>hist_ok\<close>: all rows are.\<close>

definition stored :: "'b ext \<Rightarrow> 'b he_row \<Rightarrow> event_attributes \<Rightarrow> bool" where
  "stored X h a \<longleftrightarrow> he_event_type h = event_type_String (attributes_type a) \<and> marshal_attrs X a = Some (he_attributes h)"

definition hist_ok :: "'b ext \<Rightarrow> 'b db \<Rightarrow> bool" where
  "hist_ok X d \<longleftrightarrow> (\<forall>h \<in> set (history_events d). \<exists>a. stored X h a)"

lemma attributes_type_specified [simp]: "attributes_type a \<noteq> EV_UNSPECIFIED"
  by (cases a) simp_all

lemma decode_stored:
  assumes "proto_law X" and "stored X h a"
  shows "decodeHistoryEvent X h =
    Inr \<lparr>EventId = he_event_id h, EventTime = he_event_time h, EventType = attributes_type a, Attributes = a\<rparr>"
proof -
  from assms have "unmarshal_attrs X (attributes_type a) (he_attributes h) = Some a"
    unfolding proto_law_def stored_def by blast
  with assms(2) show ?thesis by (simp add: decodeHistoryEvent_def stored_def)
qed

lemma stored_event_row:
  "typed ev \<Longrightarrow> marshal_attrs X (NEAttributes ev) \<noteq> None \<Longrightarrow> stored X (event_row X now k (i, ev)) (NEAttributes ev)"
  by (auto simp: stored_def event_row_def typed_def)

lemma decode_rows_InrI:
  "\<forall>h \<in> set rows. \<exists>ev. decodeHistoryEvent X h = Inr ev \<and> EventId ev = he_event_id h \<Longrightarrow>
   \<exists>evs. decode_rows X rows = Inr evs \<and> map EventId evs = map he_event_id rows"
  by (induction rows) auto

lemma decode_rows_length: "decode_rows X rows = Inr evs \<Longrightarrow> length evs = length rows"
  by (induction rows arbitrary: evs) (auto split: sum.splits)

lemma decode_rows_ids: "decode_rows X rows = Inr evs \<Longrightarrow> map EventId evs = map he_event_id rows"
  by (induction rows arbitrary: evs)
    (auto simp: decodeHistoryEvent_def Let_def split: sum.splits option.splits if_splits)

lemma decode_rows_append:
  "decode_rows X (xs @ ys) =
     (case decode_rows X xs of Inl e \<Rightarrow> Inl e
      | Inr a \<Rightarrow> (case decode_rows X ys of Inl e \<Rightarrow> Inl e | Inr b \<Rightarrow> Inr (a @ b)))"
  by (induction xs) (auto split: sum.split)

lemma decode_event_rows:
  assumes "proto_law X" and "\<forall>p \<in> set ps. typed (snd p) \<and> marshal_attrs X (NEAttributes (snd p)) \<noteq> None"
  shows "decode_rows X (map (event_row X now k) ps) =
    Inr (map (\<lambda>(i, ev). \<lparr>EventId = i, EventTime = now, EventType = NEType ev, Attributes = NEAttributes ev\<rparr>) ps)"
  using assms(2)
  by (induction ps)
    (auto simp: typed_def decode_stored [OF assms(1) stored_event_row, unfolded typed_def])

section \<open>Every write keeps the format\<close>

lemma succ_hist_same:
  assumes "\<And>h. keeps (\<lambda>d. history_events d = h) m"
  shows "succ (hist_ok X) m (\<lambda>_. hist_ok X)"
proof (rule succI)
  fix d x d' assume "hist_ok X d" "m d = (Inr x, d')"
  with keepsD [OF assms [of "history_events d"], of d] show "hist_ok X d'" by (simp add: hist_ok_def)
qed

lemma keeps_history_queries:
  "keeps (\<lambda>d. history_events d = h) (q_InsertCurrentExecution ns wid rid req)"
  "keeps (\<lambda>d. history_events d = h) (q_GetCurrentExecution ns wid)"
  "keeps (\<lambda>d. history_events d = h) (q_ReplaceCurrentExecution ns wid rid req)"
  "keeps (\<lambda>d. history_events d = h) (q_GetWorkflowExecution k)"
  "keeps (\<lambda>d. history_events d = h) (q_EnqueueWorkflowTask now ep)"
  "keeps (\<lambda>d. history_events d = h) (q_EnqueueActivityTask now ap)"
  "keeps (\<lambda>d. history_events d = h) (q_InsertTimer tr)"
  "keeps (\<lambda>d. history_events d = h) (q_CompleteWorkflowTask tid u)"
  "keeps (\<lambda>d. history_events d = h) (q_CompleteActivityTask tid u)"
  "keeps (\<lambda>d. history_events d = h) (q_GetActivityTaskByLease tid u)"
  "keeps (\<lambda>d. history_events d = h) (q_RetryActivityTask now tid u b)"
  "keeps (\<lambda>d. history_events d = h) (q_DequeueDueTimer now tlk)"
  "keeps (\<lambda>d. history_events d = h) (q_DequeueWorkflowTask now u0 lk secs q ns w ps)"
  "keeps (\<lambda>d. history_events d = h) (q_DequeueActivityTask now u0 lk q ns ps)"
  "keeps (\<lambda>d. history_events d = h) (q_DequeueQueryTask now u0 lk secs q ns)"
  "keeps (\<lambda>d. history_events d = h) (q_EnqueueQueryTask now ns q wid rid qt args)"
  "keeps (\<lambda>d. history_events d = h) (q_CompleteQueryTask tid u res)"
  "keeps (\<lambda>d. history_events d = h) (q_FailQueryTask tid u msg)"
  "keeps (\<lambda>d. history_events d = h) (q_DeleteQueryTask tid)"
  "keeps (\<lambda>d. history_events d = h) (q_ReapExpiredWorkflowTasks now)"
  "keeps (\<lambda>d. history_events d = h) (q_ReapExpiredActivityTasks now)"
  "keeps (\<lambda>d. history_events d = h) (q_ReapExpiredQueryTasks now)"
  "keeps (\<lambda>d. history_events d = h) (q_CreateNamespace now name)"
  "keeps (\<lambda>d. history_events d = h) (q_CreateWorkflowExecution now p)"
  "keeps (\<lambda>d. history_events d = h) (q_CloseWorkflowExecution now k st)"
  "keeps (\<lambda>d. history_events d = h) (q_SetStickyExecution now k w e)"
  by (rule keepsI; simp add: Let_def q_InsertCurrentExecution_def
      q_GetCurrentExecution_def q_ReplaceCurrentExecution_def q_GetWorkflowExecution_def
      q_EnqueueWorkflowTask_def q_EnqueueActivityTask_def q_InsertTimer_def q_CompleteWorkflowTask_def
      q_CompleteActivityTask_def q_GetActivityTaskByLease_def q_RetryActivityTask_def
      q_DequeueDueTimer_def q_DequeueWorkflowTask_def q_DequeueActivityTask_def q_DequeueQueryTask_def
      q_EnqueueQueryTask_def q_CompleteQueryTask_def q_FailQueryTask_def q_DeleteQueryTask_def
      q_ReapExpiredWorkflowTasks_def q_ReapExpiredActivityTasks_def q_ReapExpiredQueryTasks_def
      q_CreateNamespace_def q_CreateWorkflowExecution_def q_CloseWorkflowExecution_def q_SetStickyExecution_def
      split: option.split prod.split)+

lemmas succ_hist_queries = keeps_history_queries [THEN succ_hist_same]

lemma succ_hist_append: "list_all typed evs \<Longrightarrow> succ (hist_ok X) (AppendHistory X now k e evs) (\<lambda>_. hist_ok X)"
proof -
  assume evs: "list_all typed evs"
  have adv: "succ (hist_ok X) (q_AdvanceNextEventID now k n e) (\<lambda>_. hist_ok X)" for n
    by (intro succ_hist_same keepsI) (simp add: q_AdvanceNextEventID_def split: option.split)
  have ins: "succ (hist_ok X) (insert_event X now k p) (\<lambda>_. hist_ok X)" if "typed (snd p)" for p
  proof (rule succI)
    fix d x d' assume d: "hist_ok X d" and i: "insert_event X now k p d = (Inr x, d')"
    from i have m: "marshal_attrs X (NEAttributes (snd p)) \<noteq> None"
      and h: "history_events d' = history_events d @ [event_row X now k p]"
      by (auto simp: insert_event_def q_InsertHistoryEvent_def event_row_def monad_simps split: option.splits if_splits)
    from stored_event_row [OF that m, of now k "fst p"] d h show "hist_ok X d'" by (auto simp: hist_ok_def)
  qed
  have "typed (snd p)" if "p \<in> set (zip ids evs)" for p and ids :: "int list"
    using that evs set_zip_rightD [of "fst p" "snd p"] by (simp add: list_all_iff)
  then show ?thesis
    unfolding AppendHistory_def
    by (intro succ_if succ_ret succ_bind [OF succ_mapErr [OF adv]] succ_bind [OF succ_forM] ins)
qed

lemma succ_hist_wake: "typed ev \<Longrightarrow> succ (hist_ok X) (wake_run X S now gonow k ev) (\<lambda>_. hist_ok X)"
  unfolding wake_run_def enqueue_wake_def Let_def
  by (intro succ_bind [OF succ_hist_queries(4)] succ_bind [OF succ_hist_append] succ_bind [OF succ_hist_queries(5)] succ_ret)
    (simp_all add: typed_def)

lemma succ_hist_create:
  "list_all typed evs \<Longrightarrow>
   succ (hist_ok X) (bindM (q_CreateWorkflowExecution now p) (\<lambda>_. bindM (AppendHistory X now k 1 evs) (\<lambda>_.
     q_EnqueueWorkflowTask now q))) (\<lambda>_. hist_ok X)"
  by (intro succ_bind [OF succ_hist_queries(24)] succ_bind [OF succ_hist_append] succ_hist_queries(5))

lemma succ_hist_start: "succ (hist_ok X) (start_tx X S now ns rid p) (\<lambda>_. hist_ok X)"
  unfolding start_tx_def start_existing_def
  by (intro succ_bind [OF succ_hist_queries(1)] succ_bind [where Q = "\<lambda>_. hist_ok X"] succ_if succ_ret succ_throw
      succ_bind [OF succ_hist_queries(2)] succ_bind [OF succ_hist_queries(4)] succ_hist_queries succ_hist_append)
    (simp_all add: typed_def start_events_def)

lemma succ_hist_resolve: "succ (hist_ok X) (resolve_run ns wid rid) (\<lambda>_. hist_ok X)"
  unfolding resolve_run_def by (intro succ_if succ_bind [OF succ_hist_queries(2)] succ_ret)

lemma succ_hist_bodies:
  "succ (hist_ok X) (signal_tx X S now gonow ns sp) (\<lambda>_. hist_ok X)"
  "succ (hist_ok X) (cancel_tx X S now gonow ns cp) (\<lambda>_. hist_ok X)"
  "succ (hist_ok X) (terminate_tx X now ns wid rid reason) (\<lambda>_. hist_ok X)"
  "typed ev \<Longrightarrow> succ (hist_ok X) (task_started_tx X now k ev) (\<lambda>_. hist_ok X)"
  "succ (hist_ok X) (complete_activity_tx X S now gonow token res) (\<lambda>_. hist_ok X)"
  "succ (hist_ok X) (fail_activity_tx X S now gonow token row f) (\<lambda>_. hist_ok X)"
  unfolding signal_tx_def cancel_tx_def terminate_tx_def task_started_tx_def complete_activity_tx_def
    completeActivityTaskRow_def fail_activity_tx_def Let_def
  by (auto intro!: succ_bind [OF succ_hist_resolve] succ_bind [OF succ_hist_queries(4)] succ_bind [OF succ_hist_append]
      succ_bind [where P = "hist_ok X" and Q = "\<lambda>_. hist_ok X"] succ_mapErr succ_if succ_hist_queries succ_hist_wake succ_hist_append
      succ_ret succ_throw simp: typed_def)

lemma succ_hist_fire: "succ (hist_ok X) (fire_tx X S E) (\<lambda>_. hist_ok X)"
proof (rule succI)
  fix d x d' assume d: "hist_ok X d" and f: "fire_tx X S E d = (Inr x, d')"
  obtain r d1 where deq: "q_DequeueDueTimer (db_now E 0) (locked_timers E) d = (r, d1)" by fastforce
  have d1: "hist_ok X d1"
    using d keepsD [OF keeps_history_queries(12), of d "history_events d" "db_now E 0" "locked_timers E"] deq
    by (simp add: hist_ok_def)
  show "hist_ok X d'"
  proof (cases r)
    case (Inl e)
    with f deq d1 show ?thesis by (auto simp: fire_tx_def split: if_splits)
  next
    case (Inr t)
    with f deq obtain q where w: "wake_run X S (db_now E 0) (go_now E 0) (tm_namespace_id t, tm_workflow_id t, tm_run_id t)
        (newEvent EV_TIMER_FIRED (TimerFired (tm_timer_id t))) d1 = (Inr q, d')"
      by (auto simp: fire_tx_def ret_def elim!: bindM_InrE)
    have "typed (newEvent EV_TIMER_FIRED (TimerFired (tm_timer_id t)))" by (simp add: typed_def)
    from succD [OF succ_hist_wake [OF this] d1 w] show ?thesis .
  qed
qed

lemma process_command_typed:
  "list_all typed (ca_events a) \<Longrightarrow> process_command X S E k we c a = Inr a' \<Longrightarrow> list_all typed (ca_events a')"
  by (auto simp: process_command_def typed_def Let_def split: command.splits)

lemma process_commands_typed:
  "list_all typed (ca_events a) \<Longrightarrow> process_commands X S E k we cs a = Inr a' \<Longrightarrow> list_all typed (ca_events a')"
  by (induction cs arbitrary: a) (auto split: sum.splits dest: process_command_typed)

lemma succ_hist_front:
  "succ (hist_ok X) (complete_front X S E token cmds) (\<lambda>(we, a) d. hist_ok X d \<and> list_all typed (ca_events a))"
proof -
  have proc: "succ (hist_ok X) (liftE (process_commands X S E k we cmds initial_acc))
      (\<lambda>a d. hist_ok X d \<and> list_all typed (ca_events a))" for k we
    by (rule succ_liftE)
      (auto dest: process_commands_typed [rotated] simp: initial_acc_def typed_def)
  have chk: "succ P (liftE r) (\<lambda>_. P)" for P :: "'a db \<Rightarrow> bool" and r :: "error + unit"
    by (rule succ_liftE)
  show ?thesis
    unfolding complete_front_def
    by (rule succ_bind [OF succ_hist_queries(8)], rule succ_if, rule succ_throw, rule succ_bind [OF succ_hist_queries(4)],
        rule succ_bind [OF proc], rule succ_bind [OF chk], rule succ_ret) simp
qed

lemma succ_hist_effects:
  "list_all typed (ca_events a) \<Longrightarrow> succ (hist_ok X) (complete_effects X E k we a) (\<lambda>_. hist_ok X)"
  unfolding complete_effects_def enqueue_activity_def insert_pending_timer_def
  by (intro succ_bind [OF succ_hist_append] succ_bind [OF succ_forM] succ_forM succ_hist_queries)
    (auto split: prod.split intro: succ_hist_queries)

lemma succ_hist_can: "succ (hist_ok X) (continueWorkflowAsNew X S now req k we rid cmd) (\<lambda>_. hist_ok X)"
  unfolding continueWorkflowAsNew_def Let_def
  by (intro succ_bind [OF succ_hist_queries(3)] succ_hist_create) (simp add: continue_events_def typed_def)

lemma succ_hist_complete:
  "succ (\<lambda>s. hist_ok X (sdb s)) (complete_tx X S E token cmds sticky) (\<lambda>_ s. hist_ok X (sdb s))"
proof -
  let ?I = "\<lambda>s. hist_ok X (sdb s)"
  have eff: "succ (\<lambda>s. hist_ok X (sdb s) \<and> list_all typed (ca_events a)) (onDB (complete_effects X E k we a)) (\<lambda>_. ?I)"
    for k we a
  proof (cases "list_all typed (ca_events a)")
    case True
    show ?thesis by (rule succ_pre [OF succ_onDB [OF succ_hist_effects [OF True]]]) simp
  qed (simp add: succ_def valid_def)
  have close: "succ ?I (bindM (onDB (q_CloseWorkflowExecution now k st)) (\<lambda>_. count f)) (\<lambda>_. ?I)" for now k st f
    by (rule succ_bind [OF succ_onDB [OF succ_hist_queries(25)]]) (rule succ_count)
  have can: "succ ?I (case o' of None \<Rightarrow> ret '''' | Some (cmd, rid) \<Rightarrow>
      bindM (onDB (continueWorkflowAsNew X S now req k we rid cmd)) (\<lambda>_. bindM (count f) (\<lambda>_. ret (g cmd)))) (\<lambda>_. ?I)"
    for o' now req k we f and g :: "continue_as_new_cmd \<Rightarrow> string"
    by (auto split: option.split intro!: succ_ret succ_bind [OF succ_onDB [OF succ_hist_can]] succ_bind [OF succ_count])
  have front: "succ ?I (onDB (complete_front X S E token cmds))
      (\<lambda>(we, a) s. hist_ok X (sdb s) \<and> list_all typed (ca_events a))"
    by (rule succ_post [OF succ_onDB [OF succ_hist_front]]) auto
  show ?thesis
    unfolding complete_tx_def Let_def
    by (rule succ_bind [OF front], rename_tac p, case_tac p, simp only: prod.case, rule succ_bind [OF eff])
      (intro succ_bind [OF can] succ_bind [where P = ?I and Q = "\<lambda>_. ?I"] succ_if succ_ret close
        succ_onDB succ_hist_queries; assumption)
qed

lemma tx_hist_ok: "succ (hist_ok X) m (\<lambda>_. hist_ok X) \<Longrightarrow> hist_ok X d \<Longrightarrow> hist_ok X (tx m d)"
  by (auto simp: tx_def hist_ok_def split: prod.split sum.split dest: succD)

lemma query_hist_ok: "(\<And>h. keeps (\<lambda>d. history_events d = h) m) \<Longrightarrow> hist_ok X d \<Longrightarrow> hist_ok X (snd (m d))"
  using keepsD [of "\<lambda>d'. history_events d' = history_events d" m d] by (simp add: hist_ok_def)

lemma db_step_hist_ok: "db_step X S d d' \<Longrightarrow> hist_ok X d \<Longrightarrow> hist_ok X d'"
proof (induction rule: token_step.induct)
  case (complete_workflow token s E cmds sticky)
  then show ?case
    using succD [OF succ_hist_complete, of X s S E token cmds sticky]
    by (auto simp: withTx_def hist_ok_def split: prod.split sum.split)
next
  case (started ev d now k)
  then show ?case by (intro tx_hist_ok succ_hist_bodies) (simp_all add: typed_def)
qed (auto intro: tx_hist_ok query_hist_ok succ_hist_start succ_hist_bodies succ_hist_fire keeps_history_queries)

lemma reachable_hist_ok: "reachable X S d \<Longrightarrow> hist_ok X d"
proof (induction rule: reachable.induct)
  case init show ?case by (simp add: hist_ok_def initial_db_def)
qed (rule db_step_hist_ok)

text \<open>Reading any rows of a reachable database succeeds.\<close>

lemma decode_hist_ok:
  assumes "proto_law X" and "hist_ok X d" and "set rows \<subseteq> set (history_events d)"
  shows "\<exists>evs. decode_rows X rows = Inr evs \<and> map EventId evs = map he_event_id rows"
proof (rule decode_rows_InrI, rule ballI)
  fix h assume "h \<in> set rows"
  with assms(2,3) obtain a where "stored X h a" by (auto simp: hist_ok_def)
  from decode_stored [OF assms(1) this] show "\<exists>ev. decodeHistoryEvent X h = Inr ev \<and> EventId ev = he_event_id h"
    by simp
qed

section \<open>Properties\<close>

text \<open>
  (C14) Round trip: the events one append stores decode to exactly the events that were given,
  with the assigned ids, the transaction's time, and the type and attributes unchanged.
\<close>

theorem append_decode_roundtrip:
  assumes "proto_law X" and "marshals X evs" and "\<forall>ev \<in> set evs. NEType ev = attributes_type (NEAttributes ev)"
  shows "decode_rows X (map (event_row X now k) (zip (ids_from e (length evs)) evs)) =
    Inr (map (\<lambda>(i, ev). \<lparr>EventId = i, EventTime = now, EventType = NEType ev, Attributes = NEAttributes ev\<rparr>)
      (zip (ids_from e (length evs)) evs))"
proof (rule decode_event_rows [OF assms(1)])
  show "\<forall>p \<in> set (zip (ids_from e (length evs)) evs). typed (snd p) \<and> marshal_attrs X (NEAttributes (snd p)) \<noteq> None"
    using assms(2,3) zip_ids_marshal [of e evs X] by (auto simp: typed_def dest: set_zip_rightD)
qed

theorem append_decode_roundtrip_witness:
  "decode_rows demo_ext (map (event_row demo_ext 10 demo_key) (zip (ids_from 1 2) (start_events demo_start))) =
     Inr (map (\<lambda>(i, ev). \<lparr>EventId = i, EventTime = 10, EventType = NEType ev, Attributes = NEAttributes ev\<rparr>)
      (zip (ids_from 1 2) (start_events demo_start)))"
  using append_decode_roundtrip [OF demo_proto_law, of "start_events demo_start" 10 demo_key 1]
  by (simp add: marshals_def start_events_def demo_ext_def numeral_2_eq_2)

text \<open>
  In every reachable database every run's history decodes, whatever requests produced it: no
  reader of a history fails with a decoding error, and the events read carry the ids stored.
\<close>

lemma reachable_history_decodes:
  assumes "proto_law X" and "reachable X S d"
  shows "\<exists>evs. decode_rows X (run_events k d) = Inr evs \<and> map EventId evs = map he_event_id (run_events k d)"
  by (rule decode_hist_ok [OF assms(1) reachable_hist_ok [OF assms(2)]]) (auto simp: run_events_def)

end
