(* ===== verification/Pages.thy ===== *)
theory Pages
  imports Codec
begin

text \<open>
  Keyset pagination, as \<open>GetHistory\<close> and \<open>ListWorkflowExecutions\<close> do it: a page is the first
  \<open>psz\<close> rows after a cursor, the cursor of the next page is the key of the last row of a full
  page. The locale proves once that following the cursors reads every row exactly once, in
  order; both readers are instances.
\<close>

section \<open>The pattern\<close>

locale keyset_pages =
  fixes key :: "'r \<Rightarrow> 'k"
    and less :: "'k \<Rightarrow> 'k \<Rightarrow> bool"
    and ordered :: "'r list \<Rightarrow> bool"
  assumes ordered_less: "ordered rows \<Longrightarrow> i < j \<Longrightarrow> j < length rows \<Longrightarrow> less (key (rows ! i)) (key (rows ! j))"
    and ordered_not: "ordered rows \<Longrightarrow> i \<le> j \<Longrightarrow> j < length rows \<Longrightarrow> \<not> less (key (rows ! j)) (key (rows ! i))"
begin

text \<open>The rows a query with an optional cursor selects.\<close>

definition rest :: "'r list \<Rightarrow> 'k option \<Rightarrow> 'r list" where
  "rest rows c = (case c of None \<Rightarrow> rows | Some k \<Rightarrow> filter (\<lambda>r. less k (key r)) rows)"

text \<open>The rows read by following cursors through at most \<open>n\<close> pages.\<close>

fun read_pages :: "'r list \<Rightarrow> nat \<Rightarrow> nat \<Rightarrow> 'k option \<Rightarrow> 'r list" where
  "read_pages rows psz 0 c = []"
| "read_pages rows psz (Suc n) c =
     (let p = take psz (rest rows c)
      in if length p = psz then p @ read_pages rows psz n (Some (key (last p))) else p)"

lemma rest_after:
  assumes "ordered rows" and "i < length rows"
  shows "rest rows (Some (key (rows ! i))) = drop (Suc i) rows"
proof -
  let ?P = "\<lambda>r. less (key (rows ! i)) (key r)"
  have "rows = take (Suc i) rows @ drop (Suc i) rows" by simp
  moreover have "filter ?P (take (Suc i) rows) = []"
    using ordered_not [OF assms(1), of _ i] assms(2) by (auto simp: filter_empty_conv in_set_conv_nth)
  moreover have "filter ?P (drop (Suc i) rows) = drop (Suc i) rows"
    using ordered_less [OF assms(1), of i] by (auto simp: in_set_conv_nth intro!: filter_True)
  ultimately show ?thesis by (metis append_Nil filter_append option.simps(5) rest_def)
qed

lemma read_pages_rest:
  "ordered rows \<Longrightarrow> 0 < psz \<Longrightarrow> rest rows c = drop j rows \<Longrightarrow> length rows < j + n * psz \<Longrightarrow> j \<le> length rows \<Longrightarrow>
   read_pages rows psz n c = drop j rows"
proof (induction n arbitrary: j c)
  case (Suc n)
  let ?p = "take psz (drop j rows)"
  show ?case
  proof (cases "length ?p = psz")
    case False
    then have "length (drop j rows) < psz" by simp
    with False Suc.prems(3) show ?thesis by simp
  next
    case True
    then have len: "j + psz \<le> length rows" using Suc.prems(2,5) by simp
    then have "last ?p = rows ! (j + psz - 1)"
      using Suc.prems(2) by (subst last_conv_nth) auto
    then have "rest rows (Some (key (last ?p))) = drop (j + psz) rows"
      using rest_after [OF Suc.prems(1), of "j + psz - 1"] len Suc.prems(2) by simp
    from Suc.IH [OF Suc.prems(1,2) this] len Suc.prems(4)
    have "read_pages rows psz n (Some (key (last ?p))) = drop (j + psz) rows" by simp
    moreover have "?p @ drop (j + psz) rows = drop j rows"
      by (metis add.commute append_take_drop_id drop_drop)
    ultimately show ?thesis using True Suc.prems(3) by simp
  qed
qed simp

lemma read_pages_all:
  "ordered rows \<Longrightarrow> 0 < psz \<Longrightarrow> length rows < n * psz \<Longrightarrow> read_pages rows psz n None = rows"
  using read_pages_rest [of rows psz None 0 n] by (simp add: rest_def)

end

section \<open>History pages\<close>

interpretation hist_pages: keyset_pages he_event_id "(<)" "\<lambda>rows. sorted_wrt (<) (map he_event_id rows)"
proof (unfold_locales, goal_cases)
  case (1 rows i j)
  then show ?case using sorted_wrt_nth_less [of "(<)" "map he_event_id rows" i j] by simp
next
  case (2 rows i j)
  then show ?case using sorted_wrt_nth_less [of "(<)" "map he_event_id rows" i j] by (cases "i = j") simp_all
qed

lemma sorted_run_events: "log_wf d \<Longrightarrow> sorted_wrt (<) (map he_event_id (run_events k d))"
proof (cases "find_we k d")
  case None
  assume "log_wf d"
  with None show ?thesis by (simp add: find_we_None run_events_empty)
next
  case (Some r)
  assume "log_wf d"
  from log_wf_ids [OF this Some] show ?thesis by (simp add: strict_sorted_iff)
qed

lemma ListHistoryEvents_eq:
  assumes "log_wf d"
  shows "q_ListHistoryEvents k c n d = (Inr (take n (hist_pages.rest (run_events k d) (Some c))), d)"
proof -
  let ?rows = "filter (\<lambda>r. he_run r = k \<and> c < he_event_id r) (history_events d)"
  have eq: "?rows = filter (\<lambda>r. c < he_event_id r) (run_events k d)"
    by (simp add: run_events_def conj_commute)
  have "sorted (map he_event_id (run_events k d))"
    using sorted_run_events [OF assms, of k] by (simp add: strict_sorted_iff)
  then have "sorted (map he_event_id ?rows)" unfolding eq by (rule sorted_filter)
  then have "sort_key he_event_id ?rows = ?rows" by (rule sort_key_id_if_sorted)
  with eq show ?thesis by (simp add: q_ListHistoryEvents_def hist_pages.rest_def)
qed

lemma be_digits:
  "foldl (\<lambda>a c. a * 256 + of_char c) a (map (\<lambda>i. char_of (n div 256 ^ i mod 256)) (rev [0..<k])) =
   (a * 256 ^ k + int (n mod 256 ^ k) :: int)" for n :: nat
proof (induction k arbitrary: a)
  case (Suc k)
  have "int (of_char (char_of m)) = int (m mod 256)" for m :: nat by (simp only: of_char_of)
  then have "of_char (char_of m :: char) = int (m mod 256)" for m :: nat by (simp only: of_nat_of_char)
  from this [of "n div 256 ^ k mod 256"]
  have "of_char (char_of (n div 256 ^ k mod 256) :: char) = int (n div 256 ^ k mod 256)" by simp
  moreover have "n mod 256 ^ Suc k = 256 ^ k * (n div 256 ^ k mod 256) + n mod 256 ^ k"
    using mod_mult2_eq [of n "256 ^ k" 256] by (simp add: mult.commute)
  ultimately show ?case using Suc by (simp add: algebra_simps)
qed simp

lemma cursor_roundtrip: "bigint_ok v \<Longrightarrow> history_cursor (put_uint64 v) = v"
proof -
  assume v: "bigint_ok v"
  let ?n = "nat (v mod 2 ^ 64)"
  have eight: "rev [0..<8] = [7, 6, 5, 4, 3, 2, 1, 0]" by (simp add: upt_rec)
  have "be_uint64 (put_uint64 v) = 0 * 256 ^ 8 + int (?n mod 256 ^ 8)"
    unfolding be_uint64_def put_uint64_def eight [symmetric] by (rule be_digits)
  also have "?n mod 256 ^ 8 = ?n"
  proof (rule mod_less)
    have "v mod 2 ^ 64 < 2 ^ 64" by (rule pos_mod_bound) simp
    then show "?n < 256 ^ 8" by (simp add: nat_less_iff)
  qed
  also have "0 * 256 ^ 8 + int ?n = v mod 2 ^ 64" by simp
  finally have be: "be_uint64 (put_uint64 v) = v mod 2 ^ 64" .
  have "wrap64 (v mod 2 ^ 64) = wrap64 v"
    unfolding wrap64_def by (simp only: mod_add_left_eq)
  with be have "wrap64 (be_uint64 (put_uint64 v)) = wrap64 v" by (simp only:)
  moreover have "length (put_uint64 v) = 8" by (simp add: put_uint64_def)
  ultimately show ?thesis using v by (simp add: history_cursor_def wrap64_id)
qed

text \<open>A client that follows the page tokens, for at most \<open>n\<close> pages.\<close>

fun read_history ::
  "'b ext \<Rightarrow> string \<Rightarrow> string \<Rightarrow> string \<Rightarrow> int \<Rightarrow> nat \<Rightarrow> bytes \<Rightarrow> 'b sys \<Rightarrow> error + history_event list" where
  "read_history X nm wid rid psz 0 tok s = Inr []"
| "read_history X nm wid rid psz (Suc n) tok s =
     (case GetHistory X nm wid rid psz tok s of
        (Inl e, s') \<Rightarrow> Inl e
      | (Inr (evs, tok2), s') \<Rightarrow>
          if tok2 = [] then Inr evs
          else case read_history X nm wid rid psz n tok2 s' of Inl e \<Rightarrow> Inl e | Inr evs2 \<Rightarrow> Inr (evs @ evs2))"

lemma GetHistory_eq:
  assumes "log_wf (sdb s)" and "namespace_id nm (sdb s) = Some ns"
    and "decode_rows X (take (nat (page_size 1000 psz)) (hist_pages.rest (run_events (ns, wid, rid) (sdb s))
           (Some (history_cursor tok)))) = Inr evs"
  shows "GetHistory X nm wid rid psz tok s =
    (Inr (evs, if int (length evs) = page_size 1000 psz then put_uint64 (EventId (last evs)) else []), s)"
  using getNamespaceID_Some [OF assms(2)] ListHistoryEvents_eq [OF assms(1), of "(ns, wid, rid)"] assms(3)
    decode_rows_length [OF assms(3)]
  by (simp add: GetHistory_def bindM_Inr defaultHistoryPageSize_def onDB_def Let_def) (simp add: monad_simps)

text \<open>The token of a full page points at its last row.\<close>

lemma next_cursor:
  assumes "log_wf d" and "find_we k d = Some we" and "p \<noteq> []" and "set p \<subseteq> set (run_events k d)" and "decode_rows X p = Inr evs"
  shows "history_cursor (put_uint64 (EventId (last evs))) = he_event_id (last p)"
proof -
  have "EventId (last evs) = he_event_id (last p)"
    using decode_rows_ids [OF assms(5)] decode_rows_length [OF assms(5)] assms(3) by (metis last_map length_0_conv)
  moreover have "he_event_id (last p) \<in> set (map he_event_id (run_events k d))"
    using assms(3,4) last_in_set by auto
  then have "1 \<le> he_event_id (last p)" "he_event_id (last p) < we_next_event_id we"
    using log_wf_ids [OF assms(1,2)] by (simp_all add: set_ids_from)
  moreover have "bigint_ok (we_next_event_id we)"
    using assms(1) find_we_SomeD [OF assms(2)] by (simp add: log_wf_def)
  ultimately show ?thesis by (simp add: cursor_roundtrip bigint_ok_def)
qed

lemma read_history_pages:
  assumes "proto_law X" and "hist_ok X (sdb s)" and "log_wf (sdb s)" and "namespace_id nm (sdb s) = Some ns"
    and "find_we (ns, wid, rid) (sdb s) = Some we"
  shows "decode_rows X (hist_pages.read_pages (run_events (ns, wid, rid) (sdb s)) (nat (page_size 1000 psz)) n
       (Some (history_cursor tok))) = read_history X nm wid rid psz n tok s"
proof (induction n arbitrary: tok)
  case (Suc n)
  let ?rows = "run_events (ns, wid, rid) (sdb s)" and ?psz = "nat (page_size 1000 psz)"
  let ?p = "take ?psz (hist_pages.rest ?rows (Some (history_cursor tok)))"
  have sz: "0 < page_size 1000 psz" by (simp add: page_size_def)
  have sub: "set ?p \<subseteq> set ?rows" by (auto simp: hist_pages.rest_def dest: in_set_takeD)
  then have "set ?p \<subseteq> set (history_events (sdb s))" by (auto simp: run_events_def)
  from decode_hist_ok [OF assms(1,2) this] obtain evs
    where evs: "decode_rows X ?p = Inr evs" "map EventId evs = map he_event_id ?p" by blast
  have len: "length evs = length ?p" using evs(1) by (rule decode_rows_length)
  note get = GetHistory_eq [OF assms(3,4) evs(1)]
  show ?case
  proof (cases "length ?p = ?psz")
    case False
    with get len evs(1) sz show ?thesis by (auto simp: Let_def)
  next
    case True
    with sz have ne: "?p \<noteq> []" by (metis length_0_conv less_numeral_extra(3) zero_less_nat_eq)
    note cur = next_cursor [OF assms(3,5) ne sub evs(1)]
    have "put_uint64 (EventId (last evs)) \<noteq> []" by (simp add: put_uint64_def)
    then show ?thesis
      using get True len sz Suc [of "put_uint64 (EventId (last evs))"] evs(1)
      by (simp add: Let_def cur decode_rows_append)
  qed
qed simp

text \<open>
  (C15) History pages are complete: in every reachable database, for every page size (a
  non-positive one means 1000), a client that follows the tokens through enough pages reads
  exactly the run's history, each event once and in order.
\<close>

theorem history_pages_complete:
  assumes "proto_law X" and "reachable X S (sdb s)" and "namespace_id nm (sdb s) = Some ns"
    and "find_we (ns, wid, rid) (sdb s) = Some we"
    and "length (run_events (ns, wid, rid) (sdb s)) < n * nat (page_size 1000 psz)"
  shows "\<exists>evs. read_history X nm wid rid psz n [] s = Inr evs \<and>
    decode_rows X (run_events (ns, wid, rid) (sdb s)) = Inr evs \<and>
    map EventId evs = ids_from 1 (nat (we_next_event_id we - 1))"
proof -
  let ?rows = "run_events (ns, wid, rid) (sdb s)"
  have wf: "log_wf (sdb s)" using reachable_wf [OF assms(2)] by (rule db_wf_log)
  have ids: "map he_event_id ?rows = ids_from 1 (nat (we_next_event_id we - 1))"
    using log_wf_ids [OF wf assms(4)] by simp
  have pos: "0 < he_event_id r" if "r \<in> set ?rows" for r
  proof -
    from that have "he_event_id r \<in> set (ids_from 1 (nat (we_next_event_id we - 1)))"
      by (simp flip: ids)
    then show ?thesis by (simp add: set_ids_from)
  qed
  have "history_cursor [] = 0" by (simp add: history_cursor_def)
  moreover have "hist_pages.rest ?rows (Some 0) = ?rows"
    using pos by (auto simp: hist_pages.rest_def intro: filter_True)
  then have "hist_pages.read_pages ?rows (nat (page_size 1000 psz)) n (Some 0) = ?rows"
    using hist_pages.read_pages_rest [OF sorted_run_events [OF wf], of _ "(ns, wid, rid)" "Some 0" 0 n] assms(5)
    by (simp add: page_size_def split: if_splits)
  ultimately have "read_history X nm wid rid psz n [] s = decode_rows X ?rows"
    using read_history_pages [OF assms(1) reachable_hist_ok [OF assms(2)] wf assms(3,4), of psz n "[]"] by simp
  moreover obtain evs where "decode_rows X ?rows = Inr evs" "map EventId evs = map he_event_id ?rows"
    using decode_hist_ok [OF assms(1) reachable_hist_ok [OF assms(2)], of ?rows] by (auto simp: run_events_def)
  ultimately show ?thesis using ids by simp
qed

theorem history_pages_complete_witness:
  "\<exists>evs. read_history demo_ext ''default'' ''w'' ''r1'' 1 3 [] demo_sys = Inr evs \<and>
    decode_rows demo_ext (run_events (1, ''w'', ''r1'') demo_db) = Inr evs \<and> map EventId evs = ids_from 1 2"
proof -
  have "sdb demo_sys = demo_db" "we_next_event_id demo_we = 3" by (simp_all add: demo_sys_def demo_we_def)
  moreover have "length (run_events (1, ''w'', ''r1'') demo_db) < 3"
    by (simp add: run_events_def demo_defs start_events_def)
  ultimately show ?thesis
    using history_pages_complete [OF demo_proto_law, of demo_store demo_sys "''default''" 1 "''w''" "''r1''" demo_we 3 1]
      demo_db_reachable demo_namespace demo_find_we
    by (simp add: page_size_def demo_key_def)
qed

end
