(* ===== verification/ListPages.thy ===== *)
theory ListPages
  imports Pages
begin

text \<open>
  \<open>ListWorkflowExecutions\<close>: newest first by \<^verbatim>\<open>(start_time, workflow_id, run_id)\<close>, filtered by
  status and queue, paginated by keyset. The order of text columns is the collation of the
  database, a total order.
\<close>

section \<open>Ordering\<close>

definition collation_ok :: "collation \<Rightarrow> bool" where
  "collation_ok coll \<longleftrightarrow> (\<forall>a. coll a a) \<and> (\<forall>a b c. coll a b \<longrightarrow> coll b c \<longrightarrow> coll a c) \<and>
     (\<forall>a b. coll a b \<longrightarrow> coll b a \<longrightarrow> a = b) \<and> (\<forall>a b. coll a b \<or> coll b a)"

lemma collation_okD:
  assumes "collation_ok coll"
  shows "coll a a" and "coll a b \<Longrightarrow> coll b c \<Longrightarrow> coll a c" and "coll a b \<Longrightarrow> coll b a \<Longrightarrow> a = b"
    and "\<not> coll a b \<Longrightarrow> coll b a"
  using assms unfolding collation_ok_def by blast+

lemma byte_le_ok: "collation_ok byte_le"
proof -
  have refl: "byte_le a a" for a by (induction a) auto
  have trans: "byte_le a b \<Longrightarrow> byte_le b c \<Longrightarrow> byte_le a c" for a b c
    by (induction a b arbitrary: c rule: byte_le.induct; case_tac c) (auto intro: less_trans)
  have anti: "byte_le a b \<Longrightarrow> byte_le b a \<Longrightarrow> a = b" for a b
    by (induction a b rule: byte_le.induct) (auto elim: byte_le.elims)
  have inj: "of_char a = (of_char b :: nat) \<Longrightarrow> a = b" for a b :: char
    using of_char_eq_iff by blast
  have total: "byte_le a b \<or> byte_le b a" for a b
  proof (induction a b rule: byte_le.induct)
    case (2 a s) then show ?case by simp
  next
    case (3 a s b t)
    show ?case
    proof (cases "a = b")
      case False
      then have "of_char a < (of_char b :: nat) \<or> of_char b < (of_char a :: nat)"
        using inj nat_neq_iff by blast
      then show ?thesis unfolding byte_le.simps by blast
    qed (use 3 in auto)
  qed simp
  show ?thesis unfolding collation_ok_def using refl trans anti total by blast
qed

lemma cursor_le_total:
  assumes "collation_ok coll" and "\<not> cursor_le coll a b"
  shows "cursor_le coll b a"
proof -
  obtain t w r t' w' r' where ab: "a = (t, w, r)" "b = (t', w', r')" by (cases a; cases b)
  show ?thesis
    using assms(2) collation_okD(4) [OF assms(1), of w w'] collation_okD(4) [OF assms(1), of r r']
    by (auto simp: cursor_le_def ab)
qed

lemma cursor_le_trans:
  assumes "collation_ok coll" and "cursor_le coll a b" and "cursor_le coll b c"
  shows "cursor_le coll a c"
proof -
  obtain t w r t' w' r' t'' w'' r'' where abc: "a = (t, w, r)" "b = (t', w', r')" "c = (t'', w'', r'')"
    by (cases a; cases b; cases c)
  show ?thesis
    using assms(2,3) collation_okD(2) [OF assms(1), of w w' w''] collation_okD(3) [OF assms(1), of w w']
      collation_okD(2) [OF assms(1), of r r' r'']
    by (auto simp: cursor_le_def abc)
qed

lemma cursor_le_antisym:
  assumes "collation_ok coll" and "cursor_le coll a b" and "cursor_le coll b a"
  shows "a = b"
proof -
  obtain t w r t' w' r' where ab: "a = (t, w, r)" "b = (t', w', r')" by (cases a; cases b)
  show ?thesis
    using assms(2,3) collation_okD(3) [OF assms(1), of w w'] collation_okD(3) [OF assms(1), of r r']
    by (auto simp: cursor_le_def ab)
qed

section \<open>Insertion sort\<close>

lemma set_insert_by [simp]: "set (insert_by le x ys) = insert x (set ys)"
  by (induction ys) auto

lemma set_order_by [simp]: "set (order_by le xs) = set xs"
  by (induction xs) (simp_all add: order_by_def)

lemma order_by_Cons: "order_by le (x # xs) = insert_by le x (order_by le xs)"
  by (simp add: order_by_def)

definition total_preorder :: "('r \<Rightarrow> 'r \<Rightarrow> bool) \<Rightarrow> bool" where
  "total_preorder le \<longleftrightarrow> (\<forall>a b. le a b \<or> le b a) \<and> (\<forall>a b c. le a b \<longrightarrow> le b c \<longrightarrow> le a c)"

lemma sorted_insert_by: "total_preorder le \<Longrightarrow> sorted_wrt le ys \<Longrightarrow> sorted_wrt le (insert_by le x ys)"
proof (induction ys)
  case (Cons y ys)
  then have "le y x" if "\<not> le x y" using that by (auto simp: total_preorder_def)
  moreover have "\<forall>z \<in> set ys. le x z" if "le x y" using that Cons.prems by (auto simp: total_preorder_def)
  ultimately show ?case using Cons by simp
qed simp

lemma sorted_order_by: "total_preorder le \<Longrightarrow> sorted_wrt le (order_by le xs)"
proof (induction xs)
  case (Cons x xs)
  then show ?case unfolding order_by_Cons by (intro sorted_insert_by)
qed (simp add: order_by_def)

lemma filter_insert_by:
  assumes "total_preorder le" and "sorted_wrt le ys"
  shows "filter P (insert_by le x ys) = (if P x then insert_by le x (filter P ys) else filter P ys)"
  using assms(2)
proof (induction ys)
  case (Cons y ys)
  have first: "insert_by le x zs = x # zs" if "\<forall>z \<in> set zs. le x z" for zs
    using that by (cases zs) auto
  show ?case
  proof (cases "le x y")
    case True
    with Cons.prems assms(1) have "\<forall>z \<in> set (y # ys). le x z"
      unfolding total_preorder_def by auto
    then have "\<forall>z \<in> set (filter P (y # ys)). le x z" by auto
    from first [OF this] True show ?thesis by simp
  qed (use Cons in auto)
qed simp

lemma filter_order_by: "total_preorder le \<Longrightarrow> filter P (order_by le xs) = order_by le (filter P xs)"
proof (induction xs)
  case (Cons x xs)
  then show ?case
    using filter_insert_by [OF Cons.prems sorted_order_by [OF Cons.prems], of P x xs]
    by (simp add: order_by_Cons)
qed (simp add: order_by_def)

lemma length_insert_by [simp]: "length (insert_by le x ys) = Suc (length ys)"
  by (induction ys) auto

lemma length_order_by [simp]: "length (order_by le xs) = length xs"
  by (induction xs) (simp_all add: order_by_def)

lemma distinct_order_by: "distinct (map f xs) \<Longrightarrow> distinct (map f (order_by le xs))"
proof -
  assume d: "distinct (map f xs)"
  have "set (map f (order_by le xs)) = set (map f xs)" by simp
  then have "card (set (map f (order_by le xs))) = length (map f (order_by le xs))"
    using distinct_card [OF d] by simp
  then show ?thesis by (rule card_distinct)
qed

section \<open>Pages of executions\<close>

abbreviation newest_first :: "collation \<Rightarrow> we_row \<Rightarrow> we_row \<Rightarrow> bool" where
  "newest_first coll a b \<equiv> cursor_le coll (we_cursor b) (we_cursor a)"

lemma newest_first_order: "collation_ok coll \<Longrightarrow> total_preorder (newest_first coll)"
  unfolding total_preorder_def using cursor_le_total cursor_le_trans by blast

interpretation exec_pages: keyset_pages we_cursor "\<lambda>a b. cursor_less coll b a"
  "\<lambda>rows. collation_ok coll \<and> sorted_wrt (\<lambda>a b. cursor_less coll (we_cursor b) (we_cursor a)) rows" for coll
proof (unfold_locales, goal_cases)
  case (1 rows i j)
  then show ?case by (auto intro: sorted_wrt_nth_less)
next
  case (2 rows i j)
  then have "i < j \<Longrightarrow> cursor_less coll (we_cursor (rows ! j)) (we_cursor (rows ! i))"
    by (auto dest: sorted_wrt_nth_less)
  with 2 show ?case by (cases "i = j") (auto simp: cursor_less_def dest: cursor_le_antisym)
qed

definition list_match :: "int \<Rightarrow> string option \<Rightarrow> string option \<Rightarrow> we_row \<Rightarrow> bool" where
  "list_match ns st queue r \<longleftrightarrow> we_namespace_id r = ns \<and> (st = None \<or> st = Some (we_status r)) \<and>
     (queue = None \<or> queue = Some (we_task_queue r))"

text \<open>The whole result, without pagination.\<close>

definition list_rows :: "collation \<Rightarrow> int \<Rightarrow> string option \<Rightarrow> string option \<Rightarrow> 'b db \<Rightarrow> we_row list" where
  "list_rows coll ns st queue d = order_by (newest_first coll) (filter (list_match ns st queue) (workflow_executions d))"

lemma list_rows_ordered:
  assumes "collation_ok coll" and "log_wf d"
  shows "sorted_wrt (\<lambda>a b. cursor_less coll (we_cursor b) (we_cursor a)) (list_rows coll ns st queue d)"
    and "distinct (map we_key (list_rows coll ns st queue d))"
proof -
  let ?rows = "list_rows coll ns st queue d"
  have "distinct (map we_key (filter (list_match ns st queue) (workflow_executions d)))"
    using assms(2) by (simp add: log_wf_def distinct_map_filter)
  then show keys: "distinct (map we_key ?rows)"
    unfolding list_rows_def by (rule distinct_order_by)
  have inj: "a = b" if "a \<in> set ?rows" "b \<in> set ?rows" "we_cursor a = we_cursor b" for a b
  proof -
    from that have "we_key a = we_key b"
      by (simp add: list_rows_def list_match_def we_cursor_def we_key_def)
    with keys that(1,2) show ?thesis by (auto simp: distinct_map dest: inj_onD)
  qed
  have srt: "sorted_wrt (newest_first coll) ?rows"
    unfolding list_rows_def by (rule sorted_order_by [OF newest_first_order [OF assms(1)]])
  have "distinct ?rows" using keys by (simp add: distinct_map)
  then have "we_cursor (?rows ! j) \<noteq> we_cursor (?rows ! i)" if "i < j" "j < length ?rows" for i j
    using that inj [of "?rows ! j" "?rows ! i"] nth_eq_iff_index_eq [of ?rows j i] by auto
  with srt show "sorted_wrt (\<lambda>a b. cursor_less coll (we_cursor b) (we_cursor a)) ?rows"
    by (simp add: sorted_wrt_iff_nth_less cursor_less_def)
qed

lemma q_ListWorkflowExecutions_eq:
  assumes "collation_ok coll"
  shows "q_ListWorkflowExecutions coll ns st queue c n d =
    (Inr (take n (exec_pages.rest coll (list_rows coll ns st queue d) c)), d)"
proof -
  have "order_by (newest_first coll) (filter (\<lambda>r. list_match ns st queue r \<and> cursor_less coll (we_cursor r) k)
        (workflow_executions d)) =
      filter (\<lambda>r. cursor_less coll (we_cursor r) k) (list_rows coll ns st queue d)" for k
  proof -
    have "filter (\<lambda>r. cursor_less coll (we_cursor r) k) (list_rows coll ns st queue d) =
        order_by (newest_first coll) (filter (\<lambda>r. cursor_less coll (we_cursor r) k)
          (filter (list_match ns st queue) (workflow_executions d)))"
      unfolding list_rows_def by (rule filter_order_by [OF newest_first_order [OF assms]])
    then show ?thesis by (simp add: conj_commute)
  qed
  then show ?thesis
    by (cases c) (simp_all add: q_ListWorkflowExecutions_def exec_pages.rest_def list_rows_def list_match_def [abs_def])
qed

text \<open>A client that follows the page tokens, for at most \<open>n\<close> pages.\<close>

fun read_list :: "'b ext \<Rightarrow> list_params \<Rightarrow> nat \<Rightarrow> 'b sys \<Rightarrow> error + execution_info list" where
  "read_list X p 0 s = Inr []"
| "read_list X p (Suc n) s =
     (case ListWorkflowExecutions X p s of
        (Inl e, s') \<Rightarrow> Inl e
      | (Inr (infos, tok2), s') \<Rightarrow>
          if tok2 = [] then Inr infos
          else case read_list X (p\<lparr>lp_PageToken := tok2\<rparr>) n s' of
                 Inl e \<Rightarrow> Inl e | Inr infos2 \<Rightarrow> Inr (infos @ infos2))"

text \<open>Encoding a cursor as JSON and decoding it gives it back; the token is not empty.\<close>

definition cursor_law :: "'b ext \<Rightarrow> we_row list \<Rightarrow> bool" where
  "cursor_law X rows \<longleftrightarrow> (\<forall>r \<in> set rows. \<exists>b. json_cursor X (we_cursor r) = Some b \<and> b \<noteq> [] \<and>
     json_uncursor X b = Some (we_cursor r))"

definition status_filter :: "list_params \<Rightarrow> string option" where
  "status_filter p = (if lp_StatusFilter p = ST_UNSPECIFIED then None else Some (statusToString (lp_StatusFilter p)))"

definition queue_filter :: "list_params \<Rightarrow> string option" where
  "queue_filter p = (if lp_TaskQueue p = '''' then None else Some (lp_TaskQueue p))"

lemma read_list_pages:
  assumes "collation_ok (collate X)" and "namespace_id (lp_Namespace p) (sdb s) = Some ns"
    and "cursor_law X (workflow_executions (sdb s))"
  shows "decode_page_token X (lp_PageToken p) = Inr c \<Longrightarrow>
    read_list X p n s = Inr (map execution_info_of (exec_pages.read_pages (collate X)
      (list_rows (collate X) ns (status_filter p) (queue_filter p) (sdb s))
      (nat (page_size 50 (lp_PageSize p))) n c))"
  using assms(2)
proof (induction n arbitrary: p c)
  case (Suc n)
  let ?rows = "list_rows (collate X) ns (status_filter p) (queue_filter p) (sdb s)"
  let ?sz = "nat (page_size 50 (lp_PageSize p))"
  let ?p = "take ?sz (exec_pages.rest (collate X) ?rows c)"
  have pos: "0 < page_size 50 (lp_PageSize p)" by (simp add: page_size_def)
  have get: "ListWorkflowExecutions X p s =
      (case next_page_token X (page_size 50 (lp_PageSize p)) ?p of
         Inl e \<Rightarrow> (Inl e, s) | Inr tok \<Rightarrow> (Inr (map execution_info_of ?p, tok), s))"
    using getNamespaceID_Some [OF Suc.prems(2)] Suc.prems(1)
    unfolding ListWorkflowExecutions_def status_filter_def [symmetric] queue_filter_def [symmetric]
      defaultListWorkflowsPageSize_def Let_def
    by (simp add: q_ListWorkflowExecutions_eq [OF assms(1)] onDB_def liftE_def bindM_def ret_def split: sum.split)
  show ?case
  proof (cases "length ?p = ?sz")
    case False
    with pos have "next_page_token X (page_size 50 (lp_PageSize p)) ?p = Inr []"
      by (auto simp: next_page_token_def)
    with get False show ?thesis by (auto simp: Let_def min_def)
  next
    case True
    with pos have "?p \<noteq> []" by (metis length_0_conv less_numeral_extra(3) zero_less_nat_eq)
    then have "last ?p \<in> set ?p" by (rule last_in_set)
    moreover have "set ?p \<subseteq> set (workflow_executions (sdb s))"
      by (auto simp: exec_pages.rest_def list_rows_def dest!: in_set_takeD split: option.splits)
    ultimately have "last ?p \<in> set (workflow_executions (sdb s))" by blast
    with assms(3) obtain b where b: "json_cursor X (we_cursor (last ?p)) = Some b" "b \<noteq> []"
        "json_uncursor X b = Some (we_cursor (last ?p))" by (auto simp: cursor_law_def)
    then have tok: "next_page_token X (page_size 50 (lp_PageSize p)) ?p = Inr b"
      using True pos by (simp add: next_page_token_def)
    have "decode_page_token X (lp_PageToken (p\<lparr>lp_PageToken := b\<rparr>)) = Inr (Some (we_cursor (last ?p)))"
      using b by (simp add: decode_page_token_def)
    from Suc.IH [OF this] Suc.prems(2) get tok b(2) True show ?thesis
      by (simp add: Let_def status_filter_def queue_filter_def)
  qed
qed simp

text \<open>
  (C16) The list of executions is complete: with any page size (a non-positive one means 50), a client that
  follows the tokens through enough pages reads every execution of the namespace that passes the status and queue filters,
  each exactly once, newest first.
\<close>

theorem list_pages_complete:
  assumes "db_wf (sdb s)" and "collation_ok (collate X)" and "namespace_id (lp_Namespace p) (sdb s) = Some ns"
    and "cursor_law X (workflow_executions (sdb s))" and "lp_PageToken p = []"
    and "length (workflow_executions (sdb s)) < n * nat (page_size 50 (lp_PageSize p))"
  shows "\<exists>rows. read_list X p n s = Inr (map execution_info_of rows) \<and> distinct rows \<and>
    set rows = {r \<in> set (workflow_executions (sdb s)). we_namespace_id r = ns \<and>
      (lp_StatusFilter p = ST_UNSPECIFIED \<or> we_status r = statusToString (lp_StatusFilter p)) \<and>
      (lp_TaskQueue p = '''' \<or> we_task_queue r = lp_TaskQueue p)} \<and>
    sorted_wrt (\<lambda>a b. cursor_less (collate X) (we_cursor b) (we_cursor a)) rows"
proof -
  let ?rows = "list_rows (collate X) ns (status_filter p) (queue_filter p) (sdb s)"
  have wf: "log_wf (sdb s)" using assms(1) by (rule db_wf_log)
  note ord = list_rows_ordered [OF assms(2) wf, of ns "status_filter p" "queue_filter p"]
  have "length ?rows \<le> length (workflow_executions (sdb s))"
    by (simp add: list_rows_def)
  then have "exec_pages.read_pages (collate X) ?rows (nat (page_size 50 (lp_PageSize p))) n None = ?rows"
    using assms(2,6) ord(1) by (intro exec_pages.read_pages_all) (simp_all add: page_size_def)
  moreover have "decode_page_token X (lp_PageToken p) = Inr None"
    using assms(5) by (simp add: decode_page_token_def)
  ultimately have "read_list X p n s = Inr (map execution_info_of ?rows)"
    using read_list_pages [OF assms(2-4)] by simp
  moreover have "distinct ?rows" using ord(2) by (simp add: distinct_map)
  moreover have "set ?rows = {r \<in> set (workflow_executions (sdb s)). we_namespace_id r = ns \<and>
      (lp_StatusFilter p = ST_UNSPECIFIED \<or> we_status r = statusToString (lp_StatusFilter p)) \<and>
      (lp_TaskQueue p = '''' \<or> we_task_queue r = lp_TaskQueue p)}"
    by (auto simp: list_rows_def list_match_def status_filter_def queue_filter_def)
  ultimately show ?thesis using ord(1) by blast
qed

definition demo_list :: list_params where
  "demo_list = \<lparr>lp_Namespace = ''default'', lp_StatusFilter = ST_RUNNING, lp_TaskQueue = '''', lp_PageSize = 1,
     lp_PageToken = []\<rparr>"

theorem list_pages_complete_witness:
  "\<exists>rows. read_list demo_ext demo_list 2 demo_sys = Inr (map execution_info_of rows) \<and> distinct rows \<and>
    set rows = {r \<in> set (workflow_executions demo_db). we_namespace_id r = 1 \<and> we_status r = ''RUNNING''} \<and>
    sorted_wrt (\<lambda>a b. cursor_less byte_le (we_cursor b) (we_cursor a)) rows"
proof -
  have "sdb demo_sys = demo_db" "collate demo_ext = byte_le" by (simp_all add: demo_sys_def demo_ext_def)
  moreover have "cursor_law demo_ext (workflow_executions demo_db)"
    by (simp add: cursor_law_def demo_defs we_cursor_def)
  moreover have "length (workflow_executions demo_db) = 1" by (simp add: demo_db_def)
  ultimately show ?thesis
    using list_pages_complete [of demo_sys demo_ext demo_list 1 2] demo_db_wf byte_le_ok demo_namespace
    by (simp add: demo_list_def page_size_def statusToString_def)
qed

text \<open>
  The status names of the API and of the database are inverse to each other on the six
  statuses an execution can have; in a well-formed database every status is one of them.
\<close>

lemma status_roundtrip:
  "(st \<noteq> ST_UNSPECIFIED \<longrightarrow> statusFromString (statusToString st) = st) \<and>
   (db_wf d \<and> r \<in> set (workflow_executions d) \<longrightarrow>
      statusFromString (we_status r) \<noteq> ST_UNSPECIFIED \<and> statusToString (statusFromString (we_status r)) = we_status r)"
proof
  show "st \<noteq> ST_UNSPECIFIED \<longrightarrow> statusFromString (statusToString st) = st"
    by (cases st) (simp_all add: statusFromString_def statusToString_def)
  show "db_wf d \<and> r \<in> set (workflow_executions d) \<longrightarrow>
      statusFromString (we_status r) \<noteq> ST_UNSPECIFIED \<and> statusToString (statusFromString (we_status r)) = we_status r"
    by (auto simp: db_wf_def gen_wf_def we_wf_def valid_statuses_def statusFromString_def statusToString_def)
qed

end
