(* ===== verification/LeaseProps.thy ===== *)
theory LeaseProps
  imports ListPages
begin

text \<open>
  The lease protocol over runs of the server: a granted lease stands until it is presented or
  has expired and been reaped; an operation that presents no valid lease changes nothing.
\<close>

section \<open>Who can take a lease away\<close>

lemma keeps_task_queries:
  "keeps (\<lambda>d. t \<in> set (workflow_tasks d)) (q_InsertCurrentExecution ns wid rid req)"
  "keeps (\<lambda>d. t \<in> set (workflow_tasks d)) (q_GetCurrentExecution ns wid)"
  "keeps (\<lambda>d. t \<in> set (workflow_tasks d)) (q_ReplaceCurrentExecution ns wid rid req)"
  "keeps (\<lambda>d. t \<in> set (workflow_tasks d)) (q_GetWorkflowExecution k)"
  "keeps (\<lambda>d. t \<in> set (workflow_tasks d)) (q_EnqueueWorkflowTask now ep)"
  "keeps (\<lambda>d. t \<in> set (workflow_tasks d)) (q_EnqueueActivityTask now ap)"
  "keeps (\<lambda>d. t \<in> set (workflow_tasks d)) (q_InsertTimer tr)"
  "keeps (\<lambda>d. t \<in> set (workflow_tasks d)) (q_CompleteActivityTask tid u)"
  "keeps (\<lambda>d. t \<in> set (workflow_tasks d)) (q_GetActivityTaskByLease tid u)"
  "keeps (\<lambda>d. t \<in> set (workflow_tasks d)) (q_RetryActivityTask now tid u b)"
  "keeps (\<lambda>d. t \<in> set (workflow_tasks d)) (q_DequeueDueTimer now tlk)"
  "keeps (\<lambda>d. t \<in> set (workflow_tasks d)) (q_DequeueActivityTask now u0 lk q ns ps)"
  "keeps (\<lambda>d. t \<in> set (workflow_tasks d)) (q_DequeueQueryTask now u0 lk secs q ns)"
  "keeps (\<lambda>d. t \<in> set (workflow_tasks d)) (q_EnqueueQueryTask now ns q wid rid qt args)"
  "keeps (\<lambda>d. t \<in> set (workflow_tasks d)) (q_CompleteQueryTask tid u res)"
  "keeps (\<lambda>d. t \<in> set (workflow_tasks d)) (q_FailQueryTask tid u msg)"
  "keeps (\<lambda>d. t \<in> set (workflow_tasks d)) (q_DeleteQueryTask tid)"
  "keeps (\<lambda>d. t \<in> set (workflow_tasks d)) (q_ReapExpiredActivityTasks now)"
  "keeps (\<lambda>d. t \<in> set (workflow_tasks d)) (q_ReapExpiredQueryTasks now)"
  "keeps (\<lambda>d. t \<in> set (workflow_tasks d)) (q_CreateNamespace now name)"
  "keeps (\<lambda>d. t \<in> set (workflow_tasks d)) (q_CreateWorkflowExecution now p)"
  "keeps (\<lambda>d. t \<in> set (workflow_tasks d)) (q_CloseWorkflowExecution now k st)"
  "keeps (\<lambda>d. t \<in> set (workflow_tasks d)) (q_SetStickyExecution now k w e)"
  by (rule keepsI; simp add: Let_def q_InsertCurrentExecution_def
      q_GetCurrentExecution_def q_ReplaceCurrentExecution_def q_GetWorkflowExecution_def
      q_EnqueueWorkflowTask_def q_EnqueueActivityTask_def q_InsertTimer_def
      q_CompleteActivityTask_def q_GetActivityTaskByLease_def q_RetryActivityTask_def
      q_DequeueDueTimer_def q_DequeueActivityTask_def q_DequeueQueryTask_def
      q_EnqueueQueryTask_def q_CompleteQueryTask_def q_FailQueryTask_def q_DeleteQueryTask_def
      q_ReapExpiredActivityTasks_def q_ReapExpiredQueryTasks_def
      q_CreateNamespace_def q_CreateWorkflowExecution_def q_CloseWorkflowExecution_def q_SetStickyExecution_def
      split: option.split prod.split)+

lemma keeps_task_append: "keeps (\<lambda>d. t \<in> set (workflow_tasks d)) (AppendHistory X now k e evs)"
proof -
  have "keeps (\<lambda>d. t \<in> set (workflow_tasks d)) (insert_event X now k p)" for p
    by (rule keepsI) (auto simp: insert_event_def q_InsertHistoryEvent_def monad_simps split: option.split)
  moreover have "keeps (\<lambda>d. t \<in> set (workflow_tasks d)) (q_AdvanceNextEventID now k n e)" for n
    by (rule keepsI) (simp add: q_AdvanceNextEventID_def split: option.split)
  ultimately show ?thesis
    unfolding AppendHistory_def by (intro keeps_if keeps_bindM keeps_mapErr keeps_forM keeps_ret)
qed

lemmas keeps_task = keeps_task_queries keeps_task_append

interpretation lt: kept_by_queries "\<lambda>d. t \<in> set (workflow_tasks d)" for t
  by unfold_locales (rule keeps_task)+

lemma keeps_task_start: "keeps (\<lambda>d. t \<in> set (workflow_tasks d)) (start_tx X S now ns rid p)"
  unfolding start_tx_def start_existing_def by (intro keeps_bindM keeps_if keeps_task keeps_ret keeps_throw)

text \<open>A completion leaves every row alone whose lease it does not present.\<close>

lemma keeps_task_complete:
  assumes "\<not> lease_match wt_task_id wt_lease_token (tk_TaskID token) (pgUUIDFromString X (tk_LeaseToken token)) t"
  shows "keeps (\<lambda>s. t \<in> set (workflow_tasks (sdb s))) (complete_tx X S E token cmds sticky)"
proof -
  let ?I = "\<lambda>d. t \<in> set (workflow_tasks d)"
  have "keeps ?I (q_CompleteWorkflowTask (tk_TaskID token) (pgUUIDFromString X (tk_LeaseToken token)))"
    using assms by (intro keepsI) (simp add: q_CompleteWorkflowTask_def Let_def set_sql_delete)
  then have front: "keeps ?I (complete_front X S E token cmds)"
    unfolding complete_front_def by (intro keeps_bindM keeps_if keeps_task keeps_throw keeps_ret keeps_liftE)
  have can: "keeps ?I (continueWorkflowAsNew X S now req k we rid cmd)" for now req k we rid cmd
    unfolding continueWorkflowAsNew_def Let_def by (intro keeps_bindM keeps_task)
  show ?thesis
    unfolding complete_tx_def Let_def
    by (rule keeps_bindM [OF keeps_onDB [OF front]])
      (auto split: prod.split option.split intro!: keeps_bindM keeps_onDB [of ?I] keeps_count [of ?I] lt.kept_effects can keeps_task)
qed

lemma tx_task: "keeps (\<lambda>d. t \<in> set (workflow_tasks d)) m \<Longrightarrow> t \<in> set (workflow_tasks d) \<Longrightarrow> t \<in> set (workflow_tasks (tx m d))"
  using keepsD [of "\<lambda>d. t \<in> set (workflow_tasks d)" m d] by (auto simp: tx_def split: prod.split sum.split)

lemma withTx_task:
  "keeps (\<lambda>s. t \<in> set (workflow_tasks (sdb s))) m \<Longrightarrow> t \<in> set (workflow_tasks (sdb s)) \<Longrightarrow>
   t \<in> set (workflow_tasks (sdb (snd (withTx m s))))"
  using keepsD [of "\<lambda>s. t \<in> set (workflow_tasks (sdb s))" m s] by (auto simp: withTx_def split: prod.split sum.split)

lemma dequeue_keeps_leased:
  assumes "db_wf d" and "t \<in> set (workflow_tasks d)" and "wt_status t = STARTED"
  shows "t \<in> set (workflow_tasks (snd (q_DequeueWorkflowTask now u lk secs q ns w ps d)))"
proof (cases "lease_dequeue wt_task_id (wt_eligible now lk q ns w ps) (wt_grant secs u now) (workflow_tasks d)")
  case None
  with assms(2) show ?thesis by (simp add: q_DequeueWorkflowTask_def)
next
  case (Some p)
  obtain r' rows where p: "p = (r', rows)" by (cases p)
  with Some have deq: "lease_dequeue wt_task_id (wt_eligible now lk q ns w ps) (wt_grant secs u now)
      (workflow_tasks d) = Some (r', rows)" by simp
  from wtq.dequeue_SomeE [OF this] obtain r where r: "r \<in> set (workflow_tasks d)" "wt_eligible now lk q ns w ps r"
      "rows = sql_update (\<lambda>x. wt_task_id x = wt_task_id r) (wt_grant secs u now) (workflow_tasks d)" by metis
  have "wt_task_id t \<noteq> wt_task_id r"
  proof
    assume "wt_task_id t = wt_task_id r"
    moreover have "distinct (map wt_task_id (workflow_tasks d))"
      using assms(1) by (simp add: db_wf_def gen_wf_def wt_wf_def wtq.leases_wf_def)
    ultimately have "t = r" using assms(2) r(1) by (auto simp: distinct_map dest: inj_onD)
    with r(2) assms(3) show False by (simp add: wt_eligible_def)
  qed
  with assms(2) r(3) have "t \<in> set rows" by (force simp: set_sql_update)
  with deq show ?thesis by (simp add: q_DequeueWorkflowTask_def)
qed

lemma reap_keeps_live:
  assumes "t \<in> set (workflow_tasks d)" and "\<not> lease_expired wt_status wt_lease_expiry now t"
  shows "t \<in> set (workflow_tasks (snd (q_ReapExpiredWorkflowTasks now d)))"
  using assms by (force simp: q_ReapExpiredWorkflowTasks_def Let_def set_sql_update)

text \<open>
  (C17) Leases are exclusive. Whatever transaction or statement of whatever server runs, a
  workflow task that is leased out with token \<open>u\<close> until \<open>e\<close> keeps its row, status and token,
  unless the step is the completion or failure that presents exactly that task id and token,
  or a reaper statement at a time after \<open>e\<close>. In particular no dispatch hands it out again.
\<close>

theorem lease_stands:
  assumes "db_step X S d d'" and "db_wf d" and "t \<in> set (workflow_tasks d)"
    and "wt_status t = STARTED" and "wt_lease_token t = Some u" and "wt_lease_expiry t = Some e"
  shows "t \<in> set (workflow_tasks d') \<or>
    (\<exists>now > e. d' = snd (q_ReapExpiredWorkflowTasks now d)) \<or>
    d' = snd (q_CompleteWorkflowTask (wt_task_id t) (Some u) d) \<or>
    (\<exists>s E token cmds sticky. d = sdb s \<and> tk_TaskID token = wt_task_id t \<and>
       pgUUIDFromString X (tk_LeaseToken token) = Some u \<and>
       d' = sdb (snd (withTx (complete_tx X S E token cmds sticky) s)))"
  using assms
proof (cases rule: token_step.cases)
  case (complete_workflow token s E cmds sticky)
  show ?thesis
  proof (cases "lease_match wt_task_id wt_lease_token (tk_TaskID token) (pgUUIDFromString X (tk_LeaseToken token)) t")
    case True
    then have "tk_TaskID token = wt_task_id t" "pgUUIDFromString X (tk_LeaseToken token) = Some u"
      using assms(5) by (simp_all add: lease_match_def)
    with complete_workflow show ?thesis by blast
  next
    case False
    from withTx_task [OF keeps_task_complete [OF False], of s S E cmds sticky] assms(3) complete_workflow
    show ?thesis by simp
  qed
next
  case (release_workflow tid lu)
  show ?thesis
  proof (cases "lease_match wt_task_id wt_lease_token tid lu t")
    case True
    then have "tid = wt_task_id t" "lu = Some u" using assms(5) by (simp_all add: lease_match_def)
    with release_workflow show ?thesis by blast
  next
    case False
    with assms(3) release_workflow show ?thesis by (simp add: q_CompleteWorkflowTask_def Let_def set_sql_delete)
  qed
next
  case (reap_workflow now)
  with assms(3,4,6) reap_keeps_live [of t d now] show ?thesis
    by (cases "e < now") (auto simp: lease_expired_def)
next
  case dequeue_workflow
  with dequeue_keeps_leased [OF assms(2,3,4)] show ?thesis by simp
qed (use assms(3) in \<open>simp_all add: tx_task keeps_task_start lt.kept_bodies lt.kept_fire keepsD [OF keeps_task_queries(5)]
    keepsD [OF keeps_task_queries(10)] keepsD [OF keeps_task_queries(12)] keepsD [OF keeps_task_queries(13)]
    keepsD [OF keeps_task_queries(14)] keepsD [OF keeps_task_queries(15)] keepsD [OF keeps_task_queries(16)]
    keepsD [OF keeps_task_queries(17)] keepsD [OF keeps_task_queries(18)] keepsD [OF keeps_task_queries(19)]
    keepsD [OF keeps_task_queries(20)] keepsD [OF keeps_task_queries(23)]\<close>)

text \<open>The demo task, leased by a dispatch at time 10.\<close>

definition demo_leased :: wt_row where
  "demo_leased = wt_grant 10 ''L'' 10 demo_wt"

definition demo_db3 :: "blob db" where
  "demo_db3 = demo_db\<lparr>workflow_tasks := [demo_leased]\<rparr>"

lemma demo_db3_step: "demo_db3 = snd (q_DequeueWorkflowTask 10 ''L'' [] 10 ''q'' 1 None [] demo_db)"
  by (simp add: demo_db3_def demo_leased_def q_DequeueWorkflowTask_def lease_dequeue_def demo_db_def demo_wt_def
      wt_eligible_def partition_ok_def)

lemma demo_db3_wf: "db_wf demo_db3"
  unfolding demo_db3_step by (rule db_step_wf [OF token_step.dequeue_workflow demo_db_wf])

theorem lease_stands_witness:
  "let d' = snd (q_DequeueWorkflowTask 11 ''M'' [] 10 ''q'' 1 None [] demo_db3) in
   demo_leased \<in> set (workflow_tasks d') \<or>
    (\<exists>now > 10000000010. d' = snd (q_ReapExpiredWorkflowTasks now demo_db3)) \<or>
    d' = snd (q_CompleteWorkflowTask 1 (Some ''L'') demo_db3) \<or>
    (\<exists>s E token cmds sticky. demo_db3 = sdb s \<and> tk_TaskID token = 1 \<and>
       pgUUIDFromString demo_ext (tk_LeaseToken token) = Some ''L'' \<and>
       d' = sdb (snd (withTx (complete_tx demo_ext demo_store E token cmds sticky) s)))"
  using lease_stands [OF token_step.dequeue_workflow [of demo_ext demo_store "\<lambda>_. True" True "\<lambda>_. True" demo_db3 11 "''M''" "[]" 10 "''q''" 1 None "[]"]
      demo_db3_wf, of demo_leased "''L''" 10000000010]
  by (simp add: demo_db3_def demo_leased_def wt_grant_def demo_wt_def Let_def)

section \<open>No lease, no effect\<close>

definition holds_lease :: "('r \<Rightarrow> int) \<Rightarrow> ('r \<Rightarrow> uuid option) \<Rightarrow> 'b ext \<Rightarrow> task_token \<Rightarrow> 'r list \<Rightarrow> bool" where
  "holds_lease tid tok X token rows \<longleftrightarrow>
     (\<exists>r \<in> set rows. lease_match tid tok (tk_TaskID token) (pgUUIDFromString X (tk_LeaseToken token)) r)"

lemma no_lease_rows:
  assumes "\<not> holds_lease tid tok X token rows"
  shows "rows_affected (lease_match tid tok (tk_TaskID token) (pgUUIDFromString X (tk_LeaseToken token))) rows = 0"
    and "sql_delete (lease_match tid tok (tk_TaskID token) (pgUUIDFromString X (tk_LeaseToken token))) rows = rows"
    and "sql_update (lease_match tid tok (tk_TaskID token) (pgUUIDFromString X (tk_LeaseToken token))) f rows = rows"
    and "List.find (lease_match tid tok (tk_TaskID token) (pgUUIDFromString X (tk_LeaseToken token))) rows = None"
  using assms
  by (auto simp: holds_lease_def rows_affected_0 sql_delete_def find_None_iff intro: filter_True sql_update_none)

lemma no_workflow_lease:
  assumes "tk_Kind token = TaskTokenKindWorkflow"
    and "\<not> holds_lease wt_task_id wt_lease_token X token (workflow_tasks (sdb s))"
  shows "CompleteWorkflowTask X S E token cmds sticky s = (Inl ErrTaskLeaseExpired, s)"
    and "FailWorkflowTask X S E token s = (Inl ErrTaskLeaseExpired, s\<lparr>counters := (counters s)
      \<lparr>WorkflowTaskFailedTotal := WorkflowTaskFailedTotal (counters s) + 1\<rparr>\<rparr>)"
  using assms(1) no_lease_rows [OF assms(2)]
  by (simp_all add: CompleteWorkflowTask_def FailWorkflowTask_def complete_tx_def complete_front_def
      q_CompleteWorkflowTask_def bindM_def onDB_def withTx_def Let_def throw_def count_def modM_def)

lemma no_activity_lease:
  assumes "tk_Kind token = TaskTokenKindActivity"
    and "\<not> holds_lease at_task_id at_lease_token X token (activity_tasks (sdb s))"
  shows "CompleteActivityTask X S E token result s = (Inl ErrTaskLeaseExpired, s)"
    and "FailActivityTask X S E token failure s = (Inl ErrTaskLeaseExpired, s)"
  using assms(1) no_lease_rows [OF assms(2)]
  by (simp_all add: CompleteActivityTask_def FailActivityTask_def complete_activity_tx_def completeActivityTaskRow_def
      q_GetActivityTaskByLease_def mapErr_def bindM_def onDB_def withTx_def Let_def)

lemma no_query_lease:
  assumes "tk_Kind token = TaskTokenKindQuery"
    and "\<not> holds_lease qt_task_id qt_lease_token X token (query_tasks (sdb s))"
  shows "\<not> snd (marshal_payload X result) \<Longrightarrow> CompleteQuery X token result s = (Inl ErrTaskLeaseExpired, s)"
    and "FailQuery X token msg s = (Inl ErrTaskLeaseExpired, s)"
  using assms(1) no_lease_rows [OF assms(2)]
  by (cases "marshal_payload X result";
      simp add: CompleteQuery_def FailQuery_def q_CompleteQueryTask_def q_FailQueryTask_def bindM_def onDB_def
        Let_def throw_def)+

text \<open>
  (C18) A token whose lease is gone (expired and reaped, already completed, or never granted) is
  refused by every operation that answers a task, with \<open>ErrTaskLeaseExpired\<close>, and the
  database is exactly as before; only \<open>FailWorkflowTask\<close> has counted the failure. (A query result must be
  marshallable to get that far.)
\<close>

theorem no_lease_no_effect:
  "(tk_Kind token = TaskTokenKindWorkflow \<and> \<not> holds_lease wt_task_id wt_lease_token X token (workflow_tasks (sdb s)) \<longrightarrow>
      CompleteWorkflowTask X S E token cmds sticky s = (Inl ErrTaskLeaseExpired, s) \<and>
      FailWorkflowTask X S E token s = (Inl ErrTaskLeaseExpired, s\<lparr>counters := (counters s)
        \<lparr>WorkflowTaskFailedTotal := WorkflowTaskFailedTotal (counters s) + 1\<rparr>\<rparr>)) \<and>
   (tk_Kind token = TaskTokenKindActivity \<and> \<not> holds_lease at_task_id at_lease_token X token (activity_tasks (sdb s)) \<longrightarrow>
      CompleteActivityTask X S E token result s = (Inl ErrTaskLeaseExpired, s) \<and>
      FailActivityTask X S E token failure s = (Inl ErrTaskLeaseExpired, s)) \<and>
   (tk_Kind token = TaskTokenKindQuery \<and> \<not> holds_lease qt_task_id qt_lease_token X token (query_tasks (sdb s)) \<and>
      \<not> snd (marshal_payload X result) \<longrightarrow>
      CompleteQuery X token result s = (Inl ErrTaskLeaseExpired, s) \<and>
      FailQuery X token msg s = (Inl ErrTaskLeaseExpired, s))"
  by (simp add: no_workflow_lease no_activity_lease no_query_lease)

definition demo_token :: task_token where
  "demo_token = newTaskToken TaskTokenKindWorkflow 1 ''w'' ''r1'' 1 ''L''"

theorem no_lease_no_effect_witness:
  "CompleteWorkflowTask demo_ext demo_store demo_env demo_token [] None demo_sys = (Inl ErrTaskLeaseExpired, demo_sys) \<and>
   CompleteActivityTask demo_ext demo_store demo_env (demo_token\<lparr>tk_Kind := TaskTokenKindActivity\<rparr>) None demo_sys =
     (Inl ErrTaskLeaseExpired, demo_sys) \<and>
   FailQuery demo_ext (demo_token\<lparr>tk_Kind := TaskTokenKindQuery\<rparr>) ''m'' demo_sys = (Inl ErrTaskLeaseExpired, demo_sys)"
proof -
  have no: "\<not> holds_lease wt_task_id wt_lease_token demo_ext t (workflow_tasks (sdb demo_sys))"
    "\<not> holds_lease at_task_id at_lease_token demo_ext t (activity_tasks (sdb demo_sys))"
    "\<not> holds_lease qt_task_id qt_lease_token demo_ext t (query_tasks (sdb demo_sys))"
    "\<not> snd (marshal_payload demo_ext None)" for t
    by (auto simp: holds_lease_def demo_sys_def demo_db_def demo_wt_def initial_db_def demo_ext_def lease_match_def)
  have kind: "tk_Kind demo_token = TaskTokenKindWorkflow" by (simp add: demo_token_def newTaskToken_def)
  show ?thesis
    using no_lease_no_effect [of demo_token demo_ext demo_sys demo_store demo_env "[]" None None None "''m''"]
      no_lease_no_effect [of "demo_token\<lparr>tk_Kind := TaskTokenKindActivity\<rparr>" demo_ext demo_sys demo_store demo_env "[]"
        None None None "''m''"]
      no_lease_no_effect [of "demo_token\<lparr>tk_Kind := TaskTokenKindQuery\<rparr>" demo_ext demo_sys demo_store demo_env "[]"
        None None None "''m''"] no kind
    by simp
qed

end
