(* ===== verification/CompleteProps.thy ===== *)
theory CompleteProps
  imports LeaseProps
begin

text \<open>
  Completing a workflow task: what a successful completion does to the run, to the task
  tables and to the timers, stated as a specification of the command list; that a malformed
  response changes no table; and continue-as-new.
\<close>

section \<open>The commands as a specification\<close>

text \<open>The event of one command, when it is the \<open>i\<close>-th event of the append. An unset command is refused before.\<close>

definition command_event :: "env \<Rightarrow> we_row \<Rightarrow> nat \<Rightarrow> command \<Rightarrow> new_event" where
  "command_event E we i cmd =
     (case cmd of
        ScheduleActivityTask c \<Rightarrow> newEvent EV_ACTIVITY_TASK_SCHEDULED
          (ActivityTaskScheduled (ActivityId c) (ActivityType c) (ActInput c) (ActRetryPolicy c)
             (ScheduleToStartTimeout c) (StartToCloseTimeout c))
      | StartTimer c \<Rightarrow> newEvent EV_TIMER_STARTED (TimerStarted (TimerId c) (TimerDuration c))
      | CompleteWorkflowExecution r \<Rightarrow> newEvent EV_WORKFLOW_EXECUTION_COMPLETED (WorkflowExecutionCompleted r)
      | FailWorkflowExecution f \<Rightarrow> newEvent EV_WORKFLOW_EXECUTION_FAILED (WorkflowExecutionFailed f)
      | ContinueAsNewWorkflowExecution c \<Rightarrow> newEvent EV_WORKFLOW_EXECUTION_CONTINUED_AS_NEW
          (WorkflowExecutionContinuedAsNew (new_uuid E i) (stringOrFallback (CanWorkflowType c) (we_workflow_type we))
             (stringOrFallback (CanTaskQueue c) (we_task_queue we)) (CanInput c))
      | Command_Unset \<Rightarrow> newEvent EV_UNSPECIFIED (WorkflowTaskCompleted ''''))"

fun command_events :: "env \<Rightarrow> we_row \<Rightarrow> nat \<Rightarrow> command list \<Rightarrow> new_event list" where
  "command_events E we i [] = []"
| "command_events E we i (c # cs) = command_event E we i c # command_events E we (Suc i) cs"

fun scheduled_activities :: "nat \<Rightarrow> command list \<Rightarrow> (nat \<times> schedule_activity_cmd) list" where
  "scheduled_activities i [] = []"
| "scheduled_activities i (c # cs) =
     (case c of ScheduleActivityTask a \<Rightarrow> (i, a) # scheduled_activities (Suc i) cs
      | _ \<Rightarrow> scheduled_activities (Suc i) cs)"

fun started_timers :: "nat \<Rightarrow> command list \<Rightarrow> (nat \<times> start_timer_cmd) list" where
  "started_timers i [] = []"
| "started_timers i (c # cs) =
     (case c of StartTimer a \<Rightarrow> (i, a) # started_timers (Suc i) cs | _ \<Rightarrow> started_timers (Suc i) cs)"

definition command_status :: "command \<Rightarrow> string" where
  "command_status c =
     (case c of CompleteWorkflowExecution _ \<Rightarrow> ''COMPLETED'' | FailWorkflowExecution _ \<Rightarrow> ''FAILED''
      | ContinueAsNewWorkflowExecution _ \<Rightarrow> ''CONTINUED_AS_NEW'' | _ \<Rightarrow> '''')"

definition is_terminal :: "command \<Rightarrow> bool" where
  "is_terminal c \<longleftrightarrow> command_status c \<noteq> ''''"

definition is_continue :: "command \<Rightarrow> bool" where
  "is_continue c \<longleftrightarrow> (case c of ContinueAsNewWorkflowExecution _ \<Rightarrow> True | _ \<Rightarrow> False)"

definition starts_work :: "command \<Rightarrow> bool" where
  "starts_work c \<longleftrightarrow> (case c of ScheduleActivityTask _ \<Rightarrow> True | StartTimer _ \<Rightarrow> True | _ \<Rightarrow> False)"

section \<open>What the loop collects\<close>

lemma process_commands_ConsE:
  assumes "process_commands X S E k we (c # cs) a = Inr a'"
  obtains a1 where "process_command X S E k we c a = Inr a1" and "process_commands X S E k we cs a1 = Inr a'"
  using assms by (auto split: sum.splits)

lemma process_command_events:
  "process_command X S E k we c a = Inr a' \<Longrightarrow> ca_events a' = ca_events a @ [command_event E we (length (ca_events a)) c]"
  by (cases c) (auto simp: process_command_def command_event_def Let_def)

lemma collected_events:
  "process_commands X S E k we cs a = Inr a' \<Longrightarrow>
   ca_events a' = ca_events a @ command_events E we (length (ca_events a)) cs"
proof (induction cs arbitrary: a)
  case (Cons c cs)
  from Cons.prems show ?case
    by (rule process_commands_ConsE) (auto dest!: process_command_events Cons.IH)
qed simp

lemma collected_enqueues:
  "process_commands X S E k we cs a = Inr a' \<Longrightarrow>
   ca_enqueues a' = ca_enqueues a @ map (\<lambda>(i, c). (activityEnqueueParams X k (we_task_queue we)
      (PartitionFor (fst (snd k)) (numTaskQueuePartitions S)) c, i)) (scheduled_activities (length (ca_events a)) cs)"
proof (induction cs arbitrary: a)
  case (Cons c cs)
  then obtain a1 where a1: "process_command X S E k we c a = Inr a1" "process_commands X S E k we cs a1 = Inr a'"
    by (blast elim: process_commands_ConsE)
  from process_command_events [OF a1(1)] Cons.IH [OF a1(2)] a1(1) show ?case
    by (cases c) (simp_all add: process_command_def Let_def, auto)
qed simp

lemma collected_timers:
  "process_commands X S E k we cs a = Inr a' \<Longrightarrow>
   ca_timers a' = ca_timers a @ map (\<lambda>(i, c). (c, i)) (started_timers (length (ca_events a)) cs)"
proof (induction cs arbitrary: a)
  case (Cons c cs)
  then obtain a1 where a1: "process_command X S E k we c a = Inr a1" "process_commands X S E k we cs a1 = Inr a'"
    by (blast elim: process_commands_ConsE)
  from process_command_events [OF a1(1)] Cons.IH [OF a1(2)] a1(1) show ?case
    by (cases c) (simp_all add: process_command_def Let_def, auto)
qed simp

lemma collected_counts:
  "process_commands X S E k we cs a = Inr a' \<Longrightarrow>
   ca_terminal a' = ca_terminal a + length (filter is_terminal cs) \<and>
   ca_scheduleOrTimer a' = ca_scheduleOrTimer a + length (filter starts_work cs) \<and>
   (ca_continueAsNew a' \<noteq> None \<longleftrightarrow> ca_continueAsNew a \<noteq> None \<or> (\<exists>c \<in> set cs. is_continue c)) \<and>
   Command_Unset \<notin> set cs"
proof (induction cs arbitrary: a)
  case (Cons c cs)
  then obtain a1 where a1: "process_command X S E k we c a = Inr a1" "process_commands X S E k we cs a1 = Inr a'"
    by (blast elim: process_commands_ConsE)
  from Cons.IH [OF a1(2)] a1(1) show ?case
    by (cases c) (auto simp: process_command_def Let_def is_terminal_def command_status_def starts_work_def is_continue_def)
qed simp

text \<open>The status the last terminal command sets.\<close>

definition closing_status :: "string \<Rightarrow> command list \<Rightarrow> string" where
  "closing_status st cs = foldl (\<lambda>st c. if is_terminal c then command_status c else st) st cs"

lemma collected_status:
  "process_commands X S E k we cs a = Inr a' \<Longrightarrow> ca_closeStatus a' = closing_status (ca_closeStatus a) cs"
proof (induction cs arbitrary: a)
  case (Cons c cs)
  then obtain a1 where a1: "process_command X S E k we c a = Inr a1" "process_commands X S E k we cs a1 = Inr a'"
    by (blast elim: process_commands_ConsE)
  from Cons.IH [OF a1(2)] a1(1) show ?case
    by (cases c) (auto simp: process_command_def Let_def is_terminal_def command_status_def closing_status_def)
qed (simp add: closing_status_def)

text \<open>The loop fails exactly when a command is unset.\<close>

lemma process_commands_Inl:
  "process_commands X S E k we cs a = Inl e \<Longrightarrow> e = ErrUnsupportedCommand \<and> Command_Unset \<in> set cs"
proof (induction cs arbitrary: a)
  case (Cons c cs)
  then show ?case by (cases c) (auto simp: process_command_def Let_def)
qed simp

section \<open>The statements behind the append\<close>

definition activity_view :: "'b at_row \<Rightarrow> run_key \<times> int \<times> string \<times> int \<times> task_status \<times> int" where
  "activity_view r = (at_run r, at_activity_id r, at_activity_type r, at_scheduled_event_id r, at_status r, at_attempt r)"

lemma enqueue_activities_Inr:
  assumes "forM (enqueue_activity now ids) ps d = (Inr (), d')"
  shows "\<exists>rows n. d' = d\<lparr>activity_tasks := activity_tasks d @ rows, at_seq := n\<rparr> \<and>
    map activity_view rows = map (\<lambda>(p, i). ((ap_namespace_id p, ap_workflow_id p, ap_run_id p), ap_activity_id p,
      ap_activity_type p, ids ! i, PENDING, 1)) ps"
  using assms
proof (induction ps arbitrary: d)
  case Nil
  then have "d' = d\<lparr>activity_tasks := activity_tasks d @ [], at_seq := at_seq d\<rparr>" by (simp add: monad_simps)
  then show ?case by (intro exI [of _ "[]"] exI [of _ "at_seq d"]) simp
next
  case (Cons p ps)
  from Cons.prems obtain u d1 where d1: "enqueue_activity now ids p d = (Inr u, d1)"
      "forM (enqueue_activity now ids) ps d1 = (Inr (), d')" by (auto elim: bindM_InrE)
  then obtain r where r: "d1 = d\<lparr>activity_tasks := activity_tasks d @ [r], at_seq := at_seq d + 1\<rparr>"
      "activity_view r = ((ap_namespace_id (fst p), ap_workflow_id (fst p), ap_run_id (fst p)), ap_activity_id (fst p),
        ap_activity_type (fst p), ids ! snd p, PENDING, 1)"
    by (auto simp: enqueue_activity_def q_EnqueueActivityTask_def new_at_row_def activity_view_def at_run_def
        split: option.splits)
  from Cons.IH [OF d1(2)] r obtain rows n where "d' = d1\<lparr>activity_tasks := activity_tasks d1 @ rows, at_seq := n\<rparr>"
      "map activity_view rows = map (\<lambda>(p, i). ((ap_namespace_id p, ap_workflow_id p, ap_run_id p), ap_activity_id p,
        ap_activity_type p, ids ! i, PENDING, 1)) ps" by blast
  with r show ?case by (intro exI [of _ "r # rows"] exI [of _ n]) (simp add: split_beta)
qed

definition timer_view :: "tm_row \<Rightarrow> run_key \<times> int \<times> int" where
  "timer_view t = (tm_run t, tm_timer_id t, tm_scheduled_event_id t)"

lemma insert_timers_Inr:
  assumes "forM (insert_pending_timer E k ids) ps d = (Inr (), d')"
  shows "\<exists>rows. d' = d\<lparr>timers := timers d @ rows\<rparr> \<and>
    map timer_view rows = map (\<lambda>(j, c, i). (k, TimerId c, ids ! i)) ps \<and>
    map tm_fire_at rows = map (\<lambda>(j, c, i). go_now E (Suc j) + AsDuration (TimerDuration c)) ps"
  using assms
proof (induction ps arbitrary: d)
  case Nil
  then have "d' = d\<lparr>timers := timers d @ []\<rparr>" by (simp add: monad_simps)
  then show ?case by (intro exI [of _ "[]"]) simp
next
  case (Cons p ps)
  obtain j c i where p: "p = (j, c, i)" by (cases p)
  from Cons.prems obtain u d1 where d1: "insert_pending_timer E k ids p d = (Inr u, d1)"
      "forM (insert_pending_timer E k ids) ps d1 = (Inr (), d')" by (auto elim: bindM_InrE)
  then obtain r where r: "d1 = d\<lparr>timers := timers d @ [r]\<rparr>" "timer_view r = (k, TimerId c, ids ! i)"
      "tm_fire_at r = go_now E (Suc j) + AsDuration (TimerDuration c)"
    by (auto simp: insert_pending_timer_def q_InsertTimer_def timer_view_def tm_run_def p split: if_splits)
  from Cons.IH [OF d1(2)] obtain rows where "d' = d1\<lparr>timers := timers d1 @ rows\<rparr>"
      "map timer_view rows = map (\<lambda>(j, c, i). (k, TimerId c, ids ! i)) ps"
      "map tm_fire_at rows = map (\<lambda>(j, c, i). go_now E (Suc j) + AsDuration (TimerDuration c)) ps" by blast
  with r p show ?case by (intro exI [of _ "r # rows"]) simp
qed

text \<open>What the completed run's observers see.\<close>

definition run_view :: "run_key \<Rightarrow> 'b db \<Rightarrow> 'b he_row list \<times> 'b at_row list \<times> tm_row list" where
  "run_view k d = (run_events k d, activity_tasks d, timers d)"

lemma view_append_other:
  "k' \<noteq> k \<Longrightarrow> keeps (\<lambda>d. run_view k d = v \<and> find_we k d = w) (AppendHistory X now k' e evs)"
proof -
  assume k: "k' \<noteq> k"
  have "keeps (\<lambda>d. run_view k d = v \<and> find_we k d = w) (insert_event X now k' p)" for p
    using k by (intro keepsI) (auto simp: insert_event_def q_InsertHistoryEvent_def run_view_def run_events_def he_run_def
        find_we_def monad_simps split: option.split)
  moreover have "keeps (\<lambda>d. run_view k d = v \<and> find_we k d = w) (q_AdvanceNextEventID now k' n e)" for n
  proof (rule keepsI)
    fix d assume "run_view k d = v \<and> find_we k d = w"
    moreover have "find_we k (d\<lparr>workflow_executions := sql_update (\<lambda>r. we_key r = k' \<and> we_next_event_id r = e)
        (\<lambda>r. r\<lparr>we_next_event_id := we_next_event_id r + n, we_updated_at := now\<rparr>) (workflow_executions d)\<rparr>) =
        map_option (\<lambda>r. if we_key r = k' \<and> we_next_event_id r = e
          then r\<lparr>we_next_event_id := we_next_event_id r + n, we_updated_at := now\<rparr> else r) (find_we k d)"
      unfolding find_we_def by simp (rule find_key_sql_update, simp)
    moreover have "map_option (\<lambda>r. if we_key r = k' \<and> we_next_event_id r = e
          then r\<lparr>we_next_event_id := we_next_event_id r + n, we_updated_at := now\<rparr> else r) (find_we k d) = find_we k d"
      using k by (cases "find_we k d") (auto dest: find_we_SomeD)
    ultimately show "run_view k (snd (q_AdvanceNextEventID now k' n e d)) = v \<and>
        find_we k (snd (q_AdvanceNextEventID now k' n e d)) = w"
      by (auto simp: q_AdvanceNextEventID_def run_view_def run_events_def split: option.split)
  qed
  ultimately show ?thesis
    unfolding AppendHistory_def by (intro keeps_if keeps_bindM keeps_mapErr keeps_forM keeps_ret)
qed

lemma workflow_tasks_append: "workflow_tasks (snd (AppendHistory X now k e evs d)) = workflow_tasks d"
proof -
  let ?I = "\<lambda>x. workflow_tasks x = workflow_tasks d"
  have "keeps ?I (insert_event X now k p)" for p
    by (rule keepsI) (auto simp: insert_event_def q_InsertHistoryEvent_def monad_simps split: option.split)
  moreover have "keeps ?I (q_AdvanceNextEventID now k n e)" for n
    by (rule keepsI) (auto simp: q_AdvanceNextEventID_def split: option.split)
  ultimately have "keeps ?I (AppendHistory X now k e evs)"
    unfolding AppendHistory_def by (intro keeps_if keeps_bindM keeps_mapErr keeps_forM keeps_ret)
  from keepsD [OF this, of d] show ?thesis by simp
qed

lemma continue_view:
  assumes "continueWorkflowAsNew X S now req k we rid cmd d = (Inr u, d')" and "find_we k d = Some r"
  shows "run_view k d' = run_view k d \<and> find_we k d' = find_we k d \<and>
    (\<exists>t. workflow_tasks d' = workflow_tasks d @ [t] \<and> wt_lease_token t = None)"
proof -
  let ?nk = "(fst k, fst (snd k), rid)"
  let ?I = "\<lambda>x. run_view k x = run_view k d \<and> find_we k x = find_we k d"
  from assms(1) obtain d1 d2 d3 x cp ep where
      rep: "q_ReplaceCurrentExecution (fst k) (fst (snd k)) rid req d = (Inr (), d1)"
      and cr: "q_CreateWorkflowExecution now cp d1 = (Inr (), d2)" "we_key (new_we_row now cp) = ?nk"
      and ap: "AppendHistory X now ?nk 1 (continue_events we (snd (snd k)) cmd) d2 = (Inr x, d3)"
      and en: "q_EnqueueWorkflowTask now ep d3 = (Inr u, d')"
    unfolding continueWorkflowAsNew_def Let_def
    by (elim bindM_InrE) (auto simp: new_we_row_def we_key_def)
  have I1: "?I d1 \<and> workflow_tasks d1 = workflow_tasks d"
    using rep by (auto simp: q_ReplaceCurrentExecution_def run_view_def run_events_def find_we_def)
  have none: "find_we ?nk d1 = None" and d2: "d2 = d1\<lparr>workflow_executions := workflow_executions d1 @ [new_we_row now cp]\<rparr>"
    using cr by (auto simp: q_CreateWorkflowExecution_def Let_def find_we_def split: if_splits)
  with I1 assms(2) have ne: "?nk \<noteq> k" by auto
  have I2: "?I d2 \<and> workflow_tasks d2 = workflow_tasks d"
    using I1 assms(2) by (auto simp: d2 run_view_def run_events_def find_we_def find_append)
  then have I3: "?I d3 \<and> workflow_tasks d3 = workflow_tasks d"
    using keepsD [OF view_append_other [OF ne, of "run_view k d" "find_we k d" X now 1 "continue_events we (snd (snd k)) cmd"], of d2]
      workflow_tasks_append [of X now ?nk 1 "continue_events we (snd (snd k)) cmd" d2] ap by simp
  from en have "d' = d3\<lparr>workflow_tasks := workflow_tasks d3 @ [new_wt_row now ep (wt_seq d3)], wt_seq := wt_seq d3 + 1\<rparr>"
    by (simp add: q_EnqueueWorkflowTask_def)
  with I3 show ?thesis by (auto simp: run_view_def run_events_def find_we_def new_wt_row_def)
qed

section \<open>A successful completion, stage by stage\<close>

lemma onDB_InrE:
  assumes "onDB m s = (Inr x, s')"
  obtains d where "m (sdb s) = (Inr x, d)" and "s' = s\<lparr>sdb := d\<rparr>"
  using assms by (auto simp: onDB_def split: prod.splits)

abbreviation presents :: "'b ext \<Rightarrow> task_token \<Rightarrow> wt_row \<Rightarrow> bool" where
  "presents X token \<equiv> lease_match wt_task_id wt_lease_token (tk_TaskID token) (pgUUIDFromString X (tk_LeaseToken token))"

lemma complete_front_InrD:
  assumes "complete_front X S E token cmds d = (Inr (we, a), d1)"
  shows "d1 = d\<lparr>workflow_tasks := sql_delete (presents X token) (workflow_tasks d)\<rparr>"
    and "find_we (token_key token) d = Some we"
    and "process_commands X S E (token_key token) we cmds initial_acc = Inr a"
    and "check_commands a = Inr ()"
    and "rows_affected (presents X token) (workflow_tasks d) \<noteq> 0"
proof -
  obtain n d0 d2 where del: "q_CompleteWorkflowTask (tk_TaskID token) (pgUUIDFromString X (tk_LeaseToken token)) d = (Inr n, d0)"
      and we: "q_GetWorkflowExecution (token_key token) d0 = (Inr we, d2)"
      and pr: "process_commands X S E (token_key token) we cmds initial_acc = Inr a"
      and ch: "check_commands a = Inr ()" and d1: "d1 = d2" and n: "n \<noteq> 0"
    using assms unfolding complete_front_def
    by (elim bindM_InrE) (auto simp: liftE_def ret_def throw_def elim!: bindM_InrE split: if_splits)
  from del have d0: "d0 = d\<lparr>workflow_tasks := sql_delete (presents X token) (workflow_tasks d)\<rparr>"
    by (simp add: q_CompleteWorkflowTask_def Let_def)
  from we have d2: "d2 = d0" "find_we (token_key token) d0 = Some we"
    by (auto simp: q_GetWorkflowExecution_eq split: option.splits)
  show "d1 = d\<lparr>workflow_tasks := sql_delete (presents X token) (workflow_tasks d)\<rparr>" using d0 d1 d2 by simp
  show "find_we (token_key token) d = Some we" using d0 d2 by (simp add: find_we_def)
  show "process_commands X S E (token_key token) we cmds initial_acc = Inr a" using pr .
  show "check_commands a = Inr ()" using ch .
  show "rows_affected (presents X token) (workflow_tasks d) \<noteq> 0" using del n by (simp add: q_CompleteWorkflowTask_def Let_def)
qed

lemma log_wf_tasks [simp]: "log_wf (d\<lparr>workflow_tasks := ts\<rparr>) = log_wf d"
  by (simp add: log_wf_def run_events_def we_keys_def)

lemma length_command_events [simp]: "length (command_events E we i cs) = length cs"
  by (induction cs arbitrary: i) auto

lemma scheduled_activities_range: "(i, c) \<in> set (scheduled_activities j cs) \<Longrightarrow> j \<le> i \<and> i < j + length cs"
  by (induction cs arbitrary: j) (fastforce split: command.splits)+

lemma started_timers_range: "(i, c) \<in> set (started_timers j cs) \<Longrightarrow> j \<le> i \<and> i < j + length cs"
  by (induction cs arbitrary: j) (fastforce split: command.splits)+

abbreviation response_events :: "env \<Rightarrow> we_row \<Rightarrow> command list \<Rightarrow> new_event list" where
  "response_events E we cmds \<equiv>
     newEvent EV_WORKFLOW_TASK_COMPLETED (WorkflowTaskCompleted '''') # command_events E we 1 cmds"

lemma complete_effects_InrD:
  assumes wf: "log_wf d" and we: "find_we k d = Some we"
    and a: "process_commands X S E k we cmds initial_acc = Inr a"
    and eff: "complete_effects X E k we a d = (Inr (), d')"
  shows "\<exists>acts tms. run_events k d' = run_events k d @ map (event_row X (db_now E 0) k)
        (zip (ids_from (we_next_event_id we) (Suc (length cmds))) (response_events E we cmds)) \<and>
      activity_tasks d' = activity_tasks d @ acts \<and>
      map activity_view acts = map (\<lambda>(i, c). (k, ActivityId c, ActivityType c, we_next_event_id we + int i, PENDING, 1))
        (scheduled_activities 1 cmds) \<and>
      timers d' = timers d @ tms \<and>
      map timer_view tms = map (\<lambda>(i, c). (k, TimerId c, we_next_event_id we + int i)) (started_timers 1 cmds) \<and>
      find_we k d' = Some (we\<lparr>we_next_event_id := we_next_event_id we + 1 + int (length cmds), we_updated_at := db_now E 0\<rparr>) \<and>
      workflow_tasks d' = workflow_tasks d"
proof -
  let ?n = "we_next_event_id we" and ?evs = "response_events E we cmds" and ?now = "db_now E 0"
  let ?ids = "ids_from ?n (Suc (length cmds))"
  have ev: "ca_events a = ?evs" using collected_events [OF a] by (simp add: initial_acc_def)
  obtain r d1 d2 where app: "AppendHistory X ?now k ?n ?evs d = (Inr r, d1)"
      and act: "forM (enqueue_activity ?now (snd r)) (ca_enqueues a) d1 = (Inr (), d2)"
      and tim: "forM (insert_pending_timer E k (snd r)) (enumerate 0 (ca_timers a)) d2 = (Inr (), d')"
    using eff unfolding complete_effects_def ev by (elim bindM_InrE) auto
  have app': "snd r = ?ids" "d1 = appended X ?now k ?n ?evs d"
    by (rule AppendHistory_succE [OF wf _ app]; simp)+
  obtain acts m where acts: "d2 = d1\<lparr>activity_tasks := activity_tasks d1 @ acts, at_seq := m\<rparr>"
      "map activity_view acts = map (\<lambda>(p, i). ((ap_namespace_id p, ap_workflow_id p, ap_run_id p), ap_activity_id p,
        ap_activity_type p, ?ids ! i, PENDING, 1)) (ca_enqueues a)"
    using enqueue_activities_Inr [OF act] app'(1) by auto
  obtain tms where tms: "d' = d2\<lparr>timers := timers d2 @ tms\<rparr>"
      "map timer_view tms = map (\<lambda>(j, c, i). (k, TimerId c, ?ids ! i)) (enumerate 0 (ca_timers a))"
    using insert_timers_Inr [OF tim] app'(1) by auto
  have "ca_enqueues a = map (\<lambda>(i, c). (activityEnqueueParams X k (we_task_queue we)
      (PartitionFor (fst (snd k)) (numTaskQueuePartitions S)) c, i)) (scheduled_activities 1 cmds)"
    using collected_enqueues [OF a] by (simp add: initial_acc_def)
  then have v1: "map activity_view acts = map (\<lambda>(i, c). (k, ActivityId c, ActivityType c, ?n + int i, PENDING, 1))
      (scheduled_activities 1 cmds)"
    using acts(2) scheduled_activities_range [of _ _ 1 cmds]
    by (auto simp: activityEnqueueParams_def Let_def)
  have "map snd (enumerate 0 (ca_timers a)) = map (\<lambda>(i, c). (c, i)) (started_timers 1 cmds)"
    using collected_timers [OF a] by (simp add: initial_acc_def)
  moreover have "map timer_view tms = map (\<lambda>(c, i). (k, TimerId c, ?ids ! i)) (map snd (enumerate 0 (ca_timers a)))"
    unfolding tms(2) map_map by (rule map_cong) auto
  ultimately have v2: "map timer_view tms = map (\<lambda>(i, c). (k, TimerId c, ?n + int i)) (started_timers 1 cmds)"
    using started_timers_range [of _ _ 1 cmds] by auto
  have run: "run_events k d' = run_events k d1" "find_we k d' = find_we k d1"
    using acts(1) tms(1) by (simp_all add: run_events_def find_we_def)
  have "find_we k d1 = Some (we\<lparr>we_next_event_id := ?n + 1 + int (length cmds), we_updated_at := ?now\<rparr>)"
    using find_we_appended [OF wf we refl, of k X ?now ?evs] app'(2) by (simp add: algebra_simps)
  moreover have "run_events k d1 = run_events k d @ map (event_row X ?now k) (zip ?ids ?evs)"
    using app'(2) run_events_appended [of k X ?now k ?n ?evs d] by simp
  ultimately show ?thesis
    using run v1 v2 acts(1) tms(1) app'(2) by auto
qed

text \<open>Closing the run, and registering or clearing the sticky worker, touch only the run's row.\<close>

lemma find_we_update:
  "(\<And>r. we_key (f r) = we_key r) \<Longrightarrow>
   find_we k (d\<lparr>workflow_executions := sql_update (\<lambda>r. we_key r = k) f (workflow_executions d)\<rparr>) =
     map_option f (find_we k d)"
proof -
  assume f: "\<And>r. we_key (f r) = we_key r"
  have "List.find (\<lambda>r. we_key r = k) (sql_update (\<lambda>r. we_key r = k) f rows) =
      map_option (\<lambda>r. if we_key r = k then f r else r) (List.find (\<lambda>r. we_key r = k) rows)" for rows
    by (rule find_key_sql_update) (rule f)
  then show ?thesis
    by (cases "find_we k d") (auto simp: find_we_def dest: find_SomeD)
qed

lemma close_InrD:
  assumes "q_CloseWorkflowExecution now k st d = (Inr u, d')" and "find_we k d = Some we"
  shows "run_view k d' = run_view k d" and "workflow_tasks d' = workflow_tasks d"
    and "\<exists>we'. find_we k d' = Some we' \<and> we_status we' = st \<and> we_next_event_id we' = we_next_event_id we"
  using assms
  by (auto simp: q_CloseWorkflowExecution_def run_view_def run_events_def find_we_update split: if_splits)

lemma sticky_InrD:
  assumes "q_SetStickyExecution now k w e d = (Inr u, d')" and "find_we k d = Some we"
  shows "run_view k d' = run_view k d" and "workflow_tasks d' = workflow_tasks d"
    and "\<exists>we'. find_we k d' = Some we' \<and> we_status we' = we_status we \<and> we_next_event_id we' = we_next_event_id we"
  using assms
  by (auto simp: q_SetStickyExecution_def run_view_def run_events_def find_we_update)

text \<open>What follows the effects: the optional close, the optional continuation, the sticky registration.\<close>

definition complete_rest ::
  "'b ext \<Rightarrow> store \<Rightarrow> env \<Rightarrow> run_key \<Rightarrow> sticky_attributes option \<Rightarrow> we_row \<Rightarrow> 'b cmd_acc \<Rightarrow>
   'b sys \<Rightarrow> (error + bool \<times> string \<times> string) \<times> 'b sys" where
  "complete_rest X S E k sticky we a =
      bindM (if ca_closeStatus a \<noteq> '''' then
               bindM (onDB (q_CloseWorkflowExecution (db_now E 0) k (ca_closeStatus a))) (\<lambda>_.
               count (\<lambda>c. c\<lparr>WorkflowCompletedTotal :=
                 (WorkflowCompletedTotal c)(ca_closeStatus a := WorkflowCompletedTotal c (ca_closeStatus a) + 1)\<rparr>))
             else ret ()) (\<lambda>_.
      bindM (case ca_continueAsNew a of
               None \<Rightarrow> ret ''''
             | Some (cmd, newRunID) \<Rightarrow>
                 bindM (onDB (continueWorkflowAsNew X S (db_now E 0) (new_uuid E 0) k we newRunID cmd)) (\<lambda>_.
                 bindM (count (\<lambda>c. c\<lparr>WorkflowStartedTotal := WorkflowStartedTotal c + 1\<rparr>)) (\<lambda>_.
                 ret (stringOrFallback (CanTaskQueue cmd) (we_task_queue we))))) (\<lambda>continuedTaskQueue.
      bindM (if ca_closeStatus a = '''' then
               (let reg = sticky_registration (go_now E 0) sticky
                in onDB (q_SetStickyExecution (db_now E 0) k (fst reg) (snd reg)))
             else ret ()) (\<lambda>_.
      ret (ca_enqueues a \<noteq> [], we_task_queue we, continuedTaskQueue))))"

lemma complete_tx_split:
  "complete_tx X S E token cmds sticky =
     bindM (onDB (complete_front X S E token cmds)) (\<lambda>(we, a).
     bindM (onDB (complete_effects X E (token_key token) we a)) (\<lambda>_.
     complete_rest X S E (token_key token) sticky we a))"
  by (simp add: complete_tx_def complete_rest_def Let_def)

lemma complete_tx_InrE:
  assumes "complete_tx X S E token cmds sticky s = (Inr r, s')"
  obtains we a d1 d2 where "complete_front X S E token cmds (sdb s) = (Inr (we, a), d1)"
    and "complete_effects X E (token_key token) we a d1 = (Inr (), d2)"
    and "complete_rest X S E (token_key token) sticky we a (s\<lparr>sdb := d2\<rparr>) = (Inr r, s')"
  using assms unfolding complete_tx_split by (auto elim!: bindM_InrE onDB_InrE split: prod.splits)

text \<open>The observers' view of the run through the three stages.\<close>

lemma close_stage:
  assumes "(if st \<noteq> '''' then bindM (onDB (q_CloseWorkflowExecution now k st)) (\<lambda>_. count f) else ret ()) s = (Inr u, s')"
    and "find_we k (sdb s) = Some we"
  shows "run_view k (sdb s') = run_view k (sdb s) \<and> workflow_tasks (sdb s') = workflow_tasks (sdb s) \<and>
    (\<exists>we'. find_we k (sdb s') = Some we' \<and> we_status we' = (if st = '''' then we_status we else st) \<and>
       we_next_event_id we' = we_next_event_id we)"
proof (cases "st = ''''")
  case False
  with assms(1) obtain d where "q_CloseWorkflowExecution now k st (sdb s) = (Inr (), d)" "sdb s' = d"
    by (auto simp: monad_simps elim!: bindM_InrE onDB_InrE split: prod.splits sum.splits)
  with close_InrD [OF _ assms(2), of now st "()" d] False show ?thesis by simp
qed (use assms in \<open>simp add: ret_def\<close>)

lemma continue_stage:
  assumes "(case o' of None \<Rightarrow> ret '''' | Some (cmd, rid) \<Rightarrow>
      bindM (onDB (continueWorkflowAsNew X S now req k we rid cmd)) (\<lambda>_. bindM (count f) (\<lambda>_. ret (g cmd)))) s = (Inr q, s')"
    and "find_we k (sdb s) = Some r"
  shows "run_view k (sdb s') = run_view k (sdb s) \<and> find_we k (sdb s') = find_we k (sdb s) \<and>
    (\<exists>ts. workflow_tasks (sdb s') = workflow_tasks (sdb s) @ ts \<and> (\<forall>t \<in> set ts. wt_lease_token t = None))"
proof (cases o')
  case (Some p)
  obtain cmd rid where p: "p = (cmd, rid)" by (cases p)
  with assms(1) Some obtain u d where "continueWorkflowAsNew X S now req k we rid cmd (sdb s) = (Inr u, d)" "sdb s' = d"
    by (auto simp: count_def modM_def ret_def elim!: bindM_InrE onDB_InrE)
  with continue_view [OF _ assms(2), of X S now req we rid cmd u d] show ?thesis by auto
qed (use assms in \<open>simp add: ret_def\<close>)

lemma sticky_stage:
  assumes "(if b then onDB (q_SetStickyExecution now k w e) else ret ()) s = (Inr u, s')"
    and "find_we k (sdb s) = Some we"
  shows "run_view k (sdb s') = run_view k (sdb s) \<and> workflow_tasks (sdb s') = workflow_tasks (sdb s) \<and>
    (\<exists>we'. find_we k (sdb s') = Some we' \<and> we_status we' = we_status we \<and> we_next_event_id we' = we_next_event_id we)"
proof (cases b)
  case True
  with assms(1) obtain d where "q_SetStickyExecution now k w e (sdb s) = (Inr (), d)" "sdb s' = d"
    by (auto elim!: onDB_InrE)
  with sticky_InrD [OF _ assms(2), of now w e "()" d] show ?thesis by simp
qed (use assms in \<open>simp add: ret_def\<close>)

lemma complete_rest_InrD:
  assumes "complete_rest X S E k sticky we a s = (Inr r, s')" and "find_we k (sdb s) = Some we0"
  shows "run_view k (sdb s') = run_view k (sdb s) \<and>
    (\<exists>ts. workflow_tasks (sdb s') = workflow_tasks (sdb s) @ ts \<and> (\<forall>t \<in> set ts. wt_lease_token t = None)) \<and>
    (\<exists>we'. find_we k (sdb s') = Some we' \<and> we_next_event_id we' = we_next_event_id we0 \<and>
       we_status we' = (if ca_closeStatus a = '''' then we_status we0 else ca_closeStatus a))"
proof -
  from assms(1) obtain u s1 q s2 u' s3 where
      c: "(if ca_closeStatus a \<noteq> '''' then bindM (onDB (q_CloseWorkflowExecution (db_now E 0) k (ca_closeStatus a)))
        (\<lambda>_. count (\<lambda>c. c\<lparr>WorkflowCompletedTotal :=
          (WorkflowCompletedTotal c)(ca_closeStatus a := WorkflowCompletedTotal c (ca_closeStatus a) + 1)\<rparr>)) else ret ()) s = (Inr u, s1)"
      and n: "(case ca_continueAsNew a of None \<Rightarrow> ret '''' | Some (cmd, newRunID) \<Rightarrow>
        bindM (onDB (continueWorkflowAsNew X S (db_now E 0) (new_uuid E 0) k we newRunID cmd)) (\<lambda>_.
        bindM (count (\<lambda>c. c\<lparr>WorkflowStartedTotal := WorkflowStartedTotal c + 1\<rparr>)) (\<lambda>_.
        ret (stringOrFallback (CanTaskQueue cmd) (we_task_queue we))))) s1 = (Inr q, s2)"
      and t: "(if ca_closeStatus a = '''' then onDB (q_SetStickyExecution (db_now E 0) k
        (fst (sticky_registration (go_now E 0) sticky)) (snd (sticky_registration (go_now E 0) sticky))) else ret ()) s2 = (Inr u', s3)"
      and s3: "s' = s3"
    unfolding complete_rest_def Let_def by (elim bindM_InrE) (simp add: ret_def)
  from close_stage [OF c assms(2)] obtain we1 where 1: "run_view k (sdb s1) = run_view k (sdb s)"
      "workflow_tasks (sdb s1) = workflow_tasks (sdb s)" "find_we k (sdb s1) = Some we1"
      "we_status we1 = (if ca_closeStatus a = '''' then we_status we0 else ca_closeStatus a)"
      "we_next_event_id we1 = we_next_event_id we0" by blast
  from continue_stage [OF n 1(3)] obtain ts where 2: "run_view k (sdb s2) = run_view k (sdb s1)"
      "find_we k (sdb s2) = Some we1" "workflow_tasks (sdb s2) = workflow_tasks (sdb s1) @ ts"
      "\<forall>t \<in> set ts. wt_lease_token t = None" using 1(3) by auto
  from sticky_stage [OF t 2(2)] 1 2 s3 show ?thesis by auto
qed

lemma complete_task_InrD:
  assumes wf: "db_wf (sdb s)" and ok: "CompleteWorkflowTask X S E token cmds sticky s = (Inr (), s')"
  shows "\<exists>we we' acts tms. find_we (token_key token) (sdb s) = Some we \<and>
    run_events (token_key token) (sdb s') = run_events (token_key token) (sdb s) @ map (event_row X (db_now E 0) (token_key token))
      (zip (ids_from (we_next_event_id we) (Suc (length cmds))) (response_events E we cmds)) \<and>
    activity_tasks (sdb s') = activity_tasks (sdb s) @ acts \<and>
    map activity_view acts = map (\<lambda>(i, c). (token_key token, ActivityId c, ActivityType c, we_next_event_id we + int i, PENDING, 1))
      (scheduled_activities 1 cmds) \<and>
    timers (sdb s') = timers (sdb s) @ tms \<and>
    map timer_view tms = map (\<lambda>(i, c). (token_key token, TimerId c, we_next_event_id we + int i)) (started_timers 1 cmds) \<and>
    find_we (token_key token) (sdb s') = Some we' \<and> we_next_event_id we' = we_next_event_id we + 1 + int (length cmds) \<and>
    we_status we' = (if closing_status '''' cmds = '''' then we_status we else closing_status '''' cmds) \<and>
    \<not> holds_lease wt_task_id wt_lease_token X token (workflow_tasks (sdb s'))"
proof -
  let ?k = "token_key token"
  obtain r s1 where tx: "complete_tx X S E token cmds sticky s = (Inr r, s1)" and s': "sdb s' = sdb s1"
    using ok by (cases "complete_tx X S E token cmds sticky s"; cases "fst (complete_tx X S E token cmds sticky s)")
      (auto simp: CompleteWorkflowTask_def withTx_def throw_def bindM_def notifyM_def modM_def ret_def split: if_splits)
  then obtain we a d1 d2 where f: "complete_front X S E token cmds (sdb s) = (Inr (we, a), d1)"
      and e: "complete_effects X E ?k we a d1 = (Inr (), d2)"
      and r: "complete_rest X S E ?k sticky we a (s\<lparr>sdb := d2\<rparr>) = (Inr r, s1)"
    unfolding complete_tx_split by (auto elim!: bindM_InrE onDB_InrE split: prod.splits)
  note front = complete_front_InrD [OF f]
  have "log_wf d1" using db_wf_log [OF wf] front(1) by simp
  moreover have we1: "find_we ?k d1 = Some we" using front(1,2) by (simp add: find_we_def)
  ultimately obtain acts tms where eff: "run_events ?k d2 = run_events ?k d1 @ map (event_row X (db_now E 0) ?k)
        (zip (ids_from (we_next_event_id we) (Suc (length cmds))) (response_events E we cmds))"
      "activity_tasks d2 = activity_tasks d1 @ acts"
      "map activity_view acts = map (\<lambda>(i, c). (?k, ActivityId c, ActivityType c, we_next_event_id we + int i, PENDING, 1))
        (scheduled_activities 1 cmds)"
      "timers d2 = timers d1 @ tms"
      "map timer_view tms = map (\<lambda>(i, c). (?k, TimerId c, we_next_event_id we + int i)) (started_timers 1 cmds)"
      "find_we ?k d2 = Some (we\<lparr>we_next_event_id := we_next_event_id we + 1 + int (length cmds), we_updated_at := db_now E 0\<rparr>)"
      "workflow_tasks d2 = workflow_tasks d1"
    using complete_effects_InrD [OF _ _ front(3) e] by blast
  from complete_rest_InrD [OF r] eff(6) obtain we' ts where rest: "run_view ?k (sdb s1) = run_view ?k d2"
      "workflow_tasks (sdb s1) = workflow_tasks d2 @ ts" "\<forall>t \<in> set ts. wt_lease_token t = None"
      "find_we ?k (sdb s1) = Some we'" "we_next_event_id we' = we_next_event_id we + 1 + int (length cmds)"
      "we_status we' = (if ca_closeStatus a = '''' then we_status we else ca_closeStatus a)" by auto
  have "ca_closeStatus a = closing_status '''' cmds"
    using collected_status [OF front(3)] by (simp add: initial_acc_def)
  moreover have "\<not> holds_lease wt_task_id wt_lease_token X token (workflow_tasks (sdb s1))"
    using rest(2,3) eff(7) front(1) by (auto simp: holds_lease_def set_sql_delete lease_match_def)
  ultimately show ?thesis
    using rest eff front(1,2) s' by (auto simp: run_view_def run_events_def)
qed

text \<open>A leased task of the demo run, answered with an activity and a timer.\<close>

definition demo_sys3 :: "blob sys" where
  "demo_sys3 = demo_sys\<lparr>sdb := demo_db3\<rparr>"

definition demo_activity :: schedule_activity_cmd where
  "demo_activity = \<lparr>ActivityId = 1, ActivityType = ''A'', ActInput = Some \<lparr>Metadata = [], Data = []\<rparr>,
     ActRetryPolicy = None, ScheduleToStartTimeout = None, StartToCloseTimeout = None\<rparr>"

definition demo_cmds :: "command list" where
  "demo_cmds = [ScheduleActivityTask demo_activity, StartTimer \<lparr>TimerId = 1, TimerDuration = Some 5\<rparr>]"

lemmas complete_eval_simps = CompleteWorkflowTask_def complete_tx_def complete_front_def complete_effects_def bindM_def ret_def liftE_def throw_def
  count_def modM_def notifyM_def withTx_def onDB_def Let_def q_CompleteWorkflowTask_def rows_affected_def sql_delete_def
  lease_match_def q_GetWorkflowExecution_def we_key_def token_key_def process_command_def
  initial_acc_def check_commands_def AppendHistory_def mapErr_def q_AdvanceNextEventID_def bigint_ok_def
  ids_from_def insert_event_def q_InsertHistoryEvent_def he_run_def enqueue_activity_def q_EnqueueActivityTask_def
  activityEnqueueParams_def insert_pending_timer_def q_InsertTimer_def sticky_registration_def
  q_SetStickyExecution_def pgUUIDFromString_def

lemma demo_complete:
  "fst (CompleteWorkflowTask demo_ext demo_store demo_env demo_token demo_cmds None demo_sys3) = Inr ()"
  by (simp add: complete_eval_simps demo_sys3_def demo_db3_def demo_defs demo_leased_def wt_grant_def demo_token_def
      newTaskToken_def demo_cmds_def demo_activity_def start_events_def event_row_def)

text \<open>
  (C19) A successful completion does exactly what its commands say. The run's history grows by
  a task-completed event and one event per command, in order, with consecutive ids; every
  scheduled activity becomes one PENDING activity task and every started timer one timer row,
  each pointing at the id of its own event; the run is closed with the status of the terminal command,
  if there is one, and keeps its status otherwise; and the lease is gone, so the same response
  sent again is refused.
\<close>

theorem complete_task_effects:
  assumes wf: "db_wf (sdb s)" and ok: "CompleteWorkflowTask X S E token cmds sticky s = (Inr (), s')"
  shows "\<exists>we we' acts tms. find_we (token_key token) (sdb s) = Some we \<and>
    run_events (token_key token) (sdb s') = run_events (token_key token) (sdb s) @ map (event_row X (db_now E 0) (token_key token))
      (zip (ids_from (we_next_event_id we) (Suc (length cmds))) (response_events E we cmds)) \<and>
    activity_tasks (sdb s') = activity_tasks (sdb s) @ acts \<and>
    map activity_view acts = map (\<lambda>(i, c). (token_key token, ActivityId c, ActivityType c, we_next_event_id we + int i, PENDING, 1))
      (scheduled_activities 1 cmds) \<and>
    timers (sdb s') = timers (sdb s) @ tms \<and>
    map timer_view tms = map (\<lambda>(i, c). (token_key token, TimerId c, we_next_event_id we + int i)) (started_timers 1 cmds) \<and>
    find_we (token_key token) (sdb s') = Some we' \<and> we_next_event_id we' = we_next_event_id we + 1 + int (length cmds) \<and>
    we_status we' = (if closing_status '''' cmds = '''' then we_status we else closing_status '''' cmds) \<and>
    \<not> holds_lease wt_task_id wt_lease_token X token (workflow_tasks (sdb s'))"
  by (rule complete_task_InrD [OF assms])

theorem complete_task_effects_witness:
  "\<exists>s' we we' acts tms. CompleteWorkflowTask demo_ext demo_store demo_env demo_token demo_cmds None demo_sys3 = (Inr (), s') \<and>
    find_we demo_key demo_db3 = Some we \<and>
    run_events demo_key (sdb s') = run_events demo_key demo_db3 @ map (event_row demo_ext 10 demo_key)
      (zip (ids_from (we_next_event_id we) (Suc 2)) (response_events demo_env we demo_cmds)) \<and>
    activity_tasks (sdb s') = acts \<and>
    map activity_view acts = [(demo_key, 1, ''A'', we_next_event_id we + 1, PENDING, 1)] \<and>
    timers (sdb s') = tms \<and> map timer_view tms = [(demo_key, 1, we_next_event_id we + 2)] \<and>
    find_we demo_key (sdb s') = Some we' \<and> we_next_event_id we' = we_next_event_id we + 1 + 2 \<and> we_status we' = we_status we \<and>
    \<not> holds_lease wt_task_id wt_lease_token demo_ext demo_token (workflow_tasks (sdb s'))"
proof -
  obtain s' where ok: "CompleteWorkflowTask demo_ext demo_store demo_env demo_token demo_cmds None demo_sys3 = (Inr (), s')"
    using demo_complete by (cases "CompleteWorkflowTask demo_ext demo_store demo_env demo_token demo_cmds None demo_sys3") simp
  have "sdb demo_sys3 = demo_db3" "token_key demo_token = demo_key" "db_now demo_env 0 = 10" "activity_tasks demo_db3 = []"
      "timers demo_db3 = []" "closing_status '''' demo_cmds = ''''" "length demo_cmds = 2"
      "scheduled_activities 1 demo_cmds = [(1, demo_activity)]"
      "started_timers 1 demo_cmds = [(2, \<lparr>TimerId = 1, TimerDuration = Some 5\<rparr>)]"
      "ActivityId demo_activity = 1" "ActivityType demo_activity = ''A''"
    by (simp_all add: demo_sys3_def token_key_def demo_token_def newTaskToken_def demo_key_def demo_env_def demo_db3_def
        demo_db_def initial_db_def closing_status_def demo_cmds_def is_terminal_def command_status_def demo_activity_def)
  with complete_task_effects [OF _ ok] demo_db3_wf ok show ?thesis
    by simp
qed

section \<open>Malformed responses\<close>

lemma complete_front_error:
  assumes "holds_lease wt_task_id wt_lease_token X token (workflow_tasks d)" and "find_we (token_key token) d = Some we"
    and "(case process_commands X S E (token_key token) we cmds initial_acc of Inl e \<Rightarrow> Inl e | Inr a \<Rightarrow> check_commands a) = Inl e"
  shows "complete_front X S E token cmds d = (Inl e, d\<lparr>workflow_tasks := sql_delete (presents X token) (workflow_tasks d)\<rparr>)"
proof -
  have "rows_affected (presents X token) (workflow_tasks d) \<noteq> 0"
    using assms(1) by (auto simp: holds_lease_def rows_affected_0)
  moreover have "find_we (token_key token) (d\<lparr>workflow_tasks := sql_delete (presents X token) (workflow_tasks d)\<rparr>) = Some we"
    using assms(2) by (simp add: find_we_def)
  ultimately show ?thesis
    using assms(3)
    by (auto simp: complete_front_def bindM_def q_CompleteWorkflowTask_def Let_def q_GetWorkflowExecution_eq liftE_def
        split: sum.splits)
qed

lemma complete_error:
  assumes "tk_Kind token = TaskTokenKindWorkflow" and "complete_front X S E token cmds (sdb s) =
      (Inl e, (sdb s)\<lparr>workflow_tasks := ts\<rparr>)"
  shows "CompleteWorkflowTask X S E token cmds sticky s = (Inl e, s)"
  using assms by (simp add: CompleteWorkflowTask_def complete_tx_split bindM_def onDB_def withTx_def rollback_def)

text \<open>
  (C20) A malformed response is refused as a whole: an unset command, more than one terminal
  command, or a continue-as-new beside an activity or a timer gives the matching error and
  leaves the server's state untouched; the task keeps its lease.
\<close>

theorem malformed_response_rejected:
  assumes "tk_Kind token = TaskTokenKindWorkflow"
    and "holds_lease wt_task_id wt_lease_token X token (workflow_tasks (sdb s))" and "find_we (token_key token) (sdb s) = Some we"
  shows "(Command_Unset \<in> set cmds \<longrightarrow>
      CompleteWorkflowTask X S E token cmds sticky s = (Inl ErrUnsupportedCommand, s)) \<and>
    (Command_Unset \<notin> set cmds \<and> length (filter is_terminal cmds) > 1 \<longrightarrow>
      CompleteWorkflowTask X S E token cmds sticky s = (Inl (ErrTerminalCommands (length (filter is_terminal cmds))), s)) \<and>
    (Command_Unset \<notin> set cmds \<and> length (filter is_terminal cmds) \<le> 1 \<and> (\<exists>c \<in> set cmds. is_continue c) \<and>
        (\<exists>c \<in> set cmds. starts_work c) \<longrightarrow>
      CompleteWorkflowTask X S E token cmds sticky s = (Inl ErrContinueAsNewCombined, s))"
proof -
  note fail = complete_error [OF assms(1) complete_front_error [OF assms(2,3)]]
  show ?thesis
  proof (cases "process_commands X S E (token_key token) we cmds initial_acc")
    case (Inl e)
    with process_commands_Inl [OF Inl] fail [of S E cmds e sticky] show ?thesis by simp
  next
    case (Inr a)
    have c: "ca_terminal a = length (filter is_terminal cmds)" "ca_scheduleOrTimer a = length (filter starts_work cmds)"
        "ca_continueAsNew a \<noteq> None \<longleftrightarrow> (\<exists>c \<in> set cmds. is_continue c)" "Command_Unset \<notin> set cmds"
      using collected_counts [OF Inr] by (simp_all add: initial_acc_def)
    have "(\<exists>c \<in> set cmds. starts_work c) \<longleftrightarrow> 0 < length (filter starts_work cmds)"
      by (simp add: filter_empty_conv)
    with fail [of S E cmds _ sticky] Inr c show ?thesis by (simp add: check_commands_def)
  qed
qed

theorem malformed_response_rejected_witness:
  "CompleteWorkflowTask demo_ext demo_store demo_env demo_token [Command_Unset] None demo_sys3 = (Inl ErrUnsupportedCommand, demo_sys3) \<and>
   CompleteWorkflowTask demo_ext demo_store demo_env demo_token
     [CompleteWorkflowExecution None, FailWorkflowExecution None] None demo_sys3 = (Inl (ErrTerminalCommands 2), demo_sys3)"
proof -
  have h: "tk_Kind demo_token = TaskTokenKindWorkflow" "token_key demo_token = demo_key"
      "holds_lease wt_task_id wt_lease_token demo_ext demo_token (workflow_tasks (sdb demo_sys3))"
      "find_we demo_key (sdb demo_sys3) = Some demo_we"
    using demo_find_we
    by (simp_all add: demo_token_def newTaskToken_def token_key_def demo_key_def holds_lease_def demo_sys3_def demo_db3_def
        demo_leased_def wt_grant_def demo_wt_def lease_match_def pgUUIDFromString_def demo_ext_def find_we_def)
  then show ?thesis
    using malformed_response_rejected [OF h(1,3), of demo_we "[Command_Unset]" demo_store demo_env None]
      malformed_response_rejected [OF h(1,3), of demo_we "[CompleteWorkflowExecution None, FailWorkflowExecution None]" demo_store demo_env None]
    by (simp add: is_terminal_def command_status_def)
qed

section \<open>Continue-as-new\<close>

definition continue_create :: "store \<Rightarrow> run_key \<Rightarrow> we_row \<Rightarrow> uuid \<Rightarrow> continue_as_new_cmd \<Rightarrow> create_we_params" where
  "continue_create S k we rid cmd =
     \<lparr>cp_namespace_id = fst k, cp_workflow_id = fst (snd k), cp_run_id = rid,
      cp_workflow_type = stringOrFallback (CanWorkflowType cmd) (we_workflow_type we),
      cp_task_queue = stringOrFallback (CanTaskQueue cmd) (we_task_queue we),
      cp_shard_id = PartitionFor (fst (snd k)) (numShards S),
      cp_execution_timeout_ns = we_execution_timeout_ns we,
      cp_run_timeout_ns = durationOrFallback (CanRunTimeout cmd) (we_run_timeout_ns we),
      cp_task_timeout_ns = durationOrFallback (CanTaskTimeout cmd) (we_task_timeout_ns we)\<rparr>"

lemma continue_InrD:
  assumes "continueWorkflowAsNew X S now req k we rid cmd d = (Inr u, d')" and "log_wf d"
  shows "\<exists>q. (fst k, fst (snd k), rid) \<notin> we_keys d \<and>
    ep_scheduled_event_id q = 2 \<and> (ep_namespace_id q, ep_workflow_id q, ep_run_id q) = (fst k, fst (snd k), rid) \<and>
    d' = created X now (continue_create S k we rid cmd) (continue_events we (snd (snd k)) cmd) q
      (snd (q_ReplaceCurrentExecution (fst k) (fst (snd k)) rid req d))"
proof -
  let ?d = "snd (q_ReplaceCurrentExecution (fst k) (fst (snd k)) rid req d)"
  have wf: "log_wf ?d" and keys: "we_keys ?d = we_keys d"
    using assms(2) by (simp_all add: q_ReplaceCurrentExecution_def log_wf_def run_events_def we_keys_def)
  let ?q = "\<lparr>ep_namespace_id = fst k, ep_task_queue_name = stringOrFallback (CanTaskQueue cmd) (we_task_queue we),
      ep_task_queue_partition = PartitionFor (fst (snd k)) (numTaskQueuePartitions S),
      ep_workflow_id = fst (snd k), ep_run_id = rid, ep_scheduled_event_id = 2,
      ep_preferred_worker_identity = None, ep_sticky_deadline = None\<rparr>"
  have "bindM (q_CreateWorkflowExecution now (continue_create S k we rid cmd)) (\<lambda>_.
      bindM (AppendHistory X now (fst k, fst (snd k), rid) 1 (continue_events we (snd (snd k)) cmd)) (\<lambda>_.
      q_EnqueueWorkflowTask now ?q)) ?d = (Inr u, d')"
    using assms(1) unfolding continueWorkflowAsNew_def Let_def continue_create_def
    by (subst (asm) bindM_Inr) (simp_all add: q_ReplaceCurrentExecution_def)
  from create_run_InrD [OF this wf] keys show ?thesis
    by (intro exI [of _ ?q]) (simp add: continue_create_def continue_events_def bigint_ok_def)
qed

lemma keeps_ce_effects: "keeps (\<lambda>d. current_executions d = c) (complete_effects X E k we a)"
proof -
  let ?I = "\<lambda>d. current_executions d = c"
  have "keeps ?I (AppendHistory X now k e evs)" for now e evs
    unfolding AppendHistory_def
    by (intro keeps_if keeps_bindM keeps_mapErr keeps_forM keeps_ret keepsI)
      (auto simp: q_AdvanceNextEventID_def insert_event_def q_InsertHistoryEvent_def monad_simps split: option.split)
  moreover have "keeps ?I (enqueue_activity now ids p)" for now ids and p :: "'a enqueue_at_params \<times> nat"
    by (rule keepsI) (simp add: enqueue_activity_def q_EnqueueActivityTask_def split: option.split)
  moreover have "keeps ?I (insert_pending_timer E k ids p)" for ids p
    by (rule keepsI) (auto simp: insert_pending_timer_def q_InsertTimer_def split: prod.split)
  ultimately show ?thesis unfolding complete_effects_def by (intro keeps_bindM keeps_forM)
qed

text \<open>The only well-formed response with a continue-as-new is that command alone.\<close>

lemma continue_alone:
  assumes "process_commands X S E k we cmds initial_acc = Inr a" and "check_commands a = Inr ()"
    and "ContinueAsNewWorkflowExecution c \<in> set cmds"
  shows "cmds = [ContinueAsNewWorkflowExecution c]"
proof -
  note cnt = collected_counts [OF assms(1)]
  have cont: "\<exists>x \<in> set cmds. is_continue x" using assms(3) by (force simp: is_continue_def)
  have t: "length (filter is_terminal cmds) \<le> 1" and w: "filter starts_work cmds = []"
    using assms(2) cnt cont by (auto simp: check_commands_def initial_acc_def split: if_splits)
  have "is_terminal x" if "x \<in> set cmds" for x
  proof -
    have "\<not> starts_work x" using that w by (auto simp: filter_empty_conv)
    moreover have "x \<noteq> Command_Unset" using that cnt by auto
    ultimately show ?thesis by (cases x) (simp_all add: is_terminal_def command_status_def starts_work_def)
  qed
  then have "filter is_terminal cmds = cmds" by (simp add: filter_True)
  with t assms(3) show ?thesis by (cases cmds) auto
qed

lemma complete_task_stages:
  assumes "CompleteWorkflowTask X S E token cmds sticky s = (Inr (), s')"
  shows "\<exists>r s1 we a d1 d2. sdb s' = sdb s1 \<and> complete_front X S E token cmds (sdb s) = (Inr (we, a), d1) \<and>
    complete_effects X E (token_key token) we a d1 = (Inr (), d2) \<and>
    complete_rest X S E (token_key token) sticky we a (s\<lparr>sdb := d2\<rparr>) = (Inr r, s1)"
proof -
  obtain r s1 where "complete_tx X S E token cmds sticky s = (Inr r, s1)" and "sdb s' = sdb s1"
    using assms by (cases "complete_tx X S E token cmds sticky s"; cases "fst (complete_tx X S E token cmds sticky s)")
      (auto simp: CompleteWorkflowTask_def withTx_def throw_def bindM_def notifyM_def modM_def ret_def split: if_splits)
  then show ?thesis
    unfolding complete_tx_split by (fastforce elim!: bindM_InrE onDB_InrE split: prod.splits)
qed

lemma current_run_replaced:
  assumes "current_run ns wid d = Some ce"
  shows "current_run ns wid (snd (q_ReplaceCurrentExecution ns wid rid req d)) = Some (ce\<lparr>ce_run_id := rid, ce_create_request_id := req\<rparr>)"
proof -
  let ?g = "\<lambda>r. r\<lparr>ce_run_id := rid, ce_create_request_id := req\<rparr>"
  have "List.find (\<lambda>c. ce_key c = (ns, wid)) (sql_update (\<lambda>r. ce_key r = (ns, wid)) ?g (current_executions d)) =
      map_option (\<lambda>c. if ce_key c = (ns, wid) then ?g c else c) (current_run ns wid d)"
    unfolding current_run_def by (rule find_key_sql_update) (simp add: ce_key_def)
  moreover have "ce_key ce = (ns, wid)" using assms by (auto simp: current_run_def dest: find_SomeD)
  ultimately show ?thesis using assms by (simp add: current_run_def q_ReplaceCurrentExecution_def ce_key_def)
qed

lemma continue_successor:
  assumes cn: "continueWorkflowAsNew X S now req (ns, wid, rid) we rid' c dc = (Inr u, d')" and wf: "log_wf dc"
    and cur: "current_run ns wid dc = Some ce"
  shows "(ns, wid, rid') \<notin> we_keys dc"
    and "\<exists>new ts t. find_we (ns, wid, rid') d' = Some new \<and> we_status new = ''RUNNING'' \<and> we_next_event_id new = 3 \<and>
      run_events (ns, wid, rid') d' = map (event_row X now (ns, wid, rid')) (zip [1, 2] (continue_events we rid c)) \<and>
      workflow_tasks d' = ts @ [t] \<and> wt_status t = PENDING \<and> wt_run t = (ns, wid, rid') \<and> wt_scheduled_event_id t = 2"
    and "current_run ns wid d' = Some (ce\<lparr>ce_run_id := rid', ce_create_request_id := req\<rparr>)"
proof -
  let ?nk = "(ns, wid, rid')" and ?p = "continue_create S (ns, wid, rid) we rid' c"
  let ?d0 = "snd (q_ReplaceCurrentExecution ns wid rid' req dc)"
  from continue_InrD [OF cn wf] obtain q where q: "?nk \<notin> we_keys dc" "ep_scheduled_event_id q = 2"
      "(ep_namespace_id q, ep_workflow_id q, ep_run_id q) = ?nk" "d' = created X now ?p (continue_events we rid c) q ?d0" by auto
  show "?nk \<notin> we_keys dc" by (rule q(1))
  have wf0: "log_wf ?d0" "?nk \<notin> we_keys ?d0"
    using wf q(1) by (simp_all add: q_ReplaceCurrentExecution_def log_wf_def run_events_def we_keys_def)
  have nk: "?nk = (cp_namespace_id ?p, cp_workflow_id ?p, cp_run_id ?p)" by (simp add: continue_create_def)
  note new = find_we_created [OF wf0 nk, of X now "continue_events we rid c" q, folded q(4)]
  have two: "ids_from 1 (length (continue_events we rid c)) = [1, 2]"
    by (simp add: continue_events_def ids_from_Suc)
  have "workflow_tasks d' = workflow_tasks ?d0 @ [new_wt_row now q (wt_seq ?d0)]" by (simp add: q(4) created_def)
  with new two q(2,3) show "\<exists>new ts t. find_we ?nk d' = Some new \<and> we_status new = ''RUNNING'' \<and> we_next_event_id new = 3 \<and>
      run_events ?nk d' = map (event_row X now ?nk) (zip [1, 2] (continue_events we rid c)) \<and>
      workflow_tasks d' = ts @ [t] \<and> wt_status t = PENDING \<and> wt_run t = ?nk \<and> wt_scheduled_event_id t = 2"
    by (auto simp: new_we_row_def continue_create_def new_wt_row_def wt_run_def continue_events_def)
  show "current_run ns wid d' = Some (ce\<lparr>ce_run_id := rid', ce_create_request_id := req\<rparr>)"
    using current_run_replaced [OF cur, of rid' req] by (simp add: q(4) current_run_def created_def)
qed

text \<open>
  (C21) Continue-as-new is atomic and complete. A successful response that contains the command
  contains nothing else; the old run is closed as CONTINUED\_AS\_NEW and, in the same step, a
  new run of the same workflow id exists with status RUNNING, whose history is exactly the
  started event, naming the old run as the one continued, and the first task-scheduled event; one
  PENDING task for it is queued, and the workflow id points to the new run. The status the run had before
  and the run that was current do not matter.
\<close>

theorem continue_as_new_atomic:
  assumes wf: "db_wf (sdb s)" and ok: "CompleteWorkflowTask X S E token cmds sticky s = (Inr (), s')"
    and can: "ContinueAsNewWorkflowExecution c \<in> set cmds" and tk: "token_key token = (ns, wid, rid)"
    and cur: "current_run ns wid (sdb s) = Some ce"
  shows "cmds = [ContinueAsNewWorkflowExecution c] \<and> (\<exists>we old new ts t.
    find_we (ns, wid, rid) (sdb s) = Some we \<and>
    find_we (ns, wid, rid) (sdb s') = Some old \<and> we_status old = ''CONTINUED_AS_NEW'' \<and>
    new_uuid E 1 \<noteq> rid \<and> find_we (ns, wid, new_uuid E 1) (sdb s') = Some new \<and> we_status new = ''RUNNING'' \<and> we_next_event_id new = 3 \<and>
    run_events (ns, wid, new_uuid E 1) (sdb s') = map (event_row X (db_now E 0) (ns, wid, new_uuid E 1))
      (zip [1, 2] (continue_events we rid c)) \<and>
    workflow_tasks (sdb s') = ts @ [t] \<and> wt_status t = PENDING \<and> wt_run t = (ns, wid, new_uuid E 1) \<and> wt_scheduled_event_id t = 2 \<and>
    current_run ns wid (sdb s') = Some (ce\<lparr>ce_run_id := new_uuid E 1, ce_create_request_id := new_uuid E 0\<rparr>))"
proof -
  let ?k = "(ns, wid, rid)" and ?nk = "(ns, wid, new_uuid E 1)" and ?now = "db_now E 0"
  from complete_task_stages [OF ok, unfolded tk] obtain r s1 we a d1 d2 where s': "sdb s' = sdb s1"
      and f: "complete_front X S E token cmds (sdb s) = (Inr (we, a), d1)"
      and e: "complete_effects X E ?k we a d1 = (Inr (), d2)"
      and rest: "complete_rest X S E ?k sticky we a (s\<lparr>sdb := d2\<rparr>) = (Inr r, s1)" by blast
  note front = complete_front_InrD [OF f, unfolded tk]
  have cmds: "cmds = [ContinueAsNewWorkflowExecution c]" by (rule continue_alone [OF front(3,4) can])
  have a: "ca_closeStatus a = ''CONTINUED_AS_NEW''" "ca_continueAsNew a = Some (c, new_uuid E 1)"
    using front(3) by (auto simp: cmds process_command_def initial_acc_def Let_def)
  have wf2: "gen_wf {} {} d2"
    using succD [OF complete_front_wf _ f] succD [OF complete_effects_wf _ e] wf by (auto simp: db_wf_def tk)
  have "current_executions d1 = current_executions (sdb s)" using front(1) by simp
  then have ce2: "current_executions d2 = current_executions (sdb s)"
    using keepsD [OF keeps_ce_effects, of d1 "current_executions d1" X E ?k we a] e by simp
  from rest a obtain dc u where cl: "q_CloseWorkflowExecution ?now ?k ''CONTINUED_AS_NEW'' d2 = (Inr (), dc)"
      and cn: "continueWorkflowAsNew X S ?now (new_uuid E 0) ?k we (new_uuid E 1) c dc = (Inr u, sdb s1)"
    by (auto simp: complete_rest_def count_def modM_def ret_def elim!: bindM_InrE onDB_InrE)
  have wfc: "log_wf dc" using succD [OF CloseWorkflowExecution_wf wf2 cl] by (simp add: gen_wf_def)
  have cec: "current_executions dc = current_executions (sdb s)"
    using cl ce2 by (auto simp: q_CloseWorkflowExecution_def split: if_splits)
  have curc: "current_run ns wid dc = Some ce" using cur cec by (simp add: current_run_def)
  note new = continue_successor [OF cn wfc curc]
  have we2: "find_we ?k d2 \<noteq> None"
    using complete_effects_InrD [OF _ _ front(3) e] db_wf_log [OF wf] front(1,2) by (auto simp: find_we_def)
  then obtain we0 where "find_we ?k (sdb (s\<lparr>sdb := d2\<rparr>)) = Some we0" by auto
  from complete_rest_InrD [OF rest this] a obtain old where
      old: "find_we ?k (sdb s1) = Some old" "we_status old = ''CONTINUED_AS_NEW''" by auto
  have "we_keys dc = we_keys d2"
    using cl by (auto simp: q_CloseWorkflowExecution_def we_keys_sql_update split: if_splits)
  with new(1) we2 have ne: "new_uuid E 1 \<noteq> rid" by (auto simp: find_we_None)
  show ?thesis unfolding s' using cmds front(2) old ne new(2,3) by blast
qed

definition demo_continue :: continue_as_new_cmd where
  "demo_continue = \<lparr>CanWorkflowType = '''', CanTaskQueue = '''', CanInput = None, CanRetryPolicy = None,
     CanRunTimeout = None, CanTaskTimeout = None\<rparr>"

lemma demo_continue_ok:
  "fst (CompleteWorkflowTask demo_ext demo_store demo_env demo_token [ContinueAsNewWorkflowExecution demo_continue] None
     demo_sys3) = Inr ()"
  by (simp add: complete_eval_simps demo_sys3_def demo_db3_def demo_defs demo_leased_def wt_grant_def demo_token_def
      newTaskToken_def demo_continue_def start_events_def event_row_def continueWorkflowAsNew_def continue_events_def
      stringOrFallback_def q_CloseWorkflowExecution_def valid_statuses_def q_ReplaceCurrentExecution_def
      q_CreateWorkflowExecution_def new_we_row_def q_EnqueueWorkflowTask_def)

theorem continue_as_new_atomic_witness:
  "\<exists>s' we old new ts t.
    CompleteWorkflowTask demo_ext demo_store demo_env demo_token [ContinueAsNewWorkflowExecution demo_continue] None demo_sys3 = (Inr (), s') \<and>
    find_we demo_key demo_db3 = Some we \<and>
    find_we demo_key (sdb s') = Some old \<and> we_status old = ''CONTINUED_AS_NEW'' \<and>
    find_we (1, ''w'', ''r2'') (sdb s') = Some new \<and> we_status new = ''RUNNING'' \<and> we_next_event_id new = 3 \<and>
    run_events (1, ''w'', ''r2'') (sdb s') = map (event_row demo_ext 10 (1, ''w'', ''r2''))
      (zip [1, 2] (continue_events we ''r1'' demo_continue)) \<and>
    workflow_tasks (sdb s') = ts @ [t] \<and> wt_status t = PENDING \<and> wt_run t = (1, ''w'', ''r2'') \<and> wt_scheduled_event_id t = 2 \<and>
    map_option ce_run_id (current_run 1 ''w'' (sdb s')) = Some ''r2''"
proof -
  let ?c = "[ContinueAsNewWorkflowExecution demo_continue]"
  obtain s' where ok: "CompleteWorkflowTask demo_ext demo_store demo_env demo_token ?c None demo_sys3 = (Inr (), s')"
    using demo_continue_ok by (cases "CompleteWorkflowTask demo_ext demo_store demo_env demo_token ?c None demo_sys3") simp
  have h: "db_wf (sdb demo_sys3)" "token_key demo_token = (1, ''w'', ''r1'')" "sdb demo_sys3 = demo_db3"
      "db_now demo_env 0 = 10" "new_uuid demo_env (Suc 0) = ''r2''"
    using demo_db3_wf by (simp_all add: demo_sys3_def token_key_def demo_token_def newTaskToken_def demo_env_def)
  obtain ce where cur: "current_run 1 ''w'' (sdb demo_sys3) = Some ce"
    by (simp add: h(3) current_run_def demo_db3_def demo_db_def ce_key_def)
  have can: "ContinueAsNewWorkflowExecution demo_continue \<in> set ?c" by simp
  show ?thesis
    using continue_as_new_atomic [OF h(1) ok can h(2) cur] ok by (auto simp: h(3-5) demo_key_def)
qed

text \<open>
  Completing a task does not look at the status of its run: a run that was terminated while a worker held its task still
  continues as new, its status is overwritten, and the successor becomes the current run of the workflow id.
\<close>

lemma terminated_run_continues:
  "case TerminateWorkflowExecution demo_ext demo_env ''default'' ''w'' ''r1'' ''why'' demo_sys3 of (r1, s1) \<Rightarrow>
     r1 = Inr () \<and> map_option we_status (find_we demo_key (sdb s1)) = Some ''TERMINATED'' \<and>
     (case CompleteWorkflowTask demo_ext demo_store demo_env demo_token [ContinueAsNewWorkflowExecution demo_continue] None s1 of (r2, s2) \<Rightarrow>
        r2 = Inr () \<and> map_option we_status (find_we demo_key (sdb s2)) = Some ''CONTINUED_AS_NEW'' \<and>
        map_option we_status (find_we (1, ''w'', ''r2'') (sdb s2)) = Some ''RUNNING'' \<and>
        map_option ce_run_id (current_run 1 ''w'' (sdb s2)) = Some ''r2'')"
  by (simp add: TerminateWorkflowExecution_def getNamespaceID_def terminate_tx_def resolve_run_def q_GetNamespaceByName_def
      complete_eval_simps demo_sys3_def demo_db3_def demo_defs demo_leased_def wt_grant_def demo_token_def
      newTaskToken_def demo_continue_def start_events_def event_row_def continueWorkflowAsNew_def continue_events_def
      stringOrFallback_def q_CloseWorkflowExecution_def valid_statuses_def q_ReplaceCurrentExecution_def
      q_CreateWorkflowExecution_def new_we_row_def q_EnqueueWorkflowTask_def find_we_def current_run_def demo_key_def ce_key_def)

end
