(* ===== verification/TaskProps.thy ===== *)
theory TaskProps
  imports CompleteProps
begin

text \<open>
  Dispatch of workflow tasks, the outcome of activity tasks with the server-side retry, and
  timers.
\<close>

section \<open>Dispatch\<close>

lemma task_started_InrD:
  assumes "task_started_tx X now k ev d = (Inr n, d')" and "log_wf d"
  shows "\<exists>we. find_we k d = Some we \<and> n = we_next_event_id we \<and> d' = appended X now k n [ev] d \<and> log_wf d'"
proof -
  obtain we r where we: "find_we k d = Some we" and a: "AppendHistory X now k (we_next_event_id we) [ev] d = (Inr r, d')"
      and n: "n = snd r ! 0"
    using assms(1)
    by (auto simp: task_started_tx_def ret_def q_GetWorkflowExecution_eq split: option.splits elim!: bindM_InrE)
  have "r = (we_next_event_id we + 1, ids_from (we_next_event_id we) 1)" "d' = appended X now k (we_next_event_id we) [ev] d"
    by (rule AppendHistory_succE [OF assms(2) _ a]; simp)+
  with we n AppendHistory_log_wf [OF assms(2) a] show ?thesis by simp
qed

lemma q_DequeueWorkflowTask_InrD:
  assumes "q_DequeueWorkflowTask now u lk secs q ns w ps d = (Inr row, d')"
  shows "\<exists>r. r \<in> set (workflow_tasks d) \<and> wt_eligible now lk q ns w ps r \<and> row = wt_grant secs u now r \<and>
    (\<forall>t \<in> set (workflow_tasks d). wt_eligible now lk q ns w ps t \<longrightarrow> wt_task_id r \<le> wt_task_id t) \<and>
    d' = d\<lparr>workflow_tasks := sql_update (\<lambda>t. wt_task_id t = wt_task_id r) (wt_grant secs u now) (workflow_tasks d)\<rparr>"
proof -
  from assms obtain rows where "lease_dequeue wt_task_id (wt_eligible now lk q ns w ps) (wt_grant secs u now) (workflow_tasks d) = Some (row, rows)"
      and d': "d' = d\<lparr>workflow_tasks := rows\<rparr>"
    by (auto simp: q_DequeueWorkflowTask_def split: option.splits)
  from this(1) show ?thesis
    by (rule wtq.dequeue_SomeE) (use d' in blast)
qed

lemma history_read:
  assumes "log_wf d" and "length (run_events k d) \<le> maxHistoryFetch"
  shows "q_ListHistoryEvents k 0 maxHistoryFetch d = (Inr (run_events k d), d)"
proof -
  have "0 < he_event_id r" if r: "r \<in> set (run_events k d)" for r
  proof (cases "find_we k d")
    case None
    with r assms(1) show ?thesis by (simp add: find_we_None run_events_empty)
  next
    case (Some we)
    from r have "he_event_id r \<in> set (map he_event_id (run_events k d))" by simp
    then show ?thesis using log_wf_ids [OF assms(1) Some] by (simp add: set_ids_from)
  qed
  then have "hist_pages.rest (run_events k d) (Some 0) = run_events k d"
    by (auto simp: hist_pages.rest_def intro: filter_True)
  with ListHistoryEvents_eq [OF assms(1), of k 0 maxHistoryFetch] assms(2) show ?thesis by simp
qed

text \<open>The part after the dequeue.\<close>

lemma dispatch_row_InrD:
  assumes "dispatch_workflow_row X S E ns row s = (Inr t, s')" and wf: "log_wf (sdb s)"
    and k: "k = (ns, wt_workflow_id row, wt_run_id row)" and len: "length (run_events k (sdb s')) \<le> maxHistoryFetch"
  shows "dw_WorkflowId t = wt_workflow_id row \<and> dw_RunId t = wt_run_id row \<and> dw_Query t = None \<and>
    (\<exists>we. find_we k (sdb s) = Some we \<and> dw_PreviousStartedEventID t = we_next_event_id we \<and> dw_WorkflowType t = we_workflow_type we \<and>
       sdb s' = appended X (db_now E 2) k (we_next_event_id we) [newEvent EV_WORKFLOW_TASK_STARTED (WorkflowTaskStarted '''')] (sdb s)) \<and>
    decode_rows X (run_events k (sdb s')) = Inr (dw_History t) \<and>
    Encode X (newTaskToken TaskTokenKindWorkflow ns (wt_workflow_id row) (wt_run_id row) (wt_task_id row)
      (uuidString (wt_lease_token row))) (taskTokenSigningKey S) = Inr (dw_TaskToken t)"
proof -
  let ?ev = "newEvent EV_WORKFLOW_TASK_STARTED (WorkflowTaskStarted '''')"
  from assms(1) obtain n s1 rows s2 evs tok we s3 where
      st: "withTx (onDB (task_started_tx X (db_now E 2) k ?ev)) s = (Inr n, s1)"
      and ls: "onDB (q_ListHistoryEvents k 0 maxHistoryFetch) s1 = (Inr rows, s2)"
      and dec: "decode_rows X rows = Inr evs"
      and enc: "Encode X (newTaskToken TaskTokenKindWorkflow ns (wt_workflow_id row) (wt_run_id row) (wt_task_id row)
        (uuidString (wt_lease_token row))) (taskTokenSigningKey S) = Inr tok"
      and gt: "onDB (q_GetWorkflowExecution k) s2 = (Inr we, s3)"
      and t: "t = \<lparr>dw_TaskToken = tok, dw_WorkflowId = wt_workflow_id row, dw_RunId = wt_run_id row,
        dw_WorkflowType = we_workflow_type we, dw_History = evs, dw_PreviousStartedEventID = n, dw_Query = None\<rparr>"
      and s': "sdb s' = sdb s3"
    unfolding dispatch_workflow_row_def Let_def k [symmetric]
    by (elim bindM_InrE) (auto simp: liftE_def count_def modM_def ret_def)
  from st have tx: "task_started_tx X (db_now E 2) k ?ev (sdb s) = (Inr n, sdb s1)"
    by (auto simp: withTx_def onDB_def split: prod.splits sum.splits)
  from task_started_InrD [OF this wf] obtain we0 where we0: "find_we k (sdb s) = Some we0" "n = we_next_event_id we0"
      "sdb s1 = appended X (db_now E 2) k n [?ev] (sdb s)" "log_wf (sdb s1)" by blast
  have s2: "s2 = s1" using ls by (auto simp: onDB_def q_ListHistoryEvents_def)
  then have s3: "s3 = s1" "find_we k (sdb s1) = Some we"
    using gt by (auto simp: onDB_def q_GetWorkflowExecution_eq split: option.splits)
  have "rows = run_events k (sdb s1)"
    using history_read [OF we0(4), of k] len ls by (auto simp: s' s3 onDB_def)
  moreover have "we_workflow_type we = we_workflow_type we0"
    using find_we_appended [OF wf we0(1) refl, of k X "db_now E 2" "[?ev]"] s3(2) we0(2,3) by auto
  ultimately show ?thesis using we0 t dec enc s' s3(1) by simp
qed

lemma dispatch_dequeues:
  assumes "namespace_id nm (sdb s) = Some ns" and ok: "DispatchWorkflowTask X S E nm q w ps s = (Inr t, s')" and noq: "dw_Query t = None"
  shows "\<exists>row d. q_DequeueWorkflowTask (db_now E 1) (lease_uuid E 1) (locked E) 10 q ns (if w \<noteq> '''' then Some w else None) ps (sdb s) = (Inr row, d) \<and>
    dispatch_workflow_row X S E ns row (s\<lparr>sdb := d\<rparr>) = (Inr t, s')"
proof -
  let ?ident = "if w \<noteq> '''' then Some w else None"
  let ?qd = "q_DequeueQueryTask (db_now E 0) (lease_uuid E 0) (locked_q E) queryTaskLeaseSeconds q ns (sdb s)"
  have q: "?qd = (Inl ErrNoRows, sdb s)"
  proof (cases "lease_dequeue qt_task_id (qt_eligible (db_now E 0) (locked_q E) q ns)
      (qt_grant queryTaskLeaseSeconds (lease_uuid E 0) (db_now E 0)) (query_tasks (sdb s))")
    case (Some p)
    then obtain row d where "?qd = (Inr row, d)" by (cases p) (simp add: q_DequeueQueryTask_def)
    then have "buildQueryDispatch X S ns row (s\<lparr>sdb := d\<rparr>) = (Inr t, s')"
      using ok getNamespaceID_Some [OF assms(1)] by (simp add: DispatchWorkflowTask_def bindM_Inr onDB_def)
    then show ?thesis
      using noq by (auto simp: buildQueryDispatch_def Let_def ret_def elim!: bindM_InrE)
  qed (simp add: q_DequeueQueryTask_def)
  then have "bindM (mapErr (\<lambda>e. if e = ErrNoRows then ErrNoTaskAvailable else e)
      (onDB (q_DequeueWorkflowTask (db_now E 1) (lease_uuid E 1) (locked E) workflowTaskLeaseSeconds q ns ?ident ps)))
      (dispatch_workflow_row X S E ns) s = (Inr t, s')"
    using ok getNamespaceID_Some [OF assms(1)] by (simp add: DispatchWorkflowTask_def bindM_Inr onDB_def)
  then show ?thesis
    by (elim bindM_InrE) (auto simp: mapErr_def onDB_def workflowTaskLeaseSeconds_def split: prod.splits sum.splits)
qed

text \<open>
  (C22) Dispatching a workflow task hands out the eligible task with the least id, leases it to
  the caller with a fresh token, and records the start: the returned history is the run's
  complete history (up to the fetch limit), its last event is the started event with the id
  the response names, and the token the worker gets encodes exactly this task and lease.
\<close>

theorem dispatch_workflow_task:
  assumes "db_wf (sdb s)" and "namespace_id nm (sdb s) = Some ns"
    and ok: "DispatchWorkflowTask X S E nm q w ps s = (Inr t, s')" and noq: "dw_Query t = None"
    and len: "length (run_events (ns, dw_WorkflowId t, dw_RunId t) (sdb s')) \<le> maxHistoryFetch"
  shows "\<exists>r we. r \<in> set (workflow_tasks (sdb s)) \<and>
    wt_eligible (db_now E 1) (locked E) q ns (if w \<noteq> '''' then Some w else None) ps r \<and>
    (\<forall>r' \<in> set (workflow_tasks (sdb s)). wt_eligible (db_now E 1) (locked E) q ns (if w \<noteq> '''' then Some w else None) ps r' \<longrightarrow>
       wt_task_id r \<le> wt_task_id r') \<and>
    wt_grant 10 (lease_uuid E 1) (db_now E 1) r \<in> set (workflow_tasks (sdb s')) \<and>
    dw_WorkflowId t = wt_workflow_id r \<and> dw_RunId t = wt_run_id r \<and>
    find_we (ns, wt_workflow_id r, wt_run_id r) (sdb s) = Some we \<and> dw_PreviousStartedEventID t = we_next_event_id we \<and>
    run_events (ns, wt_workflow_id r, wt_run_id r) (sdb s') = run_events (ns, wt_workflow_id r, wt_run_id r) (sdb s) @
      [event_row X (db_now E 2) (ns, wt_workflow_id r, wt_run_id r)
        (we_next_event_id we, newEvent EV_WORKFLOW_TASK_STARTED (WorkflowTaskStarted ''''))] \<and>
    decode_rows X (run_events (ns, wt_workflow_id r, wt_run_id r) (sdb s')) = Inr (dw_History t) \<and>
    Encode X (newTaskToken TaskTokenKindWorkflow ns (wt_workflow_id r) (wt_run_id r) (wt_task_id r) (lease_uuid E 1))
      (taskTokenSigningKey S) = Inr (dw_TaskToken t)"
proof -
  let ?ident = "if w \<noteq> '''' then Some w else None"
  from dispatch_dequeues [OF assms(2) ok noq] obtain row d
    where deq: "q_DequeueWorkflowTask (db_now E 1) (lease_uuid E 1) (locked E) 10 q ns ?ident ps (sdb s) = (Inr row, d)"
      and disp: "dispatch_workflow_row X S E ns row (s\<lparr>sdb := d\<rparr>) = (Inr t, s')" by blast
  from q_DequeueWorkflowTask_InrD [OF deq] obtain r where r: "r \<in> set (workflow_tasks (sdb s))"
      "wt_eligible (db_now E 1) (locked E) q ns ?ident ps r" "row = wt_grant 10 (lease_uuid E 1) (db_now E 1) r"
      "\<forall>r' \<in> set (workflow_tasks (sdb s)). wt_eligible (db_now E 1) (locked E) q ns ?ident ps r' \<longrightarrow> wt_task_id r \<le> wt_task_id r'"
      "d = (sdb s)\<lparr>workflow_tasks := sql_update (\<lambda>t. wt_task_id t = wt_task_id r)
         (wt_grant 10 (lease_uuid E 1) (db_now E 1)) (workflow_tasks (sdb s))\<rparr>" by blast
  let ?k = "(ns, wt_workflow_id r, wt_run_id r)"
  have row: "wt_workflow_id row = wt_workflow_id r" "wt_run_id row = wt_run_id r" "wt_task_id row = wt_task_id r"
      "wt_lease_token row = Some (lease_uuid E 1)" using r(3) by (simp_all add: wt_grant_def)
  have wfd: "log_wf d" using db_wf_log [OF assms(1)] r(5) by simp
  have "dw_WorkflowId t = wt_workflow_id row \<and> dw_RunId t = wt_run_id row"
    using disp by (auto simp: dispatch_workflow_row_def Let_def ret_def elim!: bindM_InrE)
  with len row have "length (run_events ?k (sdb s')) \<le> maxHistoryFetch" by simp
  with dispatch_row_InrD [OF disp _ _ ] wfd row obtain we where
      D: "dw_WorkflowId t = wt_workflow_id r" "dw_RunId t = wt_run_id r" "find_we ?k d = Some we"
      "dw_PreviousStartedEventID t = we_next_event_id we"
      "sdb s' = appended X (db_now E 2) ?k (we_next_event_id we) [newEvent EV_WORKFLOW_TASK_STARTED (WorkflowTaskStarted '''')] d"
      "decode_rows X (run_events ?k (sdb s')) = Inr (dw_History t)"
      "Encode X (newTaskToken TaskTokenKindWorkflow ns (wt_workflow_id r) (wt_run_id r) (wt_task_id r) (lease_uuid E 1))
         (taskTokenSigningKey S) = Inr (dw_TaskToken t)"
    by (auto simp: uuidString_def)
  have "wt_grant 10 (lease_uuid E 1) (db_now E 1) r \<in> set (workflow_tasks (sdb s'))"
    using D(5) r(1,5) by (force simp: set_sql_update)
  moreover have "find_we ?k (sdb s) = Some we" using D(3) r(5) by (simp add: find_we_def)
  moreover have "run_events ?k (sdb s') = run_events ?k (sdb s) @ [event_row X (db_now E 2) ?k
      (we_next_event_id we, newEvent EV_WORKFLOW_TASK_STARTED (WorkflowTaskStarted ''''))]"
    using D(5) r(5) by (simp add: run_events_appended ids_from_Suc) (simp add: run_events_def)
  ultimately show ?thesis using r D by blast
qed

lemma demo_dispatch:
  "\<exists>t s'. DispatchWorkflowTask demo_ext demo_store demo_env ''default'' ''q'' '''' [] demo_sys = (Inr t, s') \<and>
     dw_Query t = None \<and> length (run_events (1, dw_WorkflowId t, dw_RunId t) (sdb s')) = 3"
  by (simp add: DispatchWorkflowTask_def getNamespaceID_eq bindM_def onDB_def q_DequeueQueryTask_def lease_dequeue_def
      q_DequeueWorkflowTask_def demo_defs wt_eligible_def partition_ok_def mapErr_def dispatch_workflow_row_def Let_def
      withTx_def task_started_tx_def q_GetWorkflowExecution_def we_key_def wt_grant_def AppendHistory_def
      q_AdvanceNextEventID_def bigint_ok_def ids_from_def insert_event_def q_InsertHistoryEvent_def he_run_def
      start_events_def event_row_def ret_def q_ListHistoryEvents_def maxHistoryFetch_def liftE_def decodeHistoryEvent_def
      Encode_def token_fields_of_def newTaskToken_def demo_fields_def taskTokenVersion_def TaskTokenKindWorkflow_def
      uuidString_def count_def modM_def run_events_def)

theorem dispatch_workflow_task_witness:
  "\<exists>t s' we. DispatchWorkflowTask demo_ext demo_store demo_env ''default'' ''q'' '''' [] demo_sys = (Inr t, s') \<and>
    wt_grant 10 ''L'' 10 demo_wt \<in> set (workflow_tasks (sdb s')) \<and>
    dw_WorkflowId t = ''w'' \<and> dw_RunId t = ''r1'' \<and>
    find_we demo_key demo_db = Some we \<and> dw_PreviousStartedEventID t = we_next_event_id we \<and>
    decode_rows demo_ext (run_events demo_key (sdb s')) = Inr (dw_History t)"
proof -
  obtain t s' where ok: "DispatchWorkflowTask demo_ext demo_store demo_env ''default'' ''q'' '''' [] demo_sys = (Inr t, s')"
      and q: "dw_Query t = None" and len: "length (run_events (1, dw_WorkflowId t, dw_RunId t) (sdb s')) \<le> maxHistoryFetch"
    using demo_dispatch by (auto simp: maxHistoryFetch_def)
  have sdb: "sdb demo_sys = demo_db" "db_now demo_env 1 = 10" "lease_uuid demo_env 1 = ''L''"
      "set (workflow_tasks demo_db) = {demo_wt}" "wt_workflow_id demo_wt = ''w''" "wt_run_id demo_wt = ''r1''"
    by (simp_all add: demo_sys_def demo_env_def demo_db_def demo_wt_def)
  have "db_wf (sdb demo_sys)" "namespace_id ''default'' (sdb demo_sys) = Some 1"
    using demo_db_wf demo_namespace by (simp_all add: sdb)
  from dispatch_workflow_task [OF this ok q len] obtain r we where D: "r \<in> set (workflow_tasks (sdb demo_sys))"
      "wt_grant 10 (lease_uuid demo_env 1) (db_now demo_env 1) r \<in> set (workflow_tasks (sdb s'))"
      "dw_WorkflowId t = wt_workflow_id r" "dw_RunId t = wt_run_id r"
      "find_we (1, wt_workflow_id r, wt_run_id r) (sdb demo_sys) = Some we" "dw_PreviousStartedEventID t = we_next_event_id we"
      "decode_rows demo_ext (run_events (1, wt_workflow_id r, wt_run_id r) (sdb s')) = Inr (dw_History t)"
    by blast
  from D(1) have r: "r = demo_wt" by (simp add: sdb)
  show ?thesis
    by (intro exI [of _ t] exI [of _ s'] exI [of _ we] conjI)
      (use ok D [unfolded r sdb] in \<open>simp_all add: demo_key_def\<close>)
qed

section \<open>Activity outcomes\<close>

lemma activity_row_found:
  assumes "db_wf d" and "row \<in> set (activity_tasks d)"
    and "lease_match at_task_id at_lease_token tid u row"
  shows "List.find (lease_match at_task_id at_lease_token tid u) (activity_tasks d) = Some row"
proof -
  have wf: "atq.leases_wf (activity_tasks d)" using assms(1) by (simp add: db_wf_def gen_wf_def at_wf_def)
  obtain r where r: "List.find (lease_match at_task_id at_lease_token tid u) (activity_tasks d) = Some r"
    using assms(2,3) by (cases "List.find (lease_match at_task_id at_lease_token tid u) (activity_tasks d)")
      (auto simp: find_None_iff)
  with atq.match_unique [OF wf assms(2,3)] show ?thesis by (auto dest: find_SomeD)
qed

abbreviation at_presents :: "'b ext \<Rightarrow> task_token \<Rightarrow> 'b at_row \<Rightarrow> bool" where
  "at_presents X token \<equiv> lease_match at_task_id at_lease_token (tk_TaskID token) (pgUUIDFromString X (tk_LeaseToken token))"

lemma at_affected:
  "row \<in> set rows \<Longrightarrow> at_presents X token row \<Longrightarrow> rows_affected (at_presents X token) rows \<noteq> 0"
  by (auto simp: rows_affected_0)

text \<open>
  (C23) A retryable activity failure stays inside the task table: the history, the run and every other
  table are untouched and nobody is notified; the task is PENDING again with the next attempt number,
  visible only after the backoff, and its lease is gone, so the failed attempt cannot report again.
\<close>

theorem activity_retry_stays_in_table:
  assumes "db_wf (sdb s)" and "tk_Kind token = TaskTokenKindActivity" and "row \<in> set (activity_tasks (sdb s))"
    and "at_presents X token row" and "activity_retryable row failure = Inr True"
  shows "\<exists>s' rows. FailActivityTask X S E token failure s = (Inr (), s') \<and>
    sdb s' = (sdb s)\<lparr>activity_tasks := rows\<rparr> \<and> notif s' = notif s \<and>
    (\<forall>r \<in> set (activity_tasks (sdb s)). r \<noteq> row \<longrightarrow> r \<in> set rows) \<and>
    (\<exists>r \<in> set rows. at_task_id r = at_task_id row \<and> at_status r = PENDING \<and> at_attempt r = at_attempt row + 1 \<and>
       at_visible_at r = db_now E 1 + activity_backoff X row) \<and>
    length rows = length (activity_tasks (sdb s)) \<and> \<not> holds_lease at_task_id at_lease_token X token rows"
proof -
  let ?m = "at_presents X token" and ?b = "activity_backoff X row"
  let ?rows = "sql_update ?m (at_retry (db_now E 1) ?b) (activity_tasks (sdb s))"
  note found = activity_row_found [OF assms(1,3,4)]
  have wf: "atq.leases_wf (activity_tasks (sdb s))" using assms(1) by (simp add: db_wf_def gen_wf_def at_wf_def)
  have call: "FailActivityTask X S E token failure s = (Inr (), s\<lparr>sdb := (sdb s)\<lparr>activity_tasks := ?rows\<rparr>,
      counters := (counters s)\<lparr>ActivityRetryTotal := ActivityRetryTotal (counters s) + 1\<rparr>\<rparr>)"
    using assms(2,5) found at_affected [OF assms(3,4)]
    by (simp add: FailActivityTask_def Let_def bindM_def mapErr_def onDB_def q_GetActivityTaskByLease_def liftE_def
        q_RetryActivityTask_def count_def modM_def)
  have others: "r \<in> set ?rows" if "r \<in> set (activity_tasks (sdb s))" "r \<noteq> row" for r
    using that atq.match_unique [OF wf assms(3,4) that(1)] by (force simp: set_sql_update)
  have new: "at_retry (db_now E 1) ?b row \<in> set ?rows"
    using assms(3,4) by (force simp: set_sql_update)
  have gone: "\<not> holds_lease at_task_id at_lease_token X token ?rows"
    by (auto simp: holds_lease_def set_sql_update lease_match_def at_retry_def split: if_splits)
  show ?thesis
    by (intro exI [of _ "s\<lparr>sdb := (sdb s)\<lparr>activity_tasks := ?rows\<rparr>,
        counters := (counters s)\<lparr>ActivityRetryTotal := ActivityRetryTotal (counters s) + 1\<rparr>\<rparr>"] exI [of _ ?rows] conjI
        bexI [OF _ new] ballI impI)
      (simp_all add: call others gone at_retry_def del: One_nat_def)
qed

text \<open>A leased activity of the demo run.\<close>

definition demo_at :: "blob at_row" where
  "demo_at = \<lparr>at_task_id = 1, at_namespace_id = 1, at_task_queue_name = ''q'', at_task_queue_partition = 0,
     at_workflow_id = ''w'', at_run_id = ''r1'', at_activity_id = 1, at_activity_type = ''A'', at_scheduled_event_id = 2,
     at_input = BPayload \<lparr>Metadata = [], Data = []\<rparr>, at_status = STARTED, at_attempt = 1, at_visible_at = 10,
     at_lease_expiry = Some 100, at_lease_token = Some ''L'', at_schedule_to_start_timeout_ns = 0,
     at_start_to_close_timeout_ns = 30, at_retry_initial_interval_ns = 7, at_retry_backoff_coefficient = 2,
     at_retry_max_interval_ns = 0, at_retry_max_attempts = 2, at_retry_non_retryable_types = [], at_created_at = 10\<rparr>"

definition demo_sys4 :: "blob sys" where
  "demo_sys4 = demo_sys\<lparr>sdb := demo_db\<lparr>activity_tasks := [demo_at], at_seq := 2\<rparr>\<rparr>"

lemma demo_sys4_wf: "db_wf (sdb demo_sys4)"
proof -
  have "(1, ''w'', ''r1'') \<in> we_keys demo_db" by (simp add: we_keys_def demo_db_def demo_we_def we_key_def)
  with demo_db_wf show ?thesis
    by (simp add: demo_sys4_def db_wf_def gen_wf_def wf_parts log_wf_def run_events_def atq.leases_wf_def demo_at_def at_run_def we_keys_def)
qed

definition demo_atoken :: task_token where
  "demo_atoken = newTaskToken TaskTokenKindActivity 1 ''w'' ''r1'' 1 ''L''"

theorem activity_retry_stays_in_table_witness:
  "\<exists>s' rows. FailActivityTask demo_ext demo_store demo_env demo_atoken None demo_sys4 = (Inr (), s') \<and>
    sdb s' = (sdb demo_sys4)\<lparr>activity_tasks := rows\<rparr> \<and> notif s' = notif demo_sys4 \<and>
    (\<exists>r \<in> set rows. at_task_id r = 1 \<and> at_status r = PENDING \<and> at_attempt r = 2 \<and> at_visible_at r = 17) \<and>
    \<not> holds_lease at_task_id at_lease_token demo_ext demo_atoken rows"
proof -
  have b: "activity_backoff demo_ext demo_at = 7"
    by (simp add: activity_backoff_def demo_at_def float_to_duration_def bigint_ok_def wrap64_def Let_def)
  have "tk_Kind demo_atoken = TaskTokenKindActivity" "demo_at \<in> set (activity_tasks (sdb demo_sys4))"
      "at_presents demo_ext demo_atoken demo_at" "activity_retryable demo_at None = Inr True" "at_attempt demo_at = 1"
      "at_task_id demo_at = 1" "db_now demo_env 1 = 10"
    by (simp_all add: demo_atoken_def newTaskToken_def demo_sys4_def lease_match_def demo_at_def pgUUIDFromString_def
        demo_ext_def activity_retryable_def demo_env_def)
  with activity_retry_stays_in_table [OF demo_sys4_wf, of demo_atoken demo_at demo_ext None demo_store demo_env] b
  show ?thesis by simp blast
qed

end
