(* ===== verification/Replayer.thy ===== *)
theory Replayer
  imports Api
begin

text \<open>
  The deterministic replayer of the worker SDK: \<^verbatim>\<open>sdk/internal/replayer/execution.go\<close> and
  \<^verbatim>\<open>dispatcher.go\<close>, the workflow-facing primitives of \<^verbatim>\<open>sdk/workflow\<close>, the JSON converter
  and \<^verbatim>\<open>sdk/worker/replay.go\<close>.

  A workflow function is the user's code, so it is a parameter: a tree \<open>'v prog\<close> whose inner
  nodes are the calls the SDK offers and whose branches are what the code does with the answer.
  \<open>'v\<close> is the type of the variables its coroutines and handlers share. Between two calls the
  code computes on these variables (\<open>Compute\<close>). A coroutine is the rest of its tree: the Go
  goroutine parked in \<open>Yield\<close> is a tree whose root is the blocking call, which is tried again
  when the coroutine is resumed, as the \<open>for\<close> loops of \<open>Get\<close> do. Paths of a tree are finite
  (of any length); code that neither blocks nor returns has no tree.
\<close>

section \<open>converter.go\<close>

text \<open>The argument is the outcome of \<^verbatim>\<open>json.Marshal\<close> on the value.\<close>

definition ToPayload :: "string + bytes \<Rightarrow> string + payload" where
  "ToPayload marshalled = (case marshalled of
     Inl err \<Rightarrow> Inl (''converter: marshal: '' @ err)
   | Inr data \<Rightarrow> Inr \<lparr>Metadata = [(''encoding'', ''json/plain'')], Data = data\<rparr>)"

text \<open>\<open>unmarshal\<close> is \<^verbatim>\<open>json.Unmarshal\<close> into the target type, \<open>zero\<close> what the pointer holds before.\<close>

definition FromPayload :: "(bytes \<Rightarrow> string + 'i) \<Rightarrow> 'i \<Rightarrow> payload option \<Rightarrow> string + 'i" where
  "FromPayload unmarshal zero p = (case p of
     None \<Rightarrow> Inr zero
   | Some q \<Rightarrow> if Data q = [] then Inr zero
       else (case unmarshal (Data q) of Inl err \<Rightarrow> Inl (''converter: unmarshal: '' @ err) | Inr x \<Rightarrow> Inr x))"

section \<open>Workflow code\<close>

text \<open>
  A panic value: the two messages of \<open>NonDeterministicError\<close>, as the numbers and types they
  print, and any other panic.
\<close>

datatype panic =
    NonDeterministicActivity int string int string
  | NonDeterministicTimer int int
  | WorkflowPanic string

record activity_options =
  OptRetryPolicy :: "retry_policy option"
  OptScheduleToStartTimeout :: duration
  OptStartToCloseTimeout :: duration

record continue_as_new_options =
  CanOptTaskQueue :: string
  CanOptRetryPolicy :: "retry_policy option"
  CanOptRunTimeout :: duration
  CanOptTaskTimeout :: duration

record activity_error =
  AEType :: string
  AEMessage :: string

type_synonym 'v query_handler = "payload option \<Rightarrow> 'v \<Rightarrow> string + payload"
type_synonym 'v signal_handler = "payload option \<Rightarrow> 'v \<Rightarrow> 'v \<times> panic option"

text \<open>
  What a workflow function returns: a nil error with the result, a \<open>ContinueAsNewError\<close>, or
  another error with its text and Go type. Results are given by the outcome of \<^verbatim>\<open>json.Marshal\<close>.
\<close>

datatype wf_return =
    ReturnedResult "string + bytes"
  | ReturnedContinueAsNew string "string + bytes" continue_as_new_options
  | ReturnedError string string

datatype 'v prog =
    Return wf_return
  | Finish
  | Panic string
  | Compute "'v \<Rightarrow> 'v" "'v \<Rightarrow> 'v prog"
  | ReadNow "timestamp \<Rightarrow> 'v prog"
  | ReadCancel "bool \<Rightarrow> string \<Rightarrow> 'v prog"
  | ExecuteActivity string "string + bytes" activity_options "int \<Rightarrow> 'v prog"
  | GetActivity int "activity_error + payload option \<Rightarrow> 'v prog"
  | NewTimer duration "int \<Rightarrow> 'v prog"
  | GetTimer int "'v prog"
  | Go "'v prog" "'v prog"
  | SetQueryHandler string "'v query_handler" "'v prog"
  | SetSignalHandler string "'v signal_handler" "'v prog"

definition Sleep :: "duration \<Rightarrow> 'v prog \<Rightarrow> 'v prog" where
  "Sleep d k = NewTimer d (\<lambda>i. GetTimer i k)"

text \<open>
  The reflection shims of \<^verbatim>\<open>workflow/signal.go\<close> and \<^verbatim>\<open>workflow/query.go\<close> around a user's handler.
  \<open>quote\<close> is the \<^verbatim>\<open>%q\<close> verb.
\<close>

definition signal_shim :: "(string \<Rightarrow> string) \<Rightarrow> (payload option \<Rightarrow> string + 'i) \<Rightarrow> string \<Rightarrow> ('i \<Rightarrow> 'v \<Rightarrow> 'v) \<Rightarrow> 'v signal_handler" where
  "signal_shim quote from name h args v = (case from args of
     Inl err \<Rightarrow> (v, Some (WorkflowPanic (''workflow: signal '' @ quote name @ '': unmarshal args: '' @ err)))
   | Inr i \<Rightarrow> (h i v, None))"

definition query_shim ::
  "(string \<Rightarrow> string) \<Rightarrow> (payload option \<Rightarrow> string + 'i) \<Rightarrow> string \<Rightarrow> ('i \<Rightarrow> 'v \<Rightarrow> string + (string + bytes)) \<Rightarrow> 'v query_handler" where
  "query_shim quote from name h args v = (case from args of
     Inl err \<Rightarrow> Inl (''query '' @ quote name @ '': unmarshal args: '' @ err)
   | Inr i \<Rightarrow> (case h i v of Inl err \<Rightarrow> Inl err | Inr out \<Rightarrow> ToPayload out))"

section \<open>Execution\<close>

record activity_outcome =
  OutResult :: "payload option"
  OutFailure :: "failure option"

record scheduled_activity =
  SActivityID :: int
  SActivityType :: string

record scheduled_timer =
  STimerID :: int
  SDuration :: duration

record pending_signal =
  sig_name :: string
  sig_payload :: "payload option"

text \<open>\<open>Pump\<close> is the internal coroutine that delivers signals.\<close>

datatype 'v body = User "'v prog" | Pump

record 'v coroutine =
  co_body :: "'v body"
  co_done :: bool
  co_panicErr :: "panic option"

text \<open>\<open>coroutines\<close> is the Dispatcher; \<open>vars\<close> are the workflow's own variables.\<close>

record 'v execution =
  coroutines :: "'v coroutine list"
  Now :: timestamp
  scheduledActivities :: "scheduled_activity list"
  scheduledTimers :: "scheduled_timer list"
  activityOutcomes :: "int \<Rightarrow> activity_outcome option"
  firedTimers :: "int \<Rightarrow> bool"
  nextActivityIdx :: int
  nextTimerIdx :: int
  NewCommands :: "command list"
  Result :: "payload option"
  Err :: "failure option"
  ContinuedAsNew :: "continue_as_new_cmd option"
  cancelRequested :: bool
  cancelReason :: string
  queryHandlers :: "string \<Rightarrow> 'v query_handler option"
  signalHandlers :: "string \<Rightarrow> 'v signal_handler option"
  pendingSignals :: "pending_signal list"
  signalPumpStarted :: bool
  vars :: 'v

text \<open>\<open>zeroTime\<close>: the zero \<open>time.Time\<close>, January 1, year 1, in nanoseconds.\<close>

definition zeroTime :: timestamp where
  "zeroTime = - 62135596800000000000"

definition NewExecution :: "'v \<Rightarrow> 'v execution" where
  "NewExecution v = \<lparr>coroutines = [], Now = zeroTime, scheduledActivities = [], scheduledTimers = [],
     activityOutcomes = (\<lambda>_. None), firedTimers = (\<lambda>_. False), nextActivityIdx = 0, nextTimerIdx = 0,
     NewCommands = [], Result = None, Err = None, ContinuedAsNew = None, cancelRequested = False,
     cancelReason = '''', queryHandlers = (\<lambda>_. None), signalHandlers = (\<lambda>_. None), pendingSignals = [],
     signalPumpStarted = False, vars = v\<rparr>"

text \<open>The cases of the type switch that \<open>LoadHistory\<close> and \<open>LoadNewEvents\<close> share.\<close>

definition load_new_event :: "'v execution \<Rightarrow> history_event \<Rightarrow> 'v execution" where
  "load_new_event e ev = (case Attributes ev of
     WorkflowTaskStarted _ \<Rightarrow> e\<lparr>Now := EventTime ev\<rparr>
   | ActivityTaskCompleted i result \<Rightarrow>
       e\<lparr>activityOutcomes := (activityOutcomes e)(i \<mapsto> \<lparr>OutResult = result, OutFailure = None\<rparr>)\<rparr>
   | ActivityTaskFailed i failure _ \<Rightarrow>
       e\<lparr>activityOutcomes := (activityOutcomes e)(i \<mapsto> \<lparr>OutResult = None, OutFailure = failure\<rparr>)\<rparr>
   | TimerFired i \<Rightarrow> e\<lparr>firedTimers := (firedTimers e)(i := True)\<rparr>
   | WorkflowExecutionCancelRequested reason \<Rightarrow> e\<lparr>cancelRequested := True, cancelReason := reason\<rparr>
   | WorkflowExecutionSignaled name inp \<Rightarrow>
       e\<lparr>pendingSignals := pendingSignals e @ [\<lparr>sig_name = name, sig_payload = inp\<rparr>]\<rparr>
   | _ \<Rightarrow> e)"

definition LoadNewEvents :: "history_event list \<Rightarrow> 'v execution \<Rightarrow> 'v execution" where
  "LoadNewEvents events e = foldl load_new_event e events"

text \<open>An absent duration reads as zero.\<close>

definition load_event :: "'v execution \<Rightarrow> history_event \<Rightarrow> 'v execution" where
  "load_event e ev = (case Attributes ev of
     ActivityTaskScheduled i typ _ _ _ _ \<Rightarrow>
       e\<lparr>scheduledActivities := scheduledActivities e @ [\<lparr>SActivityID = i, SActivityType = typ\<rparr>]\<rparr>
   | TimerStarted i d \<Rightarrow>
       e\<lparr>scheduledTimers := scheduledTimers e @ [\<lparr>STimerID = i, SDuration = AsDuration d\<rparr>]\<rparr>
   | _ \<Rightarrow> load_new_event e ev)"

fun started_of :: "payload option \<times> string \<Rightarrow> history_event \<Rightarrow> payload option \<times> string" where
  "started_of r ev = (case Attributes ev of WorkflowExecutionStarted typ _ inp _ _ \<Rightarrow> (inp, typ) | _ \<Rightarrow> r)"

definition LoadHistory :: "history_event list \<Rightarrow> 'v execution \<Rightarrow> (payload option \<times> string) \<times> 'v execution" where
  "LoadHistory events e = (foldl started_of (None, '''') events, foldl load_event e events)"

definition ResetRoundOutput :: "'v execution \<Rightarrow> 'v execution" where
  "ResetRoundOutput e = e\<lparr>NewCommands := [], Result := None, Err := None, ContinuedAsNew := None\<rparr>"

definition durationOrNil :: "duration \<Rightarrow> duration option" where
  "durationOrNil d = (if d \<le> 0 then None else Some d)"

definition add_command :: "command \<Rightarrow> 'v execution \<Rightarrow> 'v execution" where
  "add_command c e = e\<lparr>NewCommands := NewCommands e @ [c]\<rparr>"

text \<open>Ids are assigned by call order; a recorded call is compared and not sent again.\<close>

definition ScheduleActivity ::
  "string \<Rightarrow> payload \<Rightarrow> activity_options \<Rightarrow> 'v execution \<Rightarrow> (panic + int) \<times> 'v execution" where
  "ScheduleActivity typ inp opts e =
     (let idx = nextActivityIdx e; i = idx + 1; e1 = e\<lparr>nextActivityIdx := idx + 1\<rparr> in
      if idx < int (length (scheduledActivities e)) then
        (let recorded = scheduledActivities e ! nat idx in
         if SActivityID recorded \<noteq> i \<or> SActivityType recorded \<noteq> typ
         then (Inl (NonDeterministicActivity (idx + 1) typ (SActivityID recorded) (SActivityType recorded)), e1)
         else (Inr i, e1))
      else (Inr i, add_command (ScheduleActivityTask
         \<lparr>ActivityId = i, ActivityType = typ, ActInput = Some inp, ActRetryPolicy = OptRetryPolicy opts,
          ScheduleToStartTimeout = durationOrNil (OptScheduleToStartTimeout opts),
          StartToCloseTimeout = durationOrNil (OptStartToCloseTimeout opts)\<rparr>) e1))"

definition ScheduleTimer :: "duration \<Rightarrow> 'v execution \<Rightarrow> (panic + int) \<times> 'v execution" where
  "ScheduleTimer d e =
     (let idx = nextTimerIdx e; i = idx + 1; e1 = e\<lparr>nextTimerIdx := idx + 1\<rparr> in
      if idx < int (length (scheduledTimers e)) then
        (let recorded = scheduledTimers e ! nat idx in
         if STimerID recorded \<noteq> i then (Inl (NonDeterministicTimer (idx + 1) (STimerID recorded)), e1)
         else (Inr i, e1))
      else (Inr i, add_command (StartTimer \<lparr>TimerId = i, TimerDuration = Some d\<rparr>) e1))"

definition Complete :: "payload option \<Rightarrow> failure option \<Rightarrow> 'v execution \<Rightarrow> 'v execution" where
  "Complete result failure e = (case failure of
     Some f \<Rightarrow> add_command (FailWorkflowExecution failure) (e\<lparr>Err := failure\<rparr>)
   | None \<Rightarrow> add_command (CompleteWorkflowExecution result) (e\<lparr>Result := result\<rparr>))"

definition ContinueAsNew :: "string \<Rightarrow> payload \<Rightarrow> continue_as_new_options \<Rightarrow> 'v execution \<Rightarrow> 'v execution" where
  "ContinueAsNew typ inp opts e =
     (let cmd = \<lparr>CanWorkflowType = typ, CanTaskQueue = CanOptTaskQueue opts, CanInput = Some inp,
           CanRetryPolicy = CanOptRetryPolicy opts, CanRunTimeout = durationOrNil (CanOptRunTimeout opts),
           CanTaskTimeout = durationOrNil (CanOptTaskTimeout opts)\<rparr>
      in add_command (ContinueAsNewWorkflowExecution cmd) (e\<lparr>ContinuedAsNew := Some cmd\<rparr>))"

section \<open>Signals and queries\<close>

text \<open>
  The loop of \<open>drainSignals\<close>: it returns the signals left without a handler; a handler that
  panics leaves the pending list as it was.
\<close>

fun drain :: "(string \<Rightarrow> 'v signal_handler option) \<Rightarrow> pending_signal list \<Rightarrow> 'v \<Rightarrow> (panic + pending_signal list) \<times> 'v" where
  "drain hs [] v = (Inr [], v)"
| "drain hs (s # ss) v = (case hs (sig_name s) of
     Some h \<Rightarrow> (case h (sig_payload s) v of
        (v', Some p) \<Rightarrow> (Inl p, v')
      | (v', None) \<Rightarrow> drain hs ss v')
   | None \<Rightarrow> (case drain hs ss v of
        (Inl p, v') \<Rightarrow> (Inl p, v')
      | (Inr rest, v') \<Rightarrow> (Inr (s # rest), v')))"

definition drainSignals :: "'v execution \<Rightarrow> panic option \<times> 'v execution" where
  "drainSignals e = (case drain (signalHandlers e) (pendingSignals e) (vars e) of
     (Inl p, v) \<Rightarrow> (Some p, e\<lparr>vars := v\<rparr>)
   | (Inr remaining, v) \<Rightarrow> (None, e\<lparr>vars := v, pendingSignals := remaining\<rparr>))"

definition new_coroutine :: "'v body \<Rightarrow> 'v coroutine" where
  "new_coroutine b = \<lparr>co_body = b, co_done = False, co_panicErr = None\<rparr>"

definition Dispatcher_Go :: "'v body \<Rightarrow> 'v execution \<Rightarrow> 'v execution" where
  "Dispatcher_Go b e = e\<lparr>coroutines := coroutines e @ [new_coroutine b]\<rparr>"

definition start_pump :: "'v execution \<Rightarrow> 'v execution" where
  "start_pump e = (if signalPumpStarted e then e else Dispatcher_Go Pump (e\<lparr>signalPumpStarted := True\<rparr>))"

definition Execution_SetSignalHandler :: "string \<Rightarrow> 'v signal_handler \<Rightarrow> 'v execution \<Rightarrow> panic option \<times> 'v execution" where
  [simp]: "Execution_SetSignalHandler name h e =
     (case drainSignals (e\<lparr>signalHandlers := (signalHandlers e)(name \<mapsto> h)\<rparr>) of
        (Some p, e') \<Rightarrow> (Some p, e')
      | (None, e') \<Rightarrow> (None, start_pump e'))"

definition Execution_SetQueryHandler :: "string \<Rightarrow> 'v query_handler \<Rightarrow> 'v execution \<Rightarrow> 'v execution" where
  [simp]: "Execution_SetQueryHandler qt h e = e\<lparr>queryHandlers := (queryHandlers e)(qt \<mapsto> h)\<rparr>"

definition IsCancelRequested :: "'v execution \<Rightarrow> bool" where
  [simp]: "IsCancelRequested e = cancelRequested e"

definition CancelReason :: "'v execution \<Rightarrow> string" where
  [simp]: "CancelReason e = cancelReason e"

definition InvokeQueryHandler :: "(string \<Rightarrow> string) \<Rightarrow> string \<Rightarrow> payload option \<Rightarrow> 'v execution \<Rightarrow> string + payload" where
  "InvokeQueryHandler quote queryType args e = (case queryHandlers e queryType of
     None \<Rightarrow> Inl (''no query handler registered for '' @ quote queryType)
   | Some h \<Rightarrow> h args (vars e))"

section \<open>Coroutines\<close>

text \<open>The end of the workflow function: the closure of \<open>runWorkflowFunc\<close> after \<open>fn.Call\<close>.\<close>

fun workflow_returned :: "wf_return \<Rightarrow> 'v execution \<Rightarrow> 'v execution" where
  "workflow_returned (ReturnedResult out) e = (case ToPayload out of
     Inl err \<Rightarrow> Complete None (Some \<lparr>Message = err, FType = ''MarshalError'', StackTrace = ''''\<rparr>) e
   | Inr p \<Rightarrow> Complete (Some p) None e)"
| "workflow_returned (ReturnedContinueAsNew typ inp opts) e = (case ToPayload inp of
     Inl err \<Rightarrow> Complete None (Some \<lparr>Message = err, FType = ''MarshalError'', StackTrace = ''''\<rparr>) e
   | Inr p \<Rightarrow> ContinueAsNew typ p opts e)"
| "workflow_returned (ReturnedError msg typ) e =
     Complete None (Some \<lparr>Message = msg, FType = typ, StackTrace = ''''\<rparr>) e"

text \<open>\<open>Future.Get\<close> on a recorded outcome.\<close>

definition future_result :: "activity_outcome \<Rightarrow> activity_error + payload option" where
  "future_result out = (case OutFailure out of
     Some f \<Rightarrow> Inl \<lparr>AEType = FType f, AEMessage = Message f\<rparr>
   | None \<Rightarrow> Inr (OutResult out))"

text \<open>How a resumed coroutine hands control back.\<close>

datatype 'v stop = Yielded "'v prog" | Finished | Panicked panic

text \<open>Running a coroutine up to its next \<open>Yield\<close>, its return, or a panic.\<close>

primrec run :: "'v prog \<Rightarrow> 'v execution \<Rightarrow> 'v stop \<times> 'v execution" where
  "run (Return r) e = (Finished, workflow_returned r e)"
| "run Finish e = (Finished, e)"
| "run (Panic msg) e = (Panicked (WorkflowPanic msg), e)"
| "run (Compute f k) e = run (k (f (vars e))) (e\<lparr>vars := f (vars e)\<rparr>)"
| "run (ReadNow k) e = run (k (Now e)) e"
| "run (ReadCancel k) e = run (k (IsCancelRequested e) (CancelReason e)) e"
| "run (ExecuteActivity typ arg opts k) e = (case ToPayload arg of
     Inl err \<Rightarrow> (Panicked (WorkflowPanic err), e)
   | Inr inp \<Rightarrow> (case ScheduleActivity typ inp opts e of
        (Inl p, e') \<Rightarrow> (Panicked p, e')
      | (Inr i, e') \<Rightarrow> run (k i) e'))"
| "run (GetActivity i k) e = (case activityOutcomes e i of
     None \<Rightarrow> (Yielded (GetActivity i k), e)
   | Some out \<Rightarrow> run (k (future_result out)) e)"
| "run (NewTimer d k) e = (case ScheduleTimer d e of
     (Inl p, e') \<Rightarrow> (Panicked p, e')
   | (Inr i, e') \<Rightarrow> run (k i) e')"
| "run (GetTimer i k) e = (if firedTimers e i then run k e else (Yielded (GetTimer i k), e))"
| "run (Go p k) e = run k (Dispatcher_Go (User p) e)"
| "run (SetQueryHandler qt h k) e = run k (Execution_SetQueryHandler qt h e)"
| "run (SetSignalHandler name h k) e =
     (case Execution_SetSignalHandler name h e of
        (Some p, e') \<Rightarrow> (Panicked p, e')
      | (None, e') \<Rightarrow> run k e')"

section \<open>Dispatcher\<close>

text \<open>A goroutine that has ended has no code left.\<close>

fun settle :: "'v stop \<Rightarrow> 'v coroutine \<Rightarrow> 'v coroutine" where
  "settle (Yielded p) c = c\<lparr>co_body := User p\<rparr>"
| "settle Finished c = c\<lparr>co_body := User Finish, co_done := True\<rparr>"
| "settle (Panicked p) c = c\<lparr>co_body := User Finish, co_done := True, co_panicErr := Some p\<rparr>"

definition resume :: "nat \<Rightarrow> 'v execution \<Rightarrow> 'v execution" where
  "resume i e =
     (let c = coroutines e ! i in
      if co_done c then e
      else case co_body c of
        User p \<Rightarrow> (case run p e of (st, e') \<Rightarrow> e'\<lparr>coroutines := (coroutines e')[i := settle st (coroutines e' ! i)]\<rparr>)
      | Pump \<Rightarrow> (case drainSignals e of
           (None, e') \<Rightarrow> e'
         | (Some p, e') \<Rightarrow> e'\<lparr>coroutines := (coroutines e')[i := settle (Panicked p) (coroutines e' ! i)]\<rparr>))"

text \<open>
  The range of the loop is evaluated once: a coroutine started during the round is not in it.
\<close>

definition ExecuteRound :: "'v execution \<Rightarrow> 'v execution" where
  "ExecuteRound e = fold resume [0..<length (coroutines e)] e"

definition AllDone :: "'v execution \<Rightarrow> bool" where
  "AllDone e = list_all co_done (coroutines e)"

fun first_panic :: "'v coroutine list \<Rightarrow> panic option" where
  "first_panic [] = None"
| "first_panic (c # cs) = (case co_panicErr c of Some p \<Rightarrow> Some p | None \<Rightarrow> first_panic cs)"

definition FirstPanic :: "'v execution \<Rightarrow> panic option" where
  "FirstPanic e = first_panic (coroutines e)"

section \<open>replay.go\<close>

text \<open>
  A registered workflow: \<^verbatim>\<open>json.Unmarshal\<close> into its input type and that type's zero value (\<open>'i\<close>
  stands for Go values), its code, and its variables when it is called.
\<close>

record ('i, 'v) workflow_func =
  wf_unmarshal :: "bytes \<Rightarrow> string + 'i"
  wf_zero :: 'i
  wf_fn :: "'i \<Rightarrow> 'v prog"
  wf_vars :: 'v

definition runWorkflowFunc ::
  "('i, 'v) workflow_func \<Rightarrow> payload option \<Rightarrow> 'v execution \<Rightarrow> (string + unit) \<times> 'v execution" where
  "runWorkflowFunc w inp e = (case FromPayload (wf_unmarshal w) (wf_zero w) inp of
     Inl err \<Rightarrow> (Inl (''input unmarshal: '' @ err), e)
   | Inr i \<Rightarrow> (Inr (), ExecuteRound (Dispatcher_Go (User (wf_fn w i)) e)))"

datatype replay_error =
    InputUnmarshal string
  | ReplayPanic panic
  | ReplayContinuedAsNew string
  | WorkflowFailed string

definition IsNonDeterministic :: "replay_error \<Rightarrow> bool" where
  "IsNonDeterministic err = (case err of
     ReplayPanic (NonDeterministicActivity _ _ _ _) \<Rightarrow> True
   | ReplayPanic (NonDeterministicTimer _ _) \<Rightarrow> True
   | _ \<Rightarrow> False)"

definition ReplayWorkflowHistory :: "history_event list \<Rightarrow> ('i, 'v) workflow_func \<Rightarrow> replay_error + payload option" where
  "ReplayWorkflowHistory events w =
     (case LoadHistory events (NewExecution (wf_vars w)) of ((inp, _), e) \<Rightarrow>
      (case runWorkflowFunc w inp e of
         (Inl err, e') \<Rightarrow> Inl (InputUnmarshal err)
       | (Inr _, e') \<Rightarrow> (case FirstPanic e' of
            Some p \<Rightarrow> Inl (ReplayPanic p)
          | None \<Rightarrow> (case ContinuedAsNew e' of
               Some cmd \<Rightarrow> Inl (ReplayContinuedAsNew (CanWorkflowType cmd))
             | None \<Rightarrow> (case Err e' of
                  Some f \<Rightarrow> Inl (WorkflowFailed (Message f))
                | None \<Rightarrow> Inr (Result e'))))))"

end
