(* ===== verification/ReplayEquiv.thy ===== *)
theory ReplayEquiv
  imports Replayer "HOL-Library.Sublist"
begin

text \<open>
  A worker that keeps an execution in memory and feeds it only the new events computes what a
  worker that replays the whole history computes. The argument is about \<open>run\<close>: what it keeps of
  the recorded and newly scheduled work, that a blocked run continues from its blocking call when
  more is recorded, and that records behind the call index are never looked at.
\<close>

section \<open>Recorded work\<close>

definition activities_of :: "history_event list \<Rightarrow> scheduled_activity list" where
  "activities_of H = concat (map (\<lambda>ev. case Attributes ev of
     ActivityTaskScheduled i typ _ _ _ _ \<Rightarrow> [\<lparr>SActivityID = i, SActivityType = typ\<rparr>] | _ \<Rightarrow> []) H)"

definition timers_of :: "history_event list \<Rightarrow> scheduled_timer list" where
  "timers_of H = concat (map (\<lambda>ev. case Attributes ev of
     TimerStarted i d \<Rightarrow> [\<lparr>STimerID = i, SDuration = AsDuration d\<rparr>] | _ \<Rightarrow> []) H)"

definition command_activities :: "command list \<Rightarrow> scheduled_activity list" where
  "command_activities cs = concat (map (\<lambda>c. case c of
     ScheduleActivityTask a \<Rightarrow> [\<lparr>SActivityID = ActivityId a, SActivityType = ActivityType a\<rparr>] | _ \<Rightarrow> []) cs)"

definition command_timers :: "command list \<Rightarrow> scheduled_timer list" where
  "command_timers cs = concat (map (\<lambda>c. case c of
     StartTimer t \<Rightarrow> [\<lparr>STimerID = TimerId t, SDuration = AsDuration (TimerDuration t)\<rparr>] | _ \<Rightarrow> []) cs)"

text \<open>The work an execution knows of: what was recorded when it was loaded, then what it scheduled.\<close>

definition known_activities :: "'v execution \<Rightarrow> scheduled_activity list" where
  "known_activities e = scheduledActivities e @ command_activities (NewCommands e)"

definition known_timers :: "'v execution \<Rightarrow> scheduled_timer list" where
  "known_timers e = scheduledTimers e @ command_timers (NewCommands e)"

text \<open>Calls are matched with the records first, and only then become commands.\<close>

definition indexed :: "'v execution \<Rightarrow> bool" where
  "indexed e \<longleftrightarrow> 0 \<le> nextActivityIdx e \<and> 0 \<le> nextTimerIdx e \<and>
     int (length (known_activities e)) = max (int (length (scheduledActivities e))) (nextActivityIdx e) \<and>
     int (length (known_timers e)) = max (int (length (scheduledTimers e))) (nextTimerIdx e)"

lemma command_activities_simps [simp]:
  "command_activities [] = []"
  "command_activities (xs @ ys) = command_activities xs @ command_activities ys"
  "command_activities [ScheduleActivityTask a] = [\<lparr>SActivityID = ActivityId a, SActivityType = ActivityType a\<rparr>]"
  "command_activities [StartTimer t] = []"
  "command_activities [CompleteWorkflowExecution r] = []"
  "command_activities [FailWorkflowExecution f] = []"
  "command_activities [ContinueAsNewWorkflowExecution cn] = []"
  by (simp_all add: command_activities_def)

lemma command_timers_simps [simp]:
  "command_timers [] = []"
  "command_timers (xs @ ys) = command_timers xs @ command_timers ys"
  "command_timers [StartTimer t] = [\<lparr>STimerID = TimerId t, SDuration = AsDuration (TimerDuration t)\<rparr>]"
  "command_timers [ScheduleActivityTask a] = []"
  "command_timers [CompleteWorkflowExecution r] = []"
  "command_timers [FailWorkflowExecution f] = []"
  "command_timers [ContinueAsNewWorkflowExecution cn] = []"
  by (simp_all add: command_timers_def)

lemma recorded_append [simp]:
  "activities_of (H @ H') = activities_of H @ activities_of H'"
  "timers_of (H @ H') = timers_of H @ timers_of H'"
  by (simp_all add: activities_of_def timers_of_def)

section \<open>Sequential workflow code\<close>

text \<open>
  Code of one coroutine whose control flow depends on activities and timers only: it starts no
  further coroutine, handles no signals, and reads neither the task's time nor a cancellation request.
\<close>

primrec sequential :: "'v prog \<Rightarrow> bool" where
  "sequential (Return r) = True"
| "sequential Finish = True"
| "sequential (Panic msg) = True"
| "sequential (Compute f k) = (\<forall>v. sequential (k v))"
| "sequential (ReadNow k) = False"
| "sequential (ReadCancel k) = False"
| "sequential (ExecuteActivity typ arg opts k) = (\<forall>i. sequential (k i))"
| "sequential (GetActivity i k) = (\<forall>r. sequential (k r))"
| "sequential (NewTimer d k) = (\<forall>i. sequential (k i))"
| "sequential (GetTimer i k) = sequential k"
| "sequential (Go p k) = False"
| "sequential (SetQueryHandler qt h k) = sequential k"
| "sequential (SetSignalHandler name h k) = False"

lemma workflow_returned_keeps [simp]:
  "scheduledActivities (workflow_returned r e) = scheduledActivities e"
  "scheduledTimers (workflow_returned r e) = scheduledTimers e"
  "coroutines (workflow_returned r e) = coroutines e"
  "nextActivityIdx (workflow_returned r e) = nextActivityIdx e"
  "nextTimerIdx (workflow_returned r e) = nextTimerIdx e"
  "command_activities (NewCommands (workflow_returned r e)) = command_activities (NewCommands e)"
  "command_timers (NewCommands (workflow_returned r e)) = command_timers (NewCommands e)"
  by (cases r; simp add: Complete_def ContinueAsNew_def Let_def add_command_def split: sum.split option.split)+

lemma ScheduleActivity_cases:
  obtains (match) "nextActivityIdx e < int (length (scheduledActivities e))"
      "SActivityID (scheduledActivities e ! nat (nextActivityIdx e)) = nextActivityIdx e + 1"
      "SActivityType (scheduledActivities e ! nat (nextActivityIdx e)) = typ"
      "ScheduleActivity typ inp opts e = (Inr (nextActivityIdx e + 1), e\<lparr>nextActivityIdx := nextActivityIdx e + 1\<rparr>)"
  | (mismatch) p where "nextActivityIdx e < int (length (scheduledActivities e))"
      "ScheduleActivity typ inp opts e = (Inl p, e\<lparr>nextActivityIdx := nextActivityIdx e + 1\<rparr>)"
  | (new) c where "int (length (scheduledActivities e)) \<le> nextActivityIdx e"
      "ScheduleActivity typ inp opts e =
         (Inr (nextActivityIdx e + 1), add_command (ScheduleActivityTask c) (e\<lparr>nextActivityIdx := nextActivityIdx e + 1\<rparr>))"
      "ActivityId c = nextActivityIdx e + 1" "ActivityType c = typ"
proof (cases "nextActivityIdx e < int (length (scheduledActivities e))")
  case True
  let ?r = "scheduledActivities e ! nat (nextActivityIdx e)"
  show ?thesis
  proof (cases "SActivityID ?r = nextActivityIdx e + 1 \<and> SActivityType ?r = typ")
    case m: True
    with True show ?thesis by (intro match) (simp_all add: ScheduleActivity_def Let_def)
  next
    case False
    with True show ?thesis by (intro mismatch) (auto simp: ScheduleActivity_def Let_def)
  qed
next
  case False
  show ?thesis
    by (rule new [of "\<lparr>ActivityId = nextActivityIdx e + 1, ActivityType = typ, ActInput = Some inp,
        ActRetryPolicy = OptRetryPolicy opts, ScheduleToStartTimeout = durationOrNil (OptScheduleToStartTimeout opts),
        StartToCloseTimeout = durationOrNil (OptStartToCloseTimeout opts)\<rparr>"])
      (use False in \<open>simp_all add: ScheduleActivity_def Let_def\<close>)
qed

lemma ScheduleTimer_cases:
  obtains (match) "nextTimerIdx e < int (length (scheduledTimers e))"
      "STimerID (scheduledTimers e ! nat (nextTimerIdx e)) = nextTimerIdx e + 1"
      "ScheduleTimer d e = (Inr (nextTimerIdx e + 1), e\<lparr>nextTimerIdx := nextTimerIdx e + 1\<rparr>)"
  | (mismatch) p where "nextTimerIdx e < int (length (scheduledTimers e))"
      "ScheduleTimer d e = (Inl p, e\<lparr>nextTimerIdx := nextTimerIdx e + 1\<rparr>)"
  | (new) "int (length (scheduledTimers e)) \<le> nextTimerIdx e"
      "ScheduleTimer d e = (Inr (nextTimerIdx e + 1),
         add_command (StartTimer \<lparr>TimerId = nextTimerIdx e + 1, TimerDuration = Some d\<rparr>) (e\<lparr>nextTimerIdx := nextTimerIdx e + 1\<rparr>))"
proof (cases "nextTimerIdx e < int (length (scheduledTimers e))")
  case True
  show ?thesis
  proof (cases "STimerID (scheduledTimers e ! nat (nextTimerIdx e)) = nextTimerIdx e + 1")
    case m: True
    with True show ?thesis by (intro match) (simp_all add: ScheduleTimer_def Let_def)
  next
    case False
    with True show ?thesis by (intro mismatch) (auto simp: ScheduleTimer_def Let_def)
  qed
qed (intro new; simp add: ScheduleTimer_def Let_def)

section \<open>What a run keeps\<close>

text \<open>A resumed coroutine does not touch the records and only adds to the known work.\<close>

lemma run_keeps:
  assumes "sequential p" and "run p e = (st, e')"
  shows "scheduledActivities e' = scheduledActivities e \<and> scheduledTimers e' = scheduledTimers e \<and>
    coroutines e' = coroutines e \<and> activityOutcomes e' = activityOutcomes e \<and> firedTimers e' = firedTimers e \<and>
    prefix (known_activities e) (known_activities e') \<and> prefix (known_timers e) (known_timers e')"
  using assms
proof (induction p arbitrary: e)
  case (ExecuteActivity ty arg opts k)
  then obtain inp where inp: "ToPayload arg = Inr inp \<or> e' = e"
    by (auto split: sum.splits)
  show ?case
  proof (cases "e' = e")
    case True
    then show ?thesis by simp
  next
    case False
    with inp have inp: "ToPayload arg = Inr inp" by simp
    show ?thesis
      by (cases rule: ScheduleActivity_cases [of e ty inp opts])
        (use ExecuteActivity inp in \<open>fastforce simp: known_activities_def known_timers_def add_command_def prefix_def\<close>)+
  qed
next
  case (NewTimer d k)
  show ?case
    by (cases rule: ScheduleTimer_cases [of e d])
      (use NewTimer in \<open>fastforce simp: known_activities_def known_timers_def add_command_def prefix_def\<close>)+
next
  case (Return r)
  then show ?case by (cases r) (auto simp: known_activities_def known_timers_def Complete_def ContinueAsNew_def Let_def
    add_command_def split: sum.splits)
qed (fastforce simp: known_activities_def known_timers_def split: option.splits if_splits)+

lemma indexed_schedule:
  assumes "indexed e"
  shows "indexed (snd (ScheduleActivity ty inp opts e))" and "indexed (snd (ScheduleTimer d e))"
  using assms
  by (auto simp: indexed_def known_activities_def known_timers_def ScheduleActivity_def ScheduleTimer_def Let_def add_command_def)

lemma schedule_next:
  "nextActivityIdx (snd (ScheduleActivity ty inp opts e)) = nextActivityIdx e + 1"
  "nextTimerIdx (snd (ScheduleActivity ty inp opts e)) = nextTimerIdx e"
  "nextActivityIdx (snd (ScheduleTimer d e)) = nextActivityIdx e"
  "nextTimerIdx (snd (ScheduleTimer d e)) = nextTimerIdx e + 1"
  by (auto simp: ScheduleActivity_def ScheduleTimer_def Let_def add_command_def)

lemma indexed_cong:
  "scheduledActivities e' = scheduledActivities e \<Longrightarrow> scheduledTimers e' = scheduledTimers e \<Longrightarrow>
   nextActivityIdx e' = nextActivityIdx e \<Longrightarrow> nextTimerIdx e' = nextTimerIdx e \<Longrightarrow>
   command_activities (NewCommands e') = command_activities (NewCommands e) \<Longrightarrow>
   command_timers (NewCommands e') = command_timers (NewCommands e) \<Longrightarrow> indexed e \<Longrightarrow> indexed e'"
  by (simp add: indexed_def known_activities_def known_timers_def)

lemma run_indexed:
  assumes "sequential p" and "run p e = (st, e')" and "indexed e"
  shows "indexed e' \<and> nextActivityIdx e \<le> nextActivityIdx e' \<and> nextTimerIdx e \<le> nextTimerIdx e'"
  using assms
proof (induction p arbitrary: e)
  case (Return r)
  then have "e' = workflow_returned r e" by simp
  with Return show ?case by (auto intro: indexed_cong)
next
  case (Compute f k)
  have "indexed (e\<lparr>vars := f (vars e)\<rparr>)" using Compute.prems by (auto intro: indexed_cong)
  with Compute.IH [OF rangeI, of _ "e\<lparr>vars := f (vars e)\<rparr>"] Compute.prems show ?case by auto
next
  case (ExecuteActivity ty arg opts k)
  show ?case
  proof (cases "ToPayload arg")
    case (Inr inp)
    obtain r e1 where r: "ScheduleActivity ty inp opts e = (r, e1)" by fastforce
    have "indexed e1" "nextActivityIdx e \<le> nextActivityIdx e1" "nextTimerIdx e \<le> nextTimerIdx e1"
      using indexed_schedule(1) [OF ExecuteActivity.prems(3), of ty inp opts] schedule_next(1,2) [of ty inp opts e] r by auto
    with ExecuteActivity.IH [OF rangeI] ExecuteActivity.prems Inr r show ?thesis
      by (cases r) fastforce+
  qed (use ExecuteActivity in simp)
next
  case (NewTimer d k)
  obtain r e1 where r: "ScheduleTimer d e = (r, e1)" by fastforce
  have "indexed e1" "nextActivityIdx e \<le> nextActivityIdx e1" "nextTimerIdx e \<le> nextTimerIdx e1"
    using indexed_schedule(2) [OF NewTimer.prems(3), of d] schedule_next(3,4) [of d e] r by auto
  with NewTimer.IH [OF rangeI] NewTimer.prems r show ?case by (cases r) fastforce+
next
  case (SetQueryHandler qt h k)
  have "indexed (e\<lparr>queryHandlers := (queryHandlers e)(qt \<mapsto> h)\<rparr>)" using SetQueryHandler.prems by (auto intro: indexed_cong)
  with SetQueryHandler.IH [of "e\<lparr>queryHandlers := (queryHandlers e)(qt \<mapsto> h)\<rparr>"] SetQueryHandler.prems show ?case by auto
qed (fastforce split: option.splits if_splits)+

section \<open>Continuing from the blocking call\<close>

text \<open>
  \<open>reloaded D e\<close>: \<open>e\<close> with everything that is read from the history taken from \<open>D\<close>, and no
  commands yet.
\<close>

definition reloaded :: "'v execution \<Rightarrow> 'v execution \<Rightarrow> 'v execution" where
  "reloaded D e = e\<lparr>Now := Now D, scheduledActivities := scheduledActivities D, scheduledTimers := scheduledTimers D,
     activityOutcomes := activityOutcomes D, firedTimers := firedTimers D, cancelRequested := cancelRequested D,
     cancelReason := cancelReason D, pendingSignals := pendingSignals D, NewCommands := []\<rparr>"

lemma reloaded_simps [simp]:
  "scheduledActivities (reloaded D e) = scheduledActivities D" "scheduledTimers (reloaded D e) = scheduledTimers D"
  "activityOutcomes (reloaded D e) = activityOutcomes D" "firedTimers (reloaded D e) = firedTimers D"
  "nextActivityIdx (reloaded D e) = nextActivityIdx e" "nextTimerIdx (reloaded D e) = nextTimerIdx e"
  "vars (reloaded D e) = vars e" "queryHandlers (reloaded D e) = queryHandlers e"
  "coroutines (reloaded D e) = coroutines e" "NewCommands (reloaded D e) = []"
  "reloaded D (e\<lparr>vars := v\<rparr>) = (reloaded D e)\<lparr>vars := v\<rparr>"
  "reloaded D (e\<lparr>queryHandlers := q\<rparr>) = (reloaded D e)\<lparr>queryHandlers := q\<rparr>"
  "reloaded D (e\<lparr>nextActivityIdx := i\<rparr>) = (reloaded D e)\<lparr>nextActivityIdx := i\<rparr>"
  "reloaded D (e\<lparr>nextTimerIdx := i\<rparr>) = (reloaded D e)\<lparr>nextTimerIdx := i\<rparr>"
  "reloaded D (e\<lparr>coroutines := cs\<rparr>) = (reloaded D e)\<lparr>coroutines := cs\<rparr>"
  "reloaded D (add_command c e) = reloaded D e"
  by (simp_all add: reloaded_def add_command_def)

text \<open>\<open>D\<close> has recorded at least what the blocked run knew, and knows every outcome it knew.\<close>

definition extends :: "'v execution \<Rightarrow> 'v execution \<Rightarrow> bool" where
  "extends D e \<longleftrightarrow> prefix (known_activities e) (scheduledActivities D) \<and> prefix (known_timers e) (scheduledTimers D) \<and>
     activityOutcomes e \<subseteq>\<^sub>m activityOutcomes D \<and> (\<forall>i. firedTimers e i \<longrightarrow> firedTimers D i)"

lemma prefix_nth: "prefix xs ys \<Longrightarrow> i < length xs \<Longrightarrow> ys ! i = xs ! i \<and> i < length ys"
  by (auto simp: prefix_def nth_append)

lemma reloaded_ScheduleActivity:
  assumes "indexed e" and "ScheduleActivity ty inp opts e = (Inr i, e1)" and "extends D e1"
  shows "ScheduleActivity ty inp opts (reloaded D e) = (Inr i, reloaded D e1)"
proof -
  let ?n = "nextActivityIdx e"
  have n0: "0 \<le> ?n" using assms(1) by (simp add: indexed_def)
  have "?n < int (length (scheduledActivities D)) \<and> SActivityID (scheduledActivities D ! nat ?n) = ?n + 1 \<and>
      SActivityType (scheduledActivities D ! nat ?n) = ty \<and> i = ?n + 1 \<and> reloaded D e1 = (reloaded D e)\<lparr>nextActivityIdx := ?n + 1\<rparr>"
  proof (cases rule: ScheduleActivity_cases [of e ty inp opts])
    case match
    then have "prefix (scheduledActivities e) (scheduledActivities D)"
      using assms(2,3) by (auto simp: extends_def known_activities_def prefix_def)
    from prefix_nth [OF this, of "nat ?n"] match n0 assms(2) show ?thesis by (auto simp: nat_less_iff)
  next
    case (new c)
    have len: "length (known_activities e) = nat ?n" using new(1) assms(1) by (auto simp: indexed_def nat_eq_iff2)
    have "known_activities e1 = known_activities e @ [\<lparr>SActivityID = ?n + 1, SActivityType = ty\<rparr>]"
      using new assms(2) by (auto simp: known_activities_def add_command_def)
    with assms(3) have "prefix (known_activities e @ [\<lparr>SActivityID = ?n + 1, SActivityType = ty\<rparr>]) (scheduledActivities D)"
      by (simp add: extends_def)
    from prefix_nth [OF this, of "nat ?n"] len new assms(2) n0 show ?thesis by (auto simp: nth_append nat_less_iff)
  qed (use assms(2) in simp)
  then show ?thesis by (simp add: ScheduleActivity_def Let_def)
qed

lemma reloaded_ScheduleTimer:
  assumes "indexed e" and "ScheduleTimer d e = (Inr i, e1)" and "extends D e1"
  shows "ScheduleTimer d (reloaded D e) = (Inr i, reloaded D e1)"
proof -
  let ?n = "nextTimerIdx e"
  have n0: "0 \<le> ?n" using assms(1) by (simp add: indexed_def)
  have "?n < int (length (scheduledTimers D)) \<and> STimerID (scheduledTimers D ! nat ?n) = ?n + 1 \<and>
      i = ?n + 1 \<and> reloaded D e1 = (reloaded D e)\<lparr>nextTimerIdx := ?n + 1\<rparr>"
  proof (cases rule: ScheduleTimer_cases [of e d])
    case match
    then have "prefix (scheduledTimers e) (scheduledTimers D)"
      using assms(2,3) by (auto simp: extends_def known_timers_def prefix_def)
    from prefix_nth [OF this, of "nat ?n"] match n0 assms(2) show ?thesis by (auto simp: nat_less_iff)
  next
    case new
    have len: "length (known_timers e) = nat ?n" using new(1) assms(1) by (auto simp: indexed_def nat_eq_iff2)
    have "known_timers e1 = known_timers e @ [\<lparr>STimerID = ?n + 1, SDuration = AsDuration (Some d)\<rparr>]"
      using new assms(2) by (auto simp: known_timers_def add_command_def)
    with assms(3) have "prefix (known_timers e @ [\<lparr>STimerID = ?n + 1, SDuration = AsDuration (Some d)\<rparr>]) (scheduledTimers D)"
      by (simp add: extends_def)
    from prefix_nth [OF this, of "nat ?n"] len new assms(2) n0 show ?thesis by (auto simp: nth_append nat_less_iff)
  qed (use assms(2) in simp)
  then show ?thesis by (simp add: ScheduleTimer_def Let_def)
qed

lemma run_blocked:
  assumes "sequential p" and "run p e = (Yielded q, e1)"
  shows "sequential q \<and> run q e1 = (Yielded q, e1)"
  using assms
  by (induction p arbitrary: e) (fastforce split: sum.splits option.splits if_splits prod.splits)+

lemma extends_back:
  assumes "sequential p" and "run p e = (st, e1)" and "extends D e1"
  shows "extends D e"
  using run_keeps [OF assms(1,2)] assms(3) unfolding extends_def by (auto intro: prefix_order.trans)

lemma run_reloaded:
  assumes "sequential p" and "run p e = (Yielded q, e1)" and "indexed e" and "extends D e1"
  shows "run p (reloaded D e) = run q (reloaded D e1)"
  using assms
proof (induction p arbitrary: e)
  case (Compute f k)
  have "indexed (e\<lparr>vars := f (vars e)\<rparr>)" using Compute.prems by (auto intro: indexed_cong)
  with Compute.IH [OF rangeI, of _ "e\<lparr>vars := f (vars e)\<rparr>"] Compute.prems show ?case by auto
next
  case (ExecuteActivity ty arg opts k)
  then obtain inp i e2 where inp: "ToPayload arg = Inr inp" and sch: "ScheduleActivity ty inp opts e = (Inr i, e2)"
      and rest: "run (k i) e2 = (Yielded q, e1)" by (auto split: sum.splits prod.splits)
  have ki: "sequential (k i)" using ExecuteActivity.prems by simp
  have "extends D e2" by (rule extends_back [OF ki rest]) fact
  moreover have "indexed e2" using indexed_schedule(1) [OF ExecuteActivity.prems(3), of ty inp opts] sch by simp
  ultimately show ?case
    using inp reloaded_ScheduleActivity [OF _ sch] ExecuteActivity.IH [OF rangeI ki rest] ExecuteActivity.prems by simp
next
  case (GetActivity i k)
  show ?case
  proof (cases "activityOutcomes e i")
    case (Some out)
    have "activityOutcomes D i = Some out"
      using Some extends_back [OF GetActivity.prems(1,2,4)] by (auto simp: extends_def map_le_def dom_def)
    then show ?thesis using Some GetActivity.IH [OF rangeI] GetActivity.prems by simp
  qed (use GetActivity in auto)
next
  case (NewTimer d k)
  then obtain i e2 where sch: "ScheduleTimer d e = (Inr i, e2)" and rest: "run (k i) e2 = (Yielded q, e1)"
    by (auto split: sum.splits prod.splits)
  have ki: "sequential (k i)" using NewTimer.prems by simp
  have "extends D e2" by (rule extends_back [OF ki rest]) fact
  moreover have "indexed e2" using indexed_schedule(2) [OF NewTimer.prems(3), of d] sch by simp
  ultimately show ?case
    using reloaded_ScheduleTimer [OF _ sch] NewTimer.IH [OF rangeI ki rest] NewTimer.prems by simp
next
  case (GetTimer i k)
  show ?case
  proof (cases "firedTimers e i")
    case True
    then have "firedTimers D i" using extends_back [OF GetTimer.prems(1,2,4)] by (auto simp: extends_def)
    then show ?thesis using True GetTimer by simp
  qed (use GetTimer in auto)
next
  case (SetQueryHandler qt h k)
  have "indexed (e\<lparr>queryHandlers := (queryHandlers e)(qt \<mapsto> h)\<rparr>)" using SetQueryHandler.prems by (auto intro: indexed_cong)
  with SetQueryHandler.IH [of "e\<lparr>queryHandlers := (queryHandlers e)(qt \<mapsto> h)\<rparr>"] SetQueryHandler.prems show ?case by auto
qed auto

section \<open>Records behind the index\<close>

definition rerecord :: "scheduled_activity list \<Rightarrow> scheduled_timer list \<Rightarrow> 'v execution \<Rightarrow> 'v execution" where
  "rerecord A T e = e\<lparr>scheduledActivities := A, scheduledTimers := T\<rparr>"

lemma rerecord_simps [simp]:
  "scheduledActivities (rerecord A T e) = A" "scheduledTimers (rerecord A T e) = T"
  "activityOutcomes (rerecord A T e) = activityOutcomes e" "firedTimers (rerecord A T e) = firedTimers e"
  "nextActivityIdx (rerecord A T e) = nextActivityIdx e" "nextTimerIdx (rerecord A T e) = nextTimerIdx e"
  "vars (rerecord A T e) = vars e" "queryHandlers (rerecord A T e) = queryHandlers e"
  "coroutines (rerecord A T e) = coroutines e" "NewCommands (rerecord A T e) = NewCommands e"
  "rerecord A T (e\<lparr>vars := v\<rparr>) = (rerecord A T e)\<lparr>vars := v\<rparr>"
  "rerecord A T (e\<lparr>queryHandlers := q\<rparr>) = (rerecord A T e)\<lparr>queryHandlers := q\<rparr>"
  "rerecord A T (e\<lparr>nextActivityIdx := i\<rparr>) = (rerecord A T e)\<lparr>nextActivityIdx := i\<rparr>"
  "rerecord A T (e\<lparr>nextTimerIdx := i\<rparr>) = (rerecord A T e)\<lparr>nextTimerIdx := i\<rparr>"
  "rerecord A T (e\<lparr>coroutines := cs\<rparr>) = (rerecord A T e)\<lparr>coroutines := cs\<rparr>"
  "rerecord A T (add_command c e) = add_command c (rerecord A T e)"
  by (simp_all add: rerecord_def add_command_def)

lemma rerecord_returned: "workflow_returned r (rerecord A T e) = rerecord A T (workflow_returned r e)"
  by (cases r) (simp_all add: rerecord_def Complete_def ContinueAsNew_def Let_def add_command_def split: sum.split)

definition past_records :: "scheduled_activity list \<Rightarrow> scheduled_timer list \<Rightarrow> 'v execution \<Rightarrow> bool" where
  "past_records A T e \<longleftrightarrow> int (length A) \<le> nextActivityIdx e \<and> int (length T) \<le> nextTimerIdx e"

lemma rerecord_schedule:
  assumes "past_records A T e" and "past_records (scheduledActivities e) (scheduledTimers e) e"
  shows "ScheduleActivity ty inp opts (rerecord A T e) = map_prod id (rerecord A T) (ScheduleActivity ty inp opts e)"
    and "ScheduleTimer d (rerecord A T e) = map_prod id (rerecord A T) (ScheduleTimer d e)"
  using assms by (simp_all add: past_records_def ScheduleActivity_def ScheduleTimer_def Let_def)

lemma past_records_schedule:
  assumes "past_records A T e"
  shows "past_records A T (snd (ScheduleActivity ty inp opts e))" and "past_records A T (snd (ScheduleTimer d e))"
  using assms by (simp_all add: past_records_def schedule_next)

lemma schedule_records:
  "scheduledActivities (snd (ScheduleActivity ty inp opts e)) = scheduledActivities e"
  "scheduledTimers (snd (ScheduleActivity ty inp opts e)) = scheduledTimers e"
  "scheduledActivities (snd (ScheduleTimer d e)) = scheduledActivities e"
  "scheduledTimers (snd (ScheduleTimer d e)) = scheduledTimers e"
  by (auto simp: ScheduleActivity_def ScheduleTimer_def Let_def add_command_def)

lemma run_rerecord:
  assumes "sequential p" and "past_records A T e" and "past_records (scheduledActivities e) (scheduledTimers e) e"
  shows "run p (rerecord A T e) = map_prod id (rerecord A T) (run p e)"
  using assms
proof (induction p arbitrary: e)
  case (Compute f k)
  then show ?case using Compute.IH [OF rangeI, of _ "e\<lparr>vars := f (vars e)\<rparr>"] by (simp add: past_records_def)
next
  case (ExecuteActivity ty arg opts k)
  show ?case
  proof (cases "ToPayload arg")
    case (Inr inp)
    obtain r e1 where r: "ScheduleActivity ty inp opts e = (r, e1)" by fastforce
    have "past_records A T e1" "past_records (scheduledActivities e1) (scheduledTimers e1) e1"
      using past_records_schedule(1) [OF ExecuteActivity.prems(2), of ty inp opts]
        past_records_schedule(1) [OF ExecuteActivity.prems(3), of ty inp opts] schedule_records(1,2) [of ty inp opts e] r
      by simp_all
    then show ?thesis
      using ExecuteActivity.IH [OF rangeI, of _ e1] ExecuteActivity.prems Inr r
      by (cases r) (simp_all add: rerecord_schedule)
  qed simp
next
  case (NewTimer d k)
  obtain r e1 where r: "ScheduleTimer d e = (r, e1)" by fastforce
  have "past_records A T e1" "past_records (scheduledActivities e1) (scheduledTimers e1) e1"
    using past_records_schedule(2) [OF NewTimer.prems(2), of d] past_records_schedule(2) [OF NewTimer.prems(3), of d]
      schedule_records(3,4) [of d e] r by simp_all
  then show ?case
    using NewTimer.IH [OF rangeI, of _ e1] NewTimer.prems r by (cases r) (simp_all add: rerecord_schedule)
next
  case (SetQueryHandler qt h k)
  then show ?case using SetQueryHandler.IH [of "e\<lparr>queryHandlers := (queryHandlers e)(qt \<mapsto> h)\<rparr>"] by (simp add: past_records_def)
qed (auto simp: rerecord_returned split: option.split)

end
