(* ===== verification/Sticky.thy ===== *)
theory Sticky
  imports ReplayEquiv
begin

text \<open>
  Sticky execution: the runs of a worker that keeps executions in memory between tasks, mixes
  cache hits with full replays, and whose commands the server records.
\<close>

section \<open>Loading and running commute\<close>

lemma load_reloaded: "load_new_event (reloaded B e) ev = reloaded (load_new_event B ev) e"
  by (simp add: load_new_event_def reloaded_def split: event_attributes.split)

lemma load_rerecord: "load_new_event (rerecord A T e) ev = rerecord A T (load_new_event e ev)"
  by (simp add: load_new_event_def rerecord_def split: event_attributes.split)

lemma load_coroutines: "load_new_event (e\<lparr>coroutines := cs\<rparr>) ev = (load_new_event e ev)\<lparr>coroutines := cs\<rparr>"
  by (simp add: load_new_event_def split: event_attributes.split)

lemma LoadNewEvents_commute:
  "LoadNewEvents H (reloaded B e) = reloaded (LoadNewEvents H B) e"
  "LoadNewEvents H (rerecord A T e) = rerecord A T (LoadNewEvents H e)"
  "LoadNewEvents H (e\<lparr>coroutines := cs\<rparr>) = (LoadNewEvents H e)\<lparr>coroutines := cs\<rparr>"
  unfolding LoadNewEvents_def
  by (induction H arbitrary: e B) (simp_all add: load_reloaded load_rerecord load_coroutines)

lemma load_event_split:
  "load_event e ev = rerecord (scheduledActivities e @ activities_of [ev]) (scheduledTimers e @ timers_of [ev]) (load_new_event e ev)"
  by (simp add: load_event_def load_new_event_def rerecord_def activities_of_def timers_of_def split: event_attributes.split)

lemma load_new_event_records [simp]:
  "scheduledActivities (load_new_event e ev) = scheduledActivities e"
  "scheduledTimers (load_new_event e ev) = scheduledTimers e"
  by (simp_all add: load_new_event_def split: event_attributes.split)

lemma LoadNewEvents_records [simp]:
  "scheduledActivities (LoadNewEvents H e) = scheduledActivities e"
  "scheduledTimers (LoadNewEvents H e) = scheduledTimers e"
  unfolding LoadNewEvents_def by (induction H arbitrary: e) simp_all

lemma rerecord_rerecord [simp]: "rerecord A T (rerecord A' T' e) = rerecord A T e"
  by (simp add: rerecord_def)

lemma rerecord_same [simp]: "rerecord (scheduledActivities e) (scheduledTimers e) e = e"
  by (simp add: rerecord_def)

lemma LoadHistory_split:
  "snd (LoadHistory H e) = rerecord (scheduledActivities e @ activities_of H) (scheduledTimers e @ timers_of H) (LoadNewEvents H e)"
proof (induction H arbitrary: e)
  case Nil
  then show ?case by (simp add: LoadHistory_def LoadNewEvents_def activities_of_def timers_of_def)
next
  case (Cons ev H)
  have "snd (LoadHistory (ev # H) e) = snd (LoadHistory H (load_event e ev))" by (simp add: LoadHistory_def)
  also have "\<dots> = rerecord (scheduledActivities e @ activities_of (ev # H)) (scheduledTimers e @ timers_of (ev # H))
      (LoadNewEvents H (load_new_event e ev))"
    using Cons [of "load_event e ev"] by (simp add: load_event_split LoadNewEvents_commute activities_of_def timers_of_def)
  finally show ?case by (simp add: LoadNewEvents_def)
qed

lemma run_coroutines:
  assumes "sequential p"
  shows "run p (e\<lparr>coroutines := cs\<rparr>) = map_prod id (\<lambda>x. x\<lparr>coroutines := cs\<rparr>) (run p e)"
  using assms
proof (induction p arbitrary: e)
  case (Return r)
  show ?case by (cases r) (simp_all add: Complete_def ContinueAsNew_def Let_def add_command_def split: sum.split)
next
  case (Compute f k)
  have eq: "e\<lparr>coroutines := cs, vars := f (vars e)\<rparr> = e\<lparr>vars := f (vars e)\<rparr>\<lparr>coroutines := cs\<rparr>" by simp
  have v: "vars (e\<lparr>coroutines := cs\<rparr>) = vars e" by simp
  have "sequential (k (f (vars e)))" using Compute.prems by simp
  from Compute.IH [OF rangeI this, of "e\<lparr>vars := f (vars e)\<rparr>"] show ?case
    by (simp only: run.simps eq v)
next
  case (ExecuteActivity ty arg opts k)
  have sch: "ScheduleActivity ty inp opts (e\<lparr>coroutines := cs\<rparr>) = map_prod id (\<lambda>x. x\<lparr>coroutines := cs\<rparr>) (ScheduleActivity ty inp opts e)" for inp
    by (simp add: ScheduleActivity_def Let_def add_command_def)
  show ?case
    using ExecuteActivity by (auto simp: sch split: sum.split prod.split)
next
  case (NewTimer d k)
  have sch: "ScheduleTimer d (e\<lparr>coroutines := cs\<rparr>) = map_prod id (\<lambda>x. x\<lparr>coroutines := cs\<rparr>) (ScheduleTimer d e)"
    by (simp add: ScheduleTimer_def Let_def add_command_def)
  show ?case using NewTimer by (auto simp: sch split: sum.split prod.split)
next
  case (SetQueryHandler qt h k)
  let ?q = "(queryHandlers e)(qt \<mapsto> h)"
  have eq: "e\<lparr>coroutines := cs, queryHandlers := ?q\<rparr> = e\<lparr>queryHandlers := ?q\<rparr>\<lparr>coroutines := cs\<rparr>" by simp
  have h: "queryHandlers (e\<lparr>coroutines := cs\<rparr>) = queryHandlers e" by simp
  have "sequential k" using SetQueryHandler.prems by simp
  from SetQueryHandler.IH [OF this, of "e\<lparr>queryHandlers := ?q\<rparr>"] show ?case
    by (simp only: run.simps Execution_SetQueryHandler_def eq h)
qed (auto split: option.split)

lemma run_yielded_keeps:
  assumes "sequential p" and "run p e = (Yielded q, e1)"
  shows "Result e1 = Result e \<and> Err e1 = Err e \<and> ContinuedAsNew e1 = ContinuedAsNew e \<and> Now e1 = Now e \<and>
    cancelRequested e1 = cancelRequested e \<and> cancelReason e1 = cancelReason e \<and> pendingSignals e1 = pendingSignals e"
  using assms
proof (induction p arbitrary: e)
  case (ExecuteActivity ty arg opts k)
  then show ?case
    by (fastforce simp: ScheduleActivity_def Let_def add_command_def split: sum.splits if_splits)
next
  case (NewTimer d k)
  then show ?case by (fastforce simp: ScheduleTimer_def Let_def add_command_def split: if_splits)
qed (fastforce split: option.splits if_splits)+

section \<open>One coroutine\<close>

lemma ExecuteRound_single:
  assumes "coroutines e = [c]" and "\<not> co_done c" and "co_body c = User p" and "sequential p" and "run p e = (st, e')"
  shows "ExecuteRound e = e'\<lparr>coroutines := [settle st c]\<rparr>"
proof -
  have "coroutines e' = [c]" using run_keeps [OF assms(4,5)] assms(1) by simp
  with assms show ?thesis by (simp add: ExecuteRound_def resume_def)
qed

text \<open>A full replay: a new execution, the whole history, one round.\<close>

definition replay :: "'v prog \<Rightarrow> 'v \<Rightarrow> history_event list \<Rightarrow> 'v execution" where
  "replay p v H = ExecuteRound (Dispatcher_Go (User p) (snd (LoadHistory H (NewExecution v))))"

definition loaded :: "'v \<Rightarrow> history_event list \<Rightarrow> 'v execution" where
  "loaded v H = LoadNewEvents H (NewExecution v)"

definition started :: "'v prog \<Rightarrow> 'v \<Rightarrow> history_event list \<Rightarrow> 'v execution" where
  "started p v H = (rerecord (activities_of H) (timers_of H) (loaded v H))\<lparr>coroutines := [new_coroutine (User p)]\<rparr>"

lemma load_new_event_coroutines [simp]: "coroutines (load_new_event e ev) = coroutines e"
  by (simp add: load_new_event_def split: event_attributes.split)

lemma LoadNewEvents_coroutines [simp]: "coroutines (LoadNewEvents H e) = coroutines e"
  unfolding LoadNewEvents_def by (induction H arbitrary: e) simp_all

lemma started_eq: "Dispatcher_Go (User p) (snd (LoadHistory H (NewExecution v))) = started p v H"
  by (simp add: started_def loaded_def LoadHistory_split Dispatcher_Go_def) (simp add: NewExecution_def)

lemma loaded_fresh:
  "nextActivityIdx (loaded v H) = 0" "nextTimerIdx (loaded v H) = 0" "NewCommands (loaded v H) = []"
  "Result (loaded v H) = None" "Err (loaded v H) = None" "ContinuedAsNew (loaded v H) = None"
proof -
  have step: "nextActivityIdx (load_new_event e ev) = nextActivityIdx e" "nextTimerIdx (load_new_event e ev) = nextTimerIdx e"
      "NewCommands (load_new_event e ev) = NewCommands e" "Result (load_new_event e ev) = Result e"
      "Err (load_new_event e ev) = Err e" "ContinuedAsNew (load_new_event e ev) = ContinuedAsNew e" for e :: "'a execution" and ev
    by (simp_all add: load_new_event_def split: event_attributes.split)
  have "(nextActivityIdx (LoadNewEvents H e), nextTimerIdx (LoadNewEvents H e), NewCommands (LoadNewEvents H e),
        Result (LoadNewEvents H e), Err (LoadNewEvents H e), ContinuedAsNew (LoadNewEvents H e)) =
      (nextActivityIdx e, nextTimerIdx e, NewCommands e, Result e, Err e, ContinuedAsNew e)" for e :: "'a execution"
    unfolding LoadNewEvents_def using step by (induction H rule: rev_induct) simp_all
  from this [of "NewExecution v"]
  show "nextActivityIdx (loaded v H) = 0" "nextTimerIdx (loaded v H) = 0" "NewCommands (loaded v H) = []"
    "Result (loaded v H) = None" "Err (loaded v H) = None" "ContinuedAsNew (loaded v H) = None"
    by (simp_all add: loaded_def) (simp_all add: NewExecution_def)
qed

lemma started_indexed: "indexed (started p v H)"
  by (simp add: indexed_def started_def known_activities_def known_timers_def loaded_fresh)

lemma replay_single:
  assumes "sequential p" and "run p (started p v H) = (st, e')"
  shows "replay p v H = e'\<lparr>coroutines := [settle st (new_coroutine (User p))]\<rparr>"
  unfolding replay_def started_eq
  by (rule ExecuteRound_single) (use assms in \<open>simp_all add: started_def new_coroutine_def\<close>)

section \<open>Sticky runs\<close>

text \<open>The activities whose outcome a history records.\<close>

definition answered :: "history_event list \<Rightarrow> int set" where
  "answered H = (\<Union>ev \<in> set H. case Attributes ev of
     ActivityTaskCompleted i _ \<Rightarrow> {i} | ActivityTaskFailed i _ _ \<Rightarrow> {i} | _ \<Rightarrow> {})"

text \<open>
  \<open>sticky p v H e\<close>: a worker may hold \<open>e\<close> in its cache for a run of the code \<open>p\<close> with history \<open>H\<close>.
  It starts with a replay of a history without commands. A further task extends the history
  by what the server recorded since: the commands of the last response, in order, and other
  events, among them outcomes of activities that had none; the worker resumes the execution
  it holds (\<open>hit\<close>) or, at any time, replays (\<open>miss\<close>).
\<close>

inductive sticky :: "'v prog \<Rightarrow> 'v \<Rightarrow> history_event list \<Rightarrow> 'v execution \<Rightarrow> bool" for p v where
  first: "activities_of H = [] \<Longrightarrow> timers_of H = [] \<Longrightarrow> sticky p v H (replay p v H)"
| hit: "sticky p v H e \<Longrightarrow> \<not> AllDone e \<Longrightarrow> activities_of new = command_activities (NewCommands e) \<Longrightarrow>
    timers_of new = command_timers (NewCommands e) \<Longrightarrow> answered H \<inter> answered new = {} \<Longrightarrow>
    sticky p v (H @ new) (ExecuteRound (LoadNewEvents new (ResetRoundOutput e)))"
| miss: "sticky p v H e \<Longrightarrow> sticky p v H (replay p v H)"

lemma answered_simps [simp]: "answered [] = {}" "answered (H @ H') = answered H \<union> answered H'"
  by (simp_all add: answered_def)

lemma load_other_outcome: "i \<notin> answered [ev] \<Longrightarrow> activityOutcomes (load_new_event e ev) i = activityOutcomes e i"
  by (cases "Attributes ev") (simp_all add: answered_def load_new_event_def)

lemma LoadNewEvents_snoc: "LoadNewEvents (H @ [ev]) e = load_new_event (LoadNewEvents H e) ev"
  by (simp add: LoadNewEvents_def)

lemma outcomes_extend: "i \<notin> answered new \<Longrightarrow> activityOutcomes (LoadNewEvents new e) i = activityOutcomes e i"
  by (induction new rule: rev_induct) (simp_all add: LoadNewEvents_snoc load_other_outcome, simp add: LoadNewEvents_def)

lemma outcomes_answered: "activityOutcomes (LoadNewEvents H (NewExecution v)) i \<noteq> None \<Longrightarrow> i \<in> answered H"
  using outcomes_extend [of i H "NewExecution v"] by (cases "i \<in> answered H") (simp_all add: NewExecution_def)

lemma fired_extend: "firedTimers e i \<Longrightarrow> firedTimers (LoadNewEvents new e) i"
proof (induction new rule: rev_induct)
  case (snoc ev new)
  then show ?case by (cases "Attributes ev") (simp_all add: LoadNewEvents_snoc load_new_event_def)
qed (simp add: LoadNewEvents_def)

text \<open>Every recorded call has been made again, and the next call is a new one.\<close>

definition caught_up :: "history_event list \<Rightarrow> 'v execution \<Rightarrow> bool" where
  "caught_up H e \<longleftrightarrow>
     nextActivityIdx e = int (length (activities_of H) + length (command_activities (NewCommands e))) \<and>
     nextTimerIdx e = int (length (timers_of H) + length (command_timers (NewCommands e))) \<and>
     past_records (scheduledActivities e) (scheduledTimers e) e"

lemma reloaded_started:
  "reloaded (rerecord (activities_of H') (timers_of H') (loaded v H')) (started p v H) = started p v H'"
proof -
  have ev: "reloaded D (load_new_event e ev) = reloaded D e" for D e :: "'a execution" and ev
    by (simp add: load_new_event_def reloaded_def split: event_attributes.split)
  have "reloaded D (LoadNewEvents H e) = reloaded D e" for D e :: "'a execution" and H
    by (induction H rule: rev_induct) (simp_all add: LoadNewEvents_snoc ev, simp add: LoadNewEvents_def)
  then have l: "reloaded D (loaded v H) = reloaded D (NewExecution v)" for D :: "'a execution" and H
    by (simp add: loaded_def)
  have r: "reloaded D (rerecord A T e) = reloaded D e" for A T and D e :: "'a execution"
    by (simp add: reloaded_def rerecord_def)
  have self: "reloaded e e = e" if "NewCommands e = []" for e :: "'a execution"
    using that by (simp add: reloaded_def)
  let ?D = "rerecord (activities_of H') (timers_of H') (loaded v H')"
  have "reloaded ?D (rerecord A T (loaded v H)) = reloaded ?D ?D" for A T by (simp add: l r)
  also have "\<dots> = ?D" by (rule self) (simp add: loaded_fresh)
  finally show ?thesis by (simp add: started_def)
qed

lemma loaded_append: "loaded v (H @ new) = LoadNewEvents new (loaded v H)"
  by (simp add: loaded_def LoadNewEvents_def)

lemma settle_AllDone [simp]:
  "AllDone (e\<lparr>coroutines := [settle st (new_coroutine b)]\<rparr>) \<longleftrightarrow> (\<forall>q. st \<noteq> Yielded q)"
  by (cases st) (simp_all add: AllDone_def new_coroutine_def)

lemma settle_body: "settle st (new_coroutine b) = settle st (new_coroutine b')"
  by (cases st) (simp_all add: new_coroutine_def)

lemma started_records [simp]:
  "scheduledActivities (started p v H) = activities_of H" "scheduledTimers (started p v H) = timers_of H"
  "activityOutcomes (started p v H) = activityOutcomes (loaded v H)" "firedTimers (started p v H) = firedTimers (loaded v H)"
  by (simp_all add: started_def)

lemma caught_up_run:
  assumes "sequential q" and "run q e = (st, e')" and "indexed e" and "past_records (activities_of H) (timers_of H) e"
    and "scheduledActivities e = activities_of H" and "scheduledTimers e = timers_of H" and "past_records A T e"
  shows "caught_up H (rerecord A T e')"
proof -
  have "past_records A T e' \<and> past_records (activities_of H) (timers_of H) e' \<and> indexed e'"
    using run_indexed [OF assms(1-3)] assms(4,7) by (auto simp: past_records_def)
  then show ?thesis
    using run_keeps [OF assms(1,2)] assms(5,6)
    by (auto simp: caught_up_def indexed_def past_records_def known_activities_def known_timers_def)
qed

lemma extends_started:
  assumes "sequential p" and "run p (started p v H) = (st, e1)" and "answered H \<inter> answered new = {}"
    and "activities_of new = command_activities (NewCommands e1)" and "timers_of new = command_timers (NewCommands e1)"
  shows "extends (rerecord (activities_of (H @ new)) (timers_of (H @ new)) (loaded v (H @ new))) e1"
proof -
  note k = run_keeps [OF assms(1,2)]
  have "activityOutcomes (loaded v H) \<subseteq>\<^sub>m activityOutcomes (loaded v (H @ new))"
  proof (rule map_le_def [THEN iffD2], rule ballI)
    fix i assume "i \<in> dom (activityOutcomes (loaded v H))"
    then have "i \<in> answered H" using outcomes_answered [of H v i] by (auto simp: loaded_def)
    with assms(3) have "i \<notin> answered new" by auto
    then show "activityOutcomes (loaded v H) i = activityOutcomes (loaded v (H @ new)) i"
      using outcomes_extend [of i new "loaded v H"] by (simp add: loaded_append)
  qed
  with k assms(4,5) fired_extend [of "loaded v H" _ new] show ?thesis
    by (auto simp: extends_def known_activities_def known_timers_def loaded_append)
qed

lemma reset_yielded:
  assumes "sequential p" and "run p (started p v H) = (Yielded q, e1)"
  shows "ResetRoundOutput (e1\<lparr>coroutines := cs\<rparr>) =
    (reloaded (rerecord (activities_of H) (timers_of H) (loaded v H)) e1)\<lparr>coroutines := cs\<rparr>"
proof -
  let ?B = "rerecord (activities_of H) (timers_of H) (loaded v H)"
  have s: "Result (started p v H) = None" "Err (started p v H) = None" "ContinuedAsNew (started p v H) = None"
      "Now (started p v H) = Now ?B" "cancelRequested (started p v H) = cancelRequested ?B"
      "cancelReason (started p v H) = cancelReason ?B" "pendingSignals (started p v H) = pendingSignals ?B"
    by (simp_all add: started_def rerecord_def loaded_fresh)
  show ?thesis
    using run_yielded_keeps [OF assms] run_keeps [OF assms] s by (simp add: ResetRoundOutput_def reloaded_def)
qed

lemma sticky_hit:
  assumes p: "sequential p" and rep: "replay p v H = rerecord (activities_of H) (timers_of H) e"
    and up: "caught_up H e" and nd: "\<not> AllDone e" and recs: "activities_of new = command_activities (NewCommands e)"
    "timers_of new = command_timers (NewCommands e)" and fresh: "answered H \<inter> answered new = {}"
    and e': "e' = ExecuteRound (LoadNewEvents new (ResetRoundOutput e))"
  shows "replay p v (H @ new) = rerecord (activities_of (H @ new)) (timers_of (H @ new)) e' \<and> caught_up (H @ new) e'"
proof -
  let ?A = "activities_of (H @ new)" and ?T = "timers_of (H @ new)"
  let ?D = "rerecord ?A ?T (loaded v (H @ new))" and ?Ae = "scheduledActivities e" and ?Te = "scheduledTimers e"
  obtain st e1 where run1: "run p (started p v H) = (st, e1)" by fastforce
  note R = replay_single [OF p run1]
  have "\<not> AllDone (replay p v H)" using nd rep by (simp add: AllDone_def)
  then obtain q where st: "st = Yielded q" using R by auto
  note run1 = run1 [unfolded st] and R = R [unfolded st]
  let ?cs = "[settle (Yielded q) (new_coroutine (User p))]"
  have q: "sequential q" using run_blocked [OF p run1] by simp
  have "rerecord ?Ae ?Te (replay p v H) = e" using rep by simp
  then have e: "e = rerecord ?Ae ?Te (e1\<lparr>coroutines := ?cs\<rparr>)" by (simp add: R)
  then have ce: "NewCommands e = NewCommands e1" "nextActivityIdx e = nextActivityIdx e1" "nextTimerIdx e = nextTimerIdx e1"
    using arg_cong [OF rep, of NewCommands] arg_cong [OF rep, of nextActivityIdx] arg_cong [OF rep, of nextTimerIdx]
    by (simp_all add: R)
  have run2: "run p (started p v (H @ new)) = run q (reloaded ?D e1)"
    by (subst reloaded_started [symmetric], rule run_reloaded [OF p run1 started_indexed extends_started [OF p run1 fresh]])
      (use recs ce(1) in simp_all)
  obtain st2 e2 where r2: "run q (reloaded ?D e1) = (st2, e2)" by fastforce
  have k2: "scheduledActivities e2 = ?A" "scheduledTimers e2 = ?T" using run_keeps [OF q r2] by simp_all
  have past: "past_records ?A ?T (reloaded ?D e1)" "past_records ?Ae ?Te (reloaded ?D e1)"
    using up recs ce by (simp_all add: past_records_def caught_up_def)
  let ?M = "LoadNewEvents new (ResetRoundOutput e)"
  have "ResetRoundOutput e = rerecord ?Ae ?Te (ResetRoundOutput (e1\<lparr>coroutines := ?cs\<rparr>))"
    by (subst e) (simp add: ResetRoundOutput_def rerecord_def)
  also have "LoadNewEvents new \<dots> = rerecord ?Ae ?Te ((reloaded ?D e1)\<lparr>coroutines := ?cs\<rparr>)"
    unfolding reset_yielded [OF p run1] LoadNewEvents_commute loaded_append [symmetric] by (simp add: reloaded_def rerecord_def)
  finally have M: "?M = rerecord ?Ae ?Te ((reloaded ?D e1)\<lparr>coroutines := ?cs\<rparr>)" .
  have "run q ?M = (st2, rerecord ?Ae ?Te (e2\<lparr>coroutines := ?cs\<rparr>))"
  proof -
    have "run q ?M = map_prod id (rerecord ?Ae ?Te) (run q ((reloaded ?D e1)\<lparr>coroutines := ?cs\<rparr>))"
      unfolding M by (rule run_rerecord [OF q]) (use past in \<open>simp_all add: past_records_def\<close>)
    then show ?thesis unfolding run_coroutines [OF q] r2 by simp
  qed
  then have "e' = (rerecord ?Ae ?Te (e2\<lparr>coroutines := ?cs\<rparr>))\<lparr>coroutines := [settle st2 (settle (Yielded q) (new_coroutine (User p)))]\<rparr>"
    unfolding e' by (intro ExecuteRound_single [OF _ _ _ q]) (simp_all add: M new_coroutine_def)
  then have e'2: "e' = rerecord ?Ae ?Te (e2\<lparr>coroutines := [settle st2 (new_coroutine (User q))]\<rparr>)"
    by (simp add: rerecord_def new_coroutine_def)
  have "replay p v (H @ new) = e2\<lparr>coroutines := [settle st2 (new_coroutine (User p))]\<rparr>"
    using replay_single [OF p] run2 r2 by simp
  also have "\<dots> = rerecord ?A ?T e'" using k2 by (simp add: e'2 settle_body [of st2 "User p" "User q"]) (simp add: rerecord_def)
  finally have "replay p v (H @ new) = rerecord ?A ?T e'" .
  moreover have "indexed (reloaded ?D e1)"
    using up recs ce by (simp add: indexed_def known_activities_def known_timers_def caught_up_def)
  from caught_up_run [OF q r2 this past(1) _ _ past(2)] have "caught_up (H @ new) (rerecord ?Ae ?Te e2)" by simp
  then have "caught_up (H @ new) e'" by (simp add: caught_up_def past_records_def e'2)
  ultimately show ?thesis by simp
qed

lemma sticky_invariant:
  assumes "sticky p v H e" and p: "sequential p"
  shows "replay p v H = rerecord (activities_of H) (timers_of H) e \<and> (\<not> AllDone e \<longrightarrow> caught_up H e)"
  using assms(1)
proof (induction rule: sticky.induct)
  case (first H)
  obtain st e1 where run1: "run p (started p v H) = (st, e1)" by fastforce
  have "past_records [] [] (started p v H)" using started_indexed [of p v H] by (simp add: indexed_def past_records_def)
  with first caught_up_run [OF p run1 started_indexed, of H "[]" "[]"] run_keeps [OF p run1] show ?case
    by (simp add: replay_single [OF p run1] rerecord_def caught_up_def past_records_def)
next
  case (hit H e new)
  then have "replay p v H = rerecord (activities_of H) (timers_of H) e" "caught_up H e" by simp_all
  from sticky_hit [OF p this hit.hyps(2-5) refl] show ?case by blast
next
  case (miss H e)
  obtain st e1 where run1: "run p (started p v H) = (st, e1)" by fastforce
  have self: "rerecord (activities_of H) (timers_of H) (replay p v H) = replay p v H"
    using run_keeps [OF p run1] by (simp add: replay_single [OF p run1] rerecord_def)
  from miss.IH have rep: "replay p v H = rerecord (activities_of H) (timers_of H) e" by simp
  moreover have "caught_up H (replay p v H)" if "\<not> AllDone (replay p v H)"
  proof -
    have "caught_up H e" using miss.IH that rep by (simp add: AllDone_def)
    then show ?thesis by (simp add: rep caught_up_def past_records_def)
  qed
  ultimately show ?case using self by simp
qed

end
