(* ===== verification/ExecCache.thy ===== *)
theory ExecCache
  imports Prelude
begin

text \<open>
  \<^verbatim>\<open>sdk/worker/cache.go\<close>: the bounded LRU cache of executions. The doubly linked list of
  \<^verbatim>\<open>container/list\<close> is its sequence of element addresses, front first; an element's entry is
  stored under its address, and the map holds addresses, as the code's map holds elements.
\<close>

record exec_cache_key =
  WorkflowID :: string
  RunID :: string

record 'x cache_entry =
  ce_key :: exec_cache_key
  ce_value :: 'x

record 'x execution_cache =
  capacity :: int
  ll :: "nat list"
  elements :: "nat \<Rightarrow> 'x cache_entry"
  items :: "exec_cache_key \<Rightarrow> nat option"
  next_addr :: nat

definition newExecutionCache :: "int \<Rightarrow> 'x execution_cache" where
  "newExecutionCache cap = \<lparr>capacity = cap, ll = [], elements = (\<lambda>_. undefined), items = (\<lambda>_. None), next_addr = 0\<rparr>"

text \<open>The operations of \<^verbatim>\<open>container/list\<close> the cache uses.\<close>

definition MoveToFront :: "nat \<Rightarrow> nat list \<Rightarrow> nat list" where
  "MoveToFront a xs = a # remove1 a xs"

definition cache_get :: "exec_cache_key \<Rightarrow> 'x execution_cache \<Rightarrow> 'x option \<times> 'x execution_cache" where
  "cache_get key c = (case items c key of
     None \<Rightarrow> (None, c)
   | Some el \<Rightarrow> (Some (ce_value (elements c el)), c\<lparr>ll := MoveToFront el (ll c)\<rparr>))"

definition cache_put :: "exec_cache_key \<Rightarrow> 'x \<Rightarrow> 'x execution_cache \<Rightarrow> 'x execution_cache" where
  "cache_put key value c = (case items c key of
     Some el \<Rightarrow> c\<lparr>ll := MoveToFront el (ll c), elements := (elements c)(el := (elements c el)\<lparr>ce_value := value\<rparr>)\<rparr>
   | None \<Rightarrow>
      (let el = next_addr c;
           c1 = c\<lparr>ll := el # ll c, elements := (elements c)(el := \<lparr>ce_key = key, ce_value = value\<rparr>), next_addr := el + 1,
                  items := (items c)(key := Some el)\<rparr>
       in if int (length (ll c1)) > capacity c1
          then (let oldest = last (ll c1)
                in c1\<lparr>ll := remove1 oldest (ll c1), items := (items c1)(ce_key (elements c1 oldest) := None)\<rparr>)
          else c1))"

definition cache_delete :: "exec_cache_key \<Rightarrow> 'x execution_cache \<Rightarrow> 'x execution_cache" where
  "cache_delete key c = (case items c key of
     None \<Rightarrow> c
   | Some el \<Rightarrow> c\<lparr>ll := remove1 el (ll c), items := (items c)(key := None)\<rparr>)"

definition cache_len :: "'x execution_cache \<Rightarrow> nat" where
  "cache_len c = length (ll c)"

section \<open>Representation invariant and abstraction\<close>

text \<open>
  The map sends each key to the one element of the list that holds it; addresses are allocated
  in order; a positive capacity is respected.
\<close>

definition cache_ok :: "'x execution_cache \<Rightarrow> bool" where
  "cache_ok c \<longleftrightarrow> distinct (ll c) \<and> (\<forall>a \<in> set (ll c). a < next_addr c) \<and>
     (\<forall>k a. items c k = Some a \<longleftrightarrow> a \<in> set (ll c) \<and> ce_key (elements c a) = k) \<and>
     0 < capacity c \<and> int (length (ll c)) \<le> capacity c"

text \<open>The contents in order of use, and as a map.\<close>

definition recency :: "'x execution_cache \<Rightarrow> (exec_cache_key \<times> 'x) list" where
  "recency c = map (\<lambda>a. (ce_key (elements c a), ce_value (elements c a))) (ll c)"

definition contents :: "'x execution_cache \<Rightarrow> exec_cache_key \<Rightarrow> 'x option" where
  "contents c k = map_option (\<lambda>a. ce_value (elements c a)) (items c k)"

text \<open>The specification: a list of pairs, most recently used first.\<close>

definition spec_touch :: "exec_cache_key \<Rightarrow> 'x \<Rightarrow> (exec_cache_key \<times> 'x) list \<Rightarrow> (exec_cache_key \<times> 'x) list" where
  "spec_touch k x l = (k, x) # filter (\<lambda>p. fst p \<noteq> k) l"

definition spec_put :: "nat \<Rightarrow> exec_cache_key \<Rightarrow> 'x \<Rightarrow> (exec_cache_key \<times> 'x) list \<Rightarrow> (exec_cache_key \<times> 'x) list" where
  "spec_put cap k x l = take cap (spec_touch k x l)"

lemma cache_okD:
  assumes "cache_ok c"
  shows "distinct (ll c)" and "a \<in> set (ll c) \<Longrightarrow> a < next_addr c"
    and "items c k = Some a \<longleftrightarrow> a \<in> set (ll c) \<and> ce_key (elements c a) = k"
    and "int (length (ll c)) \<le> capacity c" and "0 < capacity c"
  using assms by (auto simp: cache_ok_def)

lemma new_cache_ok: "0 < cap \<Longrightarrow> cache_ok (newExecutionCache cap)"
  by (simp add: cache_ok_def newExecutionCache_def)

lemma set_remove1_distinct: "distinct xs \<Longrightarrow> set (remove1 a xs) = set xs - {a}"
  by (simp add: set_remove1_eq)

lemma set_MoveToFront: "distinct xs \<Longrightarrow> a \<in> set xs \<Longrightarrow> set (MoveToFront a xs) = set xs"
  by (auto simp: MoveToFront_def)

lemma distinct_MoveToFront: "distinct xs \<Longrightarrow> distinct (MoveToFront a xs)"
  by (simp add: MoveToFront_def)

lemma length_MoveToFront: "a \<in> set xs \<Longrightarrow> length (MoveToFront a xs) = length xs"
  by (cases xs) (auto simp: MoveToFront_def length_remove1 intro: Suc_pred length_pos_if_in_set)

lemma cache_get_ok:
  assumes "cache_ok c"
  shows "cache_ok (snd (cache_get k c))"
proof (cases "items c k")
  case (Some el)
  then have "el \<in> set (ll c)" using cache_okD(3) [OF assms] by simp
  moreover have "snd (cache_get k c) = c\<lparr>ll := MoveToFront el (ll c)\<rparr>" by (simp add: cache_get_def Some)
  ultimately show ?thesis
    using assms by (simp add: cache_ok_def set_MoveToFront distinct_MoveToFront length_MoveToFront)
qed (simp add: cache_get_def assms)

lemma cache_delete_ok:
  assumes "cache_ok c"
  shows "cache_ok (cache_delete k c)"
proof (cases "items c k")
  case (Some el)
  note ok = cache_okD [OF assms]
  from Some ok(3) have el: "el \<in> set (ll c)" "ce_key (elements c el) = k" by auto
  have "ce_key (elements c a) \<noteq> k" if "a \<in> set (ll c)" "a \<noteq> el" for a
    using ok(3) [of k a] that Some by auto
  with el show ?thesis
    using ok by (auto simp: cache_delete_def Some cache_ok_def set_remove1_distinct length_remove1)
qed (simp add: cache_delete_def assms)

text \<open>The two shapes of a put of a new key: with room, and with an eviction.\<close>

definition pushed :: "exec_cache_key \<Rightarrow> 'x \<Rightarrow> 'x execution_cache \<Rightarrow> 'x execution_cache" where
  "pushed k x c = c\<lparr>ll := next_addr c # ll c, elements := (elements c)(next_addr c := \<lparr>ce_key = k, ce_value = x\<rparr>),
     next_addr := next_addr c + 1, items := (items c)(k := Some (next_addr c))\<rparr>"

lemma cache_put_cases [consumes 1, case_names refresh room evict]:
  assumes "cache_ok c"
  obtains (refresh) el where "items c k = Some el" "el \<in> set (ll c)" "ce_key (elements c el) = k"
      "cache_put k x c = c\<lparr>ll := MoveToFront el (ll c), elements := (elements c)(el := (elements c el)\<lparr>ce_value := x\<rparr>)\<rparr>"
  | (room) "items c k = None" "int (length (ll c)) < capacity c" "cache_put k x c = pushed k x c"
  | (evict) xs a where "items c k = None" "ll c = xs @ [a]" "int (length (ll c)) = capacity c"
      "cache_put k x c = (pushed k x c)\<lparr>ll := next_addr c # xs, items := (items c)(k := Some (next_addr c), ce_key (elements c a) := None)\<rparr>"
proof (cases "items c k")
  case (Some el)
  then show ?thesis using cache_okD(3) [OF assms, of k el] by (intro refresh [of el]) (simp_all add: cache_put_def)
next
  case None
  note ok = cache_okD [OF assms]
  show ?thesis
  proof (cases "int (length (ll c)) < capacity c")
    case True
    then show ?thesis using None by (intro room) (simp_all add: cache_put_def pushed_def Let_def)
  next
    case False
    with ok(4,5) have full: "int (length (ll c)) = capacity c" "ll c \<noteq> []" by auto
    then obtain xs a where xs: "ll c = xs @ [a]" by (cases "ll c" rule: rev_cases) auto
    then have "a \<noteq> next_addr c" "a \<notin> set xs" using ok(1) ok(2) [of a] by auto
    with None False xs show ?thesis
      by (intro evict [OF None xs full(1)]) (simp add: cache_put_def pushed_def Let_def remove1_append)
  qed
qed

lemma cache_put_ok:
  assumes "cache_ok c"
  shows "cache_ok (cache_put k x c)"
proof -
  note ok = cache_okD [OF assms]
  have new: "next_addr c \<notin> set (ll c)" using ok(2) by auto
  from assms show ?thesis
  proof (cases rule: cache_put_cases [where k = k and x = x])
    case (refresh el)
    then show ?thesis
      using assms by (auto simp: cache_ok_def set_MoveToFront distinct_MoveToFront length_MoveToFront)
  next
    case room
    have "ce_key (elements c a) \<noteq> k" if "a \<in> set (ll c)" for a using ok(3) [of k a] room(1) that by auto
    with room new assms show ?thesis by (auto simp: cache_ok_def pushed_def less_Suc_eq)
  next
    case (evict xs a)
    have k: "ce_key (elements c b) \<noteq> k" if "b \<in> set (ll c)" for b using ok(3) [of k b] evict(1) that by auto
    have d: "ce_key (elements c b) \<noteq> ce_key (elements c a)" if "b \<in> set xs" for b
      using ok(1) ok(3) [of "ce_key (elements c a)" a] ok(3) [of "ce_key (elements c a)" b] evict(2) that by auto
    have "a \<notin> set xs" "distinct xs" using ok(1) evict(2) by auto
    with evict new assms k d show ?thesis by (auto simp: cache_ok_def pushed_def less_Suc_eq)
  qed
qed

lemma recency_distinct: "cache_ok c \<Longrightarrow> distinct (map fst (recency c))"
  unfolding recency_def map_map comp_def fst_conv distinct_map
  using cache_okD(1,3) [of c] by (auto simp: inj_on_def) (metis option.inject)

lemma recency_contents:
  assumes "cache_ok c"
  shows "contents c = map_of (recency c)"
proof
  fix k
  show "contents c k = map_of (recency c) k"
  proof (cases "items c k")
    case None
    then have "k \<notin> fst ` set (recency c)" using cache_okD(3) [OF assms, of k] by (fastforce simp: recency_def)
    then show ?thesis by (simp add: contents_def None) (metis map_of_eq_None_iff)
  next
    case (Some a)
    then have "a \<in> set (ll c)" "ce_key (elements c a) = k" using cache_okD(3) [OF assms] by auto
    then have "(k, ce_value (elements c a)) \<in> set (recency c)" by (auto simp: recency_def)
    with recency_distinct [OF assms] show ?thesis by (simp add: contents_def Some)
  qed
qed

section \<open>Refinement\<close>

lemma recency_move:
  assumes "cache_ok c" and "items c k = Some el" and "elements' = (elements c)(el := (elements c el)\<lparr>ce_value := x\<rparr>)"
  shows "map (\<lambda>a. (ce_key (elements' a), ce_value (elements' a))) (MoveToFront el (ll c)) = spec_touch k x (recency c)"
proof -
  note ok = cache_okD [OF assms(1)]
  from assms(2) ok(3) have el: "el \<in> set (ll c)" "ce_key (elements c el) = k" by auto
  have other: "a = el \<longleftrightarrow> ce_key (elements c a) = k" if "a \<in> set (ll c)" for a
    using ok(3) [of k a] assms(2) that by auto
  have "map (\<lambda>a. (ce_key (elements' a), ce_value (elements' a))) (remove1 el (ll c)) =
      map (\<lambda>a. (ce_key (elements c a), ce_value (elements c a))) (filter (\<lambda>a. a \<noteq> el) (ll c))"
    using ok(1) by (auto simp: distinct_remove1_removeAll removeAll_filter_not_eq assms(3) intro!: map_cong filter_cong)
  also have "filter (\<lambda>a. a \<noteq> el) (ll c) = filter (\<lambda>a. ce_key (elements c a) \<noteq> k) (ll c)"
    using other by (auto intro: filter_cong)
  finally show ?thesis
    by (simp add: MoveToFront_def spec_touch_def recency_def filter_map comp_def assms(3) el(2))
qed

lemma recency_get:
  assumes "cache_ok c"
  shows "recency (snd (cache_get k c)) = (case map_of (recency c) k of None \<Rightarrow> recency c | Some x \<Rightarrow> spec_touch k x (recency c))"
    and "fst (cache_get k c) = map_of (recency c) k"
proof -
  have c: "map_of (recency c) k = contents c k" by (simp add: recency_contents [OF assms])
  show "fst (cache_get k c) = map_of (recency c) k"
    unfolding c by (simp add: cache_get_def contents_def split: option.split)
  show "recency (snd (cache_get k c)) = (case map_of (recency c) k of None \<Rightarrow> recency c | Some x \<Rightarrow> spec_touch k x (recency c))"
  proof (cases "items c k")
    case (Some el)
    from recency_move [OF assms Some, of "elements c" "ce_value (elements c el)"]
    show ?thesis unfolding c by (simp add: cache_get_def contents_def Some recency_def)
  qed (simp add: c cache_get_def contents_def)
qed

lemma recency_put:
  assumes "cache_ok c"
  shows "recency (cache_put k x c) = spec_put (nat (capacity c)) k x (recency c)"
proof -
  note ok = cache_okD [OF assms]
  have len: "length (recency c) = length (ll c)" by (simp add: recency_def)
  have keys: "filter (\<lambda>p. fst p \<noteq> k) (recency c) = recency c" if "items c k = None"
    using that ok(3) [of k] by (fastforce simp: recency_def filter_id_conv)
  have old: "map (\<lambda>a. (ce_key (((elements c)(next_addr c := e)) a), ce_value (((elements c)(next_addr c := e)) a))) as =
      map (\<lambda>a. (ce_key (elements c a), ce_value (elements c a))) as" if "set as \<subseteq> set (ll c)" for e as
    using that ok(2) by auto
  from assms show ?thesis
  proof (cases rule: cache_put_cases [where k = k and x = x])
    case (refresh el)
    have "length (spec_touch k x (recency c)) = length (ll c)"
      using recency_move [OF assms refresh(1) refl, of x, THEN arg_cong [of _ _ length]] length_MoveToFront [OF refresh(2)] by simp
    with ok(4) recency_move [OF assms refresh(1) refl, of x] show ?thesis
      by (simp add: spec_put_def refresh(4)) (simp add: recency_def)
  next
    case room
    with keys len old [of "ll c"] show ?thesis by (simp add: spec_put_def spec_touch_def pushed_def) (simp add: recency_def)
  next
    case (evict xs a)
    have n: "nat (capacity c) = Suc (length xs)" using evict(2,3) by auto
    have r: "recency c = map (\<lambda>a. (ce_key (elements c a), ce_value (elements c a))) xs @ [(ce_key (elements c a), ce_value (elements c a))]"
      using evict(2) by (simp add: recency_def)
    have "next_addr c \<notin> set xs" using ok(2) [of "next_addr c"] evict(2) by auto
    then show ?thesis
      using keys [OF evict(1)] evict(2) n
      by (simp add: spec_put_def spec_touch_def evict(4) pushed_def r) (simp add: recency_def)
  qed
qed

lemma recency_delete:
  assumes "cache_ok c"
  shows "recency (cache_delete k c) = filter (\<lambda>p. fst p \<noteq> k) (recency c)"
proof (cases "items c k")
  case None
  then show ?thesis
    using cache_okD(3) [OF assms, of k] by (fastforce simp: cache_delete_def recency_def filter_id_conv)
next
  case (Some el)
  note ok = cache_okD [OF assms]
  have "a = el \<longleftrightarrow> ce_key (elements c a) = k" if "a \<in> set (ll c)" for a
    using ok(3) [of k a] Some that by auto
  then have "remove1 el (ll c) = filter (\<lambda>a. ce_key (elements c a) \<noteq> k) (ll c)"
    using ok(1) by (auto simp: distinct_remove1_removeAll removeAll_filter_not_eq intro: filter_cong)
  then show ?thesis by (simp add: cache_delete_def Some recency_def filter_map comp_def)
qed

section \<open>The interface the worker relies on\<close>

text \<open>
  What \<open>processWorkflowTask\<close> needs of the cache: it may forget entries, but what it returns was
  put under that key and not deleted or replaced since.
\<close>

locale forgetful_map =
  fixes ok :: "'c \<Rightarrow> bool"
    and lookup :: "'c \<Rightarrow> 'k \<Rightarrow> 'x option"
    and get :: "'k \<Rightarrow> 'c \<Rightarrow> 'x option \<times> 'c"
    and put :: "'k \<Rightarrow> 'x \<Rightarrow> 'c \<Rightarrow> 'c"
    and del :: "'k \<Rightarrow> 'c \<Rightarrow> 'c"
  assumes get_fst: "ok c \<Longrightarrow> fst (get k c) = lookup c k"
    and get_snd: "ok c \<Longrightarrow> lookup (snd (get k c)) = lookup c"
    and put_submap: "ok c \<Longrightarrow> lookup (put k x c) \<subseteq>\<^sub>m (lookup c)(k \<mapsto> x)"
    and del_eq: "ok c \<Longrightarrow> lookup (del k c) = (lookup c)(k := None)"
    and get_ok: "ok c \<Longrightarrow> ok (snd (get k c))"
    and put_ok: "ok c \<Longrightarrow> ok (put k x c)"
    and del_ok: "ok c \<Longrightarrow> ok (del k c)"
begin

definition all_entries :: "('k \<Rightarrow> 'x \<Rightarrow> bool) \<Rightarrow> 'c \<Rightarrow> bool" where
  "all_entries P c \<longleftrightarrow> ok c \<and> (\<forall>k x. lookup c k = Some x \<longrightarrow> P k x)"

lemma all_entries_getD: "all_entries P c \<Longrightarrow> get k c = (Some x, c') \<Longrightarrow> P k x \<and> all_entries P c'"
  using get_fst [of c k] get_snd [of c k] get_ok [of c k] by (auto simp: all_entries_def)

lemma all_entries_get: "all_entries P c \<Longrightarrow> all_entries P (snd (get k c))"
  using get_snd [of c k] get_ok [of c k] by (auto simp: all_entries_def)

lemma put_lookup:
  assumes "ok c" and "lookup (put k x c) j = Some y"
  shows "if j = k then y = x else lookup c j = Some y"
proof -
  have "((lookup c)(k \<mapsto> x)) j = Some y"
    using put_submap [OF assms(1), of k x] assms(2) unfolding map_le_def by (metis domI)
  then show ?thesis by (simp split: if_splits)
qed

lemma all_entries_put: "all_entries P c \<Longrightarrow> P k x \<Longrightarrow> all_entries P (put k x c)"
  using put_ok [of c k x] unfolding all_entries_def by (metis put_lookup)

lemma all_entries_del: "all_entries P c \<Longrightarrow> all_entries P (del k c)"
  using del_eq [of c k] del_ok [of c k] by (auto simp: all_entries_def)

text \<open>A changed requirement on one key is met by an entry put or deleted there.\<close>

lemma all_entries_replace:
  assumes "all_entries P c" and "\<And>j y. j \<noteq> k \<Longrightarrow> P j y \<Longrightarrow> Q j y"
  shows "all_entries Q (del k c)" and "Q k x \<Longrightarrow> all_entries Q (put k x c)"
proof -
  from assms(1) have ok: "ok c" by (simp add: all_entries_def)
  show "all_entries Q (del k c)"
    using assms del_eq [OF ok, of k] del_ok [OF ok, of k] by (auto simp: all_entries_def)
  assume "Q k x"
  with assms put_ok [OF ok, of k x] show "all_entries Q (put k x c)"
    unfolding all_entries_def by (metis put_lookup)
qed

end

lemma map_of_spec_put: "map_of (spec_put n k x l) \<subseteq>\<^sub>m (map_of l)(k \<mapsto> x)"
  if "distinct (map fst l)"
proof -
  have d: "distinct (map fst (spec_touch k x l))" using that by (auto simp: spec_touch_def distinct_map_filter)
  have f: "map_of (filter (\<lambda>p. fst p \<noteq> k) l) j = (if j = k then None else map_of l j)" for j
    by (induction l) auto
  have t: "map_of (spec_touch k x l) = (map_of l)(k \<mapsto> x)"
    by (rule ext) (simp add: spec_touch_def f)
  have "map_of (take n ys) \<subseteq>\<^sub>m map_of ys" if "distinct (map fst ys)" for ys :: "(exec_cache_key \<times> 'a) list"
    unfolding map_le_def
  proof (rule ballI)
    fix a assume "a \<in> dom (map_of (take n ys))"
    then obtain y where y: "map_of (take n ys) a = Some y" by auto
    then have "(a, y) \<in> set ys" by (meson in_set_takeD map_of_SomeD)
    with that y show "map_of (take n ys) a = map_of ys a" by simp
  qed
  from this [OF d] show ?thesis by (simp add: spec_put_def t)
qed

interpretation ec: forgetful_map cache_ok contents cache_get cache_put cache_delete
proof (unfold_locales, goal_cases)
  case (1 c k)
  then show ?case by (simp add: recency_get recency_contents)
next
  case (2 c k)
  show ?case
  proof
    fix j
    show "contents (snd (cache_get k c)) j = contents c j"
      by (simp add: cache_get_def contents_def split: option.split)
  qed
next
  case (3 c k x)
  then show ?case
    by (simp add: recency_contents cache_put_ok recency_put map_of_spec_put recency_distinct)
next
  case (4 c k)
  then show ?case
    by (intro ext) (simp add: contents_def cache_delete_def split: option.split)
qed (simp_all add: cache_get_ok cache_put_ok cache_delete_ok)

end
