(* ===== verification/Worker.thy ===== *)
theory Worker
  imports ServiceApi Replayer ExecCache Notifier
begin

text \<open>
  \<^verbatim>\<open>sdk/worker/worker.go\<close> and \<^verbatim>\<open>registry.go\<close>: the worker that polls both task queues, drives
  workflow tasks through the replayer with its cache of executions, answers queries and runs
  activities. Each task ends in one call to the server; whether that call fails is an argument.
\<close>

section \<open>Messages\<close>

text \<open>The \<open>Error()\<close> of a panic value.\<close>

fun panic_Error :: "(string \<Rightarrow> string) \<Rightarrow> panic \<Rightarrow> string" where
  "panic_Error quote (NonDeterministicActivity n typ i recorded) =
     ''non-deterministic workflow: activity #'' @ decimal n @ '': workflow now schedules type '' @ quote typ @
     '' but history recorded id='' @ decimal i @ '' type '' @ quote recorded"
| "panic_Error quote (NonDeterministicTimer n i) =
     ''non-deterministic workflow: timer #'' @ decimal n @
     '': workflow now starts a timer but history recorded a different timer id='' @ decimal i"
| "panic_Error quote (WorkflowPanic msg) = msg"

section \<open>Worker\<close>

record worker_options =
  MaxConcurrentActivities :: int
  MaxCachedWorkflowExecutions :: int
  OptStickyScheduleToStartTimeout :: duration
  OptTaskQueuePartitions :: "int list"

definition defaultMaxConcurrentActivities :: int where
  "defaultMaxConcurrentActivities = 200"

definition defaultMaxCachedWorkflowExecutions :: int where
  "defaultMaxCachedWorkflowExecutions = 1000"

definition defaultStickyScheduleToStartTimeout :: duration where
  "defaultStickyScheduleToStartTimeout = 5 * 10 ^ 9"

record 'v cached_execution =
  cx_exec :: "'v execution"
  cx_workflowType :: string
  cx_lastEventID :: int

text \<open>
  An activity function's outcome: a panic or an error with its Go type and text, or a result
  with the outcome of \<^verbatim>\<open>json.Marshal\<close>. \<open>activity_info\<close> is the \<open>Info\<close> of its context.
\<close>

record activity_info =
  InfoActivityID :: int
  InfoActivityType :: string
  InfoAttempt :: int

datatype activity_result =
    ActivityPanicked string string
  | ActivityErrored string string
  | ActivityReturned "string + bytes"

record 'i activity_func =
  af_unmarshal :: "bytes \<Rightarrow> string + 'i"
  af_zero :: 'i
  af_fn :: "activity_info \<Rightarrow> 'i \<Rightarrow> activity_result"

record ('i, 'v) worker =
  wk_namespace :: string
  wk_taskQueue :: string
  wk_identity :: string
  workflows :: "string \<Rightarrow> ('i, 'v) workflow_func option"
  activities :: "string \<Rightarrow> 'i activity_func option"
  activitySem :: int
  execCache :: "'v cached_execution execution_cache"
  stickyScheduleToStartTimeout :: duration
  wk_taskQueuePartitions :: "int list"

definition New :: "string \<Rightarrow> string \<Rightarrow> string \<Rightarrow> worker_options \<Rightarrow> ('i, 'v) worker" where
  "New namespace identity taskQueue opts =
     \<lparr>wk_namespace = namespace, wk_taskQueue = taskQueue, wk_identity = identity,
      workflows = (\<lambda>_. None), activities = (\<lambda>_. None),
      activitySem = (if MaxConcurrentActivities opts \<le> 0 then defaultMaxConcurrentActivities else MaxConcurrentActivities opts),
      execCache = newExecutionCache (if MaxCachedWorkflowExecutions opts \<le> 0 then defaultMaxCachedWorkflowExecutions
                                     else MaxCachedWorkflowExecutions opts),
      stickyScheduleToStartTimeout = (if OptStickyScheduleToStartTimeout opts \<le> 0 then defaultStickyScheduleToStartTimeout
                                      else OptStickyScheduleToStartTimeout opts),
      wk_taskQueuePartitions = OptTaskQueuePartitions opts\<rparr>"

text \<open>\<open>funcname.Of\<close>: the part of the qualified name after its last dot.\<close>

definition funcname_Of :: "string \<Rightarrow> string" where
  "funcname_Of full = rev (takeWhile (\<lambda>c. c \<noteq> CHR ''.'') (rev full))"

definition RegisterWorkflow :: "string \<Rightarrow> ('i, 'v) workflow_func \<Rightarrow> ('i, 'v) worker \<Rightarrow> ('i, 'v) worker" where
  "RegisterWorkflow full f w = w\<lparr>workflows := (workflows w)(funcname_Of full \<mapsto> f)\<rparr>"

definition RegisterActivity :: "string \<Rightarrow> 'i activity_func \<Rightarrow> ('i, 'v) worker \<Rightarrow> ('i, 'v) worker" where
  "RegisterActivity full f w = w\<lparr>activities := (activities w)(funcname_Of full \<mapsto> f)\<rparr>"

section \<open>Workflow tasks\<close>

text \<open>
  The call a task ends in. \<open>Crashed\<close>: the goroutine panics outside any recover (the index
  \<^verbatim>\<open>len(resp.History)-1\<close> of an empty history, or a nil execution).
\<close>

datatype outgoing = Send rpc_request | Crashed

fun eventsAfter :: "history_event list \<Rightarrow> int \<Rightarrow> history_event list" where
  "eventsAfter [] lastEventID = []"
| "eventsAfter (ev # evs) lastEventID = (if EventId ev > lastEventID then ev # evs else eventsAfter evs lastEventID)"

definition failure_message :: "string \<Rightarrow> failure" where
  "failure_message msg = \<lparr>Message = msg, FType = '''', StackTrace = ''''\<rparr>"

definition respondWorkflowTaskFailed :: "('i, 'v) worker \<Rightarrow> bytes \<Rightarrow> string \<Rightarrow> outgoing" where
  "respondWorkflowTaskFailed w token msg =
     Send (RespondWorkflowTaskFailedRequest
       \<lparr>rf_TaskToken = token, rf_Failure = Some (failure_message msg), rf_Identity = wk_identity w\<rparr>)"

definition respondQueryTaskFailed :: "bytes \<Rightarrow> string \<Rightarrow> outgoing" where
  "respondQueryTaskFailed token msg =
     Send (RespondQueryTaskCompletedRequest
       \<lparr>rq_TaskToken = token, rq_Result = None, rq_Failure = Some (failure_message msg)\<rparr>)"

definition still_running :: "'v execution \<Rightarrow> bool" where
  "still_running e \<longleftrightarrow> Result e = None \<and> Err e = None \<and> ContinuedAsNew e = None"

text \<open>
  The replay of a cache miss: the error text, or the execution after its round with the
  workflow type.
\<close>

definition fresh_execution ::
  "(string \<Rightarrow> string) \<Rightarrow> ('i, 'v) worker \<Rightarrow> history_event list \<Rightarrow> string + 'v execution \<times> string" where
  "fresh_execution quote w history =
     (let workflowType = snd (foldl started_of (None, '''') history) in
      case workflows w workflowType of
        None \<Rightarrow> Inl (''unregistered workflow type '' @ quote workflowType)
      | Some f \<Rightarrow>
          (case LoadHistory history (NewExecution (wf_vars f)) of ((inp, _), e) \<Rightarrow>
           (case runWorkflowFunc f inp e of
              (Inl err, _) \<Rightarrow> Inl err
            | (Inr _, e') \<Rightarrow> Inr (e', workflowType))))"

text \<open>The part after the round: panics, the cache, and the response.\<close>

definition finish_task ::
  "(string \<Rightarrow> string) \<Rightarrow> bool \<Rightarrow> poll_workflow_response \<Rightarrow> exec_cache_key \<Rightarrow> 'v execution \<Rightarrow> string \<Rightarrow>
   ('i, 'v) worker \<Rightarrow> outgoing \<times> ('i, 'v) worker" where
  "finish_task quote rpc_ok resp key e workflowType w =
     (case FirstPanic e of
        Some p \<Rightarrow> (respondWorkflowTaskFailed w (pw_TaskToken resp) (panic_Error quote p),
                   w\<lparr>execCache := cache_delete key (execCache w)\<rparr>)
      | None \<Rightarrow>
          if still_running e \<and> pw_History resp = [] then (Crashed, w)
          else
            (let running = still_running e;
                 cache = (if running
                   then cache_put key \<lparr>cx_exec = e, cx_workflowType = workflowType,
                          cx_lastEventID = EventId (last (pw_History resp))\<rparr> (execCache w)
                   else cache_delete key (execCache w));
                 stickyAttrs = (if running
                   then Some \<lparr>se_WorkerIdentity = wk_identity w,
                          se_ScheduleToStartTimeout = Some (stickyScheduleToStartTimeout w)\<rparr>
                   else None)
             in (Send (RespondWorkflowTaskCompletedRequest
                   \<lparr>rw_TaskToken = pw_TaskToken resp, rw_Commands = NewCommands e, rw_Identity = wk_identity w,
                    rw_StickyExecutionAttributes = stickyAttrs\<rparr>),
                 w\<lparr>execCache := (if rpc_ok then cache else cache_delete key cache)\<rparr>)))"

definition processQueryTask ::
  "(string \<Rightarrow> string) \<Rightarrow> poll_workflow_response \<Rightarrow> exec_cache_key \<Rightarrow> string \<Rightarrow> payload option \<Rightarrow>
   ('i, 'v) worker \<Rightarrow> outgoing \<times> ('i, 'v) worker" where
  "processQueryTask quote resp key queryType queryArgs w =
     (let answer = (\<lambda>e w'. (case InvokeQueryHandler quote queryType queryArgs e of
            Inl err \<Rightarrow> (respondQueryTaskFailed (pw_TaskToken resp) err, w')
          | Inr result \<Rightarrow> (Send (RespondQueryTaskCompletedRequest
               \<lparr>rq_TaskToken = pw_TaskToken resp, rq_Result = Some result, rq_Failure = None\<rparr>), w')))
      in case cache_get key (execCache w) of
        (Some cached, c) \<Rightarrow> answer (cx_exec cached) (w\<lparr>execCache := c\<rparr>)
      | (None, c) \<Rightarrow>
          (case fresh_execution quote w (pw_History resp) of
             Inl err \<Rightarrow> (respondQueryTaskFailed (pw_TaskToken resp) err, w\<lparr>execCache := c\<rparr>)
           | Inr (e, workflowType) \<Rightarrow>
               (case FirstPanic e of
                  Some p \<Rightarrow> (respondQueryTaskFailed (pw_TaskToken resp) (panic_Error quote p), w\<lparr>execCache := c\<rparr>)
                | None \<Rightarrow>
                    if still_running e then
                      if pw_History resp = [] then (Crashed, w\<lparr>execCache := c\<rparr>)
                      else answer e (w\<lparr>execCache := cache_put key \<lparr>cx_exec = e, cx_workflowType = workflowType,
                             cx_lastEventID = EventId (last (pw_History resp))\<rparr> c\<rparr>)
                    else answer e (w\<lparr>execCache := c\<rparr>))))"

definition processWorkflowTask ::
  "(string \<Rightarrow> string) \<Rightarrow> bool \<Rightarrow> poll_workflow_response \<Rightarrow> ('i, 'v) worker \<Rightarrow> outgoing \<times> ('i, 'v) worker" where
  "processWorkflowTask quote rpc_ok resp w =
     (case pw_WorkflowExecution resp of
        None \<Rightarrow> (Crashed, w)
      | Some (wid, rid) \<Rightarrow>
          (let key = \<lparr>WorkflowID = wid, RunID = rid\<rparr> in
           case pw_QueryTask resp of
             Some (queryType, queryArgs) \<Rightarrow> processQueryTask quote resp key queryType queryArgs w
           | None \<Rightarrow>
               (case cache_get key (execCache w) of
                  (Some cached, c) \<Rightarrow>
                    finish_task quote rpc_ok resp key
                      (ExecuteRound (LoadNewEvents (eventsAfter (pw_History resp) (cx_lastEventID cached))
                         (ResetRoundOutput (cx_exec cached))))
                      (cx_workflowType cached) (w\<lparr>execCache := c\<rparr>)
                | (None, c) \<Rightarrow>
                    (case fresh_execution quote w (pw_History resp) of
                       Inl err \<Rightarrow> (respondWorkflowTaskFailed w (pw_TaskToken resp) err, w\<lparr>execCache := c\<rparr>)
                     | Inr (e, workflowType) \<Rightarrow> finish_task quote rpc_ok resp key e workflowType (w\<lparr>execCache := c\<rparr>)))))"

text \<open>
  \<open>pollWorkflowTasks\<close> on the outcomes of its polls until the context is done: an error backs
  off and polls again, an empty response polls again.
\<close>

datatype 'r poll_outcome = PollFailed | Polled 'r bool

fun pollWorkflowTasks ::
  "(string \<Rightarrow> string) \<Rightarrow> poll_workflow_response poll_outcome list \<Rightarrow> ('i, 'v) worker \<Rightarrow> outgoing list \<times> ('i, 'v) worker" where
  "pollWorkflowTasks quote [] w = ([], w)"
| "pollWorkflowTasks quote (PollFailed # ps) w = pollWorkflowTasks quote ps w"
| "pollWorkflowTasks quote (Polled resp rpc_ok # ps) w =
     (if pw_TaskToken resp = [] then pollWorkflowTasks quote ps w
      else case processWorkflowTask quote rpc_ok resp w of
        (Crashed, w') \<Rightarrow> ([Crashed], w')
      | (out, w') \<Rightarrow> (case pollWorkflowTasks quote ps w' of (outs, w'') \<Rightarrow> (out # outs, w'')))"

section \<open>Activity tasks\<close>

definition respondActivityTaskFailed :: "('i, 'v) worker \<Rightarrow> bytes \<Rightarrow> string \<Rightarrow> string \<Rightarrow> outgoing" where
  "respondActivityTaskFailed w token errType msg =
     Send (RespondActivityTaskFailedRequest
       \<lparr>rf_TaskToken = token, rf_Failure = Some \<lparr>Message = msg, FType = errType, StackTrace = ''''\<rparr>,
        rf_Identity = wk_identity w\<rparr>)"

definition processActivityTask :: "(string \<Rightarrow> string) \<Rightarrow> poll_activity_response \<Rightarrow> ('i, 'v) worker \<Rightarrow> outgoing" where
  "processActivityTask quote resp w =
     (let failed = respondActivityTaskFailed w (pa_TaskToken resp) in
      case activities w (pa_ActivityType resp) of
        None \<Rightarrow> failed ''UnregisteredActivityType'' (''unregistered activity type '' @ quote (pa_ActivityType resp))
      | Some act \<Rightarrow>
          (case FromPayload (af_unmarshal act) (af_zero act) (pa_Input resp) of
             Inl err \<Rightarrow> failed ''InputUnmarshalError'' err
           | Inr inp \<Rightarrow>
               (case af_fn act \<lparr>InfoActivityID = pa_ActivityId resp, InfoActivityType = pa_ActivityType resp,
                       InfoAttempt = pa_CurrentAttempt resp\<rparr> inp of
                  ActivityPanicked typ msg \<Rightarrow> failed typ msg
                | ActivityErrored typ msg \<Rightarrow> failed typ msg
                | ActivityReturned out \<Rightarrow>
                    (case ToPayload out of
                       Inl err \<Rightarrow> failed ''MarshalError'' err
                     | Inr payload \<Rightarrow> Send (RespondActivityTaskCompletedRequest
                         \<lparr>ra_TaskToken = pa_TaskToken resp, ra_Result = Some payload, ra_Identity = wk_identity w\<rparr>)))))"

section \<open>The activity loop\<close>

text \<open>
  \<open>pollActivityTasks\<close> and the goroutines it starts, as a state machine over the buffered channel
  \<open>activitySem\<close>: sending blocks while the buffer is full, receiving while it is empty. The loop is at the
  head of the \<^verbatim>\<open>for\<close>, in the \<^verbatim>\<open>select\<close>, in the poll, or about to receive after a poll that brought an error
  (\<open>True\<close>) or no task; \<open>Returned\<close> is its end. A goroutine works on its task, then sends its answer and is
  left with its deferred receive. Nothing makes an activity end.
\<close>

datatype activity_loop = LoopHead | Acquiring | InPoll | Releasing bool | Returned

record activity_pool =
  sem :: int
  loop :: activity_loop
  processing :: "poll_activity_response list"
  leaving :: nat
  dispatched :: "poll_activity_response list"
  answers :: "outgoing list"
  ctx_done :: bool

definition initial_pool :: activity_pool where
  "initial_pool = \<lparr>sem = 0, loop = LoopHead, processing = [], leaving = 0, dispatched = [], answers = [], ctx_done = False\<rparr>"

inductive pool_step :: "(string \<Rightarrow> string) \<Rightarrow> ('i, 'v) worker \<Rightarrow> activity_pool \<Rightarrow> activity_pool \<Rightarrow> bool" for quote w where
  cancelled: "pool_step quote w s (s\<lparr>ctx_done := True\<rparr>)"
| go_on: "loop s = LoopHead \<Longrightarrow> \<not> ctx_done s \<Longrightarrow> pool_step quote w s (s\<lparr>loop := Acquiring\<rparr>)"
| leave: "loop s \<in> {LoopHead, Acquiring} \<Longrightarrow> ctx_done s \<Longrightarrow> pool_step quote w s (s\<lparr>loop := Returned\<rparr>)"
| acquire: "loop s = Acquiring \<Longrightarrow> sem s < activitySem w \<Longrightarrow>
    pool_step quote w s (s\<lparr>loop := InPoll, sem := sem s + 1\<rparr>)"
| poll_error: "loop s = InPoll \<Longrightarrow> pool_step quote w s (s\<lparr>loop := Releasing True\<rparr>)"
| poll_empty: "loop s = InPoll \<Longrightarrow> pool_step quote w s (s\<lparr>loop := Releasing False\<rparr>)"
| dispatch: "loop s = InPoll \<Longrightarrow> pa_TaskToken resp \<noteq> [] \<Longrightarrow>
    pool_step quote w s (s\<lparr>loop := LoopHead, processing := processing s @ [resp], dispatched := dispatched s @ [resp]\<rparr>)"
| release: "loop s = Releasing err \<Longrightarrow> 0 < sem s \<Longrightarrow>
    pool_step quote w s (s\<lparr>loop := (if err \<and> ctx_done s then Returned else LoopHead), sem := sem s - 1\<rparr>)"
| finish: "processing s = xs @ resp # ys \<Longrightarrow>
    pool_step quote w s (s\<lparr>processing := xs @ ys, leaving := leaving s + 1,
      answers := answers s @ [processActivityTask quote resp w]\<rparr>)"
| deferred: "0 < leaving s \<Longrightarrow> 0 < sem s \<Longrightarrow>
    pool_step quote w s (s\<lparr>leaving := leaving s - 1, sem := sem s - 1\<rparr>)"

inductive_cases pool_stepE: "pool_step quote w s s'"

end
