(* ===== verification/WorkerProps.thy ===== *)
theory WorkerProps
  imports TaskProps Sticky Worker
begin

text \<open>
  The worker against the server: caching executions is invisible, and what the server records of a
  response is what the replay expects.
\<close>

section \<open>New events\<close>

lemma eventsAfter_split:
  assumes "\<forall>ev \<in> set H. EventId ev \<le> n" and "\<forall>ev \<in> set new. n < EventId ev"
  shows "eventsAfter (H @ new) n = new"
  using assms by (induction H) (auto, cases new, auto)

text \<open>The answer of a finished round does not depend on the cache.\<close>

lemma finish_task_out:
  assumes "FirstPanic e = FirstPanic e'" and "still_running e = still_running e'" and "NewCommands e = NewCommands e'"
    and "wk_identity w = wk_identity w'" and "stickyScheduleToStartTimeout w = stickyScheduleToStartTimeout w'"
  shows "fst (finish_task quote rpc_ok resp key e ty w) = fst (finish_task quote rpc_ok resp key e' ty' w')"
  using assms by (simp add: finish_task_def respondWorkflowTaskFailed_def Let_def split: option.split)

lemma contents_deleted: "cache_ok c \<Longrightarrow> contents (cache_delete k c) k = None"
  by (simp add: ec.del_eq)

lemma finish_task_cache:
  assumes "contents (execCache (snd (finish_task quote rpc_ok resp key e ty w))) key = Some x"
    and ok: "cache_ok (execCache w)" and "pw_History resp \<noteq> []"
  shows "FirstPanic e = None \<and> still_running e \<and> cx_exec x = e \<and> cx_workflowType x = ty \<and>
    cx_lastEventID x = EventId (last (pw_History resp))"
proof -
  let ?y = "\<lparr>cx_exec = e, cx_workflowType = ty, cx_lastEventID = EventId (last (pw_History resp))\<rparr>"
  note gone = contents_deleted [OF ok] contents_deleted [OF ec.del_ok [OF ok]] contents_deleted [OF ec.put_ok [OF ok]]
  have "FirstPanic e = None" "still_running e" "rpc_ok" "contents (cache_put key ?y (execCache w)) key = Some x"
    using assms(1,3) gone by (auto simp: finish_task_def Let_def split: if_splits option.splits)
  with ec.put_lookup [OF ok, of key ?y key x] show ?thesis by simp
qed

lemma rerecord_observables:
  "FirstPanic (rerecord A T e) = FirstPanic e" "still_running (rerecord A T e) = still_running e"
  by (simp_all add: FirstPanic_def still_running_def rerecord_def)

text \<open>The input and workflow type of a history.\<close>

definition input_of :: "history_event list \<Rightarrow> payload option" where
  "input_of H = fst (foldl started_of (None, '''') H)"

definition type_of :: "history_event list \<Rightarrow> string" where
  "type_of H = snd (foldl started_of (None, '''') H)"

lemma fresh_execution_replay:
  assumes "workflows w (type_of H) = Some f"
    and "FromPayload (wf_unmarshal f) (wf_zero f) (input_of H) = Inr i"
  shows "fresh_execution quote w H = Inr (replay (wf_fn f i) (wf_vars f) H, type_of H)"
  using assms by (simp add: fresh_execution_def LoadHistory_def runWorkflowFunc_def replay_def type_of_def input_of_def split_beta)

text \<open>
  (C24) Sticky caching is a pure optimisation. Take a run of sequential workflow code whose execution the worker
  holds after earlier tasks, any mix of cache hits and replays, and a task whose history extends
  what it has seen by the recorded commands and other events. Then the response the worker
  sends is the one it would send with an empty cache, replaying everything; and what it keeps in the cache
  afterwards is again an execution of this kind, so the same holds for the next task.
\<close>

theorem cache_is_transparent:
  assumes ok: "cache_ok (execCache w)"
    and hit: "contents (execCache w) \<lparr>WorkflowID = wid, RunID = rid\<rparr> = Some x"
    and resp: "pw_WorkflowExecution resp = Some (wid, rid)" "pw_QueryTask resp = None" "pw_History resp = H @ new" "new \<noteq> []"
    and f: "workflows w (type_of (H @ new)) = Some f"
      "FromPayload (wf_unmarshal f) (wf_zero f) (input_of (H @ new)) = Inr i" "sequential (wf_fn f i)"
    and sticky: "sticky (wf_fn f i) (wf_vars f) H (cx_exec x)" "\<not> AllDone (cx_exec x)"
    and recs: "activities_of new = command_activities (NewCommands (cx_exec x))"
      "timers_of new = command_timers (NewCommands (cx_exec x))" "answered H \<inter> answered new = {}"
    and ids: "\<forall>ev \<in> set H. EventId ev \<le> cx_lastEventID x" "\<forall>ev \<in> set new. cx_lastEventID x < EventId ev"
  shows "fst (processWorkflowTask quote rpc_ok resp w) =
      fst (processWorkflowTask quote rpc_ok resp (w\<lparr>execCache := newExecutionCache (capacity (execCache w))\<rparr>)) \<and>
    (\<forall>x'. contents (execCache (snd (processWorkflowTask quote rpc_ok resp w))) \<lparr>WorkflowID = wid, RunID = rid\<rparr> = Some x' \<longrightarrow>
      sticky (wf_fn f i) (wf_vars f) (H @ new) (cx_exec x') \<and> cx_lastEventID x' = EventId (last (H @ new)))"
proof -
  let ?key = "\<lparr>WorkflowID = wid, RunID = rid\<rparr>" and ?p = "wf_fn f i" and ?v = "wf_vars f"
  let ?e = "ExecuteRound (LoadNewEvents new (ResetRoundOutput (cx_exec x)))" and ?r = "replay ?p ?v (H @ new)"
  obtain c where get: "cache_get ?key (execCache w) = (Some x, c)"
    using ec.get_fst [OF ok, of ?key] hit by (cases "cache_get ?key (execCache w)") simp
  have okc: "cache_ok c" using ec.get_ok [OF ok, of ?key] get by simp
  have st: "sticky ?p ?v (H @ new) ?e" using sticky recs by (intro sticky.hit)
  from sticky_invariant [OF st f(3)] have r: "?r = rerecord (activities_of (H @ new)) (timers_of (H @ new)) ?e" by simp
  have hit_eq: "processWorkflowTask quote rpc_ok resp w =
      finish_task quote rpc_ok resp ?key ?e (cx_workflowType x) (w\<lparr>execCache := c\<rparr>)"
    using eventsAfter_split [OF ids] by (simp add: processWorkflowTask_def resp Let_def get)
  have miss_eq: "processWorkflowTask quote rpc_ok resp (w\<lparr>execCache := newExecutionCache n\<rparr>) =
      finish_task quote rpc_ok resp ?key ?r (type_of (H @ new)) (w\<lparr>execCache := newExecutionCache n\<rparr>)" for n
    using fresh_execution_replay [of "w\<lparr>execCache := newExecutionCache n\<rparr>" "H @ new" f i quote] f(1,2)
    by (simp add: processWorkflowTask_def resp Let_def cache_get_def newExecutionCache_def)
  have "fst (processWorkflowTask quote rpc_ok resp w) =
      fst (processWorkflowTask quote rpc_ok resp (w\<lparr>execCache := newExecutionCache (capacity (execCache w))\<rparr>))"
    unfolding hit_eq miss_eq by (rule finish_task_out) (simp_all add: r rerecord_observables)
  moreover have "sticky ?p ?v (H @ new) (cx_exec x') \<and> cx_lastEventID x' = EventId (last (H @ new))"
    if "contents (execCache (snd (processWorkflowTask quote rpc_ok resp w))) ?key = Some x'" for x'
    using finish_task_cache [OF that [unfolded hit_eq]] okc st resp(3,4) by simp
  ultimately show ?thesis by blast
qed

text \<open>A workflow that runs one activity and returns, its first task, and its second.\<close>

definition demo_opts :: activity_options where
  "demo_opts = \<lparr>OptRetryPolicy = None, OptScheduleToStartTimeout = 0, OptStartToCloseTimeout = 7\<rparr>"

definition demo_prog :: "nat prog" where
  "demo_prog = ExecuteActivity ''A'' (Inr ''1'') demo_opts (\<lambda>i. GetActivity i (\<lambda>r. Return (ReturnedResult (Inr ''2''))))"

abbreviation demo_event :: "int \<Rightarrow> event_attributes \<Rightarrow> history_event" where
  "demo_event i a \<equiv> \<lparr>EventId = i, EventTime = i, EventType = attributes_type a, Attributes = a\<rparr>"

definition demo_H :: "history_event list" where
  "demo_H = [demo_event 1 (WorkflowExecutionStarted ''W'' ''q'' None None ''''), demo_event 2 (WorkflowTaskScheduled ''q''),
     demo_event 3 (WorkflowTaskStarted '''')]"

definition demo_new :: "history_event list" where
  "demo_new = [demo_event 4 (WorkflowTaskCompleted ''''), demo_event 5 (ActivityTaskScheduled 1 ''A'' None None None None),
     demo_event 6 (ActivityTaskCompleted 1 None), demo_event 7 (WorkflowTaskStarted '''')]"

definition demo_wf :: "(nat, nat) workflow_func" where
  "demo_wf = \<lparr>wf_unmarshal = (\<lambda>_. Inl ''no''), wf_zero = 0, wf_fn = (\<lambda>_. demo_prog), wf_vars = 0\<rparr>"

definition demo_cached :: "nat cached_execution" where
  "demo_cached = \<lparr>cx_exec = replay demo_prog 0 demo_H, cx_workflowType = ''W'', cx_lastEventID = 3\<rparr>"

definition demo_worker :: "(nat, nat) worker" where
  "demo_worker = RegisterWorkflow ''main.W'' demo_wf (New ''default'' ''host:1'' ''q''
     \<lparr>MaxConcurrentActivities = 0, MaxCachedWorkflowExecutions = 0, OptStickyScheduleToStartTimeout = 0, OptTaskQueuePartitions = []\<rparr>)"

definition demo_hot_worker :: "(nat, nat) worker" where
  "demo_hot_worker = demo_worker\<lparr>execCache := cache_put \<lparr>WorkflowID = ''w'', RunID = ''r''\<rparr> demo_cached (execCache demo_worker)\<rparr>"

definition demo_resp :: "history_event list \<Rightarrow> poll_workflow_response" where
  "demo_resp H = \<lparr>pw_TaskToken = ''t'', pw_WorkflowExecution = Some (''w'', ''r''), pw_WorkflowType = ''W'',
     pw_History = H, pw_PreviousStartedEventId = 0, pw_QueryTask = None\<rparr>"

lemmas replay_eval = replay_def LoadHistory_def NewExecution_def load_event_def load_new_event_def Dispatcher_Go_def
  ExecuteRound_def resume_def new_coroutine_def ToPayload_def ScheduleActivity_def ScheduleTimer_def Let_def add_command_def
  durationOrNil_def AllDone_def Complete_def future_result_def FirstPanic_def

lemma demo_replay:
  "NewCommands (replay demo_prog 0 demo_H) = [ScheduleActivityTask \<lparr>ActivityId = 1, ActivityType = ''A'',
     ActInput = Some \<lparr>Metadata = [(''encoding'', ''json/plain'')], Data = ''1''\<rparr>, ActRetryPolicy = None,
     ScheduleToStartTimeout = None, StartToCloseTimeout = Some 7\<rparr>]"
  "\<not> AllDone (replay demo_prog 0 demo_H)"
  by (simp_all add: replay_eval demo_prog_def demo_H_def demo_opts_def)

lemma demo_worker_workflow: "workflows demo_worker ''W'' = Some demo_wf"
  by (simp add: demo_worker_def RegisterWorkflow_def funcname_Of_def)

theorem cache_is_transparent_witness:
  "fst (processWorkflowTask id True (demo_resp (demo_H @ demo_new)) demo_hot_worker) =
     fst (processWorkflowTask id True (demo_resp (demo_H @ demo_new))
       (demo_hot_worker\<lparr>execCache := newExecutionCache (capacity (execCache demo_hot_worker))\<rparr>))"
proof -
  have "cache_ok (execCache demo_worker)"
    by (simp add: demo_worker_def RegisterWorkflow_def New_def new_cache_ok defaultMaxCachedWorkflowExecutions_def)
  then have ok: "cache_ok (execCache demo_hot_worker)" by (simp add: demo_hot_worker_def ec.put_ok)
  have hit: "contents (execCache demo_hot_worker) \<lparr>WorkflowID = ''w'', RunID = ''r''\<rparr> = Some demo_cached"
    by (simp add: demo_hot_worker_def demo_worker_def RegisterWorkflow_def New_def contents_def cache_put_def
        newExecutionCache_def Let_def defaultMaxCachedWorkflowExecutions_def)
  have f: "workflows demo_hot_worker (type_of (demo_H @ demo_new)) = Some demo_wf"
      "FromPayload (wf_unmarshal demo_wf) (wf_zero demo_wf) (input_of (demo_H @ demo_new)) = Inr 0"
      "sequential (wf_fn demo_wf 0)"
    by (simp_all add: type_of_def input_of_def demo_H_def demo_new_def demo_hot_worker_def demo_worker_workflow
        FromPayload_def demo_wf_def demo_prog_def)
  have st: "sticky (wf_fn demo_wf 0) (wf_vars demo_wf) demo_H (cx_exec demo_cached)" "\<not> AllDone (cx_exec demo_cached)"
    using sticky.first [of demo_H demo_prog 0] demo_replay(2)
    by (simp_all add: demo_wf_def demo_cached_def activities_of_def timers_of_def demo_H_def)
  have recs: "activities_of demo_new = command_activities (NewCommands (cx_exec demo_cached))"
      "timers_of demo_new = command_timers (NewCommands (cx_exec demo_cached))" "answered demo_H \<inter> answered demo_new = {}"
    by (simp_all add: demo_cached_def demo_replay activities_of_def timers_of_def demo_new_def)
      (simp add: answered_def demo_H_def)
  have ids: "\<forall>ev \<in> set demo_H. EventId ev \<le> cx_lastEventID demo_cached" "\<forall>ev \<in> set demo_new. cx_lastEventID demo_cached < EventId ev"
    by (simp_all add: demo_H_def demo_new_def demo_cached_def)
  have "demo_new \<noteq> []" by (simp add: demo_new_def)
  from cache_is_transparent [OF ok hit _ _ _ this f st recs ids, of "demo_resp (demo_H @ demo_new)"] show ?thesis
    by (simp add: demo_resp_def)
qed

section \<open>What the server records of a response\<close>

lemma command_event_typed: "c \<noteq> Command_Unset \<Longrightarrow> typed (command_event E we i c)"
  by (cases c) (simp_all add: command_event_def typed_def)

lemma command_events_typed: "Command_Unset \<notin> set cs \<Longrightarrow> ev \<in> set (command_events E we i cs) \<Longrightarrow> typed ev"
  by (induction cs arbitrary: i) (auto intro: command_event_typed)

abbreviation recorded_event :: "timestamp \<Rightarrow> int \<times> new_event \<Rightarrow> history_event" where
  "recorded_event now p \<equiv> case p of (i, ev) \<Rightarrow>
     \<lparr>EventId = i, EventTime = now, EventType = NEType ev, Attributes = NEAttributes ev\<rparr>"

lemma recorded_commands:
  "length ids = length cs \<Longrightarrow>
   activities_of (map (recorded_event now) (zip ids (command_events E we i cs))) = command_activities cs \<and>
   timers_of (map (recorded_event now) (zip ids (command_events E we i cs))) = command_timers cs"
proof (induction cs arbitrary: i ids)
  case (Cons c cs)
  then obtain n ids' where "ids = n # ids'" "length ids' = length cs" by (cases ids) auto
  with Cons.IH [of ids' "Suc i"] show ?case
    by (cases c) (simp_all add: command_event_def activities_of_def timers_of_def command_activities_def command_timers_def)
qed (simp add: activities_of_def timers_of_def)

lemma recorded_unanswered: "answered (map (recorded_event now) (zip ids (command_events E we i cs))) = {}"
proof (induction cs arbitrary: i ids)
  case (Cons c cs)
  then show ?case by (cases ids; cases c) (auto simp: answered_def command_event_def)
qed (simp add: answered_def)

lemma complete_task_marshals:
  assumes "db_wf (sdb s)" and "CompleteWorkflowTask X S E token cmds st s = (Inr (), s')"
    and "find_we (token_key token) (sdb s) = Some we"
  shows "marshals X (response_events E we cmds) \<and> Command_Unset \<notin> set cmds"
proof -
  let ?k = "token_key token"
  obtain r s1 where tx: "complete_tx X S E token cmds st s = (Inr r, s1)"
    using assms(2) by (cases "complete_tx X S E token cmds st s"; cases "fst (complete_tx X S E token cmds st s)")
      (auto simp: CompleteWorkflowTask_def withTx_def throw_def bindM_def notifyM_def modM_def ret_def split: if_splits)
  then obtain we' a d1 d2 where f: "complete_front X S E token cmds (sdb s) = (Inr (we', a), d1)"
      and e: "complete_effects X E ?k we' a d1 = (Inr (), d2)"
    unfolding complete_tx_split by (auto elim!: bindM_InrE onDB_InrE split: prod.splits)
  note front = complete_front_InrD [OF f]
  have we: "we' = we" using front(2) assms(3) by simp
  have ev: "ca_events a = response_events E we cmds" using collected_events [OF front(3)] we by (simp add: initial_acc_def)
  obtain r' d3 where app: "AppendHistory X (db_now E 0) ?k (we_next_event_id we') (ca_events a) d1 = (Inr r', d3)"
    using e unfolding complete_effects_def by (elim bindM_InrE)
  have "log_wf d1" using db_wf_log [OF assms(1)] front(1) by simp
  from AppendHistory_succE [OF this _ app] have "marshals X (ca_events a)" by (simp add: ev)
  with ev collected_counts [OF front(3)] show ?thesis by simp
qed

lemma response_decodes:
  assumes "proto_law X" and "db_wf (sdb s)" and ok: "CompleteWorkflowTask X S E token cmds st s = (Inr (), s')"
    and "decode_rows X (run_events (token_key token) (sdb s)) = Inr H"
  obtains we where "find_we (token_key token) (sdb s) = Some we"
    and "decode_rows X (run_events (token_key token) (sdb s')) = Inr (H @ map (recorded_event (db_now E 0))
      (zip (ids_from (we_next_event_id we) (Suc (length cmds))) (response_events E we cmds)))"
proof -
  let ?k = "token_key token" and ?now = "db_now E 0"
  from complete_task_InrD [OF assms(2) ok] obtain we where we: "find_we ?k (sdb s) = Some we"
      and ev: "run_events ?k (sdb s') = run_events ?k (sdb s) @ map (event_row X ?now ?k)
        (zip (ids_from (we_next_event_id we) (Suc (length cmds))) (response_events E we cmds))" by blast
  let ?ps = "zip (ids_from (we_next_event_id we) (Suc (length cmds))) (response_events E we cmds)"
  from complete_task_marshals [OF assms(2) ok we] have m: "marshals X (response_events E we cmds)" "Command_Unset \<notin> set cmds" by auto
  have "\<forall>p \<in> set ?ps. typed (snd p) \<and> marshal_attrs X (NEAttributes (snd p)) \<noteq> None"
    using m command_events_typed [OF m(2)] by (auto simp: marshals_def list_all_iff typed_def dest!: set_zip_rightD)
  from decode_event_rows [OF assms(1) this, of ?now ?k] show ?thesis
    by (intro that [OF we]) (simp add: ev decode_rows_append assms(4))
qed

text \<open>
  (C25) The server records a response the way the replay expects it: when a task is completed, the
  decoded history of the run grows by events whose scheduled activities and started timers
  are exactly those of the commands, with their ids and types, in the same order.
\<close>

theorem server_records_response:
  assumes "proto_law X" and "db_wf (sdb s)"
    and ok: "CompleteWorkflowTask X S E token cmds st s = (Inr (), s')"
    and "decode_rows X (run_events (token_key token) (sdb s)) = Inr H"
  shows "\<exists>new. decode_rows X (run_events (token_key token) (sdb s')) = Inr (H @ new) \<and>
    activities_of new = command_activities cmds \<and> timers_of new = command_timers cmds \<and> answered new = {}"
proof -
  let ?k = "token_key token" and ?now = "db_now E 0"
  obtain we where dec: "decode_rows X (run_events ?k (sdb s')) = Inr (H @ map (recorded_event ?now)
      (zip (ids_from (we_next_event_id we) (Suc (length cmds))) (response_events E we cmds)))"
    using response_decodes [OF assms] by blast
  let ?ps = "zip (ids_from (we_next_event_id we) (Suc (length cmds))) (response_events E we cmds)"
  have ps: "?ps = (we_next_event_id we, newEvent EV_WORKFLOW_TASK_COMPLETED (WorkflowTaskCompleted '''')) #
      zip (ids_from (we_next_event_id we + 1) (length cmds)) (command_events E we 1 cmds)"
    by (simp add: ids_from_Suc)
  let ?r = "map (recorded_event ?now) (zip (ids_from (we_next_event_id we + 1) (length cmds)) (command_events E we 1 cmds))"
  let ?c = "\<lparr>EventId = we_next_event_id we, EventTime = ?now, EventType = EV_WORKFLOW_TASK_COMPLETED,
    Attributes = WorkflowTaskCompleted ''''\<rparr>"
  have new: "map (recorded_event ?now) ?ps = [?c] @ ?r" unfolding ps by simp
  have c: "activities_of [?c] = []" "timers_of [?c] = []" "answered [?c] = {}"
    by (simp_all add: activities_of_def timers_of_def answered_def)
  have "activities_of ?r = command_activities cmds" "timers_of ?r = command_timers cmds" "answered ?r = {}"
    using recorded_commands [of "ids_from (we_next_event_id we + 1) (length cmds)" cmds ?now E we 1] recorded_unanswered
    by simp_all
  with dec c show ?thesis
    unfolding new by (intro exI [of _ "[?c] @ ?r"]) (simp only: recorded_append answered_simps append_Nil Un_empty simp_thms)
qed

theorem server_records_response_witness:
  "\<exists>H new s'. CompleteWorkflowTask demo_ext demo_store demo_env demo_token demo_cmds None demo_sys3 = (Inr (), s') \<and>
     decode_rows demo_ext (run_events (token_key demo_token) (sdb s')) = Inr (H @ new) \<and>
     activities_of new = [\<lparr>SActivityID = ActivityId demo_activity, SActivityType = ActivityType demo_activity\<rparr>] \<and>
     timers_of new = [\<lparr>STimerID = 1, SDuration = 5\<rparr>]"
proof -
  obtain s' where ok: "CompleteWorkflowTask demo_ext demo_store demo_env demo_token demo_cmds None demo_sys3 = (Inr (), s')"
    using demo_complete by (cases "CompleteWorkflowTask demo_ext demo_store demo_env demo_token demo_cmds None demo_sys3") auto
  have "sdb demo_sys3 = demo_db3" by (simp add: demo_sys3_def)
  moreover obtain H where H: "decode_rows demo_ext (run_events (token_key demo_token) (sdb demo_sys3)) = Inr H"
    using decode_hist_ok [OF demo_proto_law reachable_hist_ok [OF demo_db_reachable],
        of "run_events (token_key demo_token) (sdb demo_sys3)"]
    by (auto simp: demo_sys3_def demo_db3_def run_events_def)
  ultimately show ?thesis
    using server_records_response [OF demo_proto_law _ ok H] ok demo_db3_wf
    by (simp add: demo_cmds_def command_activities_def command_timers_def AsDuration_def) blast
qed

end
