(* ===== verification/SdkProps.thy ===== *)
theory SdkProps
  imports WorkerProps
begin

text \<open>
  Further properties of the worker: the recorded and the commanded activities of an answered task are the
  calls of its code, the cache implements a bounded LRU list; and where caching and replay
  part for code that is not sequential.
\<close>

section \<open>Non-determinism\<close>

text \<open>The activity types a coroutine calls for until it stops.\<close>

primrec activity_calls :: "'v prog \<Rightarrow> 'v execution \<Rightarrow> string list" where
  "activity_calls (Return r) e = []"
| "activity_calls Finish e = []"
| "activity_calls (Panic msg) e = []"
| "activity_calls (Compute f k) e = activity_calls (k (f (vars e))) (e\<lparr>vars := f (vars e)\<rparr>)"
| "activity_calls (ReadNow k) e = activity_calls (k (Now e)) e"
| "activity_calls (ReadCancel k) e = activity_calls (k (cancelRequested e) (cancelReason e)) e"
| "activity_calls (ExecuteActivity ty arg opts k) e = (case ToPayload arg of
     Inl err \<Rightarrow> []
   | Inr inp \<Rightarrow> ty # (case ScheduleActivity ty inp opts e of
        (Inl p, e') \<Rightarrow> []
      | (Inr i, e') \<Rightarrow> activity_calls (k i) e'))"
| "activity_calls (GetActivity i k) e = (case activityOutcomes e i of
     None \<Rightarrow> []
   | Some out \<Rightarrow> activity_calls (k (future_result out)) e)"
| "activity_calls (NewTimer d k) e = (case ScheduleTimer d e of
     (Inl p, e') \<Rightarrow> []
   | (Inr i, e') \<Rightarrow> activity_calls (k i) e')"
| "activity_calls (GetTimer i k) e = (if firedTimers e i then activity_calls k e else [])"
| "activity_calls (Go p k) e = activity_calls k (Dispatcher_Go (User p) e)"
| "activity_calls (SetQueryHandler qt h k) e = activity_calls k (e\<lparr>queryHandlers := (queryHandlers e)(qt \<mapsto> h)\<rparr>)"
| "activity_calls (SetSignalHandler name h k) e =
     (case drainSignals (e\<lparr>signalHandlers := (signalHandlers e)(name \<mapsto> h)\<rparr>) of
        (Some p, e') \<Rightarrow> []
      | (None, e') \<Rightarrow> activity_calls k (start_pump e'))"

text \<open>
  The work a run that does not panic knows of at its end lists its calls, in order, from the index at which it began.
\<close>

lemma ScheduleActivity_known:
  assumes "indexed e" and "ScheduleActivity ty inp opts e = (Inr i, e1)"
  shows "indexed e1" and "nextActivityIdx e1 = nextActivityIdx e + 1"
    and "known_activities e1 ! nat (nextActivityIdx e) = \<lparr>SActivityID = nextActivityIdx e + 1, SActivityType = ty\<rparr>"
    and "nat (nextActivityIdx e) < length (known_activities e1)"
proof -
  have n0: "0 \<le> nextActivityIdx e" using assms(1) by (simp add: indexed_def)
  show ix: "indexed e1" "nextActivityIdx e1 = nextActivityIdx e + 1"
    using indexed_schedule(1) [OF assms(1), of ty inp opts] schedule_next(1) [of ty inp opts e] assms(2) by simp_all
  show "nat (nextActivityIdx e) < length (known_activities e1)" using ix n0 by (auto simp: indexed_def nat_less_iff)
  show "known_activities e1 ! nat (nextActivityIdx e) = \<lparr>SActivityID = nextActivityIdx e + 1, SActivityType = ty\<rparr>"
  proof (cases rule: ScheduleActivity_cases [of e ty inp opts])
    case match
    with assms(2) n0 show ?thesis by (auto simp: known_activities_def nth_append nat_less_iff)
  next
    case (new c)
    have "length (known_activities e) = nat (nextActivityIdx e)" using new(1) assms(1) by (auto simp: indexed_def nat_eq_iff2)
    moreover have "known_activities e1 = known_activities e @ [\<lparr>SActivityID = nextActivityIdx e + 1, SActivityType = ty\<rparr>]"
      using new assms(2) by (auto simp: known_activities_def add_command_def)
    ultimately show ?thesis by (simp add: nth_append)
  qed (use assms(2) in simp)
qed

definition lists_calls :: "'v execution \<Rightarrow> int \<Rightarrow> string list \<Rightarrow> bool" where
  "lists_calls e n calls \<longleftrightarrow> nextActivityIdx e = n + int (length calls) \<and>
     (\<forall>j < length calls. known_activities e ! (nat n + j) = \<lparr>SActivityID = n + int j + 1, SActivityType = calls ! j\<rparr>)"

lemma lists_calls_Nil [simp]: "lists_calls e n [] \<longleftrightarrow> nextActivityIdx e = n"
  by (simp add: lists_calls_def)

lemma lists_calls_Cons:
  "0 \<le> n \<Longrightarrow> lists_calls e n (c # cs) \<longleftrightarrow>
     known_activities e ! nat n = \<lparr>SActivityID = n + 1, SActivityType = c\<rparr> \<and> lists_calls e (n + 1) cs"
  by (auto simp: lists_calls_def All_less_Suc2 nat_add_distrib algebra_simps)

lemma run_lists_calls:
  assumes "sequential p" and "run p e = (st, e')" and "\<forall>q. st \<noteq> Panicked q" and "indexed e"
  shows "lists_calls e' (nextActivityIdx e) (activity_calls p e)"
  using assms
proof (induction p arbitrary: e)
  case (Compute f k)
  have "indexed (e\<lparr>vars := f (vars e)\<rparr>)" using Compute.prems by (auto intro: indexed_cong)
  then show ?case using Compute.prems Compute.IH [OF rangeI, of _ "e\<lparr>vars := f (vars e)\<rparr>"] by simp
next
  case (ExecuteActivity ty arg opts k)
  show ?case
  proof (cases "ToPayload arg")
    case (Inr inp)
    then obtain i e1 where sch: "ScheduleActivity ty inp opts e = (Inr i, e1)" and rest: "run (k i) e1 = (st, e')"
      using ExecuteActivity.prems by (auto split: sum.splits prod.splits)
    note known = ScheduleActivity_known [OF ExecuteActivity.prems(4) sch]
    have "lists_calls e' (nextActivityIdx e + 1) (activity_calls (k i) e1)"
      using ExecuteActivity.IH [OF rangeI _ rest _ known(1)] ExecuteActivity.prems known(2) by simp
    moreover have "sequential (k i)" using ExecuteActivity.prems by simp
    with run_keeps [OF _ rest] known(3,4)
    have "known_activities e' ! nat (nextActivityIdx e) = \<lparr>SActivityID = nextActivityIdx e + 1, SActivityType = ty\<rparr>"
      using prefix_nth by fastforce
    moreover have "0 \<le> nextActivityIdx e" using ExecuteActivity.prems(4) by (simp add: indexed_def)
    ultimately show ?thesis by (simp add: Inr sch lists_calls_Cons)
  qed (use ExecuteActivity.prems in simp)
next
  case (NewTimer d k)
  then obtain i e1 where sch: "ScheduleTimer d e = (Inr i, e1)" and rest: "run (k i) e1 = (st, e')"
    by (auto split: sum.splits prod.splits)
  have "indexed e1" "nextActivityIdx e1 = nextActivityIdx e"
    using indexed_schedule(2) [OF NewTimer.prems(4), of d] schedule_next(3) [of d e] sch by simp_all
  then show ?case using NewTimer.IH [OF rangeI _ rest] NewTimer.prems sch by simp
next
  case (SetQueryHandler qt h k)
  have "indexed (e\<lparr>queryHandlers := (queryHandlers e)(qt \<mapsto> h)\<rparr>)" using SetQueryHandler.prems by (auto intro: indexed_cong)
  then show ?case using SetQueryHandler.IH [of "e\<lparr>queryHandlers := (queryHandlers e)(qt \<mapsto> h)\<rparr>"] SetQueryHandler.prems by simp
qed (auto split: option.split)

lemma first_panic_single: "FirstPanic (e\<lparr>coroutines := [settle st (new_coroutine b)]\<rparr>) = (case st of Panicked q \<Rightarrow> Some q | _ \<Rightarrow> None)"
  by (cases st) (simp_all add: FirstPanic_def new_coroutine_def)

text \<open>
  (C28) Replaying changed code does not corrupt a run. The code is sequential and the worker has no cached
  execution. If it answers the task with commands, the activities the history records followed by the
  activities these commands schedule are, position by position, the calls the code made, with their ids and
  types; what is new in the commands are exactly the calls past the recorded ones. Code that makes
  fewer calls than are recorded schedules nothing; that it left some out is not noticed. If a call differs from the
  record at its position, or the code panics, the worker reports a failed task, sends no commands and keeps nothing in its cache.
\<close>

theorem answered_replay_matches_history:
  assumes "cache_ok (execCache w)" and "contents (execCache w) \<lparr>WorkflowID = wid, RunID = rid\<rparr> = None"
    and resp: "pw_WorkflowExecution resp = Some (wid, rid)" "pw_QueryTask resp = None" "pw_History resp = H" "H \<noteq> []"
    and f: "workflows w (type_of H) = Some f"
      "FromPayload (wf_unmarshal f) (wf_zero f) (input_of H) = Inr i" "sequential (wf_fn f i)"
    and calls: "calls = activity_calls (wf_fn f i) (started (wf_fn f i) (wf_vars f) H)"
  shows "(\<forall>r. fst (processWorkflowTask quote rpc_ok resp w) = Send (RespondWorkflowTaskCompletedRequest r) \<longrightarrow>
      rw_Commands r = NewCommands (replay (wf_fn f i) (wf_vars f) H) \<and>
      length (command_activities (rw_Commands r)) = length calls - length (activities_of H) \<and>
      (\<forall>j < length calls. (activities_of H @ command_activities (rw_Commands r)) ! j =
         \<lparr>SActivityID = int j + 1, SActivityType = calls ! j\<rparr>)) \<and>
    ((\<exists>j < length calls. j < length (activities_of H) \<and>
        activities_of H ! j \<noteq> \<lparr>SActivityID = int j + 1, SActivityType = calls ! j\<rparr>) \<longrightarrow>
      FirstPanic (replay (wf_fn f i) (wf_vars f) H) \<noteq> None) \<and>
    (\<forall>q. FirstPanic (replay (wf_fn f i) (wf_vars f) H) = Some q \<longrightarrow>
      fst (processWorkflowTask quote rpc_ok resp w) = respondWorkflowTaskFailed w (pw_TaskToken resp) (panic_Error quote q) \<and>
      contents (execCache (snd (processWorkflowTask quote rpc_ok resp w))) \<lparr>WorkflowID = wid, RunID = rid\<rparr> = None)"
proof -
  let ?key = "\<lparr>WorkflowID = wid, RunID = rid\<rparr>" and ?p = "wf_fn f i" and ?v = "wf_vars f"
  let ?r = "replay ?p ?v H" and ?A = "activities_of H"
  obtain c where get: "cache_get ?key (execCache w) = (None, c)"
    using ec.get_fst [OF assms(1), of ?key] assms(2) by (cases "cache_get ?key (execCache w)") simp
  have okc: "cache_ok c" using ec.get_ok [OF assms(1), of ?key] get by simp
  have eq: "processWorkflowTask quote rpc_ok resp w = finish_task quote rpc_ok resp ?key ?r (type_of H) (w\<lparr>execCache := c\<rparr>)"
    using fresh_execution_replay [OF f(1,2), of quote] by (simp add: processWorkflowTask_def resp Let_def get)
  obtain st e1 where run: "run ?p (started ?p ?v H) = (st, e1)" by fastforce
  note rep = replay_single [OF f(3) run]
  have panic: "FirstPanic ?r = (case st of Panicked q \<Rightarrow> Some q | _ \<Rightarrow> None)"
    by (simp add: rep first_panic_single)
  have known: "length (command_activities (NewCommands ?r)) = length calls - length ?A \<and>
      (\<forall>j < length calls. (?A @ command_activities (NewCommands ?r)) ! j = \<lparr>SActivityID = int j + 1, SActivityType = calls ! j\<rparr>)"
    if "FirstPanic ?r = None"
  proof -
    have "\<forall>q. st \<noteq> Panicked q" using that panic by (auto split: stop.splits)
    moreover have "nextActivityIdx (started ?p ?v H) = 0" by (simp add: started_def loaded_fresh)
    ultimately have lc: "lists_calls e1 0 calls"
      using run_lists_calls [OF f(3) run _ started_indexed] by (simp add: calls)
    have "known_activities e1 = ?A @ command_activities (NewCommands ?r)"
      using run_keeps [OF f(3) run] by (simp add: known_activities_def rep)
    moreover have "indexed e1" using run_indexed [OF f(3) run started_indexed] by simp
    ultimately show ?thesis
      using lc run_keeps [OF f(3) run] by (auto simp: lists_calls_def indexed_def)
  qed
  have "FirstPanic ?r \<noteq> None"
    if "\<exists>j < length calls. j < length ?A \<and> ?A ! j \<noteq> \<lparr>SActivityID = int j + 1, SActivityType = calls ! j\<rparr>"
    using that known by (force simp: nth_append)
  moreover have "rw_Commands r = NewCommands ?r \<and> FirstPanic ?r = None"
    if "fst (processWorkflowTask quote rpc_ok resp w) = Send (RespondWorkflowTaskCompletedRequest r)" for r
    using that by (auto simp: eq finish_task_def respondWorkflowTaskFailed_def Let_def split: option.splits if_splits)
  moreover have "fst (processWorkflowTask quote rpc_ok resp w) = respondWorkflowTaskFailed w (pw_TaskToken resp) (panic_Error quote q) \<and>
      contents (execCache (snd (processWorkflowTask quote rpc_ok resp w))) ?key = None" if "FirstPanic ?r = Some q" for q
    using that contents_deleted [OF okc] by (simp add: eq finish_task_def respondWorkflowTaskFailed_def)
  ultimately show ?thesis using known by simp
qed

text \<open>The demo history with a record the code does not make.\<close>

theorem answered_replay_matches_history_witness:
  "fst (processWorkflowTask id True (demo_resp (demo_H @ [demo_event 4 (ActivityTaskScheduled 1 ''B'' None None None None)])) demo_worker) =
     respondWorkflowTaskFailed demo_worker ''t'' (panic_Error id (NonDeterministicActivity 1 ''A'' 1 ''B''))"
proof -
  let ?H = "demo_H @ [demo_event 4 (ActivityTaskScheduled 1 ''B'' None None None None)]"
  have ok: "cache_ok (execCache demo_worker)" "contents (execCache demo_worker) \<lparr>WorkflowID = ''w'', RunID = ''r''\<rparr> = None"
    by (simp_all add: demo_worker_def RegisterWorkflow_def New_def new_cache_ok defaultMaxCachedWorkflowExecutions_def
        contents_def newExecutionCache_def cache_ok_def)
  have f: "workflows demo_worker (type_of ?H) = Some demo_wf"
      "FromPayload (wf_unmarshal demo_wf) (wf_zero demo_wf) (input_of ?H) = Inr 0" "sequential (wf_fn demo_wf 0)"
    by (simp_all add: type_of_def input_of_def demo_H_def demo_worker_workflow FromPayload_def demo_wf_def demo_prog_def)
  have "FirstPanic (replay (wf_fn demo_wf 0) (wf_vars demo_wf) ?H) = Some (NonDeterministicActivity 1 ''A'' 1 ''B'')"
    by (simp add: replay_eval demo_wf_def demo_prog_def demo_H_def demo_opts_def)
  with answered_replay_matches_history [OF ok _ _ _ _ f refl, of "demo_resp ?H" id True] show ?thesis
    by (simp add: demo_resp_def)
qed

section \<open>The cache\<close>

text \<open>
  (C29) The map and linked list of the cache implement a list of entries in order of use: a lookup returns
  the entry and moves it to the front, a put moves or inserts its entry at the front and drops the least
  recently used one past the capacity, a delete removes the entry. The representation stays
  consistent and never holds more entries than the capacity.
\<close>

theorem cache_refines_lru:
  assumes "cache_ok c"
  shows "fst (cache_get k c) = map_of (recency c) k \<and>
    recency (snd (cache_get k c)) = (case map_of (recency c) k of None \<Rightarrow> recency c | Some y \<Rightarrow> spec_touch k y (recency c)) \<and>
    recency (cache_put k x c) = spec_put (nat (capacity c)) k x (recency c) \<and>
    recency (cache_delete k c) = filter (\<lambda>p. fst p \<noteq> k) (recency c) \<and>
    cache_ok (snd (cache_get k c)) \<and> cache_ok (cache_put k x c) \<and> cache_ok (cache_delete k c) \<and>
    int (cache_len (cache_put k x c)) \<le> capacity c"
proof -
  have "int (cache_len (cache_put k x c)) \<le> capacity (cache_put k x c)"
    using cache_okD(4) [OF cache_put_ok [OF assms]] by (simp add: cache_len_def)
  moreover have "capacity (cache_put k x c) = capacity c"
    by (simp add: cache_put_def Let_def split: option.split)
  ultimately show ?thesis
    using recency_get [OF assms] recency_put [OF assms] recency_delete [OF assms]
      cache_get_ok [OF assms] cache_put_ok [OF assms] cache_delete_ok [OF assms] by simp
qed

theorem cache_refines_lru_witness:
  "recency (cache_put \<lparr>WorkflowID = ''b'', RunID = ''2''\<rparr> (2 :: nat) (cache_put \<lparr>WorkflowID = ''a'', RunID = ''1''\<rparr> 1 (newExecutionCache 1))) =
     [(\<lparr>WorkflowID = ''b'', RunID = ''2''\<rparr>, 2)]"
proof -
  let ?a = "\<lparr>WorkflowID = ''a'', RunID = ''1''\<rparr>" and ?c = "newExecutionCache 1 :: nat execution_cache"
  have c: "cache_ok ?c" "capacity ?c = 1" "recency ?c = []"
    by (rule new_cache_ok, simp) (simp_all add: newExecutionCache_def recency_def)
  have a: "cache_ok (cache_put ?a 1 ?c)" "recency (cache_put ?a 1 ?c) = [(?a, 1)]"
    using cache_refines_lru [OF c(1), of ?a 1] c(2,3) by (simp_all add: spec_put_def spec_touch_def)
  have "capacity (cache_put ?a 1 ?c) = 1" using c(2) by (simp add: cache_put_def Let_def split: option.split)
  with cache_refines_lru [OF a(1), of "\<lparr>WorkflowID = ''b'', RunID = ''2''\<rparr>" 2] a(2) show ?thesis
    by (simp add: spec_put_def spec_touch_def)
qed

section \<open>Where caching and replay part\<close>

text \<open>The code of a workflow's main coroutine alone: the program with the coroutines it spawns left out.\<close>

primrec without_go :: "'v prog \<Rightarrow> 'v prog" where
  "without_go (Return r) = Return r"
| "without_go Finish = Finish"
| "without_go (Panic msg) = Panic msg"
| "without_go (Compute f k) = Compute f (\<lambda>v. without_go (k v))"
| "without_go (ReadNow k) = ReadNow (\<lambda>t. without_go (k t))"
| "without_go (ReadCancel k) = ReadCancel (\<lambda>c r. without_go (k c r))"
| "without_go (ExecuteActivity ty arg opts k) = ExecuteActivity ty arg opts (\<lambda>i. without_go (k i))"
| "without_go (GetActivity i k) = GetActivity i (\<lambda>r. without_go (k r))"
| "without_go (NewTimer d k) = NewTimer d (\<lambda>i. without_go (k i))"
| "without_go (GetTimer i k) = GetTimer i (without_go k)"
| "without_go (Go p k) = without_go k"
| "without_go (SetQueryHandler qt h k) = SetQueryHandler qt h (without_go k)"
| "without_go (SetSignalHandler name h k) = SetSignalHandler name h (without_go k)"

definition main_only :: "('i, 'v) workflow_func \<Rightarrow> ('i, 'v) workflow_func" where
  "main_only f = f\<lparr>wf_fn := (\<lambda>i. without_go (wf_fn f i))\<rparr>"

fun strip_stop :: "'v stop \<Rightarrow> 'v stop" where
  "strip_stop (Yielded p) = Yielded (without_go p)"
| "strip_stop Finished = Finished"
| "strip_stop (Panicked q) = Panicked q"

text \<open>What a round leaves does not depend on the coroutines that are there.\<close>

lemma schedule_frame:
  "ScheduleActivity ty inp opts (e\<lparr>coroutines := cs\<rparr>) = map_prod id (\<lambda>x. x\<lparr>coroutines := cs\<rparr>) (ScheduleActivity ty inp opts e)"
  "ScheduleTimer d (e\<lparr>coroutines := cs\<rparr>) = map_prod id (\<lambda>x. x\<lparr>coroutines := cs\<rparr>) (ScheduleTimer d e)"
  by (simp_all add: ScheduleActivity_def ScheduleTimer_def Let_def add_command_def)

lemma drain_frame: "drainSignals (e\<lparr>coroutines := cs\<rparr>) = map_prod id (\<lambda>x. x\<lparr>coroutines := cs\<rparr>) (drainSignals e)"
  by (simp add: drainSignals_def split: prod.split sum.split)

lemma pump_frame: "\<exists>cs'. start_pump (e\<lparr>coroutines := cs\<rparr>) = (start_pump e)\<lparr>coroutines := cs'\<rparr>"
  by (auto simp: start_pump_def Dispatcher_Go_def)

lemma run_without_go:
  "\<exists>cs'. run (without_go p) (e\<lparr>coroutines := cs\<rparr>) = map_prod strip_stop (\<lambda>x. x\<lparr>coroutines := cs'\<rparr>) (run p e)"
proof (induction p arbitrary: e cs)
  case (Return r)
  have "workflow_returned r (e\<lparr>coroutines := cs\<rparr>) = (workflow_returned r e)\<lparr>coroutines := cs\<rparr>"
    by (cases r) (simp_all add: Complete_def ContinueAsNew_def Let_def add_command_def split: sum.split)
  then show ?case by auto
next
  case (Compute f k)
  have "vars (e\<lparr>coroutines := cs\<rparr>) = vars e" "e\<lparr>coroutines := cs, vars := x\<rparr> = e\<lparr>vars := x\<rparr>\<lparr>coroutines := cs\<rparr>" for x by simp_all
  with Compute.IH [OF rangeI, of "f (vars e)" cs "e\<lparr>vars := f (vars e)\<rparr>"] show ?case
    by (simp only: run.simps without_go.simps)
next
  case (ReadCancel k)
  from ReadCancel.IH [OF rangeI rangeI] show ?case by simp
next
  case (ExecuteActivity ty arg opts k)
  show ?case
    using ExecuteActivity.IH [OF rangeI] by (auto simp: schedule_frame split: sum.split prod.split)
next
  case (NewTimer d k)
  show ?case using NewTimer.IH [OF rangeI] by (auto simp: schedule_frame split: sum.split prod.split)
next
  case (Go p k)
  from Go.IH(2) [of cs "Dispatcher_Go (User p) e"] show ?case by (simp add: Dispatcher_Go_def)
next
  case (SetQueryHandler qt h k)
  have "queryHandlers (e\<lparr>coroutines := cs\<rparr>) = queryHandlers e"
      "e\<lparr>coroutines := cs, queryHandlers := x\<rparr> = e\<lparr>queryHandlers := x\<rparr>\<lparr>coroutines := cs\<rparr>" for x by simp_all
  with SetQueryHandler.IH [of cs "e\<lparr>queryHandlers := (queryHandlers e)(qt \<mapsto> h)\<rparr>"] show ?case
    by (simp only: run.simps without_go.simps Execution_SetQueryHandler_def)
next
  case (SetSignalHandler name h k)
  let ?e = "e\<lparr>signalHandlers := (signalHandlers e)(name \<mapsto> h)\<rparr>"
  obtain r e1 where d: "drainSignals ?e = (r, e1)" by fastforce
  have d': "drainSignals (e\<lparr>coroutines := cs, signalHandlers := (signalHandlers e)(name \<mapsto> h)\<rparr>) = (r, e1\<lparr>coroutines := cs\<rparr>)"
  proof -
    have "e\<lparr>coroutines := cs, signalHandlers := x\<rparr> = e\<lparr>signalHandlers := x\<rparr>\<lparr>coroutines := cs\<rparr>" for x by simp
    with drain_frame [of cs ?e] d show ?thesis by (simp only:) simp
  qed
  obtain cs1 where "start_pump (e1\<lparr>coroutines := cs\<rparr>) = (start_pump e1)\<lparr>coroutines := cs1\<rparr>" using pump_frame by blast
  with SetSignalHandler.IH [of cs1 "start_pump e1"] show ?case by (cases r) (auto simp: d d')
qed (auto split: option.split)

lemma run_grows: "\<exists>bs. coroutines (snd (run p e)) = coroutines e @ map new_coroutine bs"
proof (induction p arbitrary: e)
  case (Return r)
  show ?case by (cases r) (simp_all add: Complete_def ContinueAsNew_def Let_def add_command_def split: sum.split option.split)
next
  case (Compute f k)
  from Compute.IH [OF rangeI, of _ "e\<lparr>vars := f (vars e)\<rparr>"] show ?case by simp
next
  case (ReadCancel k)
  from ReadCancel.IH [OF rangeI rangeI] show ?case by simp
next
  case (ExecuteActivity ty arg opts k)
  show ?case
  proof (cases "ToPayload arg")
    case (Inr inp)
    obtain r e1 where sch: "ScheduleActivity ty inp opts e = (r, e1)" by fastforce
    then have c: "coroutines e1 = coroutines e" by (auto simp: ScheduleActivity_def Let_def add_command_def split: if_splits)
    from ExecuteActivity.IH [OF rangeI, of _ e1] c show ?thesis by (cases r) (simp_all add: Inr sch)
  qed simp
next
  case (NewTimer d k)
  obtain r e1 where sch: "ScheduleTimer d e = (r, e1)" by fastforce
  then have c: "coroutines e1 = coroutines e" by (auto simp: ScheduleTimer_def Let_def add_command_def split: if_splits)
  from NewTimer.IH [OF rangeI, of _ e1] c show ?case by (cases r) (simp_all add: sch)
next
  case (Go p k)
  from Go.IH(2) [of "Dispatcher_Go (User p) e"] show ?case
    by (auto simp: Dispatcher_Go_def) (metis append_Cons append_Nil list.simps(9) map_append)
next
  case (SetQueryHandler qt h k)
  from SetQueryHandler.IH [of "e\<lparr>queryHandlers := (queryHandlers e)(qt \<mapsto> h)\<rparr>"] show ?case by simp
next
  case (SetSignalHandler name h k)
  let ?e = "e\<lparr>signalHandlers := (signalHandlers e)(name \<mapsto> h)\<rparr>"
  obtain r e1 where d: "drainSignals ?e = (r, e1)" by fastforce
  have c: "coroutines e1 = coroutines e" using d by (auto simp: drainSignals_def split: prod.splits sum.splits)
  then have "\<exists>bs. coroutines (start_pump e1) = coroutines e @ map new_coroutine bs"
    by (auto simp: start_pump_def Dispatcher_Go_def intro: exI [of _ "[]"] exI [of _ "[Pump]"])
  with SetSignalHandler.IH [of "start_pump e1"] c show ?case by (cases r) (auto simp: d, metis append.assoc map_append)
qed (auto split: option.split)

lemma first_panic_spawned: "first_panic (c # map new_coroutine bs) = co_panicErr c"
proof -
  have "first_panic (map new_coroutine bs) = None" by (induction bs) (simp_all add: new_coroutine_def)
  then show ?thesis by (simp split: option.split)
qed

lemma settle_panic: "co_panicErr (settle st (new_coroutine b)) = (case st of Panicked q \<Rightarrow> Some q | _ \<Rightarrow> None)"
  by (cases st) (simp_all add: new_coroutine_def)

text \<open>A full replay is one round of one coroutine, whatever that coroutine spawns.\<close>

lemma replay_eq:
  "\<exists>bs. replay p v H = (snd (run p (started p v H)))\<lparr>coroutines :=
     settle (fst (run p (started p v H))) (new_coroutine (User p)) # map new_coroutine bs\<rparr>"
proof -
  obtain st e1 where r: "run p (started p v H) = (st, e1)" by fastforce
  obtain bs where "coroutines e1 = new_coroutine (User p) # map new_coroutine bs"
    using run_grows [of p "started p v H"] r by (auto simp: started_def)
  moreover have "coroutines (started p v H) = [new_coroutine (User p)]" by (simp add: started_def)
  moreover have "\<not> co_done (new_coroutine (User p))" "co_body (new_coroutine (User p)) = User p" by (simp_all add: new_coroutine_def)
  ultimately have "replay p v H = e1\<lparr>coroutines := settle st (new_coroutine (User p)) # map new_coroutine bs\<rparr>"
    by (simp add: replay_def started_eq ExecuteRound_def resume_def r)
  then show ?thesis using r by auto
qed

lemma replay_without_go:
  "\<exists>cs. replay (without_go p) v H = (replay p v H)\<lparr>coroutines := cs\<rparr>" (is ?frame)
  "FirstPanic (replay (without_go p) v H) = FirstPanic (replay p v H)" (is ?panic)
proof -
  obtain st e1 where r: "run p (started p v H) = (st, e1)" by fastforce
  have "started (without_go p) v H = (started p v H)\<lparr>coroutines := [new_coroutine (User (without_go p))]\<rparr>"
    by (simp add: started_def)
  with run_without_go [of p "[new_coroutine (User (without_go p))]" "started p v H"] r obtain cs where
    r': "run (without_go p) (started (without_go p) v H) = (strip_stop st, e1\<lparr>coroutines := cs\<rparr>)" by auto
  from replay_eq [of p v H] replay_eq [of "without_go p" v H] obtain bs bs' where
    eqs: "replay p v H = e1\<lparr>coroutines := settle st (new_coroutine (User p)) # map new_coroutine bs\<rparr>"
      "replay (without_go p) v H = e1\<lparr>coroutines :=
         settle (strip_stop st) (new_coroutine (User (without_go p))) # map new_coroutine bs'\<rparr>"
    by (auto simp: r r')
  show ?frame by (simp add: eqs) blast
  show ?panic by (cases st) (simp_all add: eqs FirstPanic_def first_panic_spawned settle_panic del: first_panic.simps settle.simps)
qed

lemma fresh_execution_eq:
  "fresh_execution quote w H = (case workflows w (type_of H) of
     None \<Rightarrow> Inl (''unregistered workflow type '' @ quote (type_of H))
   | Some f \<Rightarrow> (case FromPayload (wf_unmarshal f) (wf_zero f) (input_of H) of
        Inl err \<Rightarrow> Inl (''input unmarshal: '' @ err)
      | Inr i \<Rightarrow> Inr (replay (wf_fn f i) (wf_vars f) H, type_of H)))"
  by (simp add: fresh_execution_def LoadHistory_def runWorkflowFunc_def replay_def type_of_def input_of_def split_beta Let_def
      split: option.split sum.split)

lemma ReplayWorkflowHistory_eq:
  "ReplayWorkflowHistory H f = (case FromPayload (wf_unmarshal f) (wf_zero f) (input_of H) of
     Inl err \<Rightarrow> Inl (InputUnmarshal (''input unmarshal: '' @ err))
   | Inr i \<Rightarrow> (let e = replay (wf_fn f i) (wf_vars f) H in case FirstPanic e of
        Some q \<Rightarrow> Inl (ReplayPanic q)
      | None \<Rightarrow> (case ContinuedAsNew e of
           Some cmd \<Rightarrow> Inl (ReplayContinuedAsNew (CanWorkflowType cmd))
         | None \<Rightarrow> (case Err e of Some x \<Rightarrow> Inl (WorkflowFailed (Message x)) | None \<Rightarrow> Inr (Result e)))))"
  by (simp add: ReplayWorkflowHistory_def LoadHistory_def runWorkflowFunc_def replay_def input_of_def split_beta Let_def
      split: option.split sum.split)

lemma main_only_simps [simp]:
  "wf_unmarshal (main_only f) = wf_unmarshal f" "wf_zero (main_only f) = wf_zero f" "wf_vars (main_only f) = wf_vars f"
  "wf_fn (main_only f) i = without_go (wf_fn f i)"
  by (simp_all add: main_only_def)

definition same_output :: "'v execution \<Rightarrow> 'v execution \<Rightarrow> bool" where
  "same_output e e' \<longleftrightarrow> (\<exists>cs. e' = e\<lparr>coroutines := cs\<rparr>) \<and> FirstPanic e' = FirstPanic e"

lemma same_outputD:
  assumes "same_output e e'"
  shows "FirstPanic e' = FirstPanic e" "still_running e' = still_running e" "NewCommands e' = NewCommands e"
    "ContinuedAsNew e' = ContinuedAsNew e" "Err e' = Err e" "Result e' = Result e"
    "InvokeQueryHandler quote qt args e' = InvokeQueryHandler quote qt args e"
  using assms by (auto simp: same_output_def still_running_def InvokeQueryHandler_def split: option.split)

lemma replay_same_output: "same_output (replay p v H) (replay (without_go p) v H)"
  unfolding same_output_def by (intro conjI replay_without_go)

lemma fresh_main_only:
  "rel_sum (=) (rel_prod same_output (=)) (fresh_execution quote w H)
     (fresh_execution quote (w\<lparr>workflows := (\<lambda>ty. map_option main_only (workflows w ty))\<rparr>) H)"
  by (simp add: fresh_execution_eq replay_same_output split: option.split sum.split)

lemma replay_test_main_only: "ReplayWorkflowHistory H (main_only f) = ReplayWorkflowHistory H f"
  by (simp add: ReplayWorkflowHistory_eq same_outputD [OF replay_same_output] Let_def split: sum.split option.split)

lemma finish_task_same:
  assumes "same_output e e'" and "wk_identity w' = wk_identity w" and "stickyScheduleToStartTimeout w' = stickyScheduleToStartTimeout w"
  shows "fst (finish_task quote rpc_ok resp key e' ty w') = fst (finish_task quote rpc_ok resp key e ty w)"
  using same_outputD [OF assms(1)] assms(2,3) by (intro finish_task_out) simp_all

lemma processQueryTask_main_only:
  assumes "fst (cache_get key (execCache w)) = None"
  shows "fst (processQueryTask quote resp key qt args (w\<lparr>workflows := (\<lambda>ty. map_option main_only (workflows w ty))\<rparr>)) =
    fst (processQueryTask quote resp key qt args w)"
proof -
  obtain c where get: "cache_get key (execCache w) = (None, c)" using assms by (cases "cache_get key (execCache w)") simp
  show ?thesis
    using fresh_main_only [of quote w "pw_History resp"] get
    by (cases "fresh_execution quote w (pw_History resp)";
        cases "fresh_execution quote (w\<lparr>workflows := (\<lambda>ty. map_option main_only (workflows w ty))\<rparr>) (pw_History resp)")
      (auto simp: processQueryTask_def Let_def same_outputD split: option.split sum.split)
qed

text \<open>
  (C31) A worker that has no cached execution of a run, and a replay test, only ever run the main coroutine of workflow code.
  For any code, sequential or not, the answer to a task or a query is the answer of the same code with
  the coroutines it spawns with \<open>Go\<close> left out: the commands, the outcome, the panic, the query handlers and the
  variables do not depend on them. So what a spawned coroutine did in earlier rounds, while the execution was cached, is
  missing when the run is rebuilt from its history, and its recorded calls meet the main coroutine's next ones.
\<close>

theorem replay_runs_main_only:
  assumes "\<And>wid rid. pw_WorkflowExecution resp = Some (wid, rid) \<Longrightarrow> cache_ok (execCache w) \<and>
      contents (execCache w) \<lparr>WorkflowID = wid, RunID = rid\<rparr> = None"
  shows "fst (processWorkflowTask quote rpc_ok resp w) =
      fst (processWorkflowTask quote rpc_ok resp (w\<lparr>workflows := (\<lambda>ty. map_option main_only (workflows w ty))\<rparr>)) \<and>
    ReplayWorkflowHistory H f = ReplayWorkflowHistory H (main_only f)"
proof (cases "pw_WorkflowExecution resp")
  case None
  then show ?thesis by (simp add: processWorkflowTask_def replay_test_main_only)
next
  case (Some x)
  let ?w = "w\<lparr>workflows := (\<lambda>ty. map_option main_only (workflows w ty))\<rparr>"
  obtain wid rid where x: "x = (wid, rid)" by fastforce
  let ?key = "\<lparr>WorkflowID = wid, RunID = rid\<rparr>"
  have none: "fst (cache_get ?key (execCache w)) = None" using assms [of wid rid] Some x ec.get_fst [of "execCache w" ?key] by simp
  then obtain c where get: "cache_get ?key (execCache w) = (None, c)" by (cases "cache_get ?key (execCache w)") simp
  have task: "fst (processWorkflowTask quote rpc_ok resp w) = fst (processWorkflowTask quote rpc_ok resp ?w)" if "pw_QueryTask resp = None"
    using fresh_main_only [of quote w "pw_History resp"] get that
      finish_task_same [where w = "w\<lparr>execCache := c\<rparr>" and w' = "?w\<lparr>execCache := c\<rparr>"]
    by (cases "fresh_execution quote w (pw_History resp)"; cases "fresh_execution quote ?w (pw_History resp)")
      (auto simp: processWorkflowTask_def Some x Let_def respondWorkflowTaskFailed_def)
  show ?thesis
    using task processQueryTask_main_only [OF none]
    by (cases "pw_QueryTask resp") (auto simp: processWorkflowTask_def [of _ _ _ w] processWorkflowTask_def [of _ _ _ ?w]
        Some x Let_def replay_test_main_only)
qed

text \<open>
  Code that reads the task's time. \<open>Now\<close> is the time of the newest started task in the history, so a
  replay runs code from before that task with a later time than it had: here it takes the other branch
  and fails as non-deterministic, while the cached execution finishes.
\<close>

definition clock_prog :: "nat prog" where
  "clock_prog = ReadNow (\<lambda>t. ExecuteActivity (if t \<le> 3 then ''A'' else ''B'') (Inr ''1'') demo_opts
     (\<lambda>i. GetActivity i (\<lambda>r. Return (ReturnedResult (Inr ''2'')))))"

lemma replayed_time_diverges:
  "\<exists>e. sticky clock_prog 0 (demo_H @ demo_new) e \<and> FirstPanic e = None \<and> Result e \<noteq> None \<and>
     FirstPanic (replay clock_prog 0 (demo_H @ demo_new)) = Some (NonDeterministicActivity 1 ''B'' 1 ''A'')"
proof -
  let ?e = "replay clock_prog 0 demo_H"
  have cmds: "command_activities (NewCommands ?e) = [\<lparr>SActivityID = 1, SActivityType = ''A''\<rparr>]"
      "command_timers (NewCommands ?e) = []" "\<not> AllDone ?e"
    by (simp_all add: replay_eval clock_prog_def demo_H_def demo_opts_def command_activities_def command_timers_def)
  have "sticky clock_prog 0 demo_H ?e" by (rule sticky.first) (simp_all add: demo_H_def activities_of_def timers_of_def)
  then have "sticky clock_prog 0 (demo_H @ demo_new) (ExecuteRound (LoadNewEvents demo_new (ResetRoundOutput ?e)))"
    by (rule sticky.hit) (simp_all add: cmds, simp_all add: demo_H_def demo_new_def activities_of_def timers_of_def answered_def)
  then show ?thesis
    by (intro exI [of _ "ExecuteRound (LoadNewEvents demo_new (ResetRoundOutput ?e))"] conjI)
      (simp_all add: replay_eval clock_prog_def demo_H_def demo_new_def demo_opts_def LoadNewEvents_def ResetRoundOutput_def)
qed

text \<open>
  Code with a second coroutine. A round does not run coroutines started in it, so a full replay,
  which is one round, never runs them: the call they made is missing in the replay and the next
  call of the main coroutine meets its record.
\<close>

definition forked_prog :: "nat prog" where
  "forked_prog = Go (ExecuteActivity ''B'' (Inr ''1'') demo_opts (\<lambda>i. GetActivity i (\<lambda>r. Finish)))
     (ExecuteActivity ''A'' (Inr ''1'') demo_opts (\<lambda>i. GetActivity i (\<lambda>r.
        ExecuteActivity ''C'' (Inr ''1'') demo_opts (\<lambda>j. GetActivity j (\<lambda>r. Return (ReturnedResult (Inr ''2'')))))))"

definition fork_second :: "history_event list" where
  "fork_second = [demo_event 4 (ActivityTaskScheduled 1 ''A'' None None None None), demo_event 5 (WorkflowTaskStarted '''')]"

definition fork_third :: "history_event list" where
  "fork_third = [demo_event 6 (ActivityTaskScheduled 2 ''B'' None None None None), demo_event 7 (ActivityTaskCompleted 1 None),
     demo_event 8 (WorkflowTaskStarted '''')]"

lemma replayed_coroutines_diverge:
  "\<exists>e. sticky forked_prog 0 ((demo_H @ fork_second) @ fork_third) e \<and> FirstPanic e = None \<and>
     FirstPanic (replay forked_prog 0 ((demo_H @ fork_second) @ fork_third)) = Some (NonDeterministicActivity 2 ''C'' 2 ''B'')"
proof -
  let ?e1 = "replay forked_prog 0 demo_H"
  let ?e2 = "ExecuteRound (LoadNewEvents fork_second (ResetRoundOutput ?e1))"
  let ?e3 = "ExecuteRound (LoadNewEvents fork_third (ResetRoundOutput ?e2))"
  have c1: "command_activities (NewCommands ?e1) = [\<lparr>SActivityID = 1, SActivityType = ''A''\<rparr>]"
      "command_timers (NewCommands ?e1) = []" "\<not> AllDone ?e1"
    by (simp_all add: replay_eval forked_prog_def demo_H_def demo_opts_def command_activities_def command_timers_def)
  have c2: "command_activities (NewCommands ?e2) = [\<lparr>SActivityID = 2, SActivityType = ''B''\<rparr>]"
      "command_timers (NewCommands ?e2) = []" "\<not> AllDone ?e2"
    by (simp_all add: replay_eval forked_prog_def demo_H_def fork_second_def demo_opts_def command_activities_def
        command_timers_def LoadNewEvents_def ResetRoundOutput_def upt_rec)
  have "sticky forked_prog 0 demo_H ?e1" by (rule sticky.first) (simp_all add: demo_H_def activities_of_def timers_of_def)
  then have "sticky forked_prog 0 (demo_H @ fork_second) ?e2"
    by (rule sticky.hit) (simp_all add: c1, simp_all add: demo_H_def fork_second_def activities_of_def timers_of_def answered_def)
  then have "sticky forked_prog 0 ((demo_H @ fork_second) @ fork_third) ?e3"
    by (rule sticky.hit)
      (simp_all add: c2, simp_all add: demo_H_def fork_second_def fork_third_def activities_of_def timers_of_def answered_def)
  moreover have "FirstPanic ?e3 = None"
    by (simp add: replay_eval forked_prog_def demo_H_def fork_second_def fork_third_def demo_opts_def LoadNewEvents_def
        ResetRoundOutput_def upt_rec)
  moreover have "FirstPanic (replay forked_prog 0 ((demo_H @ fork_second) @ fork_third)) = Some (NonDeterministicActivity 2 ''C'' 2 ''B'')"
    by (simp add: replay_eval forked_prog_def demo_H_def fork_second_def fork_third_def demo_opts_def)
  ultimately show ?thesis by blast
qed

text \<open>The worker of the code with two coroutines loses its execution: the next task fails as its main coroutine alone does.\<close>

definition forked_worker :: "(nat, nat) worker" where
  "forked_worker = RegisterWorkflow ''main.W'' (demo_wf\<lparr>wf_fn := (\<lambda>_. forked_prog)\<rparr>) (New ''default'' ''host:1'' ''q''
     \<lparr>MaxConcurrentActivities = 0, MaxCachedWorkflowExecutions = 0, OptStickyScheduleToStartTimeout = 0, OptTaskQueuePartitions = []\<rparr>)"

theorem replay_runs_main_only_witness:
  "fst (processWorkflowTask id True (demo_resp (demo_H @ fork_second @ fork_third)) forked_worker) =
     respondWorkflowTaskFailed forked_worker ''t'' (panic_Error id (NonDeterministicActivity 2 ''C'' 2 ''B''))"
proof -
  let ?H = "demo_H @ fork_second @ fork_third" and ?f = "demo_wf\<lparr>wf_fn := (\<lambda>_. forked_prog)\<rparr>"
  let ?w = "forked_worker\<lparr>workflows := (\<lambda>ty. map_option main_only (workflows forked_worker ty))\<rparr>"
  have cache: "execCache forked_worker = newExecutionCache 1000"
    by (simp add: forked_worker_def RegisterWorkflow_def New_def defaultMaxCachedWorkflowExecutions_def)
  let ?c = "newExecutionCache 1000 :: nat cached_execution execution_cache"
  have ok: "cache_ok ?c" "contents ?c k = None" "cache_get k ?c = (None, ?c)" for k
    by (simp add: new_cache_ok) (simp_all add: contents_def newExecutionCache_def cache_get_def)
  have t: "type_of ?H = ''W''" "input_of ?H = None"
    by (simp_all add: type_of_def input_of_def demo_H_def fork_second_def fork_third_def)
  have "workflows forked_worker ''W'' = Some ?f" by (simp add: forked_worker_def RegisterWorkflow_def funcname_Of_def)
  then have "fresh_execution id ?w ?H = Inr (replay (without_go forked_prog) 0 ?H, ''W'')"
    by (simp add: fresh_execution_eq t FromPayload_def) (simp add: demo_wf_def)
  moreover have "FirstPanic (replay (without_go forked_prog) 0 ?H) = Some (NonDeterministicActivity 2 ''C'' 2 ''B'')"
    by (simp add: replay_eval forked_prog_def demo_H_def fork_second_def fork_third_def demo_opts_def)
  ultimately have "fst (processWorkflowTask id True (demo_resp ?H) ?w) =
      respondWorkflowTaskFailed forked_worker ''t'' (panic_Error id (NonDeterministicActivity 2 ''C'' 2 ''B''))"
    by (simp add: processWorkflowTask_def demo_resp_def Let_def cache ok finish_task_def respondWorkflowTaskFailed_def)
  moreover have "fst (processWorkflowTask id True (demo_resp ?H) forked_worker) = fst (processWorkflowTask id True (demo_resp ?H) ?w)"
    by (rule replay_runs_main_only [THEN conjunct1]) (simp add: cache ok)
  ultimately show ?thesis by (rule trans [rotated])
qed

text \<open>
  A query answered on a cache miss. The replay that rebuilds the execution may run new code, and the
  execution it caches has made calls whose commands were never sent: the workflow task that follows resumes
  it and sends no command, so the activity is never scheduled. Without the query the same task
  schedules it.
\<close>

definition demo_query :: poll_workflow_response where
  "demo_query = (demo_resp (take 2 demo_H))\<lparr>pw_QueryTask := Some (''state'', None)\<rparr>"

lemma query_miss_strands_commands:
  "(\<exists>r. fst (processWorkflowTask id True (demo_resp demo_H) (snd (processWorkflowTask id True demo_query demo_worker))) =
      Send (RespondWorkflowTaskCompletedRequest r) \<and> rw_Commands r = []) \<and>
   (\<exists>r. fst (processWorkflowTask id True (demo_resp demo_H) demo_worker) =
      Send (RespondWorkflowTaskCompletedRequest r) \<and> length (rw_Commands r) = 1)"
proof -
  let ?key = "\<lparr>WorkflowID = ''w'', RunID = ''r''\<rparr>"
  have empty: "execCache demo_worker = newExecutionCache 1000"
    by (simp add: demo_worker_def RegisterWorkflow_def New_def defaultMaxCachedWorkflowExecutions_def)
  let ?e = "replay demo_prog 0 (take 2 demo_H)"
  let ?x = "\<lparr>cx_exec = ?e, cx_workflowType = ''W'', cx_lastEventID = 2\<rparr>"
  have e: "FirstPanic ?e = None" "still_running ?e" "queryHandlers ?e ''state'' = None"
    by (simp_all add: replay_eval still_running_def demo_prog_def demo_H_def demo_opts_def)
  have t: "type_of (take 2 demo_H) = ''W''" "input_of (take 2 demo_H) = None" "type_of demo_H = ''W''" "input_of demo_H = None"
    by (simp_all add: type_of_def input_of_def demo_H_def)
  have fresh: "fresh_execution id w H = Inr (replay demo_prog 0 H, ''W'')"
    if "workflows w ''W'' = Some demo_wf" "type_of H = ''W''" "input_of H = None" for w H
    using fresh_execution_replay [of w H demo_wf 0 id] that by (simp add: demo_wf_def FromPayload_def)
  have get: "cache_get ?key (newExecutionCache 1000) = (None, newExecutionCache 1000)" for k
    by (simp add: cache_get_def newExecutionCache_def)
  have "snd (processWorkflowTask id True demo_query demo_worker) = demo_worker\<lparr>execCache := cache_put ?key ?x (newExecutionCache 1000)\<rparr>"
    using e t(1,2) fresh [OF demo_worker_workflow]
    by (simp add: processWorkflowTask_def demo_query_def demo_resp_def processQueryTask_def Let_def get empty
        InvokeQueryHandler_def respondQueryTaskFailed_def) (simp add: demo_H_def)
  moreover have "cache_get ?key (cache_put ?key ?x (newExecutionCache 1000)) = (Some ?x, cache_put ?key ?x (newExecutionCache 1000))"
    by (simp add: cache_get_def cache_put_def newExecutionCache_def Let_def MoveToFront_def)
  moreover have "eventsAfter demo_H 2 = [demo_event 3 (WorkflowTaskStarted '''')]" by (simp add: demo_H_def)
  moreover let ?e2 = "ExecuteRound (LoadNewEvents [demo_event 3 (WorkflowTaskStarted '''')] (ResetRoundOutput ?e))"
  have "FirstPanic ?e2 = None" "NewCommands ?e2 = []" "still_running ?e2"
    by (simp_all add: replay_eval still_running_def demo_prog_def demo_H_def demo_opts_def LoadNewEvents_def ResetRoundOutput_def)
  ultimately have "\<exists>r. fst (processWorkflowTask id True (demo_resp demo_H) (snd (processWorkflowTask id True demo_query demo_worker))) =
      Send (RespondWorkflowTaskCompletedRequest r) \<and> rw_Commands r = []"
    by (simp add: processWorkflowTask_def demo_resp_def Let_def finish_task_def) (simp add: demo_H_def)
  moreover have "FirstPanic (replay demo_prog 0 demo_H) = None"
    by (simp add: replay_eval demo_prog_def demo_H_def demo_opts_def)
  then have "\<exists>r. fst (processWorkflowTask id True (demo_resp demo_H) demo_worker) =
      Send (RespondWorkflowTaskCompletedRequest r) \<and> length (rw_Commands r) = 1"
    using fresh [OF demo_worker_workflow t(3,4)] demo_replay(1)
    by (simp add: processWorkflowTask_def demo_resp_def Let_def get empty finish_task_def) (simp add: demo_H_def)
  ultimately show ?thesis by blast
qed

end
