(* ===== verification/FrontendProps.thy ===== *)
theory FrontendProps
  imports Frontend SdkProps
begin

text \<open>
  The frontend: authorisation, validation, long polls and queries.
\<close>

section \<open>API keys\<close>

text \<open>What one entry of \<^verbatim>\<open>FLOWD_API_KEYS\<close> says, read off its text.\<close>

definition entry_key :: "string \<Rightarrow> string" where
  "entry_key entry = TrimSpace (takeWhile (\<lambda>c. c \<noteq> CHR '':'') entry)"

definition entry_allows :: "string \<Rightarrow> string \<Rightarrow> bool" where
  "entry_allows entry ns \<longleftrightarrow> CHR '':'' \<notin> set entry \<or>
     (\<exists>part \<in> set (split_on (CHR ''|'') (drop 1 (dropWhile (\<lambda>c. c \<noteq> CHR '':'') entry))).
        TrimSpace part = ''*'' \<or> TrimSpace part = ns \<and> ns \<noteq> '''')"

lemma scope_namespaces_iff:
  "(case scope_namespaces parts acc of None \<Rightarrow> True | Some l \<Rightarrow> ns \<in> set l) \<longleftrightarrow>
     ns \<in> set acc \<or> (\<exists>part \<in> set parts. TrimSpace part = ''*'' \<or> TrimSpace part = ns \<and> ns \<noteq> '''')"
  by (induction parts arbitrary: acc) (auto simp: Let_def)

lemma key_entry_iff:
  "key_entry entry = (if entry_key entry = '''' then None else
     Some (entry_key entry, if CHR '':'' \<notin> set entry then \<lparr>ks_namespaces = None\<rparr>
       else \<lparr>ks_namespaces = scope_namespaces (split_on (CHR ''|'') (drop 1 (dropWhile (\<lambda>c. c \<noteq> CHR '':'') entry))) []\<rparr>))"
  by (simp add: key_entry_def cut_def entry_key_def Let_def)

lemma key_entry_allows: "key_entry entry = Some (k, scope) \<Longrightarrow> allows scope ns \<longleftrightarrow> entry_allows entry ns"
  using scope_namespaces_iff [where acc = "[]"]
  by (auto simp: key_entry_iff allows_def entry_allows_def scope_namespaces_iff split: if_splits)

text \<open>The last entry for a key decides.\<close>

lemma parseAPIKeys_lookup:
  "k \<noteq> '''' \<Longrightarrow> parseAPIKeys keys table k =
     (case List.find (\<lambda>e. entry_key e = k) (rev keys) of
        Some e \<Rightarrow> map_option snd (key_entry e) | None \<Rightarrow> table k)"
proof (induction keys arbitrary: table)
  case (Cons e keys)
  then show ?case
    by (auto simp: find_append key_entry_iff split: option.split)
qed simp

definition authorized :: "string list \<Rightarrow> string list option \<Rightarrow> rpc_request \<Rightarrow> bool" where
  "authorized keys md req \<longleftrightarrow> (case md of
     Some (k # _) \<Rightarrow> k \<noteq> '''' \<and> (case List.find (\<lambda>e. entry_key e = k) (rev keys) of
        None \<Rightarrow> False
      | Some e \<Rightarrow> (case GetNamespace req of None \<Rightarrow> True | Some ns \<Rightarrow> entry_allows e (namespaceOrDefault ns)))
   | _ \<Rightarrow> False)"

lemma interceptor_outcome:
  "if authorized keys md req then APIKeyInterceptor quote keys md req handler s = handler s
   else \<exists>c t. APIKeyInterceptor quote keys md req handler s = Some (Inl (Status c t), s) \<and> c \<in> {Unauthenticated, PermissionDenied}"
proof (cases "\<exists>k vals. md = Some (k # vals) \<and> k \<noteq> ''''")
  case False
  then show ?thesis
    by (auto simp: authorized_def APIKeyInterceptor_def split: option.split list.split)
next
  case True
  then obtain k vals where md: "md = Some (k # vals)" "k \<noteq> ''''" by blast
  show ?thesis
  proof (cases "List.find (\<lambda>e. entry_key e = k) (rev keys)")
    case None
    then show ?thesis by (simp add: authorized_def APIKeyInterceptor_def md parseAPIKeys_lookup)
  next
    case (Some e)
    then have "entry_key e = k" by (auto dest: find_SomeD)
    then obtain scope where e: "key_entry e = Some (k, scope)" using md(2) by (simp add: key_entry_iff)
    show ?thesis
      using key_entry_allows [OF e]
      by (simp add: authorized_def APIKeyInterceptor_def md parseAPIKeys_lookup Some e split: option.split)
  qed
qed

text \<open>
  (C32) With API keys configured, a handler runs exactly for the calls that present a configured key
  whose entry allows the request's namespace (the default one when the request names none): a bare
  key or a star allows every namespace, a list only its members. Every other call is refused with
  Unauthenticated or PermissionDenied before the handler, and leaves the server as it was.
\<close>

theorem api_keys_enforced:
  "if authorized keys md req then APIKeyInterceptor quote keys md req handler s = handler s
   else \<exists>c t. APIKeyInterceptor quote keys md req handler s = Some (Inl (Status c t), s) \<and> c \<in> {Unauthenticated, PermissionDenied}"
  by (rule interceptor_outcome)

section \<open>Validation\<close>

text \<open>The payloads and the token a request carries.\<close>

fun command_payload :: "command \<Rightarrow> payload option" where
  "command_payload (ScheduleActivityTask a) = ActInput a"
| "command_payload (CompleteWorkflowExecution r) = r"
| "command_payload (ContinueAsNewWorkflowExecution n) = CanInput n"
| "command_payload _ = None"

fun request_payloads :: "rpc_request \<Rightarrow> payload option list" where
  "request_payloads (StartWorkflowExecutionRequest r) = [sw_Input r]"
| "request_payloads (SignalWorkflowExecutionRequest r) = [sr_Input r]"
| "request_payloads (RespondWorkflowTaskCompletedRequest r) = map command_payload (rw_Commands r)"
| "request_payloads (RespondActivityTaskCompletedRequest r) = [ra_Result r]"
| "request_payloads (RespondQueryTaskCompletedRequest r) = [rq_Result r]"
| "request_payloads (QueryWorkflowExecutionRequest r) = [qw_QueryArgs r]"
| "request_payloads _ = []"

fun request_token :: "rpc_request \<Rightarrow> bytes option" where
  "request_token (RespondWorkflowTaskCompletedRequest r) = Some (rw_TaskToken r)"
| "request_token (RespondWorkflowTaskFailedRequest r) = Some (rf_TaskToken r)"
| "request_token (RespondActivityTaskCompletedRequest r) = Some (ra_TaskToken r)"
| "request_token (RespondActivityTaskFailedRequest r) = Some (rf_TaskToken r)"
| "request_token (RespondQueryTaskCompletedRequest r) = Some (rq_TaskToken r)"
| "request_token _ = None"

fun request_unnamed :: "rpc_request \<Rightarrow> bool" where
  "request_unnamed (CreateNamespaceRequest name) = (name = '''')"
| "request_unnamed (QueryWorkflowExecutionRequest r) = (qw_QueryType r = '''')"
| "request_unnamed _ = False"

text \<open>A token is genuine when its first 32 bytes are the HMAC of the rest under the server's key and the rest decodes.\<close>

definition genuine :: "'b ext \<Rightarrow> store \<Rightarrow> bytes \<Rightarrow> bool" where
  "genuine X S tok \<longleftrightarrow> (\<exists>payload t. tok = signPayload payload (taskTokenSigningKey S) @ payload \<and>
     map_option token_of_fields (json_untoken X payload) = Some t \<and> tk_V t = taskTokenVersion)"

definition malformed :: "'b ext \<Rightarrow> store \<Rightarrow> rpc_request \<Rightarrow> bool" where
  "malformed X S req \<longleftrightarrow> list_ex payload_too_large (request_payloads req) \<or>
     (case request_token req of None \<Rightarrow> False | Some tok \<Rightarrow> \<not> genuine X S tok) \<or> request_unnamed req"

lemma genuine_iff: "genuine X S tok \<longleftrightarrow> (\<exists>t. DecodeTaskToken X tok (taskTokenSigningKey S) = Inr t)"
proof
  assume "genuine X S tok"
  then show "\<exists>t. DecodeTaskToken X tok (taskTokenSigningKey S) = Inr t"
    by (auto simp: genuine_def DecodeTaskToken_def Let_def)
next
  assume "\<exists>t. DecodeTaskToken X tok (taskTokenSigningKey S) = Inr t"
  then show "genuine X S tok"
    unfolding genuine_def DecodeTaskToken_def Let_def
    by (auto split: if_splits option.splits intro!: exI [of _ "drop 32 tok"]) (metis append_take_drop_id)
qed

lemma checkPayloadSize_iff [simp]:
  "checkPayloadSize p = None \<longleftrightarrow> \<not> payload_too_large p"
  "checkPayloadSize p = Some e \<Longrightarrow> \<exists>t. e = Status InvalidArgument t"
  by (auto simp: checkPayloadSize_def payload_too_large_def split: option.splits if_splits)

lemma checkCommands_iff:
  "checkCommandsPayloadSize cs = None \<longleftrightarrow> \<not> list_ex payload_too_large (map command_payload cs)"
  "checkCommandsPayloadSize cs = Some e \<Longrightarrow> \<exists>t. e = Status InvalidArgument t"
proof -
  have c: "(case c of ScheduleActivityTask a \<Rightarrow> checkPayloadSize (ActInput a) | CompleteWorkflowExecution r \<Rightarrow> checkPayloadSize r
      | ContinueAsNewWorkflowExecution n \<Rightarrow> checkPayloadSize (CanInput n) | _ \<Rightarrow> None) = checkPayloadSize (command_payload c)" for c
    by (cases c) (simp_all add: checkPayloadSize_def)
  show "checkCommandsPayloadSize cs = None \<longleftrightarrow> \<not> list_ex payload_too_large (map command_payload cs)"
    by (induction cs) (simp_all add: c split: option.split, metis checkPayloadSize_iff(1) option.distinct(1))
  show "checkCommandsPayloadSize cs = Some e \<Longrightarrow> \<exists>t. e = Status InvalidArgument t"
    by (induction cs) (auto simp: c split: option.splits dest: checkPayloadSize_iff(2))
qed

text \<open>A handler rejects when it answers InvalidArgument.\<close>

definition rejects :: "'b outcome \<Rightarrow> bool" where
  "rejects r \<longleftrightarrow> (\<exists>t. fst r = Inl (Status InvalidArgument t))"

lemma grpc_code_valid: "toGRPCError e \<noteq> Status InvalidArgument t"
  by (cases e) (simp_all add: toGRPCError_def grpc_code_def)

lemma rejects_store [simp]: "\<not> rejects (call_store m f s)"
  by (simp add: rejects_def call_store_def grpc_code_valid split: prod.split sum.split)

lemma rejects_poll [simp]: "\<not> rejects (poll_answer C none f r)"
  by (simp add: rejects_def poll_answer_def grpc_code_valid split: prod.split sum.split)

lemma rejects_guarded:
  "(\<And>e. err = Some e \<Longrightarrow> \<exists>t. e = Status InvalidArgument t) \<Longrightarrow>
   rejects (guarded err m s) \<longleftrightarrow> err \<noteq> None \<or> rejects (m s)"
  by (auto simp: rejects_def guarded_def split: option.split)

lemma rejects_token: "rejects (with_token X S tok m s) \<longleftrightarrow>
    \<not> genuine X S tok \<or> (\<exists>t. DecodeTaskToken X tok (taskTokenSigningKey S) = Inr t \<and> rejects (m t s))"
  by (cases "DecodeTaskToken X tok (taskTokenSigningKey S)") (auto simp: rejects_def with_token_def genuine_iff)

lemma rejects_await [simp]: "\<not> rejects (await_query X others dl ns tid n s)"
proof (induction n arbitrary: s)
  case 0
  show ?case by (subst await_query.simps) (simp add: rejects_def grpc_code_valid split: prod.split sum.split)
next
  case (Suc n)
  then show ?case by (subst await_query.simps) (auto simp: rejects_def grpc_code_valid Let_def split: prod.split sum.split)
qed

text \<open>A rejection has touched nothing: the store's functions come after every check.\<close>

lemma rejected_same:
  "rejects (guarded err m s) \<Longrightarrow> (err = None \<Longrightarrow> rejects (m s) \<Longrightarrow> snd (m s) = s) \<Longrightarrow> snd (guarded err m s) = s"
  "rejects (with_token X S tok m' s) \<Longrightarrow> (\<And>t. rejects (m' t s) \<Longrightarrow> snd (m' t s) = s) \<Longrightarrow> snd (with_token X S tok m' s) = s"
  by (auto simp: guarded_def with_token_def rejects_def split: option.splits sum.splits)

lemmas server_defs = Server_StartWorkflowExecution_def Server_SignalWorkflowExecution_def
  Server_RequestCancelWorkflowExecution_def Server_GetWorkflowExecutionHistory_def Server_DescribeWorkflowExecution_def
  Server_ListWorkflowExecutions_def Server_TerminateWorkflowExecution_def Server_PollWorkflowTaskQueue_def
  Server_PollActivityTaskQueue_def Server_RespondWorkflowTaskCompleted_def Server_RespondWorkflowTaskFailed_def
  Server_RespondActivityTaskCompleted_def Server_RespondActivityTaskFailed_def Server_CreateNamespace_def
  Server_ListNamespaces_def Server_RespondQueryTaskCompleted_def Server_QueryWorkflowExecution_def

lemma rejects_query:
  "\<not> rejects (case EnqueueQuery X E p s of (Inl e, s') \<Rightarrow> (Inl (toGRPCError e), s')
     | (Inr (nsID, taskID), s') \<Rightarrow> await_query X others dl nsID taskID n s')"
  by (auto simp: split_beta rejects_def [of "(Inl _, _)"] grpc_code_valid split: prod.split sum.split)

lemma rejects_checks:
  "rejects (guarded (checkPayloadSize p) m s) \<longleftrightarrow> payload_too_large p \<or> rejects (m s)"
  "rejects (guarded (checkCommandsPayloadSize cs) m s) \<longleftrightarrow> list_ex payload_too_large (map command_payload cs) \<or> rejects (m s)"
  "rejects (guarded (if b then Some (Status InvalidArgument t) else None) m s) \<longleftrightarrow> b \<or> rejects (m s)"
  "rejects (guarded (Some (Status InvalidArgument t)) m s)" "guarded None m s = m s"
proof -
  show "rejects (guarded (checkPayloadSize p) m s) \<longleftrightarrow> payload_too_large p \<or> rejects (m s)"
    by (subst rejects_guarded) (auto dest: checkPayloadSize_iff(2))
  show "rejects (guarded (checkCommandsPayloadSize cs) m s) \<longleftrightarrow> list_ex payload_too_large (map command_payload cs) \<or> rejects (m s)"
    by (subst rejects_guarded) (auto simp: checkCommands_iff(1) dest: checkCommands_iff(2))
  show "rejects (guarded (if b then Some (Status InvalidArgument t) else None) m s) \<longleftrightarrow> b \<or> rejects (m s)"
    by (subst rejects_guarded) (auto split: if_splits)
  show "rejects (guarded (Some (Status InvalidArgument t)) m s)" "guarded None m s = m s"
    by (simp_all add: guarded_def rejects_def)
qed

lemma handle_rejects:
  "handle X S C req s = Some r \<Longrightarrow> rejects r \<longleftrightarrow> malformed X S req"
  by (cases req)
    (auto simp: server_defs rejects_checks rejects_token rejects_query malformed_def list_ex_iff)

lemma handle_rejected_same:
  "handle X S C req s = Some r \<Longrightarrow> rejects r \<Longrightarrow> snd r = s"
  by (cases req)
    (auto simp: server_defs rejects_query intro!: rejected_same)

text \<open>
  (C33) Exactly the malformed requests are rejected with InvalidArgument: those that carry a payload of
  more than 2 MiB anywhere, a task token that is not a text signed with this server's key, or no name
  where one is required. Whatever a rejected request contains, the database, the waiting polls and the counters
  are unchanged.
\<close>

theorem malformed_request_rejected:
  assumes "handle X S C req s = Some r"
  shows "rejects r = malformed X S req \<and> (rejects r \<longrightarrow> snd r = s)"
  using handle_rejects [OF assms] handle_rejected_same [OF assms] by blast

definition demo_call :: "blob call" where
  "demo_call = \<lparr>ca_env = demo_env, ca_uuid = ''u'',
     ca_attempts = (\<lambda>i. \<lparr>pl_env = demo_env, pl_out = (if i = 0 then SelTimeout else SelDone), pl_others = id\<rparr>),
     ca_expired = False, ca_ticks = 1, ca_others = (\<lambda>_. id), ca_deadline = AtSelect\<rparr>"

theorem malformed_request_rejected_witness:
  "rejects (Server_CreateNamespace demo_call '''' demo_sys) \<and> snd (Server_CreateNamespace demo_call '''' demo_sys) = demo_sys"
proof -
  have "handle demo_ext demo_store demo_call (CreateNamespaceRequest '''') demo_sys =
      Some (Server_CreateNamespace demo_call '''' demo_sys)" by simp
  from malformed_request_rejected [OF this] show ?thesis by (simp add: malformed_def)
qed

section \<open>Long polls\<close>

lemma poll_ends:
  assumes "\<And>s. \<exists>e s'. wait (A n) s = (Inl e, s')" and "i \<le> n"
  shows "\<exists>r. poll dispatch wait A i s = Some r"
  using assms(2)
proof (induction "n - i" arbitrary: i s)
  case 0
  then have "i = n" by simp
  obtain r s1 where d: "dispatch (A n) s = (r, s1)" by fastforce
  obtain e s2 where w: "wait (A n) s1 = (Inl e, s2)" using assms(1) by blast
  show ?case unfolding \<open>i = n\<close> by (subst poll.simps) (simp add: d w split: sum.split)
next
  case (Suc m)
  then have IH: "\<exists>r. poll dispatch wait A (Suc i) s' = Some r" for s' by simp
  obtain r s1 where d: "dispatch (A i) s = (r, s1)" by fastforce
  obtain r2 s2 where w: "wait (A i) s1 = (r2, s2)" by fastforce
  show ?case using IH [of s2] by (subst poll.simps) (auto simp: d w split: sum.split)
qed

text \<open>A poll whose attempts and waits keep a relation to the state keeps it until it is done.\<close>

lemma poll_done:
  assumes fin: "\<And>s. \<exists>e s'. wait (A n) s = (Inl e, s')" and "i \<le> n"
    and "poll dispatch wait A i s = Some (Inl ErrCtxDone, s')" and "P s"
    and disp: "\<And>a s0 s1. P s0 \<Longrightarrow> dispatch a s0 = (Inl ErrNoTaskAvailable, s1) \<Longrightarrow> P s1"
    and never: "\<And>a s0 s1. dispatch a s0 \<noteq> (Inl ErrCtxDone, s1)"
    and wait: "\<And>j s0 s1 r. P s0 \<Longrightarrow> wait (A j) s0 = (r, s1) \<Longrightarrow> P s1"
  shows "P s'"
  using assms(2-4)
proof (induction "n - i" arbitrary: i s)
  case 0
  then have "i = n" by simp
  obtain r s1 where d: "dispatch (A n) s = (r, s1)" by fastforce
  obtain e s2 where w: "wait (A n) s1 = (Inl e, s2)" using fin by blast
  from 0(3) [unfolded \<open>i = n\<close>] have "r = Inl ErrNoTaskAvailable \<and> s' = s2"
    using never [of "A n" s] by (subst (asm) poll.simps) (auto simp: d w split: sum.splits if_splits)
  with d w 0(4) show ?case using disp wait by blast
next
  case (Suc m)
  obtain r s1 where d: "dispatch (A i) s = (r, s1)" by fastforce
  obtain r2 s2 where w: "wait (A i) s1 = (r2, s2)" by fastforce
  from Suc.prems(2) have r: "r = Inl ErrNoTaskAvailable \<and>
      ((\<exists>e. r2 = Inl e) \<and> s' = s2 \<or> poll dispatch wait A (Suc i) s2 = Some (Inl ErrCtxDone, s'))"
    using never [of "A i" s] by (subst (asm) poll.simps) (auto simp: d w split: sum.splits if_splits)
  with d w Suc.prems(3) have "P s2" using disp wait by blast
  with r Suc.hyps(1) [of "Suc i" s2] Suc.hyps(2) show ?case by auto
qed

lemma wait_silent:
  assumes "pl_others a = id" and "notifier_wf (notif s)" and "wait_notified key a s = (r, s')"
  shows "sdb s' = sdb s \<and> waiters (notif s') = waiters (notif s) \<and> notifier_wf (notif s')"
proof -
  obtain ch n1 where reg: "register key (notif s) = (ch, n1)" by fastforce
  let ?out = "if select_ready (pl_out a) (pl_out a = SelDone) ch n1 then pl_out a else SelTimeout"
  let ?n2 = "if ?out = SelRecv then n1\<lparr>buffered := buffered n1 - {ch}\<rparr> else n1"
  have n: "notif s' = cancel key ch ?n2" "sdb s' = sdb s"
    using assms(3) by (auto simp: wait_notified_def reg assms(1) wait_return_def Let_def)
  have w: "waiters (cancel key ch ?n2) = waiters (cancel key ch n1)"
    by (simp add: cancel_def Let_def waiters_of_def split: option.split)
  have "waiters (cancel key ch n1) = waiters (notif s)"
    using register_cancel_id [OF assms(2), of key] reg by simp
  moreover have "notifier_wf n1" using register_wf [OF assms(2), of key] reg by simp
  then have "notifier_wf ?n2" by (simp add: notifier_wf_def waiters_of_def)
  then have "notifier_wf (notif s')" unfolding n by (rule cancel_wf)
  ultimately show ?thesis using n w by simp
qed

lemma never_mapErr: "(\<And>e'. h e' \<noteq> e) \<Longrightarrow> never e (mapErr h m)"
  by (simp add: never_def mapErr_def split: prod.split sum.split)

lemma never_lift:
  "never e m \<Longrightarrow> never e (onDB m)" "never e m' \<Longrightarrow> never e (withTx m')" "r \<noteq> Inl e \<Longrightarrow> never e (liftE r)" "never e (count f)"
  by (auto simp: never_def onDB_def withTx_def liftE_def count_def monad_simps split: prod.splits sum.splits)
    (metis fst_conv)+

text \<open>The errors of the loop's own control flow come from nowhere inside a dispatch.\<close>

definition loop_error :: "error \<Rightarrow> bool" where
  "loop_error e \<longleftrightarrow> e = ErrNoTaskAvailable \<or> e = ErrCtxDone"

lemma never_append:
  assumes "loop_error e"
  shows "never e (AppendHistory X now k n evs)"
proof -
  have "never e (insert_event X now k p)" for p
    using assms by (auto simp: loop_error_def never_def insert_event_def q_InsertHistoryEvent_def throw_def split: option.split)
  moreover have "never e (mapErr (\<lambda>e. if e = ErrNoRows then ErrConcurrentModification else e) (q_AdvanceNextEventID now k m n))" for m
    using assms by (auto simp: loop_error_def never_def mapErr_def q_AdvanceNextEventID_def split: option.split)
  ultimately show ?thesis
    unfolding AppendHistory_def by (intro never_if never_bindM never_forM never_ret)
qed

lemma decode_rows_errors: "loop_error e \<Longrightarrow> decode_rows X rows \<noteq> Inl e"
  by (induction rows) (auto simp: loop_error_def decodeHistoryEvent_def Let_def split: sum.splits option.splits if_splits)

lemma never_queries:
  assumes "loop_error e"
  shows "never e (q_GetWorkflowExecution k)" "never e (q_ListHistoryEvents k a l)"
  using assms by (auto simp: loop_error_def never_def q_GetWorkflowExecution_def q_ListHistoryEvents_def split: option.split)

lemma never_dispatch_row:
  assumes "loop_error e"
  shows "never e (dispatch_workflow_row X S E ns row)"
proof -
  have "Encode X t key \<noteq> Inl e" for t key
    using assms by (auto simp: loop_error_def Encode_def split: option.splits)
  then show ?thesis
    unfolding dispatch_workflow_row_def task_started_tx_def Let_def
    by (intro never_bindM never_lift never_append never_queries never_ret assms decode_rows_errors)
qed

lemma never_build:
  assumes "loop_error e"
  shows "never e (buildQueryDispatch X S ns row)"
proof -
  have "Encode X t key \<noteq> Inl e" for t key
    using assms by (auto simp: loop_error_def Encode_def split: option.splits)
  moreover have "never e (case unmarshal_payload X b of None \<Rightarrow> throw ErrUnmarshal | Some a \<Rightarrow> ret a)" for b
    using assms by (auto simp: loop_error_def never_def throw_def ret_def split: option.split)
  ultimately show ?thesis
    unfolding buildQueryDispatch_def Let_def
    by (intro never_bindM never_lift never_queries never_ret assms decode_rows_errors)
qed

text \<open>A dispatch that finds no task has changed nothing.\<close>

lemma dispatch_none:
  assumes "DispatchWorkflowTask X S E ns q w ps s = (Inl e, s')" and e: "loop_error e"
  shows "e = ErrNoTaskAvailable \<and> s' = s"
proof (cases "namespace_id ns (sdb s)")
  case None
  with assms show ?thesis by (simp add: DispatchWorkflowTask_def bindM_def getNamespaceID_None loop_error_def)
next
  case (Some id)
  let ?q = "q_DequeueQueryTask (db_now E 0) (lease_uuid E 0) (locked_q E) queryTaskLeaseSeconds q id (sdb s)"
  let ?w = "q_DequeueWorkflowTask (db_now E 1) (lease_uuid E 1) (locked E) workflowTaskLeaseSeconds q id
    (if w \<noteq> '''' then Some w else None) ps (sdb s)"
  have qw: "\<exists>r d. ?q = (Inr r, d) \<or> ?q = (Inl ErrNoRows, sdb s)" "\<exists>r d. ?w = (Inr r, d) \<or> ?w = (Inl ErrNoRows, sdb s)"
    by (auto simp: q_DequeueQueryTask_def q_DequeueWorkflowTask_def split: option.split)
  note unfold = DispatchWorkflowTask_def bindM_def onDB_def mapErr_def getNamespaceID_Some [OF Some]
  show ?thesis
  proof (cases "fst ?q")
    case (Inr row)
    then obtain d where "?q = (Inr row, d)" by (metis prod.collapse)
    then have "buildQueryDispatch X S id row (s\<lparr>sdb := d\<rparr>) = (Inl e, s')" using assms(1) by (simp add: unfold)
    then show ?thesis using neverD [OF never_build [OF e]] by blast
  next
    case q: (Inl e1)
    then have q': "?q = (Inl ErrNoRows, sdb s)" using qw(1) by auto
    show ?thesis
    proof (cases "fst ?w")
      case (Inr row)
      then obtain d where "?w = (Inr row, d)" by (metis prod.collapse)
      then have "dispatch_workflow_row X S E id row (s\<lparr>sdb := d\<rparr>) = (Inl e, s')"
        using assms(1) by (simp add: unfold q' del: One_nat_def)
      then show ?thesis using neverD [OF never_dispatch_row [OF e]] by blast
    next
      case (Inl e2)
      then have "?w = (Inl ErrNoRows, sdb s)" using qw(2) by auto
      then show ?thesis using assms(1) by (simp add: unfold q' del: One_nat_def)
    qed
  qed
qed

text \<open>
  (C34) A long poll always comes back: once its context is done, at whichever attempt, the call returns,
  whatever other requests did in the meantime. If the first attempt finds a task, that task
  is returned at once. A poll that times out while nothing else happens leaves no trace in
  the database and no waiter behind.
\<close>

theorem long_poll_returns:
  assumes "pl_out (A n) = SelDone"
  shows "(\<exists>r s'. PollWorkflowTask X S ns q w ps A s = Some (r, s') \<and>
      (\<forall>t s1. DispatchWorkflowTask X S (pl_env (A 0)) ns q w ps s = (Inr t, s1) \<longrightarrow> r = Inr t \<and> s' = s1) \<and>
      ((\<forall>i. pl_others (A i) = id) \<and> notifier_wf (notif s) \<and> r = Inl ErrCtxDone \<longrightarrow>
         sdb s' = sdb s \<and> waiters (notif s') = waiters (notif s))) \<and>
    (\<exists>r. PollActivityTask X S ns q ps A s = Some r)"
proof -
  let ?d = "\<lambda>a. DispatchWorkflowTask X S (pl_env a) ns q w ps" and ?w = "WaitForWorkflowTask ns q"
  have fin: "\<exists>e s'. bindM (getNamespaceID ns) (\<lambda>id. wait_notified (key id) (A n)) s0 = (Inl e, s')" for key s0
  proof (cases "namespace_id ns (sdb s0)")
    case (Some id)
    then show ?thesis
      by (auto simp: bindM_def getNamespaceID_Some wait_notified_def wait_return_def select_ready_def assms Let_def split: prod.split)
  qed (simp add: bindM_def getNamespaceID_None)
  obtain r s' where r: "poll ?d ?w A 0 s = Some (r, s')"
    using poll_ends [of ?w A n 0 ?d s] fin unfolding WaitForWorkflowTask_def by fastforce
  have act: "\<exists>r. PollActivityTask X S ns q ps A s = Some r"
    unfolding PollActivityTask_def WaitForActivityTask_def by (rule poll_ends [where n = n]) (auto simp: fin)
  have "r = Inr t \<and> s' = s1" if "DispatchWorkflowTask X S (pl_env (A 0)) ns q w ps s = (Inr t, s1)" for t s1
    using r that by (subst (asm) poll.simps) simp
  moreover have "sdb s' = sdb s \<and> waiters (notif s') = waiters (notif s)"
    if "\<forall>i. pl_others (A i) = id" "notifier_wf (notif s)" "r = Inl ErrCtxDone"
  proof -
    let ?P = "\<lambda>x. sdb x = sdb s \<and> waiters (notif x) = waiters (notif s) \<and> notifier_wf (notif x)"
    have wait: "?P s1" if "?P s0" "?w (A j) s0 = (r', s1)" for j s0 s1 r'
    proof (cases "namespace_id ns (sdb s0)")
      case (Some nsID)
      then have "wait_notified (workflowQueueKey nsID q) (A j) s0 = (r', s1)"
        using that(2) by (simp add: WaitForWorkflowTask_def bindM_def getNamespaceID_Some)
      from wait_silent [OF _ _ this] that(1) \<open>\<forall>i. pl_others (A i) = id\<close> show ?thesis by simp
    qed (use that in \<open>simp add: WaitForWorkflowTask_def bindM_def getNamespaceID_None\<close>)
    have "?P s'"
    proof (rule poll_done [of ?w A n 0 ?d s s' ?P])
      show "\<exists>e s1. ?w (A n) s0 = (Inl e, s1)" for s0 using fin by (simp add: WaitForWorkflowTask_def)
      show "?P s1" if "?P s0" "?d a s0 = (Inl ErrNoTaskAvailable, s1)" for a s0 s1
        using dispatch_none [OF that(2)] that(1) by (simp add: loop_error_def)
      show "?d a s0 \<noteq> (Inl ErrCtxDone, s1)" for a s0 s1
        using dispatch_none [of X S "pl_env a" ns q w ps s0 ErrCtxDone s1] by (auto simp: loop_error_def)
      show "0 \<le> n" by simp
      show "poll ?d ?w A 0 s = Some (Inl ErrCtxDone, s')" using r that(3) by simp
      show "?P s" using that(2) by simp
      show "?P s1" if "?P s0" "?w (A j) s0 = (r', s1)" for j s0 s1 r' using wait [OF that] .
    qed
    then show ?thesis by simp
  qed
  ultimately show ?thesis using r act by (auto simp: PollWorkflowTask_def)
qed

theorem long_poll_returns_witness:
  "\<exists>r s'. PollWorkflowTask demo_ext demo_store ''default'' ''other'' '''' [] (ca_attempts demo_call) demo_sys = Some (r, s')"
proof -
  have "pl_out (ca_attempts demo_call 1) = SelDone" by (simp add: demo_call_def)
  from long_poll_returns [of "ca_attempts demo_call" 1, OF this] show ?thesis by blast
qed

end
