(* ===== verification/QueryRow.thy ===== *)
theory QueryRow
  imports LeaseProps
begin

text \<open>
  A query's row while its caller waits: no request that does not present the query's own id answers it, removes
  it or changes an answer in it.
\<close>

section \<open>What leaves the query tasks alone\<close>

lemma keeps_qrows_queries:
  "keeps (\<lambda>d. query_tasks d = qs) (q_InsertCurrentExecution ns wid rid req)"
  "keeps (\<lambda>d. query_tasks d = qs) (q_GetCurrentExecution ns wid)"
  "keeps (\<lambda>d. query_tasks d = qs) (q_ReplaceCurrentExecution ns wid rid req)"
  "keeps (\<lambda>d. query_tasks d = qs) (q_GetWorkflowExecution k)"
  "keeps (\<lambda>d. query_tasks d = qs) (q_EnqueueWorkflowTask now ep)"
  "keeps (\<lambda>d. query_tasks d = qs) (q_EnqueueActivityTask now ap)"
  "keeps (\<lambda>d. query_tasks d = qs) (q_InsertTimer tr)"
  "keeps (\<lambda>d. query_tasks d = qs) (q_CompleteWorkflowTask tid u)"
  "keeps (\<lambda>d. query_tasks d = qs) (q_CompleteActivityTask tid u)"
  "keeps (\<lambda>d. query_tasks d = qs) (q_GetActivityTaskByLease tid u)"
  "keeps (\<lambda>d. query_tasks d = qs) (q_RetryActivityTask now tid u b)"
  "keeps (\<lambda>d. query_tasks d = qs) (q_DequeueDueTimer now tlk)"
  "keeps (\<lambda>d. query_tasks d = qs) (q_DequeueActivityTask now u0 lk q ns ps)"
  "keeps (\<lambda>d. query_tasks d = qs) (q_DequeueWorkflowTask now u0 lk secs q ns w ps)"
  "keeps (\<lambda>d. query_tasks d = qs) (q_ReapExpiredActivityTasks now)"
  "keeps (\<lambda>d. query_tasks d = qs) (q_ReapExpiredWorkflowTasks now)"
  "keeps (\<lambda>d. query_tasks d = qs) (q_CreateNamespace now name)"
  "keeps (\<lambda>d. query_tasks d = qs) (q_CreateWorkflowExecution now p)"
  "keeps (\<lambda>d. query_tasks d = qs) (q_CloseWorkflowExecution now k st)"
  "keeps (\<lambda>d. query_tasks d = qs) (q_SetStickyExecution now k w e)"
  by (rule keepsI; simp add: Let_def q_InsertCurrentExecution_def
      q_GetCurrentExecution_def q_ReplaceCurrentExecution_def q_GetWorkflowExecution_def
      q_EnqueueWorkflowTask_def q_EnqueueActivityTask_def q_InsertTimer_def q_CompleteWorkflowTask_def
      q_CompleteActivityTask_def q_GetActivityTaskByLease_def q_RetryActivityTask_def
      q_DequeueDueTimer_def q_DequeueActivityTask_def q_DequeueWorkflowTask_def
      q_ReapExpiredActivityTasks_def q_ReapExpiredWorkflowTasks_def
      q_CreateNamespace_def q_CreateWorkflowExecution_def q_CloseWorkflowExecution_def q_SetStickyExecution_def
      split: option.split prod.split)+

lemma keeps_qrows_append: "keeps (\<lambda>d. query_tasks d = qs) (AppendHistory X now k e evs)"
proof -
  have "keeps (\<lambda>d. query_tasks d = qs) (insert_event X now k p)" for p
    by (rule keepsI) (auto simp: insert_event_def q_InsertHistoryEvent_def monad_simps split: option.split)
  moreover have "keeps (\<lambda>d. query_tasks d = qs) (q_AdvanceNextEventID now k n e)" for n
    by (rule keepsI) (simp add: q_AdvanceNextEventID_def split: option.split)
  ultimately show ?thesis
    unfolding AppendHistory_def by (intro keeps_if keeps_bindM keeps_mapErr keeps_forM keeps_ret)
qed

lemmas keeps_qrows = keeps_qrows_queries keeps_qrows_append

interpretation qr: kept_by_queries "\<lambda>d. query_tasks d = qs" for qs
  by unfold_locales (rule keeps_qrows)+

lemma keeps_qrows_start: "keeps (\<lambda>d. query_tasks d = qs) (start_tx X S now ns rid p)"
  unfolding start_tx_def start_existing_def by (intro keeps_bindM keeps_if keeps_qrows keeps_ret keeps_throw)

lemma keeps_qrows_complete: "keeps (\<lambda>s. query_tasks (sdb s) = qs) (complete_tx X S E token cmds sticky)"
proof -
  let ?I = "\<lambda>d. query_tasks d = qs"
  have front: "keeps ?I (complete_front X S E token cmds)"
    unfolding complete_front_def by (intro keeps_bindM keeps_if keeps_qrows keeps_throw keeps_ret keeps_liftE)
  have can: "keeps ?I (continueWorkflowAsNew X S now req k we rid cmd)" for now req k we rid cmd
    unfolding continueWorkflowAsNew_def Let_def by (intro keeps_bindM keeps_qrows)
  show ?thesis
    unfolding complete_tx_def Let_def
    by (rule keeps_bindM [OF keeps_onDB [OF front]])
      (auto split: prod.split option.split intro!: keeps_bindM keeps_onDB [of ?I] keeps_count [of ?I] qr.kept_effects can keeps_qrows)
qed

lemma tx_qrows: "(\<And>qs. keeps (\<lambda>d. query_tasks d = qs) m) \<Longrightarrow> query_tasks (tx m d) = query_tasks d"
  using keepsD [of "\<lambda>d'. query_tasks d' = query_tasks d" m d] by (auto simp: tx_def split: prod.split sum.split)

lemma withTx_qrows:
  "(\<And>qs. keeps (\<lambda>s. query_tasks (sdb s) = qs) m) \<Longrightarrow> query_tasks (sdb (snd (withTx m s))) = query_tasks (sdb s)"
  using keepsD [of "\<lambda>s'. query_tasks (sdb s') = query_tasks (sdb s)" m s] by (auto simp: withTx_def split: prod.split sum.split)

lemma snd_qrows: "(\<And>qs. keeps (\<lambda>d. query_tasks d = qs) m) \<Longrightarrow> query_tasks (snd (m d)) = query_tasks d"
  using keepsD [of "\<lambda>d'. query_tasks d' = query_tasks d" m d] by simp

section \<open>The row of one query\<close>

text \<open>A property of the row that leasing it and releasing its lease keep.\<close>

definition survives :: "('b qt_row \<Rightarrow> bool) \<Rightarrow> bool" where
  "survives R \<longleftrightarrow> (\<forall>t secs u now. R t \<and> qt_status t = PENDING \<longrightarrow> R (qt_grant secs u now t)) \<and>
     (\<forall>t. R t \<and> qt_status t = STARTED \<longrightarrow> R (qt_release t))"

definition has_row :: "int \<Rightarrow> ('b qt_row \<Rightarrow> bool) \<Rightarrow> 'b db \<Rightarrow> bool" where
  "has_row tid R d \<longleftrightarrow> (\<exists>t \<in> set (query_tasks d). qt_task_id t = tid \<and> R t)"

lemma has_row_update:
  assumes "has_row tid R d" and "\<And>t. qt_task_id (f t) = qt_task_id t"
    and "\<And>t. t \<in> set (query_tasks d) \<Longrightarrow> M t \<Longrightarrow> qt_task_id t = tid \<Longrightarrow> R t \<Longrightarrow> R (f t)"
  shows "has_row tid R (d\<lparr>query_tasks := sql_update M f (query_tasks d)\<rparr>)"
proof -
  obtain t where t: "t \<in> set (query_tasks d)" "qt_task_id t = tid" "R t" using assms(1) by (auto simp: has_row_def)
  then have "(if M t then f t else t) \<in> set (sql_update M f (query_tasks d))" by (auto simp: sql_update_def)
  moreover have "qt_task_id (if M t then f t else t) = tid \<and> R (if M t then f t else t)" using t assms(2,3) by simp
  ultimately show ?thesis unfolding has_row_def by auto
qed

lemma qt_distinct: "db_wf d \<Longrightarrow> distinct (map qt_task_id (query_tasks d))"
  by (simp add: db_wf_def gen_wf_def qt_wf_def qtq.leases_wf_def)

lemma dequeue_has_row:
  assumes "db_wf d" and "survives R" and "has_row tid R d"
  shows "has_row tid R (snd (q_DequeueQueryTask now u lk secs q ns d))"
proof (cases "lease_dequeue qt_task_id (qt_eligible now lk q ns) (qt_grant secs u now) (query_tasks d)")
  case None
  with assms(3) show ?thesis by (simp add: q_DequeueQueryTask_def)
next
  case (Some p)
  obtain r' rows where p: "p = (r', rows)" by (cases p)
  with Some have deq: "lease_dequeue qt_task_id (qt_eligible now lk q ns) (qt_grant secs u now) (query_tasks d) = Some (r', rows)" by simp
  from qtq.dequeue_SomeE [OF this] obtain r where r: "r \<in> set (query_tasks d)" "qt_eligible now lk q ns r"
      "rows = sql_update (\<lambda>x. qt_task_id x = qt_task_id r) (qt_grant secs u now) (query_tasks d)" by metis
  have "has_row tid R (d\<lparr>query_tasks := rows\<rparr>)" unfolding r(3)
  proof (rule has_row_update [OF assms(3)])
    fix t assume t: "t \<in> set (query_tasks d)" "qt_task_id t = qt_task_id r" "qt_task_id t = tid" "R t"
    then have "t = r" using qt_distinct [OF assms(1)] r(1) by (auto simp: distinct_map dest: inj_onD)
    with t(4) r(2) assms(2) show "R (qt_grant secs u now t)" by (simp add: survives_def qt_eligible_def)
  qed (simp add: qt_grant_def)
  with deq show ?thesis by (simp add: q_DequeueQueryTask_def)
qed

lemma reap_has_row:
  assumes "survives R" and "has_row tid R d"
  shows "has_row tid R (snd (q_ReapExpiredQueryTasks now d))"
  unfolding q_ReapExpiredQueryTasks_def Let_def snd_conv
  by (rule has_row_update [OF assms(2)]) (use assms(1) in \<open>auto simp: survives_def lease_expired_def qt_release_def\<close>)

lemma token_step_has_row:
  assumes "token_step X S P B (\<lambda>i. i \<noteq> tid) d d'" and "db_wf d" and "survives R" and "has_row tid R d"
  shows "has_row tid R d'"
  using assms
proof (cases rule: token_step.cases)
  case dequeue_query
  with dequeue_has_row [OF assms(2-4)] show ?thesis by simp
next
  case reap_query
  with reap_has_row [OF assms(3,4)] show ?thesis by simp
next
  case (enqueue_query ns wid rid q qt args now)
  with assms(4) show ?thesis by (auto simp: has_row_def q_EnqueueQueryTask_def Let_def split: option.split)
next
  case (complete_query i lu result)
  show ?thesis unfolding complete_query q_CompleteQueryTask_def Let_def snd_conv
    by (rule has_row_update [OF assms(4)]) (use complete_query in \<open>auto simp: lease_match_def\<close>)
next
  case (fail_query i lu msg)
  show ?thesis unfolding fail_query q_FailQueryTask_def Let_def snd_conv
    by (rule has_row_update [OF assms(4)]) (use fail_query in \<open>auto simp: lease_match_def\<close>)
next
  case (delete_query i)
  with assms(4) show ?thesis by (auto simp: has_row_def q_DeleteQueryTask_def set_sql_delete)
qed (use assms(4) in \<open>simp_all add: has_row_def tx_qrows keeps_qrows_start qr.kept_bodies qr.kept_fire withTx_qrows
    keeps_qrows_complete snd_qrows keeps_qrows\<close>)

section \<open>Other requests\<close>

definition serve_all :: "'b ext \<Rightarrow> store \<Rightarrow> (env \<times> request) list \<Rightarrow> 'b sys \<Rightarrow> 'b sys" where
  "serve_all X S rs s = fold (\<lambda>(E, q) s. serve X S E q s) rs s"

definition quiet :: "int \<Rightarrow> (env \<times> request) list \<Rightarrow> bool" where
  "quiet tid rs \<longleftrightarrow> (\<forall>(E, q) \<in> set rs. tid \<notin> touches q)"

lemma serve_all_simps [simp]:
  "serve_all X S [] s = s" "serve_all X S ((E, q) # rs) s = serve_all X S rs (serve X S E q s)"
  "serve_all X S (rs @ rs') s = serve_all X S rs' (serve_all X S rs s)"
  by (simp_all add: serve_all_def)

lemma quiet_simps [simp]:
  "quiet tid []" "quiet tid ((E, q) # rs) \<longleftrightarrow> tid \<notin> touches q \<and> quiet tid rs"
  by (simp_all add: quiet_def)

lemma steps_wf: "(token_step X S P B Q)\<^sup>*\<^sup>* d d' \<Longrightarrow> db_wf d \<Longrightarrow> db_wf d'"
  by (induction rule: rtranclp_induct) (auto intro: token_step_wf)

lemma serve_all_wf: "db_wf (sdb s) \<Longrightarrow> db_wf (sdb (serve_all X S rs s))"
proof (induction rs arbitrary: s)
  case (Cons x rs)
  obtain E q where x: "x = (E, q)" by fastforce
  show ?case using Cons.IH [OF steps_wf [OF serve_steps Cons.prems]] by (simp add: x)
qed simp

lemma serve_all_has_row:
  assumes "quiet tid rs" and "db_wf (sdb s)" and "survives R" and "has_row tid R (sdb s)"
  shows "has_row tid R (sdb (serve_all X S rs s))"
  using assms
proof (induction rs arbitrary: s)
  case (Cons x rs)
  obtain E q where x: "x = (E, q)" by fastforce
  have "(token_step X S (\<lambda>_. True) True (\<lambda>i. i \<noteq> tid))\<^sup>*\<^sup>* (sdb s) (sdb (serve X S E q s))"
    using Cons.prems(1) by (intro serve_token_steps) (auto simp: x)
  then have "db_wf (sdb (serve X S E q s)) \<and> has_row tid R (sdb (serve X S E q s))"
    using Cons.prems(2-4) by (induction rule: rtranclp_induct) (auto intro: token_step_wf token_step_has_row)
  then show ?case using Cons.IH [of "serve X S E q s"] Cons.prems(1,3) by (simp add: x)
qed simp

end
