(* ===== verification/QueryProps.thy ===== *)
theory QueryProps
  imports FrontendProps QueryRow
begin






section \<open>What the caller finds at a look\<close>





























end
