(* ===== verification/TimerProps.thy ===== *)
theory TimerProps
  imports TaskProps
begin

text \<open>
  Time: the backoff of a retried activity, and the tick of the timer firer.
\<close>

section \<open>Backoff\<close>











section \<open>The timer firer\<close>

abbreviation fired_event :: "tm_row \<Rightarrow> new_event" where
  "fired_event t \<equiv> newEvent EV_TIMER_FIRED (TimerFired (tm_timer_id t))"

text \<open>Every timer can be fired: the events marshal and no run's counter runs out of room.\<close>

definition fireable :: "'b ext \<Rightarrow> 'b db \<Rightarrow> bool" where
  "fireable X d \<longleftrightarrow> (\<forall>we \<in> set (workflow_executions d). bigint_ok (we_next_event_id we + 2 * int (length (timers d))) \<and>
       marshals X [scheduled_event we]) \<and>
     (\<forall>t \<in> set (timers d). marshals X [fired_event t])"

abbreviation due :: "timestamp \<Rightarrow> tm_row list \<Rightarrow> tm_row list" where
  "due now ts \<equiv> filter (\<lambda>t. tm_fire_at t \<le> now) ts"

lemma fire_nothing:
  "due (db_now E 0) (timers (sdb s)) = [] \<Longrightarrow> locked_timers E = [] \<Longrightarrow> fireDueTimer X S E s = (False, s)"
  by (simp add: fireDueTimer_def withTx_def onDB_def fire_tx_def q_DequeueDueTimer_def)

lemma fire_one:
  assumes wf: "db_wf (sdb s)" and ok: "fireable X (sdb s)" and E: "locked_timers E = []"
    and t: "min_by tm_fire_at (due (db_now E 0) (timers (sdb s))) = Some t"
  obtains we s' where "fireDueTimer X S E s = (True, s')"
    and "find_we (tm_run t) (sdb s) = Some we"
    and "sdb s' = woken X S (db_now E 0) (go_now E 0) (tm_run t) (fired_event t) we
      ((sdb s)\<lparr>timers := sql_delete (\<lambda>x. tm_key x = tm_key t) (timers (sdb s))\<rparr>)"
proof -
  let ?d = "(sdb s)\<lparr>timers := sql_delete (\<lambda>x. tm_key x = tm_key t) (timers (sdb s))\<rparr>"
  have mem: "t \<in> set (timers (sdb s))" using min_by_mem [OF t] by simp
  then have "tm_run t \<in> we_keys (sdb s)" using wf by (auto simp: db_wf_def gen_wf_def tm_wf_def)
  then obtain we where we: "find_we (tm_run t) (sdb s) = Some we"
    using find_we_None [of "tm_run t" "sdb s"] by (cases "find_we (tm_run t) (sdb s)") auto
  then have "we \<in> set (workflow_executions (sdb s))" by (simp add: find_we_SomeD)
  with ok mem have "bigint_ok (we_next_event_id we + 2 * int (length (timers (sdb s))))" "marshals X [fired_event t, scheduled_event we]"
    by (auto simp: fireable_def marshals_def)
  moreover have "1 \<le> length (timers (sdb s))" using mem by (cases "timers (sdb s)") auto
  moreover have "0 \<le> we_next_event_id we"
    using db_wf_log [OF wf] find_we_SomeD [OF we] by (auto simp: log_wf_def)
  ultimately have "wakeable X (tm_run t) (fired_event t) we ?d"
    using we by (auto simp: wakeable_def find_we_def bigint_ok_def)
  moreover have "log_wf ?d" using wf by (simp add: db_wf_def gen_wf_def log_wf_def run_events_def we_keys_def)
  ultimately have w: "wake_run X S (db_now E 0) (go_now E 0) (tm_run t) (fired_event t) ?d =
      (Inr (we_task_queue we), woken X S (db_now E 0) (go_now E 0) (tm_run t) (fired_event t) we ?d)"
    by (rule wake_run_eq [rotated])
  show ?thesis
    using w we t E
    by (intro that [of "s\<lparr>sdb := woken X S (db_now E 0) (go_now E 0) (tm_run t) (fired_event t) we ?d,
          notif := notify (workflowQueueKey (tm_namespace_id t) (we_task_queue we)) (notif s)\<rparr>" we])
      (simp_all add: fireDueTimer_def withTx_def onDB_def fire_tx_def q_DequeueDueTimer_def bindM_def ret_def tm_run_def)
qed

lemma fire_one_wf:
  assumes "db_wf (sdb s)" and "fireDueTimer X S E s = (True, s')"
  shows "db_wf (sdb s')"
proof -
  obtain r where "fire_tx X S E (sdb s) = (Inr (Some r), sdb s')"
    using assms(2) by (auto simp: fireDueTimer_def withTx_def onDB_def split: prod.splits sum.splits option.splits)
  then show ?thesis using succD [OF succ_db_wf [OF fire_tx_wf] assms(1)] by blast
qed

lemma woken_executions:
  assumes "we' \<in> set (workflow_executions (woken X S now gonow k ev we d))"
  obtains w where "w \<in> set (workflow_executions d)" "we_next_event_id we' \<in> {we_next_event_id w, we_next_event_id w + 2}"
    "we_task_queue we' = we_task_queue w"
  using assms by (fastforce simp: woken_def appended_def advance_def sql_update_def split: if_splits)

lemma fire_one_fireable:
  assumes ok: "fireable X (sdb s)" and wf: "db_wf (sdb s)" and t: "t \<in> set (timers (sdb s))"
    and s': "sdb s' = woken X S now gonow k ev we ((sdb s)\<lparr>timers := sql_delete (\<lambda>x. tm_key x = tm_key t) (timers (sdb s))\<rparr>)"
  shows "fireable X (sdb s')"
proof -
  let ?ts = "sql_delete (\<lambda>x. tm_key x = tm_key t) (timers (sdb s))"
  have len: "int (length ?ts) + 1 \<le> int (length (timers (sdb s)))"
    using length_filter_less [OF t, of "\<lambda>x. tm_key x \<noteq> tm_key t"] by (simp add: sql_delete_def)
  have "bigint_ok (we_next_event_id we' + 2 * int (length ?ts)) \<and> marshals X [scheduled_event we']"
    if we': "we' \<in> set (workflow_executions (sdb s'))" for we'
  proof -
    obtain w where w: "w \<in> set (workflow_executions (sdb s))"
      "we_next_event_id we' \<in> {we_next_event_id w, we_next_event_id w + 2}" "we_task_queue we' = we_task_queue w"
      using woken_executions [OF we' [unfolded s']] by auto
    with ok have "bigint_ok (we_next_event_id w + 2 * int (length (timers (sdb s))))" "marshals X [scheduled_event w]"
      by (auto simp: fireable_def)
    moreover have "1 \<le> we_next_event_id w" using wf w(1) by (auto simp: log_wf_def dest: db_wf_log)
    ultimately show ?thesis using w(2,3) len by (auto simp: bigint_ok_def scheduled_event_def)
  qed
  then show ?thesis using ok by (auto simp: fireable_def s' sql_delete_def)
qed

text \<open>Histories and the workflow task table only grew.\<close>

definition extends :: "'b db \<Rightarrow> 'b db \<Rightarrow> bool" where
  "extends d d' \<longleftrightarrow> (\<forall>k. \<exists>new. run_events k d' = run_events k d @ new) \<and> (\<exists>new. workflow_tasks d' = workflow_tasks d @ new)"

text \<open>A timer fired between two states: an event for it, not dated before its time, and a pending task for its run are new.\<close>

definition fired_between :: "'b ext \<Rightarrow> 'b db \<Rightarrow> 'b db \<Rightarrow> tm_row \<Rightarrow> bool" where
  "fired_between X d d' t \<longleftrightarrow>
     (\<exists>new j time. run_events (tm_run t) d' = run_events (tm_run t) d @ new \<and>
        event_row X time (tm_run t) (j, fired_event t) \<in> set new \<and> tm_fire_at t \<le> time) \<and>
     (\<exists>new w. workflow_tasks d' = workflow_tasks d @ new \<and> w \<in> set new \<and> wt_run w = tm_run t \<and> wt_status w = PENDING)"

lemma extends_trans: "extends d d1 \<Longrightarrow> extends d1 d2 \<Longrightarrow> extends d d2"
  unfolding extends_def by (metis append.assoc)

lemma fired_before:
  assumes "fired_between X d d1 t" and "extends d1 d2"
  shows "fired_between X d d2 t"
proof -
  from assms(2) obtain new1 new2 where "run_events (tm_run t) d2 = run_events (tm_run t) d1 @ new1"
    "workflow_tasks d2 = workflow_tasks d1 @ new2" unfolding extends_def by blast
  with assms(1) show ?thesis unfolding fired_between_def by auto blast
qed

lemma fired_after:
  assumes "extends d d1" and "fired_between X d1 d2 t"
  shows "fired_between X d d2 t"
proof -
  from assms(1) obtain new1 new2 where "run_events (tm_run t) d1 = run_events (tm_run t) d @ new1"
    "workflow_tasks d1 = workflow_tasks d @ new2" unfolding extends_def by blast
  with assms(2) show ?thesis unfolding fired_between_def by auto blast
qed

lemma fire_one_effect:
  assumes "sdb s' = woken X S now gonow (tm_run t) (fired_event t) we ((sdb s)\<lparr>timers := ts\<rparr>)" and "tm_fire_at t \<le> now"
  shows "fired_between X (sdb s) (sdb s') t" "extends (sdb s) (sdb s')"
proof -
  have "run_events k ((sdb s)\<lparr>timers := ts\<rparr>) = run_events k (sdb s)" for k by (simp add: run_events_def)
  then show "fired_between X (sdb s) (sdb s') t" "extends (sdb s) (sdb s')"
    using assms(2) by (auto simp: assms(1) fired_between_def extends_def run_events_woken new_wt_row_def wake_task_def wt_run_def tm_run_def)
qed

lemma drain_outcome:
  assumes "db_wf (sdb s)" and "fireable X (sdb s)" and E: "\<And>i. locked_timers (E i) = [] \<and> now \<le> db_now (E i) 0"
  shows "extends (sdb s) (sdb (drainTimers X S E i s)) \<and>
    (\<forall>t \<in> set (timers (sdb s)). t \<in> set (timers (sdb (drainTimers X S E i s))) \<and> now < tm_fire_at t \<or>
       t \<notin> set (timers (sdb (drainTimers X S E i s))) \<and> fired_between X (sdb s) (sdb (drainTimers X S E i s)) t) \<and>
    set (timers (sdb (drainTimers X S E i s))) \<subseteq> set (timers (sdb s))"
  using assms(1,2)
proof (induction "length (timers (sdb s))" arbitrary: s i rule: less_induct)
  case less
  note E' = E [of i, THEN conjunct1]
  show ?case
  proof (cases "min_by tm_fire_at (due (db_now (E i) 0) (timers (sdb s)))")
    case None
    then have "drainTimers X S E i s = s" by (subst drainTimers.simps) (simp add: fire_nothing E')
    moreover have "now < tm_fire_at t" if "t \<in> set (timers (sdb s))" for t
      using None that E [of i] by (auto simp: filter_empty_conv)
    ultimately show ?thesis by (simp add: extends_def)
  next
    case (Some t)
    from fire_one [OF less.prems E' Some] obtain we s1 where fire: "fireDueTimer X S (E i) s = (True, s1)"
      and s1: "sdb s1 = woken X S (db_now (E i) 0) (go_now (E i) 0) (tm_run t) (fired_event t) we
        ((sdb s)\<lparr>timers := sql_delete (\<lambda>x. tm_key x = tm_key t) (timers (sdb s))\<rparr>)" by blast
    have t: "t \<in> set (timers (sdb s))" "tm_fire_at t \<le> db_now (E i) 0" using min_by_mem [OF Some] by auto
    note IH = less.hyps [OF fireDueTimer_decreases [OF fire] fire_one_wf [OF less.prems(1) fire]
        fire_one_fireable [OF less.prems(2,1) t(1) s1], of "Suc i"]
    have dr: "drainTimers X S E i s = drainTimers X S E (Suc i) s1" by (subst drainTimers.simps) (simp add: fire)
    note eff = fire_one_effect [OF s1 t(2)]
    have ts: "set (timers (sdb s1)) = set (timers (sdb s)) - {t}"
      using less.prems(1) t(1)
      by (auto simp: s1 sql_delete_def db_wf_def gen_wf_def tm_wf_def distinct_map dest: inj_onD)
    show ?thesis
      unfolding dr using IH eff ts t(1)
      by (auto intro: extends_trans fired_before fired_after)
  qed
qed

text \<open>
  (C37) A tick of the timer firer ends, and after it every timer that was due when the tick began has fired: it has left the table, its
  run's history has a new TimerFired event not dated before the timer's time, and the run has a new pending workflow task.
  A timer that is still in the table was not yet due. (The timers are not
  locked by another firer, the clock does not run backwards and the events can be written.)
\<close>

theorem timer_tick_fires_due:
  assumes "db_wf (sdb s)" and "fireable X (sdb s)" and "\<And>i. locked_timers (E i) = [] \<and> now \<le> db_now (E i) 0"
    and "s' = drainTimers X S E 0 s"
  shows "\<forall>t \<in> set (timers (sdb s)).
    if t \<in> set (timers (sdb s')) then now < tm_fire_at t else fired_between X (sdb s) (sdb s') t"
  using drain_outcome [OF assms(1,2), of E now S 0] assms(3) by (auto simp: assms(4))

definition demo_timer :: tm_row where
  "demo_timer = \<lparr>tm_namespace_id = 1, tm_workflow_id = ''w'', tm_run_id = ''r1'', tm_timer_id = 1, tm_fire_at = 9, tm_scheduled_event_id = 2\<rparr>"

definition demo_sys5 :: "blob sys" where
  "demo_sys5 = demo_sys\<lparr>sdb := demo_db\<lparr>timers := [demo_timer, demo_timer\<lparr>tm_timer_id := 2, tm_fire_at := 11\<rparr>]\<rparr>\<rparr>"

theorem timer_tick_fires_due_witness:
  "\<exists>s'. drainTimers demo_ext demo_store (\<lambda>_. demo_env) 0 demo_sys5 = s' \<and> demo_timer \<notin> set (timers (sdb s')) \<and>
     fired_between demo_ext (sdb demo_sys5) (sdb s') demo_timer"
proof -
  have "(1, ''w'', ''r1'') \<in> we_keys demo_db" by (simp add: we_keys_def demo_db_def demo_we_def we_key_def)
  with demo_db_wf have wf: "db_wf (sdb demo_sys5)"
    by (simp add: demo_sys5_def demo_timer_def db_wf_def gen_wf_def wf_parts log_wf_def run_events_def we_keys_def tm_key_def tm_run_def)
  have ok: "fireable demo_ext (sdb demo_sys5)"
    by (simp add: fireable_def demo_sys5_def demo_db_def demo_we_def bigint_ok_def marshals_def demo_ext_def)
  have clock: "locked_timers demo_env = [] \<and> 10 \<le> db_now demo_env 0" by (simp add: demo_env_def)
  have t: "demo_timer \<in> set (timers (sdb demo_sys5))" "\<not> 10 < tm_fire_at demo_timer" by (simp_all add: demo_sys5_def demo_timer_def)
  note fired = bspec [OF timer_tick_fires_due [OF wf ok, of "\<lambda>_. demo_env", OF clock refl] t(1), where S1 = demo_store]
  show ?thesis using fired t(2) by (simp split: if_splits)
qed

end
