(* ===== verification/FlowdProps.thy ===== *)
theory FlowdProps
  imports Flowd QueryProps TimerProps
begin

text \<open>
  From environment variables to a running server.
\<close>

lemma parse_digits_append:
  "parse_digits m (xs @ ys) n = (case parse_digits m xs n of Inl e \<Rightarrow> Inl e | Inr k \<Rightarrow> parse_digits m ys k)"
  by (induction xs arbitrary: n) (simp_all add: Let_def)

lemma digit_char_value: "d < 10 \<Longrightarrow> is_digit (digit_char d) \<and> digit_value (digit_char d) = d"
  by (drule upto_ten, elim insertE emptyE) (simp_all add: digit_char_def is_digit_def digit_value_def of_char_def)

lemma parse_digits_decimal: "n \<le> m \<Longrightarrow> parse_digits m (decimal_nat n) 0 = Inr n"
proof (induction n rule: decimal_nat.induct)
  case (1 n)
  show ?case
  proof (cases "n < 10")
    case True
    with 1 digit_char_value [of n] show ?thesis by (subst decimal_nat.simps) (simp add: Let_def)
  next
    case False
    then have "n div 10 \<le> m" using 1(2) by (meson div_le_dividend le_trans)
    with 1 False digit_char_value [of "n mod 10"] show ?thesis
      by (subst decimal_nat.simps) (simp add: parse_digits_append Let_def)
  qed
qed

lemma ParseInt_decimal: "0 \<le> n \<Longrightarrow> n < 2 ^ 31 \<Longrightarrow> ParseInt 32 (decimal n) = Inr n"
proof -
  assume n: "0 \<le> n" "n < 2 ^ 31"
  have d: "hd (decimal n) \<in> set (decimal_nat (nat n))" "decimal n = decimal_nat (nat n)" using n by (simp_all add: decimal_def)
  have "is_digit c" if "c \<in> set (decimal_nat m)" for c m
    using that
  proof (induction m rule: decimal_nat.induct)
    case (1 m)
    then show ?case
      using digit_char_value [of m] digit_char_value [of "m mod 10"] by (subst (asm) (2) decimal_nat.simps) (auto split: if_splits)
  qed
  from this [OF d(1)] have "hd (decimal n) \<notin> {CHR ''-'', CHR ''+''}" by (auto simp: is_digit_def)
  moreover have "nat n \<le> 2 ^ 32 - 1" using n by simp
  note parse_digits_decimal [OF this]
  ultimately show ?thesis using n d(2) by (simp add: ParseInt_def Let_def)
qed

lemma getEnvInt32_range: "1 \<le> fb \<Longrightarrow> fb < 2 ^ 31 \<Longrightarrow> getEnvInt32 getenv key fb \<in> {1..<2 ^ 31}"
  by (auto simp: getEnvInt32_def ParseInt_def Let_def split: sum.splits if_splits)

lemma getEnvInt32_decimal: "1 \<le> n \<Longrightarrow> n < 2 ^ 31 \<Longrightarrow> getenv key = decimal n \<Longrightarrow> getEnvInt32 getenv key fb = n"
  using ParseInt_decimal [of n] by (simp add: getEnvInt32_def decimal_def)

lemma PartitionFor_range: "1 \<le> n \<Longrightarrow> n < 2 ^ 31 \<Longrightarrow> PartitionFor key n \<in> {0..<n}"
  using PartitionFor_eq [of n key] by (cases "n = 1") (auto simp: PartitionFor_def)

lemma run_InrD:
  assumes "flowd_run W cfg = Inr srv"
  shows "NewStore (wo_random W) \<lparr>NumShards = cf_NumShards cfg, NumTaskQueuePartitions = cf_NumTaskQueuePartitions cfg,
           TaskTokenSigningKey = cf_TaskTokenSigningKey cfg\<rparr> = Inr (rn_store srv)"
    and "serverTLSCredentials W cfg = Inr (rn_creds srv)" "rn_keys srv = cf_APIKeys cfg"
    "rn_reaper srv = cf_ReaperInterval cfg" "rn_timer_firer srv = cf_TimerFirerInterval cfg" "rn_webui srv \<noteq> None \<longleftrightarrow> rn_creds srv = None"
  using assms by (auto simp: flowd_run_def Let_def split: if_splits sum.splits)

lemma NewStore_InrD:
  "NewStore rnd opts = Inr S \<Longrightarrow> numShards S = max 1 (NumShards opts) \<and> numTaskQueuePartitions S = max 1 (NumTaskQueuePartitions opts)"
  by (auto simp: NewStore_def Let_def split: if_splits option.splits)

lemma duration_part_samples:
  "duration_part ''1s'' = Some (1000000000, [])" "duration_part ''0s'' = Some (0, [])"
  by (simp_all add: duration_part_def is_digit_def digit_value_def unit_char_def unitMap_def Let_def of_char_def)

lemma ParseDuration_samples:
  "ParseDuration ''0'' = Some 0" "ParseDuration ''0s'' = Some 0" "ParseDuration ''-1s'' = Some (- 1000000000)"
  by (simp_all add: ParseDuration_def duration_parts.simps [of "''1s''"] duration_parts.simps [of "''0s''"]
      duration_parts.simps [of "[]"] duration_part_samples wrap64_def Let_def)

text \<open>An unset variable, like one that does not parse, is the positive default.\<close>

lemma getEnvDuration_nonpositive:
  "0 < n \<Longrightarrow> getEnvDuration getenv key (seconds n) \<le> 0 \<longleftrightarrow> (\<exists>d \<le> 0. ParseDuration (getenv key) = Some d)"
  by (auto simp: getEnvDuration_def Let_def ParseDuration_def split: option.split)

text \<open>
  (C40) Whatever the environment says, a server that starts has between 1 and 2^31 - 1 shards and task queue partitions, a
  number written in decimal is the number it uses, and every workflow id is routed inside the range. It
  serves plaintext exactly when neither certificate nor key file is set, and then runs the dashboard; a
  client CA always means verified client certificates otherwise. Two settings are accepted that the server does
  not survive or serve. A background loop panics exactly when one of the two interval variables is a duration that is
  not positive; otherwise both loops tick with positive intervals. And with API keys
  every call of the dashboard, whose client has none, is refused.
\<close>

theorem configured_server:
  assumes "flowd_run W (Load getenv) = Inr srv"
  shows "numShards (rn_store srv) \<in> {1..<2 ^ 31} \<and> numTaskQueuePartitions (rn_store srv) \<in> {1..<2 ^ 31} \<and>
    (\<forall>key. PartitionFor key (numShards (rn_store srv)) \<in> {0..<numShards (rn_store srv)} \<and>
       PartitionFor key (numTaskQueuePartitions (rn_store srv)) \<in> {0..<numTaskQueuePartitions (rn_store srv)}) \<and>
    (\<forall>n. 1 \<le> n \<and> n < 2 ^ 31 \<and> getenv ''FLOWD_NUM_SHARDS'' = decimal n \<longrightarrow> numShards (rn_store srv) = n) \<and>
    (\<forall>n. 1 \<le> n \<and> n < 2 ^ 31 \<and> getenv ''FLOWD_NUM_TASK_QUEUE_PARTITIONS'' = decimal n \<longrightarrow> numTaskQueuePartitions (rn_store srv) = n) \<and>
    (rn_creds srv = None \<longleftrightarrow> getenv ''FLOWD_TLS_CERT_FILE'' = '''' \<and> getenv ''FLOWD_TLS_KEY_FILE'' = '''') \<and>
    (\<forall>t. rn_creds srv = Some t \<longrightarrow> (tl_client_cas t = None \<longleftrightarrow> getenv ''FLOWD_TLS_CLIENT_CA_FILE'' = '''')) \<and>
    (background_loops srv = Inl ''non-positive interval for NewTicker'' \<longleftrightarrow>
       (\<exists>key \<in> {''FLOWD_REAPER_INTERVAL'', ''FLOWD_TIMER_FIRER_INTERVAL''}. \<exists>d \<le> 0. ParseDuration (getenv key) = Some d)) \<and>
    (background_loops srv \<noteq> Inl ''non-positive interval for NewTicker'' \<longrightarrow>
       background_loops srv = Inr (rn_reaper srv, rn_timer_firer srv) \<and> 0 < rn_reaper srv \<and> 0 < rn_timer_firer srv) \<and>
    (rn_webui srv \<noteq> None \<and> rn_keys srv \<noteq> [] \<longrightarrow>
       serve_rpc quote srv X C (Some []) req s = Some (Inl (Status Unauthenticated (Text ''missing api key'')), s))"
proof -
  note run = run_InrD [OF assms]
  let ?cfg = "Load getenv"
  have n: "cf_NumShards ?cfg \<in> {1..<2 ^ 31}" "cf_NumTaskQueuePartitions ?cfg \<in> {1..<2 ^ 31}"
    using getEnvInt32_range [of 1 getenv] by (simp_all add: Load_def)
  with NewStore_InrD [OF run(1)] have S: "numShards (rn_store srv) = cf_NumShards ?cfg"
    "numTaskQueuePartitions (rn_store srv) = cf_NumTaskQueuePartitions ?cfg" by auto
  have vars: "cf_TLSCertFile ?cfg = getenv ''FLOWD_TLS_CERT_FILE''" "cf_TLSKeyFile ?cfg = getenv ''FLOWD_TLS_KEY_FILE''"
    "cf_TLSClientCAFile ?cfg = getenv ''FLOWD_TLS_CLIENT_CA_FILE''"
    by (simp_all add: Load_def getEnv_def Let_def)
  have tls: "(rn_creds srv = None \<longleftrightarrow> getenv ''FLOWD_TLS_CERT_FILE'' = '''' \<and> getenv ''FLOWD_TLS_KEY_FILE'' = '''') \<and>
    (\<forall>t. rn_creds srv = Some t \<longrightarrow> (tl_client_cas t = None \<longleftrightarrow> getenv ''FLOWD_TLS_CLIENT_CA_FILE'' = ''''))"
    using run(2) by (auto simp: serverTLSCredentials_def vars split: if_splits option.splits)
  have "rn_reaper srv \<le> 0 \<longleftrightarrow> (\<exists>d \<le> 0. ParseDuration (getenv ''FLOWD_REAPER_INTERVAL'') = Some d)"
    "rn_timer_firer srv \<le> 0 \<longleftrightarrow> (\<exists>d \<le> 0. ParseDuration (getenv ''FLOWD_TIMER_FIRER_INTERVAL'') = Some d)"
    using run(4,5) getEnvDuration_nonpositive [of 5 getenv] getEnvDuration_nonpositive [of 1 getenv] by (simp_all add: Load_def)
  then have loops: "background_loops srv = Inl ''non-positive interval for NewTicker'' \<longleftrightarrow>
      (\<exists>key \<in> {''FLOWD_REAPER_INTERVAL'', ''FLOWD_TIMER_FIRER_INTERVAL''}. \<exists>d \<le> 0. ParseDuration (getenv key) = Some d)"
    "background_loops srv \<noteq> Inl ''non-positive interval for NewTicker'' \<longrightarrow>
       background_loops srv = Inr (rn_reaper srv, rn_timer_firer srv) \<and> 0 < rn_reaper srv \<and> 0 < rn_timer_firer srv"
    by (auto simp: background_loops_def NewTicker_def)
  have "numShards (rn_store srv) = n" if "1 \<le> n" "n < 2 ^ 31" "getenv ''FLOWD_NUM_SHARDS'' = decimal n" for n
    using getEnvInt32_decimal [of n getenv "''FLOWD_NUM_SHARDS''", OF that] S by (simp add: Load_def)
  moreover have "numTaskQueuePartitions (rn_store srv) = n"
    if "1 \<le> n" "n < 2 ^ 31" "getenv ''FLOWD_NUM_TASK_QUEUE_PARTITIONS'' = decimal n" for n
    using getEnvInt32_decimal [of n getenv "''FLOWD_NUM_TASK_QUEUE_PARTITIONS''", OF that] S by (simp add: Load_def)
  moreover have "serve_rpc quote srv X C (Some []) req s = Some (Inl (Status Unauthenticated (Text ''missing api key'')), s)"
    if "rn_keys srv \<noteq> []" using that by (simp add: serve_rpc_def APIKeyInterceptor_def)
  ultimately show ?thesis
    using n S tls PartitionFor_range loops by (intro conjI) (blast | simp)+
qed

definition demo_world :: world where
  "demo_world = \<lparr>wo_migrate = (\<lambda>_. True), wo_pool = (\<lambda>_. True), wo_random = Some ''k'', wo_listen = (\<lambda>_. True),
     wo_key_pair = (\<lambda>_ _. None), wo_read = (\<lambda>_. None), wo_pem = (\<lambda>_. False), wo_dial = (\<lambda>_. True), wo_ui = True\<rparr>"

definition demo_vars :: "string \<Rightarrow> string" where
  "demo_vars = (\<lambda>_. '''')(''FLOWD_NUM_SHARDS'' := ''16'', ''FLOWD_API_KEYS'' := ''k1'', ''FLOWD_TIMER_FIRER_INTERVAL'' := ''-1s'')"

theorem configured_server_witness:
  "\<exists>srv. flowd_run demo_world (Load demo_vars) = Inr srv \<and> numShards (rn_store srv) = 16 \<and>
     background_loops srv = Inl ''non-positive interval for NewTicker'' \<and>
     serve_rpc id srv demo_ext demo_call (Some []) ListNamespacesRequest demo_sys =
       Some (Inl (Status Unauthenticated (Text ''missing api key'')), demo_sys)"
proof -
  have env: "demo_vars ''FLOWD_NUM_SHARDS'' = decimal 16" "ParseDuration (demo_vars ''FLOWD_TIMER_FIRER_INTERVAL'') = Some (- 1000000000)"
    by (simp add: demo_vars_def, code_simp) (simp add: demo_vars_def ParseDuration_samples)
  have "TrimSpace ''k1'' = ''k1''" by code_simp
  then have keys: "cf_APIKeys (Load demo_vars) = [''k1'']" "cf_TLSCertFile (Load demo_vars) = ''''" "cf_TLSKeyFile (Load demo_vars) = ''''"
    "cf_TaskTokenSigningKey (Load demo_vars) = []"
    by (simp_all add: Load_def getEnvList_def getEnv_def getEnvHex_def demo_vars_def Let_def)
  then obtain srv where run: "flowd_run demo_world (Load demo_vars) = Inr srv" "rn_keys srv = [''k1'']" "rn_webui srv \<noteq> None"
    by (simp add: flowd_run_def demo_world_def serverTLSCredentials_def NewStore_def Let_def)
  from configured_server [OF run(1), where quote = id and X = demo_ext and C = demo_call and req = ListNamespacesRequest and s = demo_sys]
  show ?thesis using run env by (intro exI [of _ srv]) auto
qed

end
