(* ===== verification/Client.thy ===== *)
theory Client
  imports Flowd Worker
begin

text \<open>
  \<^verbatim>\<open>sdk/client/client.go\<close>. A connection is a function from requests to the server's answers; a
  method is a request and what it makes of the answer. \<open>None\<close> is a call that never returns.
\<close>

section \<open>Dialling\<close>

record tls_options =
  to_CACertFile :: string
  to_CertFile :: string
  to_KeyFile :: string
  to_ServerName :: string
  to_InsecureSkipVerify :: bool

record client_tls =
  ct_ServerName :: string
  ct_InsecureSkipVerify :: bool
  ct_RootCAs :: "bytes option"
  ct_Certificate :: "bytes option"

text \<open>\<open>None\<close>: insecure credentials.\<close>

definition transportCredentials :: "world \<Rightarrow> tls_options option \<Rightarrow> tls_error + client_tls option" where
  "transportCredentials W opts = (case opts of
     None \<Rightarrow> Inr None
   | Some tls \<Rightarrow>
       let cfg = \<lparr>ct_ServerName = to_ServerName tls, ct_InsecureSkipVerify = to_InsecureSkipVerify tls,
                  ct_RootCAs = None, ct_Certificate = None\<rparr>;
           with_ca = (if to_CACertFile tls \<noteq> '''' then
                (case wo_read W (to_CACertFile tls) of
                   None \<Rightarrow> Inl ReadCA
                 | Some pem \<Rightarrow> if \<not> wo_pem W pem then Inl (ParseCA (to_CACertFile tls)) else Inr (cfg\<lparr>ct_RootCAs := Some pem\<rparr>))
              else Inr cfg)
       in case with_ca of
            Inl e \<Rightarrow> Inl e
          | Inr cfg \<Rightarrow>
              if to_CertFile tls \<noteq> '''' \<or> to_KeyFile tls \<noteq> '''' then
                (case wo_key_pair W (to_CertFile tls) (to_KeyFile tls) of
                   None \<Rightarrow> Inl LoadKeyPair
                 | Some cert \<Rightarrow> Inr (Some (cfg\<lparr>ct_Certificate := Some cert\<rparr>)))
              else Inr (Some cfg))"

record client_options =
  co_Namespace :: string
  co_TLS :: "tls_options option"
  co_APIKey :: string

record client =
  cl_namespace :: string
  cl_creds :: "client_tls option"
  cl_api_key :: "string option"

datatype dial_error = DialTLS tls_error | DialFailed

definition Dial :: "world \<Rightarrow> string \<Rightarrow> client_options \<Rightarrow> dial_error + client" where
  "Dial W target opts =
     (case transportCredentials W (co_TLS opts) of
        Inl e \<Rightarrow> Inl (DialTLS e)
      | Inr creds \<Rightarrow>
          if \<not> wo_dial W target then Inl DialFailed
          else Inr \<lparr>cl_namespace = (if co_Namespace opts = '''' then ''default'' else co_Namespace opts), cl_creds = creds,
                    cl_api_key = (if co_APIKey opts \<noteq> '''' then Some (co_APIKey opts) else None)\<rparr>)"

text \<open>What the client interceptor adds to a call: the values of the API key header.\<close>

definition outgoing_keys :: "client \<Rightarrow> string list" where
  "outgoing_keys c = (case cl_api_key c of None \<Rightarrow> [] | Some key \<Rightarrow> [key])"

type_synonym 'b connection = "rpc_request \<Rightarrow> 'b sys \<Rightarrow> 'b outcome option"

definition connection :: "(string \<Rightarrow> string) \<Rightarrow> running \<Rightarrow> 'b ext \<Rightarrow> 'b call \<Rightarrow> client \<Rightarrow> 'b connection" where
  "connection quote srv X C c req = serve_rpc quote srv X C (Some (outgoing_keys c)) req"

section \<open>Methods\<close>

datatype client_error =
    RPCError rpc_error
  | WrongReply
  | ConverterError string
  | NotSuccessful execution_status
  | NoCompletedEvent
  | ContextDone

type_synonym ('a, 'b) answer = "((client_error + 'a) \<times> 'b sys) option"

text \<open>The generated stub: the reply's type is the method's, so \<open>WrongReply\<close> does not occur.\<close>

definition invoke :: "'b connection \<Rightarrow> rpc_request \<Rightarrow> (rpc_response \<Rightarrow> 'a option) \<Rightarrow> 'b sys \<Rightarrow> ('a, 'b) answer" where
  "invoke rpc req read s = (case rpc req s of
     None \<Rightarrow> None
   | Some (Inl e, s') \<Rightarrow> Some (Inl (RPCError e), s')
   | Some (Inr resp, s') \<Rightarrow> Some (case read resp of None \<Rightarrow> Inl WrongReply | Some x \<Rightarrow> Inr x, s'))"

record start_workflow_options =
  so_ID :: string
  so_TaskQueue :: string
  so_WorkflowExecutionTimeout :: duration
  so_WorkflowRunTimeout :: duration
  so_WorkflowTaskTimeout :: duration
  so_RetryPolicy :: "retry_policy option"
  so_RequestID :: string

record workflow_run =
  wr_WorkflowID :: string
  wr_RunID :: string

definition durationpbOrNil :: "duration \<Rightarrow> duration option" where
  "durationpbOrNil d = (if d \<le> 0 then None else Some d)"

text \<open>\<open>arg\<close> is \<^verbatim>\<open>json.Marshal\<close> of the argument.\<close>

definition StartWorkflowByType ::
  "'b connection \<Rightarrow> client \<Rightarrow> start_workflow_options \<Rightarrow> string \<Rightarrow> string + bytes \<Rightarrow> 'b sys \<Rightarrow> (workflow_run, 'b) answer" where
  "StartWorkflowByType rpc c opts workflowType arg s =
     (case ToPayload arg of
        Inl e \<Rightarrow> Some (Inl (ConverterError e), s)
      | Inr payload \<Rightarrow>
          invoke rpc (StartWorkflowExecutionRequest
            \<lparr>sw_Namespace = cl_namespace c, sw_WorkflowId = so_ID opts, sw_WorkflowType = workflowType,
             sw_TaskQueue = so_TaskQueue opts, sw_Input = Some payload,
             sw_ExecutionTimeout = durationpbOrNil (so_WorkflowExecutionTimeout opts),
             sw_RunTimeout = durationpbOrNil (so_WorkflowRunTimeout opts),
             sw_TaskTimeout = durationpbOrNil (so_WorkflowTaskTimeout opts),
             sw_RetryPolicy = so_RetryPolicy opts, sw_RequestId = so_RequestID opts, sw_Identity = ''''\<rparr>)
            (\<lambda>r. case r of StartWorkflowExecutionResponse runID \<Rightarrow> Some \<lparr>wr_WorkflowID = so_ID opts, wr_RunID = runID\<rparr> | _ \<Rightarrow> None) s)"

definition StartWorkflow ::
  "'b connection \<Rightarrow> client \<Rightarrow> start_workflow_options \<Rightarrow> string \<Rightarrow> string + bytes \<Rightarrow> 'b sys \<Rightarrow> (workflow_run, 'b) answer" where
  "StartWorkflow rpc c opts workflowFn arg = StartWorkflowByType rpc c opts (funcname_Of workflowFn) arg"

definition SignalWorkflow ::
  "'b connection \<Rightarrow> client \<Rightarrow> string \<Rightarrow> string \<Rightarrow> string \<Rightarrow> string + bytes \<Rightarrow> 'b sys \<Rightarrow> (unit, 'b) answer" where
  "SignalWorkflow rpc c workflowID runID signalName arg s =
     (case ToPayload arg of
        Inl e \<Rightarrow> Some (Inl (ConverterError e), s)
      | Inr payload \<Rightarrow>
          invoke rpc (SignalWorkflowExecutionRequest
            \<lparr>sr_Namespace = cl_namespace c, sr_WorkflowId = workflowID, sr_RunId = runID, sr_SignalName = signalName,
             sr_Input = Some payload, sr_RequestId = '''', sr_Identity = ''''\<rparr>)
            (\<lambda>r. case r of SignalWorkflowExecutionResponse \<Rightarrow> Some () | _ \<Rightarrow> None) s)"

text \<open>\<open>target\<close>: \<open>None\<close> for a nil pointer, otherwise how JSON is read into it and what it holds before.\<close>

type_synonym 'i target = "((bytes \<Rightarrow> string + 'i) \<times> 'i) option"

definition read_into :: "'i target \<Rightarrow> payload option \<Rightarrow> client_error + 'i option" where
  "read_into resultPtr p = (case resultPtr of
     None \<Rightarrow> Inr None
   | Some (unmarshal, before) \<Rightarrow>
       (case FromPayload unmarshal before p of Inl e \<Rightarrow> Inl (ConverterError e) | Inr x \<Rightarrow> Inr (Some x)))"

definition QueryWorkflow ::
  "'b connection \<Rightarrow> client \<Rightarrow> string \<Rightarrow> string \<Rightarrow> string \<Rightarrow> string + bytes \<Rightarrow> 'i target \<Rightarrow> 'b sys \<Rightarrow> ('i option, 'b) answer" where
  "QueryWorkflow rpc c workflowID runID queryType arg resultPtr s =
     (case ToPayload arg of
        Inl e \<Rightarrow> Some (Inl (ConverterError e), s)
      | Inr payload \<Rightarrow>
          (case invoke rpc (QueryWorkflowExecutionRequest
              \<lparr>qw_Namespace = cl_namespace c, qw_WorkflowId = workflowID, qw_RunId = runID, qw_QueryType = queryType,
               qw_QueryArgs = Some payload\<rparr>)
              (\<lambda>r. case r of QueryWorkflowExecutionResponse p \<Rightarrow> Some p | _ \<Rightarrow> None) s of
             None \<Rightarrow> None
           | Some (Inl e, s') \<Rightarrow> Some (Inl e, s')
           | Some (Inr p, s') \<Rightarrow> Some (read_into resultPtr p, s')))"

definition DescribeWorkflow :: "'b connection \<Rightarrow> client \<Rightarrow> string \<Rightarrow> string \<Rightarrow> 'b sys \<Rightarrow> (execution_summary, 'b) answer" where
  "DescribeWorkflow rpc c workflowID runID =
     invoke rpc (DescribeWorkflowExecutionRequest \<lparr>ds_Namespace = cl_namespace c, ds_WorkflowId = workflowID, ds_RunId = runID\<rparr>)
       (\<lambda>r. case r of DescribeWorkflowExecutionResponse d \<Rightarrow> Some d | _ \<Rightarrow> None)"

record list_workflows_options =
  lo_StatusFilter :: execution_status
  lo_TaskQueue :: string
  lo_PageSize :: int
  lo_PageToken :: bytes

definition ListWorkflows ::
  "'b connection \<Rightarrow> client \<Rightarrow> list_workflows_options \<Rightarrow> 'b sys \<Rightarrow> (execution_info list \<times> bytes, 'b) answer" where
  "ListWorkflows rpc c opts =
     invoke rpc (ListWorkflowExecutionsRequest
       \<lparr>lw_Namespace = cl_namespace c, lw_StatusFilter = lo_StatusFilter opts, lw_TaskQueue = lo_TaskQueue opts,
        lw_PageSize = lo_PageSize opts, lw_NextPageToken = lo_PageToken opts\<rparr>)
       (\<lambda>r. case r of ListWorkflowExecutionsResponse infos tok \<Rightarrow> Some (infos, tok) | _ \<Rightarrow> None)"

text \<open>The loop of \<open>GetWorkflowHistory\<close>, with the events so far and the token of the next page.\<close>

partial_function (option) history_loop ::
  "'b connection \<Rightarrow> client \<Rightarrow> string \<Rightarrow> string \<Rightarrow> history_event list \<Rightarrow> bytes \<Rightarrow> 'b sys \<Rightarrow>
   ((client_error + history_event list) \<times> 'b sys) option" where
  "history_loop rpc c workflowID runID events token s =
     (case invoke rpc (GetWorkflowExecutionHistoryRequest
          \<lparr>gh_Namespace = cl_namespace c, gh_WorkflowId = workflowID, gh_RunId = runID, gh_PageSize = 0, gh_NextPageToken = token\<rparr>)
          (\<lambda>r. case r of GetWorkflowExecutionHistoryResponse evs tok \<Rightarrow> Some (evs, tok) | _ \<Rightarrow> None) s of
        None \<Rightarrow> None
      | Some (Inl e, s') \<Rightarrow> Some (Inl e, s')
      | Some (Inr (evs, nextToken), s') \<Rightarrow>
          if nextToken = [] then Some (Inr (events @ evs), s')
          else history_loop rpc c workflowID runID (events @ evs) nextToken s')"

definition GetWorkflowHistory ::
  "'b connection \<Rightarrow> client \<Rightarrow> string \<Rightarrow> string \<Rightarrow> 'b sys \<Rightarrow> (history_event list, 'b) answer" where
  "GetWorkflowHistory rpc c workflowID runID = history_loop rpc c workflowID runID [] []"

definition TerminateWorkflow :: "'b connection \<Rightarrow> client \<Rightarrow> string \<Rightarrow> string \<Rightarrow> string \<Rightarrow> 'b sys \<Rightarrow> (unit, 'b) answer" where
  "TerminateWorkflow rpc c workflowID runID reason =
     invoke rpc (TerminateWorkflowExecutionRequest
       \<lparr>te_Namespace = cl_namespace c, te_WorkflowId = workflowID, te_RunId = runID, te_Reason = reason, te_Identity = ''''\<rparr>)
       (\<lambda>r. case r of TerminateWorkflowExecutionResponse \<Rightarrow> Some () | _ \<Rightarrow> None)"

definition CancelWorkflow :: "'b connection \<Rightarrow> client \<Rightarrow> string \<Rightarrow> string \<Rightarrow> string \<Rightarrow> 'b sys \<Rightarrow> (unit, 'b) answer" where
  "CancelWorkflow rpc c workflowID runID reason =
     invoke rpc (RequestCancelWorkflowExecutionRequest
       \<lparr>cw_Namespace = cl_namespace c, cw_WorkflowId = workflowID, cw_RunId = runID, cw_Reason = reason, cw_RequestId = '''',
        cw_Identity = ''''\<rparr>)
       (\<lambda>r. case r of RequestCancelWorkflowExecutionResponse \<Rightarrow> Some () | _ \<Rightarrow> None)"

definition Client_CreateNamespace :: "'b connection \<Rightarrow> string \<Rightarrow> 'b sys \<Rightarrow> (namespace_info, 'b) answer" where
  "Client_CreateNamespace rpc name =
     invoke rpc (CreateNamespaceRequest name) (\<lambda>r. case r of CreateNamespaceResponse ns \<Rightarrow> Some ns | _ \<Rightarrow> None)"

definition Client_ListNamespaces :: "'b connection \<Rightarrow> 'b sys \<Rightarrow> (namespace_info list, 'b) answer" where
  "Client_ListNamespaces rpc =
     invoke rpc ListNamespacesRequest (\<lambda>r. case r of ListNamespacesResponse l \<Rightarrow> Some l | _ \<Rightarrow> None)"

section \<open>Waiting for a result\<close>

text \<open>The newest completion event.\<close>

fun completed_result :: "history_event list \<Rightarrow> payload option option" where
  "completed_result [] = None"
| "completed_result (ev # older) =
     (case Attributes ev of WorkflowExecutionCompleted r \<Rightarrow> Some r | _ \<Rightarrow> completed_result older)"

definition fetchResult ::
  "'b connection \<Rightarrow> client \<Rightarrow> workflow_run \<Rightarrow> 'i target \<Rightarrow> 'b sys \<Rightarrow> ('i option, 'b) answer" where
  "fetchResult rpc c r resultPtr s =
     (case GetWorkflowHistory rpc c (wr_WorkflowID r) (wr_RunID r) s of
        None \<Rightarrow> None
      | Some (Inl e, s') \<Rightarrow> Some (Inl e, s')
      | Some (Inr events, s') \<Rightarrow>
          Some (case completed_result (rev events) of
              None \<Rightarrow> Inl NoCompletedEvent
            | Some p \<Rightarrow> read_into resultPtr p, s'))"

text \<open>
  The loop of \<open>Get\<close>. \<open>T i\<close> is what happens while it waits for the \<open>i\<close>-th time: \<open>None\<close>, the context ends;
  otherwise the ticker fires after other requests have changed the state. The result carries the run it settled on.
\<close>

partial_function (option) get_loop ::
  "'b connection \<Rightarrow> client \<Rightarrow> 'i target \<Rightarrow> (nat \<Rightarrow> ('b sys \<Rightarrow> 'b sys) option) \<Rightarrow> nat \<Rightarrow> workflow_run \<Rightarrow> string \<Rightarrow> 'b sys \<Rightarrow>
   (((client_error + 'i option) \<times> workflow_run) \<times> 'b sys) option" where
  "get_loop rpc c resultPtr T i r runID s =
     (case DescribeWorkflow rpc c (wr_WorkflowID r) runID s of
        None \<Rightarrow> None
      | Some (Inl e, s') \<Rightarrow> Some ((Inl e, r), s')
      | Some (Inr d, s') \<Rightarrow>
          if es_Status d = ST_COMPLETED then
            (case fetchResult rpc c (r\<lparr>wr_RunID := es_RunId d\<rparr>) resultPtr s' of
               None \<Rightarrow> None
             | Some (res, s'') \<Rightarrow> Some ((res, r\<lparr>wr_RunID := es_RunId d\<rparr>), s''))
          else if es_Status d \<in> {ST_FAILED, ST_TERMINATED, ST_TIMED_OUT} then
            Some ((Inl (NotSuccessful (es_Status d)), r\<lparr>wr_RunID := es_RunId d\<rparr>), s')
          else if es_Status d = ST_CONTINUED_AS_NEW then get_loop rpc c resultPtr T i r '''' s'
          else (case T i of
              None \<Rightarrow> Some ((Inl ContextDone, r), s')
            | Some others \<Rightarrow> get_loop rpc c resultPtr T (Suc i) r (es_RunId d) (others s')))"

definition WorkflowRun_Get ::
  "'b connection \<Rightarrow> client \<Rightarrow> workflow_run \<Rightarrow> 'i target \<Rightarrow> (nat \<Rightarrow> ('b sys \<Rightarrow> 'b sys) option) \<Rightarrow> 'b sys \<Rightarrow>
   (((client_error + 'i option) \<times> workflow_run) \<times> 'b sys) option" where
  "WorkflowRun_Get rpc c r resultPtr T s = get_loop rpc c resultPtr T 0 r (wr_RunID r) s"

end
