(* ===== verification/ClientProps.thy ===== *)
theory ClientProps
  imports FlowdProps Client
begin

text \<open>
  The client against the server: its calls through the interceptor and the handlers, and the way of a
  workflow's result from the worker to the caller that waits for it.
\<close>

section \<open>Admission\<close>

text \<open>The server has no keys, or one of its entries admits the client's key to the client's namespace.\<close>

definition admitted :: "running \<Rightarrow> client \<Rightarrow> bool" where
  "admitted srv c \<longleftrightarrow> rn_keys srv = [] \<or>
     (\<exists>key e. cl_api_key c = Some key \<and> key \<noteq> '''' \<and> List.find (\<lambda>e. entry_key e = key) (rev (rn_keys srv)) = Some e \<and>
        entry_allows e (namespaceOrDefault (cl_namespace c)))"

lemma connection_admitted:
  assumes "admitted srv c" and "GetNamespace req = Some (cl_namespace c)"
  shows "connection quote srv X C c req s = handle X (rn_store srv) C req s"
proof (cases "rn_keys srv = []")
  case False
  with assms have "authorized (rn_keys srv) (Some (outgoing_keys c)) req"
    by (auto simp: admitted_def authorized_def outgoing_keys_def)
  with interceptor_outcome [of "rn_keys srv" "Some (outgoing_keys c)" req quote "handle X (rn_store srv) C req" s] False
  show ?thesis by (simp add: connection_def serve_rpc_def)
qed (simp add: connection_def serve_rpc_def)

text \<open>The calls of a client in its namespace all reach the handlers, or none does.\<close>

definition passes :: "'b connection \<Rightarrow> running \<Rightarrow> 'b ext \<Rightarrow> 'b call \<Rightarrow> client \<Rightarrow> 'b sys \<Rightarrow> bool" where
  "passes rpc srv X C c s \<longleftrightarrow> (\<forall>req. GetNamespace req = Some (cl_namespace c) \<longrightarrow> rpc req s = handle X (rn_store srv) C req s)"

lemma admitted_passes: "admitted srv c \<Longrightarrow> passes (connection quote srv X C c) srv X C c s"
  by (simp add: passes_def connection_admitted)

lemma connection_either:
  "passes (connection quote srv X C c) srv X C c s \<or>
   (\<forall>req. GetNamespace req = Some (cl_namespace c) \<longrightarrow> (\<exists>e. connection quote srv X C c req s = Some (Inl e, s)))"
proof (cases "rn_keys srv = [] \<or> (\<exists>req. GetNamespace req = Some (cl_namespace c) \<and> authorized (rn_keys srv) (Some (outgoing_keys c)) req)")
  case True
  then have "rn_keys srv = [] \<or> authorized (rn_keys srv) (Some (outgoing_keys c)) req" if "GetNamespace req = Some (cl_namespace c)" for req
    using that by (auto simp: authorized_def outgoing_keys_def split: option.splits list.splits)
  then show ?thesis
    using interceptor_outcome [of "rn_keys srv" "Some (outgoing_keys c)" _ quote "handle X (rn_store srv) C _" s]
    by (fastforce simp: passes_def connection_def serve_rpc_def)
next
  case False
  have "\<exists>e. connection quote srv X C c req s = Some (Inl e, s)" if "GetNamespace req = Some (cl_namespace c)" for req
    using interceptor_outcome [of "rn_keys srv" "Some (outgoing_keys c)" req quote "handle X (rn_store srv) C req" s] that False
    by (auto simp: connection_def serve_rpc_def)
  then show ?thesis by blast
qed

section \<open>Reading a history\<close>

lemma describe_call:
  assumes "admitted srv c" and "namespace_id (namespaceOrDefault (cl_namespace c)) (sdb s) = Some ns" and "rid \<noteq> ''''"
    and "find_we (ns, wid, rid) (sdb s) = Some we"
  shows "DescribeWorkflow (connection quote srv X C c) c wid rid s =
    Some (Inr \<lparr>es_WorkflowId = wid, es_RunId = rid, es_WorkflowType = we_workflow_type we, es_TaskQueue = we_task_queue we,
       es_Status = statusFromString (we_status we)\<rparr>, s)"
  using assms
  by (simp add: DescribeWorkflow_def invoke_def connection_admitted Server_DescribeWorkflowExecution_def call_store_def
      DescribeWorkflowExecution_def bindM_def getNamespaceID_Some resolve_run_eq onDB_def q_GetWorkflowExecution_eq ret_def)

lemma history_loop_reads:
  assumes "proto_law X" and "hist_ok X (sdb s)" and wf: "log_wf (sdb s)" and pass: "passes (connection quote srv X C c) srv X C c s"
    and ns: "namespace_id (namespaceOrDefault (cl_namespace c)) (sdb s) = Some ns" and we: "find_we (ns, wid, rid) (sdb s) = Some we"
    and "hist_pages.rest (run_events (ns, wid, rid) (sdb s)) (Some (history_cursor tok)) = drop j (run_events (ns, wid, rid) (sdb s))"
    and "decode_rows X (drop j (run_events (ns, wid, rid) (sdb s))) = Inr evs"
  shows "history_loop (connection quote srv X C c) c wid rid acc tok s = Some (Inr (acc @ evs), s)"
  using assms(7,8)
proof (induction "length (run_events (ns, wid, rid) (sdb s)) - j" arbitrary: j tok acc evs rule: less_induct)
  case less
  let ?rows = "run_events (ns, wid, rid) (sdb s)"
  let ?p = "take 1000 (drop j ?rows)"
  have "decode_rows X (?p @ drop 1000 (drop j ?rows)) = Inr evs" using less.prems(2) by (simp only: append_take_drop_id)
  then obtain e1 e2 where e: "decode_rows X ?p = Inr e1" "decode_rows X (drop 1000 (drop j ?rows)) = Inr e2" "evs = e1 @ e2"
    unfolding decode_rows_append by (auto split: sum.splits)
  have len: "length e1 = length ?p" using decode_rows_length [OF e(1)] .
  note get = GetHistory_eq [OF wf ns, where X = X and wid = wid and rid = rid and psz = 0 and tok = tok and evs = e1]
  have inv: "invoke (connection quote srv X C c) (GetWorkflowExecutionHistoryRequest
      \<lparr>gh_Namespace = cl_namespace c, gh_WorkflowId = wid, gh_RunId = rid, gh_PageSize = 0, gh_NextPageToken = tok\<rparr>)
      (\<lambda>r. case r of GetWorkflowExecutionHistoryResponse evs tok \<Rightarrow> Some (evs, tok) | _ \<Rightarrow> None) s =
    Some (Inr (e1, if length ?p = 1000 then put_uint64 (EventId (last e1)) else []), s)"
    using get e(1) len less.prems(1) pass
    by (simp add: invoke_def passes_def Server_GetWorkflowExecutionHistory_def call_store_def page_size_def)
  show ?case
  proof (cases "length ?p = 1000")
    case False
    then have "drop 1000 (drop j ?rows) = []" by simp
    with e(2,3) have "evs = e1" by simp
    with inv False show ?thesis by (subst history_loop.simps) simp
  next
    case True
    then have j: "j + 1000 \<le> length ?rows" by simp
    have ne: "?p \<noteq> []" using True by auto
    have "set ?p \<subseteq> set ?rows" by (auto dest: in_set_takeD in_set_dropD)
    note cur = next_cursor [OF wf we ne this e(1)]
    have "last ?p = ?rows ! (j + 999)" using j True by (subst last_conv_nth) auto
    then have "hist_pages.rest ?rows (Some (he_event_id (last ?p))) = drop (j + 1000) ?rows"
      using hist_pages.rest_after [OF sorted_run_events [OF wf], of "j + 999"] j by (simp add: add.commute)
    moreover have "decode_rows X (drop (j + 1000) ?rows) = Inr e2" using e(2) by (simp add: add.commute)
    ultimately have "history_loop (connection quote srv X C c) c wid rid (acc @ e1) (put_uint64 (EventId (last e1))) s =
        Some (Inr ((acc @ e1) @ e2), s)"
      using less.hyps [of "j + 1000"] j cur by simp
    moreover have "put_uint64 (EventId (last e1)) \<noteq> []" by (simp add: put_uint64_def)
    ultimately show ?thesis using inv True e(3) by (subst history_loop.simps) simp
  qed
qed

lemma client_history:
  assumes "proto_law X" and "reachable X S (sdb s)" and "passes (connection quote srv X C c) srv X C c s"
    and "namespace_id (namespaceOrDefault (cl_namespace c)) (sdb s) = Some ns" and "find_we (ns, wid, rid) (sdb s) = Some we"
    and "decode_rows X (run_events (ns, wid, rid) (sdb s)) = Inr evs"
  shows "GetWorkflowHistory (connection quote srv X C c) c wid rid s = Some (Inr evs, s)"
proof -
  let ?rows = "run_events (ns, wid, rid) (sdb s)"
  have wf: "log_wf (sdb s)" using reachable_wf [OF assms(2)] by (rule db_wf_log)
  have "0 < he_event_id r" if "r \<in> set ?rows" for r
  proof -
    from that have "he_event_id r \<in> set (map he_event_id ?rows)" by simp
    then show ?thesis using log_wf_ids [OF wf assms(5)] by (simp add: set_ids_from)
  qed
  then have "hist_pages.rest ?rows (Some (history_cursor [])) = drop 0 ?rows"
    by (auto simp: hist_pages.rest_def history_cursor_def intro: filter_True)
  from history_loop_reads [OF assms(1) reachable_hist_ok [OF assms(2)] wf assms(3-5) this, of evs "[]"] assms(6)
  show ?thesis by (simp add: GetWorkflowHistory_def)
qed

section \<open>The result of a workflow\<close>

lemma command_events_append:
  "command_events E we i (xs @ ys) = command_events E we i xs @ command_events E we (i + length xs) ys"
  by (induction xs arbitrary: i) simp_all

lemma completed_result_last:
  "evs \<noteq> [] \<Longrightarrow> Attributes (last evs) = WorkflowExecutionCompleted r \<Longrightarrow> completed_result (rev (H @ evs)) = Some r"
  by (cases evs rule: rev_cases) simp_all

lemma last_recorded:
  "xs \<noteq> [] \<Longrightarrow> length xs = length ys \<Longrightarrow> Attributes (last (map (recorded_event now) (zip xs ys))) = NEAttributes (last ys)"
  by (cases xs rule: rev_cases; cases ys rule: rev_cases) simp_all

lemma traced_reachable: "traced X S (\<lambda>_. True) True (\<lambda>_. True) m \<Longrightarrow> reachable X S (sdb s) \<Longrightarrow> reachable X S (sdb (snd (m s)))"
proof -
  assume "traced X S (\<lambda>_. True) True (\<lambda>_. True) m"
  then have "(db_step X S)\<^sup>*\<^sup>* (sdb s) (sdb (snd (m s)))" by (simp add: traced_def)
  then show "reachable X S (sdb s) \<Longrightarrow> reachable X S (sdb (snd (m s)))"
    by (induction rule: rtranclp_induct) (auto intro: reachable.step)
qed

text \<open>
  (C26) The result of a workflow reaches its caller: when a worker's response ends with the completion of the
  workflow and the server accepts it, a client that waits for the run, with any API key the server admits to its
  namespace, is given exactly that result: it asks for the run's status, reads the whole history page by
  page and decodes the payload the worker sent. Reading changes nothing on the server.
\<close>

theorem worker_result_reaches_client:
  assumes "proto_law X" and "reachable X (rn_store srv) (sdb s)" and "admitted srv c"
    and ok: "CompleteWorkflowTask X (rn_store srv) E token (cmds @ [CompleteWorkflowExecution r]) st s = (Inr (), s')"
    and "namespace_id (namespaceOrDefault (cl_namespace c)) (sdb s') = Some (tk_NamespaceID token)" and "tk_RunID token \<noteq> ''''"
  shows "WorkflowRun_Get (connection quote srv X C c) c \<lparr>wr_WorkflowID = tk_WorkflowID token, wr_RunID = tk_RunID token\<rparr> target T s' =
    Some ((read_into target r, \<lparr>wr_WorkflowID = tk_WorkflowID token, wr_RunID = tk_RunID token\<rparr>), s')"
proof -
  let ?k = "token_key token" and ?cmds = "cmds @ [CompleteWorkflowExecution r]"
  have key: "?k = (tk_NamespaceID token, tk_WorkflowID token, tk_RunID token)" by (simp add: token_key_def)
  have wf: "db_wf (sdb s)" using assms(2) by (rule reachable_wf)
  have reach: "reachable X (rn_store srv) (sdb s')"
    using traced_reachable [OF traced_complete_workflow assms(2)] ok by (metis snd_conv)
  from complete_task_InrD [OF wf ok] obtain we' where we': "find_we ?k (sdb s') = Some we'"
    and "we_status we' = closing_status '''' ?cmds"
    by (auto simp: closing_status_def is_terminal_def command_status_def)
  then have st: "we_status we' = ''COMPLETED''" by (simp add: closing_status_def is_terminal_def command_status_def)
  obtain H where "decode_rows X (run_events ?k (sdb s)) = Inr H"
    using decode_hist_ok [OF assms(1) reachable_hist_ok [OF assms(2)], of "run_events ?k (sdb s)"] by (auto simp: run_events_def)
  from response_decodes [OF assms(1) wf ok this] obtain we where
    dec: "decode_rows X (run_events ?k (sdb s')) = Inr (H @ map (recorded_event (db_now E 0))
      (zip (ids_from (we_next_event_id we) (Suc (length ?cmds))) (response_events E we ?cmds)))" by blast
  let ?new = "map (recorded_event (db_now E 0)) (zip (ids_from (we_next_event_id we) (Suc (length ?cmds))) (response_events E we ?cmds))"
  let ?ids = "ids_from (we_next_event_id we) (Suc (length ?cmds))" and ?evs = "response_events E we ?cmds"
  have len: "length ?ids = length ?evs" by simp
  have ids: "?ids \<noteq> []" by (simp add: ids_from_Suc)
  then have ne: "?new \<noteq> []" by (cases ?ids) simp_all
  have "Attributes (last ?new) = WorkflowExecutionCompleted r"
    unfolding last_recorded [OF ids len] by (simp add: command_events_append command_event_def)
  with ne have res: "completed_result (rev (H @ ?new)) = Some r" by (rule completed_result_last)
  have "fetchResult (connection quote srv X C c) c \<lparr>wr_WorkflowID = tk_WorkflowID token, wr_RunID = tk_RunID token\<rparr> target s' =
      Some (read_into target r, s')"
    using client_history [OF assms(1) reach admitted_passes [OF assms(3)] assms(5) we' [unfolded key] dec [unfolded key]] res by (simp add: fetchResult_def del: rev_append)
  with describe_call [OF assms(3,5,6) we' [unfolded key]] st show ?thesis
    by (simp add: WorkflowRun_Get_def) (subst get_loop.simps, simp add: statusFromString_def)
qed

definition demo_srv :: running where
  "demo_srv = \<lparr>rn_store = demo_store, rn_reaper = seconds 5, rn_timer_firer = seconds 1, rn_creds = None, rn_keys = [''k1:default''],
     rn_webui = None\<rparr>"

definition demo_client :: client where
  "demo_client = \<lparr>cl_namespace = ''default'', cl_creds = None, cl_api_key = Some ''k1''\<rparr>"

definition demo_done :: "command list" where
  "demo_done = demo_cmds @ [CompleteWorkflowExecution (Some \<lparr>Metadata = [], Data = ''42''\<rparr>)]"

lemma demo_admitted: "admitted demo_srv demo_client"
proof -
  have "entry_key ''k1:default'' = ''k1''" by code_simp
  moreover have "TrimSpace ''default'' = ''default''" by code_simp
  then have "entry_allows ''k1:default'' ''default''" by (simp add: entry_allows_def)
  ultimately show ?thesis by (simp add: admitted_def demo_srv_def demo_client_def namespaceOrDefault_def)
qed

lemma demo_done_ok:
  "\<exists>s'. CompleteWorkflowTask demo_ext demo_store demo_env demo_token demo_done None demo_sys3 = (Inr (), s') \<and>
     namespaces (sdb s') = namespaces demo_db"
  by (simp add: complete_eval_simps demo_sys3_def demo_db3_def demo_defs demo_leased_def wt_grant_def demo_token_def
      newTaskToken_def demo_cmds_def demo_done_def demo_activity_def start_events_def event_row_def q_CloseWorkflowExecution_def valid_statuses_def)

theorem worker_result_reaches_client_witness:
  "\<exists>s'. CompleteWorkflowTask demo_ext demo_store demo_env demo_token demo_done None demo_sys3 = (Inr (), s') \<and>
     WorkflowRun_Get (connection id demo_srv demo_ext demo_call demo_client) demo_client
       \<lparr>wr_WorkflowID = ''w'', wr_RunID = ''r1''\<rparr> (Some (Inr, [])) (\<lambda>_. None) s' =
     Some ((Inr (Some ''42''), \<lparr>wr_WorkflowID = ''w'', wr_RunID = ''r1''\<rparr>), s')"
proof -
  obtain s' where ok: "CompleteWorkflowTask demo_ext demo_store demo_env demo_token demo_done None demo_sys3 = (Inr (), s')"
    and ns: "namespaces (sdb s') = namespaces demo_db" using demo_done_ok by blast
  have reach: "reachable demo_ext (rn_store demo_srv) (sdb demo_sys3)"
    unfolding demo_sys3_def demo_srv_def by (simp add: demo_db3_step) (rule reachable.step [OF demo_db_reachable token_step.dequeue_workflow])
  have tok: "tk_NamespaceID demo_token = 1" "tk_WorkflowID demo_token = ''w''" "tk_RunID demo_token = ''r1''"
    by (simp_all add: demo_token_def newTaskToken_def)
  have id: "namespace_id (namespaceOrDefault (cl_namespace demo_client)) (sdb s') = Some (tk_NamespaceID demo_token)"
    using demo_namespace ns tok by (simp add: demo_client_def namespaceOrDefault_def namespace_id_def)
  have ok': "CompleteWorkflowTask demo_ext (rn_store demo_srv) demo_env demo_token
      (demo_cmds @ [CompleteWorkflowExecution (Some \<lparr>Metadata = [], Data = ''42''\<rparr>)]) None demo_sys3 = (Inr (), s')"
    using ok by (simp add: demo_srv_def demo_done_def)
  from worker_result_reaches_client [OF demo_proto_law reach demo_admitted ok' id, of id demo_call "Some (Inr, [])" "\<lambda>_. None"] ok tok
  show ?thesis by (auto simp: read_into_def FromPayload_def)
qed

end
