(* ===== verification/WebApi.thy ===== *)
theory WebApi
  imports Client
begin

text \<open>
  \<^verbatim>\<open>internal/webapi/server.go\<close>: the JSON backend of the dashboard, five GET routes over the client.
  The text of a message is protojson's (a parameter, with its error); what a handler writes is the value it
  encodes, not the bytes of the outer object. A path is the list of its segments as the multiplexer
  has cleaned, split and unescaped it.
\<close>

record json_ext =
  js_namespace :: "namespace_info \<Rightarrow> string + string"
  js_execution :: "execution_info \<Rightarrow> string + string"
  js_description :: "execution_summary \<Rightarrow> string + string"
  js_event :: "history_event \<Rightarrow> string + string"
  js_quote :: "string \<Rightarrow> string"

datatype http_body =
    HealthOK
  | NamespacesBody "string list"
  | ExecutionsBody "string list" bytes
  | MessageBody string
  | EventsBody "string list"
  | ErrorBody string
  | ClientErrorBody client_error

record http_response =
  hr_status :: nat
  hr_body :: http_body

record http_request =
  hq_method :: string
  hq_path :: "string list"
  hq_query :: "string \<Rightarrow> string"

section \<open>Encoding and errors\<close>

definition writeJSON :: "http_body \<Rightarrow> http_response" where
  "writeJSON b = \<lparr>hr_status = 200, hr_body = b\<rparr>"

definition http_Error :: "string \<Rightarrow> nat \<Rightarrow> http_response" where
  "http_Error msg code = \<lparr>hr_status = code, hr_body = ErrorBody msg\<rparr>"

text \<open>\<^verbatim>\<open>status.Code\<close> of an error that is no status is Unknown, here \<open>None\<close>.\<close>

definition status_Code :: "client_error \<Rightarrow> code option" where
  "status_Code err = (case err of RPCError (Status c _) \<Rightarrow> Some c | _ \<Rightarrow> None)"

definition http_status :: "code option \<Rightarrow> nat" where
  "http_status c = (case c of
     Some NotFound \<Rightarrow> 404
   | Some InvalidArgument \<Rightarrow> 400
   | Some AlreadyExists \<Rightarrow> 409
   | Some Aborted \<Rightarrow> 409
   | Some DeadlineExceeded \<Rightarrow> 409
   | Some Unauthenticated \<Rightarrow> 401
   | Some PermissionDenied \<Rightarrow> 403
   | _ \<Rightarrow> 500)"

definition writeError :: "client_error \<Rightarrow> http_response" where
  "writeError err = \<lparr>hr_status = http_status (status_Code err), hr_body = ClientErrorBody err\<rparr>"

text \<open>An encoder's error is written the same way, as an error without a status.\<close>

definition writeEncodeError :: "string \<Rightarrow> http_response" where
  "writeEncodeError e = \<lparr>hr_status = http_status None, hr_body = ErrorBody e\<rparr>"

definition writeProto :: "string + string \<Rightarrow> http_response" where
  "writeProto m = (case m of Inl e \<Rightarrow> writeEncodeError e | Inr b \<Rightarrow> \<lparr>hr_status = 200, hr_body = MessageBody b\<rparr>)"

fun encode_all :: "('m \<Rightarrow> string + string) \<Rightarrow> 'm list \<Rightarrow> string + string list" where
  "encode_all enc [] = Inr []"
| "encode_all enc (m # ms) = (case enc m of
     Inl e \<Rightarrow> Inl e
   | Inr b \<Rightarrow> (case encode_all enc ms of Inl e \<Rightarrow> Inl e | Inr bs \<Rightarrow> Inr (b # bs)))"

text \<open>
  \<^verbatim>\<open>strings.ToLower\<close>, exact on every text whose lower case is ASCII: the capitals, and the two
  letters outside ASCII that have an ASCII lower case (the dotted capital I and the Kelvin sign).
\<close>

fun ToLower :: "string \<Rightarrow> string" where
  "ToLower [] = []"
| "ToLower (c # cs) =
     (let n = of_char c :: nat in
      if 65 \<le> n \<and> n \<le> 90 then char_of (n + 32) # ToLower cs
      else if n = 0xC4 \<and> map of_char (take 1 cs) = [0xB0 :: nat] then CHR ''i'' # ToLower (drop 1 cs)
      else if n = 0xE2 \<and> map of_char (take 2 cs) = [0x84, 0xAA :: nat] then CHR ''k'' # ToLower (drop 2 cs)
      else c # ToLower cs)"

definition parseStatusFilter :: "json_ext \<Rightarrow> string \<Rightarrow> string + execution_status" where
  "parseStatusFilter J s =
     (let l = ToLower s in
      if l = '''' then Inr ST_UNSPECIFIED
      else if l = ''running'' then Inr ST_RUNNING
      else if l = ''completed'' then Inr ST_COMPLETED
      else if l = ''failed'' then Inr ST_FAILED
      else if l = ''terminated'' then Inr ST_TERMINATED
      else if l = ''timed_out'' then Inr ST_TIMED_OUT
      else if l = ''continued_as_new'' then Inr ST_CONTINUED_AS_NEW
      else Inl (''unknown status filter '' @ js_quote J s))"

text \<open>\<^verbatim>\<open>strconv.Atoi\<close>, and the conversion to int32, which wraps.\<close>

definition Atoi :: "json_ext \<Rightarrow> string \<Rightarrow> string + int" where
  "Atoi J v = (case ParseInt 64 v of
     Inl e \<Rightarrow> Inl (''strconv.Atoi: parsing '' @ js_quote J v @ '': '' @ e) | Inr n \<Rightarrow> Inr n)"

definition int32 :: "int \<Rightarrow> int" where
  "int32 n = (n + 2 ^ 31) mod 2 ^ 32 - 2 ^ 31"

section \<open>Handlers\<close>

type_synonym 'b http_outcome = "(http_response \<times> 'b sys) option"

text \<open>Every handler ends like this: the client's error is written, or its result encoded.\<close>

definition respond_with :: "('a, 'b) answer \<Rightarrow> ('a \<Rightarrow> http_response) \<Rightarrow> 'b http_outcome" where
  "respond_with a f = (case a of
     None \<Rightarrow> None
   | Some (Inl e, s') \<Rightarrow> Some (writeError e, s')
   | Some (Inr x, s') \<Rightarrow> Some (f x, s'))"

definition handleHealthz :: "'b sys \<Rightarrow> 'b http_outcome" where
  "handleHealthz s = Some (writeJSON HealthOK, s)"

definition handleListNamespaces :: "json_ext \<Rightarrow> 'b connection \<Rightarrow> 'b sys \<Rightarrow> 'b http_outcome" where
  "handleListNamespaces J rpc s =
     respond_with (Client_ListNamespaces rpc s) (\<lambda>namespaces.
       case encode_all (js_namespace J) namespaces of Inl e \<Rightarrow> writeEncodeError e | Inr raw \<Rightarrow> writeJSON (NamespacesBody raw))"

definition page_size_param :: "json_ext \<Rightarrow> string \<Rightarrow> string + int" where
  "page_size_param J v =
     (if v \<noteq> '''' then (case Atoi J v of Inl e \<Rightarrow> Inl (''invalid page_size: '' @ e) | Inr n \<Rightarrow> Inr (int32 n)) else Inr 0)"

definition handleListWorkflows :: "json_ext \<Rightarrow> 'b connection \<Rightarrow> client \<Rightarrow> (string \<Rightarrow> string) \<Rightarrow> 'b sys \<Rightarrow> 'b http_outcome" where
  "handleListWorkflows J rpc c q s =
     (case parseStatusFilter J (q ''status'') of
        Inl e \<Rightarrow> Some (http_Error e 400, s)
      | Inr statusFilter \<Rightarrow>
          (case page_size_param J (q ''page_size'') of
             Inl e \<Rightarrow> Some (http_Error e 400, s)
           | Inr pageSize \<Rightarrow>
               respond_with (ListWorkflows rpc c \<lparr>lo_StatusFilter = statusFilter, lo_TaskQueue = q ''task_queue'',
                   lo_PageSize = pageSize, lo_PageToken = q ''page_token''\<rparr> s) (\<lambda>(execs, tok).
                 case encode_all (js_execution J) execs of
                   Inl e \<Rightarrow> writeEncodeError e | Inr raw \<Rightarrow> writeJSON (ExecutionsBody raw tok))))"

definition handleDescribeWorkflow :: "json_ext \<Rightarrow> 'b connection \<Rightarrow> client \<Rightarrow> string \<Rightarrow> string \<Rightarrow> 'b sys \<Rightarrow> 'b http_outcome" where
  "handleDescribeWorkflow J rpc c workflowId runId s =
     respond_with (DescribeWorkflow rpc c workflowId runId s) (\<lambda>resp. writeProto (js_description J resp))"

definition handleGetWorkflowHistory :: "json_ext \<Rightarrow> 'b connection \<Rightarrow> client \<Rightarrow> string \<Rightarrow> string \<Rightarrow> 'b sys \<Rightarrow> 'b http_outcome" where
  "handleGetWorkflowHistory J rpc c workflowId runId s =
     respond_with (GetWorkflowHistory rpc c workflowId runId s) (\<lambda>events.
       case encode_all (js_event J) events of Inl e \<Rightarrow> writeEncodeError e | Inr raw \<Rightarrow> writeJSON (EventsBody raw))"

text \<open>The patterns \<open>NewServer\<close> registers.\<close>

datatype endpoint = Healthz | Namespaces | Workflows | Describe string string | History string string

definition pattern :: "string list \<Rightarrow> endpoint option" where
  "pattern path =
     (case path of
        [a, b] \<Rightarrow>
          if a = ''api'' \<and> b = ''healthz'' then Some Healthz
          else if a = ''api'' \<and> b = ''namespaces'' then Some Namespaces
          else if a = ''api'' \<and> b = ''workflows'' then Some Workflows
          else None
      | [a, b, workflowId, runId] \<Rightarrow>
          if a = ''api'' \<and> b = ''workflows'' then Some (Describe workflowId runId) else None
      | [a, b, workflowId, runId, h] \<Rightarrow>
          if a = ''api'' \<and> b = ''workflows'' \<and> h = ''history'' then Some (History workflowId runId) else None
      | _ \<Rightarrow> None)"

fun endpoint_handler :: "json_ext \<Rightarrow> 'b connection \<Rightarrow> client \<Rightarrow> (string \<Rightarrow> string) \<Rightarrow> endpoint \<Rightarrow> 'b sys \<Rightarrow> 'b http_outcome" where
  "endpoint_handler J rpc c q Healthz = handleHealthz"
| "endpoint_handler J rpc c q Namespaces = handleListNamespaces J rpc"
| "endpoint_handler J rpc c q Workflows = handleListWorkflows J rpc c q"
| "endpoint_handler J rpc c q (Describe workflowId runId) = handleDescribeWorkflow J rpc c workflowId runId"
| "endpoint_handler J rpc c q (History workflowId runId) = handleGetWorkflowHistory J rpc c workflowId runId"

text \<open>A GET pattern also matches HEAD; a known path with another method is 405, any other path 404.\<close>

definition webapi :: "json_ext \<Rightarrow> 'b connection \<Rightarrow> client \<Rightarrow> http_request \<Rightarrow> 'b sys \<Rightarrow> 'b http_outcome" where
  "webapi J rpc c req s =
     (case pattern (hq_path req) of
        None \<Rightarrow> Some (http_Error ''404 page not found'' 404, s)
      | Some ep \<Rightarrow>
          if hq_method req \<in> {''GET'', ''HEAD''} then endpoint_handler J rpc c (hq_query req) ep s
          else Some (http_Error ''Method Not Allowed'' 405, s))"

end
