(* ===== verification/WebApiProps.thy ===== *)
theory WebApiProps
  imports ClientProps WebApi
begin

text \<open>
  The dashboard only reads, and every request is answered.
\<close>

section \<open>Operations that only read\<close>

lemma keeps_onDB_read:
  assumes "\<And>d. snd (m d) = d"
  shows "keeps (\<lambda>x. x = s0) (onDB m)"
  by (rule keepsI) (simp add: onDB_def split_beta assms)

lemma keeps_namespaceID: "keeps (\<lambda>x. x = s0) (getNamespaceID name)"
  by (rule keepsI) (simp add: getNamespaceID_eq split: option.split)

lemma keeps_reads:
  "keeps (\<lambda>x. x = s0) (DescribeWorkflowExecution name wid rid)"
  "keeps (\<lambda>x. x = s0) (GetHistory X name wid rid psz tok)"
  "keeps (\<lambda>x. x = s0) (ListWorkflowExecutions X p)"
  "keeps (\<lambda>x. x = s0) (ListNamespaces X)"
proof -
  have r: "snd (resolve_run n w r d) = d" for n w r and d :: "'b db"
    by (simp add: resolve_run_eq split: option.split)
  have g: "snd (q_GetWorkflowExecution k d) = d" for k and d :: "'b db" by (simp add: q_GetWorkflowExecution_eq split: option.split)
  show "keeps (\<lambda>x. x = s0) (DescribeWorkflowExecution name wid rid)"
    unfolding DescribeWorkflowExecution_def by (intro keeps_bindM keeps_namespaceID keeps_onDB_read r g keeps_ret)
  show "keeps (\<lambda>x. x = s0) (GetHistory X name wid rid psz tok)"
    unfolding GetHistory_def Let_def
    by (intro keeps_bindM keeps_namespaceID keeps_onDB_read keeps_liftE keeps_ret) (simp add: q_ListHistoryEvents_def)
  show "keeps (\<lambda>x. x = s0) (ListWorkflowExecutions X p)"
    unfolding ListWorkflowExecutions_def Let_def
    by (intro keeps_bindM keeps_namespaceID keeps_onDB_read keeps_liftE keeps_ret) (simp add: q_ListWorkflowExecutions_def)
  show "keeps (\<lambda>x. x = s0) (ListNamespaces X)"
    unfolding ListNamespaces_def by (intro keeps_bindM keeps_onDB_read keeps_ret) (simp add: q_ListNamespaces_def)
qed

lemma call_store_read: "keeps (\<lambda>x. x = s) m \<Longrightarrow> \<exists>r. call_store m f s = (r, s)"
  using keepsD [of "\<lambda>x. x = s" m s] by (auto simp: call_store_def split: prod.split sum.split)

lemma connection_cases:
  "connection quote srv X C c req s = handle X (rn_store srv) C req s \<or> (\<exists>e. connection quote srv X C c req s = Some (Inl e, s))"
  using interceptor_outcome [of "rn_keys srv" "Some (outgoing_keys c)" req quote "handle X (rn_store srv) C req" s]
  by (auto simp: connection_def serve_rpc_def split: if_splits)

fun reading :: "rpc_request \<Rightarrow> bool" where
  "reading (DescribeWorkflowExecutionRequest r) = True"
| "reading (GetWorkflowExecutionHistoryRequest r) = True"
| "reading (ListWorkflowExecutionsRequest r) = True"
| "reading ListNamespacesRequest = True"
| "reading _ = False"

lemma connection_read:
  assumes "reading req"
  shows "\<exists>r. connection quote srv X C c req s = Some (r, s)"
proof -
  have "\<exists>r. handle X (rn_store srv) C req s = Some (r, s)"
    using assms
    by (cases req) (auto simp: Server_DescribeWorkflowExecution_def Server_GetWorkflowExecutionHistory_def
        Server_ListWorkflowExecutions_def Server_ListNamespaces_def intro!: call_store_read keeps_reads)
  then show ?thesis using connection_cases [of quote srv X C c req s] by auto
qed

lemma invoke_read:
  "reading req \<Longrightarrow> \<exists>a. invoke (connection quote srv X C c) req f s = Some (a, s)"
  using connection_read [of req quote srv X C c s] by (auto simp: invoke_def split: sum.split)

text \<open>Reading a whole history ends, whether the run exists or not and whether the client may read it or not.\<close>

lemma history_read_ends:
  assumes "proto_law X" and "reachable X S (sdb s)"
  shows "\<exists>a. GetWorkflowHistory (connection quote srv X C c) c wid rid s = Some (a, s)"
proof (cases "passes (connection quote srv X C c) srv X C c s")
  case False
  let ?req = "GetWorkflowExecutionHistoryRequest
    \<lparr>gh_Namespace = cl_namespace c, gh_WorkflowId = wid, gh_RunId = rid, gh_PageSize = 0, gh_NextPageToken = []\<rparr>"
  have "GetNamespace ?req = Some (cl_namespace c)" by simp
  with False obtain e where "connection quote srv X C c ?req s = Some (Inl e, s)"
    using connection_either [of quote srv X C c s] by blast
  then show ?thesis unfolding GetWorkflowHistory_def by (subst history_loop.simps) (simp add: invoke_def)
next
  case pass: True
  have wf: "log_wf (sdb s)" using reachable_wf [OF assms(2)] by (rule db_wf_log)
  show ?thesis
  proof (cases "namespace_id (namespaceOrDefault (cl_namespace c)) (sdb s)")
    case None
    then show ?thesis
      using pass unfolding GetWorkflowHistory_def
      by (subst history_loop.simps) (simp add: invoke_def passes_def Server_GetWorkflowExecutionHistory_def call_store_def
          GetHistory_def bindM_def getNamespaceID_None)
  next
    case (Some ns)
    let ?rows = "run_events (ns, wid, rid) (sdb s)"
    obtain evs where evs: "decode_rows X ?rows = Inr evs"
      using decode_hist_ok [OF assms(1) reachable_hist_ok [OF assms(2)], of ?rows] by (auto simp: run_events_def)
    show ?thesis
    proof (cases "find_we (ns, wid, rid) (sdb s)")
      case (Some we)
      from client_history [OF assms pass \<open>namespace_id _ _ = Some ns\<close> this evs] show ?thesis by blast
    next
      case None
      then have "?rows = []" using run_events_empty [OF wf] by (simp add: find_we_None)
      then have "GetHistory X (namespaceOrDefault (cl_namespace c)) wid rid 0 [] s = (Inr ([], []), s)"
        using GetHistory_eq [OF wf Some, where X = X and wid = wid and rid = rid and psz = 0 and tok = "[]" and evs = "[]"]
        by (simp add: hist_pages.rest_def page_size_def)
      then show ?thesis
        using pass unfolding GetWorkflowHistory_def
        by (subst history_loop.simps) (simp add: invoke_def passes_def Server_GetWorkflowExecutionHistory_def call_store_def)
    qed
  qed
qed

lemma respond_read: "\<exists>a. m = Some (a, s) \<Longrightarrow> \<exists>resp. respond_with m f = Some (resp, s)"
  by (auto simp: respond_with_def split: sum.split)

lemma handlers_read:
  "\<exists>resp. handleHealthz s = Some (resp, s)"
  "\<exists>resp. handleListNamespaces J (connection quote srv X C c) s = Some (resp, s)"
  "\<exists>resp. handleListWorkflows J (connection quote srv X C c) c q s = Some (resp, s)"
  "\<exists>resp. handleDescribeWorkflow J (connection quote srv X C c) c wid rid s = Some (resp, s)"
  "proto_law X \<Longrightarrow> reachable X S (sdb s) \<Longrightarrow> \<exists>resp. handleGetWorkflowHistory J (connection quote srv X C c) c wid rid s = Some (resp, s)"
  unfolding handleHealthz_def handleListNamespaces_def handleListWorkflows_def handleDescribeWorkflow_def
    handleGetWorkflowHistory_def Client_ListNamespaces_def ListWorkflows_def DescribeWorkflow_def
  by (auto intro!: respond_read invoke_read history_read_ends split: sum.split)

lemma unauthenticated_calls:
  assumes "\<And>rq. rpc rq s = Some (Inl (Status Unauthenticated t), s)"
  shows "handleDescribeWorkflow J rpc c wid rid s = Some (writeError (RPCError (Status Unauthenticated t)), s)"
    "handleGetWorkflowHistory J rpc c wid rid s = Some (writeError (RPCError (Status Unauthenticated t)), s)"
    "writeError (RPCError (Status Unauthenticated t)) = \<lparr>hr_status = 401, hr_body = ClientErrorBody (RPCError (Status Unauthenticated t))\<rparr>"
proof -
  have "GetWorkflowHistory rpc c wid rid s = Some (Inl (RPCError (Status Unauthenticated t)), s)"
    unfolding GetWorkflowHistory_def by (subst history_loop.simps) (simp add: invoke_def assms)
  then show "handleGetWorkflowHistory J rpc c wid rid s = Some (writeError (RPCError (Status Unauthenticated t)), s)"
    by (simp add: handleGetWorkflowHistory_def respond_with_def)
qed (simp_all add: handleDescribeWorkflow_def DescribeWorkflow_def invoke_def assms respond_with_def writeError_def
    http_status_def status_Code_def)

lemma webapi_answers:
  assumes "proto_law X" and "reachable X S (sdb s)"
  shows "\<exists>resp. webapi J (connection quote srv X C c) c req s = Some (resp, s)"
proof (cases "pattern (hq_path req)")
  case (Some ep)
  have "\<exists>resp. endpoint_handler J (connection quote srv X C c) c (hq_query req) ep s = Some (resp, s)"
    using assms by (cases ep) (auto intro: handlers_read)
  then show ?thesis by (simp add: webapi_def Some)
qed (simp add: webapi_def)

text \<open>
  (C38) The dashboard's backend is read-only and always answers: whatever the request, its method, path and parameters, and
  whether or not the backend's client may read, there is a response and the server's state is exactly as before. The
  history route of an existing run the client may read is answered with every event of the run, in
  order; without an API key, where the server wants one, both routes of a run are answered with 401.
\<close>

theorem web_api_read_only:
  assumes "proto_law X" and "reachable X (rn_store srv) (sdb s)"
  shows "(\<exists>resp. webapi J (connection quote srv X C c) c req s = Some (resp, s)) \<and>
    (\<forall>wid rid ns we. hq_method req = ''GET'' \<and> hq_path req = [''api'', ''workflows'', wid, rid, ''history''] \<and> admitted srv c \<and>
       namespace_id (namespaceOrDefault (cl_namespace c)) (sdb s) = Some ns \<and> find_we (ns, wid, rid) (sdb s) = Some we \<longrightarrow>
       (\<exists>evs. decode_rows X (run_events (ns, wid, rid) (sdb s)) = Inr evs \<and>
          webapi J (connection quote srv X C c) c req s = Some (case encode_all (js_event J) evs of
            Inl e \<Rightarrow> writeEncodeError e | Inr raw \<Rightarrow> writeJSON (EventsBody raw), s))) \<and>
    (\<forall>wid rid. hq_method req = ''GET'' \<and> pattern (hq_path req) \<in> {Some (Describe wid rid), Some (History wid rid)} \<and>
       rn_keys srv \<noteq> [] \<and> cl_api_key c = None \<longrightarrow>
       (\<exists>body. webapi J (connection quote srv X C c) c req s = Some (\<lparr>hr_status = 401, hr_body = body\<rparr>, s)))"
proof (intro conjI allI impI)
  show "\<exists>resp. webapi J (connection quote srv X C c) c req s = Some (resp, s)" using assms by (rule webapi_answers)
next
  fix wid rid ns we
  assume a: "hq_method req = ''GET'' \<and> hq_path req = [''api'', ''workflows'', wid, rid, ''history''] \<and> admitted srv c \<and>
       namespace_id (namespaceOrDefault (cl_namespace c)) (sdb s) = Some ns \<and> find_we (ns, wid, rid) (sdb s) = Some we"
  obtain evs where evs: "decode_rows X (run_events (ns, wid, rid) (sdb s)) = Inr evs"
    using decode_hist_ok [OF assms(1) reachable_hist_ok [OF assms(2)], of "run_events (ns, wid, rid) (sdb s)"] by (auto simp: run_events_def)
  have "GetWorkflowHistory (connection quote srv X C c) c wid rid s = Some (Inr evs, s)"
    using client_history [OF assms admitted_passes _ _ evs] a by blast
  with a evs show "\<exists>evs. decode_rows X (run_events (ns, wid, rid) (sdb s)) = Inr evs \<and>
          webapi J (connection quote srv X C c) c req s = Some (case encode_all (js_event J) evs of
            Inl e \<Rightarrow> writeEncodeError e | Inr raw \<Rightarrow> writeJSON (EventsBody raw), s)"
    by (simp add: webapi_def pattern_def handleGetWorkflowHistory_def respond_with_def)
next
  fix wid rid
  assume a: "hq_method req = ''GET'' \<and> pattern (hq_path req) \<in> {Some (Describe wid rid), Some (History wid rid)} \<and>
    rn_keys srv \<noteq> [] \<and> cl_api_key c = None"
  then have "connection quote srv X C c rq s = Some (Inl (Status Unauthenticated (Text ''missing api key'')), s)" for rq
    by (simp add: connection_def serve_rpc_def outgoing_keys_def APIKeyInterceptor_def)
  note refused = unauthenticated_calls [of "connection quote srv X C c" s, OF this]
  show "\<exists>body. webapi J (connection quote srv X C c) c req s = Some (\<lparr>hr_status = 401, hr_body = body\<rparr>, s)"
    using a refused by (auto simp: webapi_def)
qed

definition demo_json :: json_ext where
  "demo_json = \<lparr>js_namespace = (\<lambda>n. Inr (ni_Name n)), js_execution = (\<lambda>e. Inr (wi_RunID e)), js_description = (\<lambda>d. Inr (es_RunId d)),
     js_event = (\<lambda>ev. Inr (decimal (EventId ev))), js_quote = id\<rparr>"

definition demo_get :: http_request where
  "demo_get = \<lparr>hq_method = ''GET'', hq_path = [''api'', ''workflows'', ''w'', ''r1'', ''history''], hq_query = (\<lambda>_. '''')\<rparr>"

theorem web_api_read_only_witness:
  "\<exists>evs. decode_rows demo_ext (run_events (1, ''w'', ''r1'') demo_db) = Inr evs \<and>
     webapi demo_json (connection id demo_srv demo_ext demo_call demo_client) demo_client demo_get demo_sys =
     Some (case encode_all (js_event demo_json) evs of Inl e \<Rightarrow> writeEncodeError e | Inr raw \<Rightarrow> writeJSON (EventsBody raw), demo_sys)"
proof -
  have "reachable demo_ext (rn_store demo_srv) (sdb demo_sys)"
    using demo_db_reachable by (simp add: demo_srv_def demo_sys_def)
  moreover have "namespace_id (namespaceOrDefault (cl_namespace demo_client)) (sdb demo_sys) = Some 1"
    using demo_namespace by (simp add: demo_client_def namespaceOrDefault_def demo_sys_def)
  moreover have "find_we (1, ''w'', ''r1'') (sdb demo_sys) = Some demo_we" "sdb demo_sys = demo_db"
    using demo_find_we by (simp_all add: demo_key_def demo_sys_def)
  ultimately show ?thesis
    using web_api_read_only [OF demo_proto_law, of demo_srv demo_sys demo_json id demo_call demo_client demo_get] demo_admitted
    by (simp add: demo_get_def)
qed

end
