(* ===== verification/Cli.thy ===== *)
theory Cli
  imports WebApi
begin

text \<open>
  \<^verbatim>\<open>cmd/flow-cli/main.go\<close>: the operator's command line over the client, with the parts of the standard
  library it rests on: \<^verbatim>\<open>flag\<close>, integers in any base, times printed in UTC. JSON is a parameter.
  A command ends with what it prints on both streams, or with a failure and its exit code; the text of a
  failure is not modelled. The network is a function from the dialled client to its connection.
\<close>

section \<open>strconv.ParseInt with base 0\<close>

definition lower_byte :: "char \<Rightarrow> nat" where
  "lower_byte c = (let n = of_char c in if 65 \<le> n \<and> n \<le> 90 then n + 32 else n)"

definition digit_in :: "nat \<Rightarrow> char \<Rightarrow> nat option" where
  "digit_in base c =
     (let n = lower_byte c;
          d = (if 48 \<le> n \<and> n \<le> 57 then Some (n - 48) else if 97 \<le> n \<and> n \<le> 122 then Some (n - 97 + 10) else None)
      in case d of None \<Rightarrow> None | Some v \<Rightarrow> if v \<ge> base then None else Some v)"

text \<open>The base a prefix announces and the digits after it.\<close>

definition base_prefix :: "string \<Rightarrow> nat \<times> string" where
  "base_prefix s =
     (if s \<noteq> [] \<and> hd s = CHR ''0'' then
        if length s \<ge> 3 \<and> lower_byte (s ! 1) = 98 then (2, drop 2 s)
        else if length s \<ge> 3 \<and> lower_byte (s ! 1) = 111 then (8, drop 2 s)
        else if length s \<ge> 3 \<and> lower_byte (s ! 1) = 120 then (16, drop 2 s)
        else (8, drop 1 s)
      else (10, s))"

fun parse_in_base :: "nat \<Rightarrow> nat \<Rightarrow> string \<Rightarrow> nat \<Rightarrow> nat option" where
  "parse_in_base base maxVal [] n = Some n"
| "parse_in_base base maxVal (c # cs) n =
     (if c = CHR ''_'' then parse_in_base base maxVal cs n
      else case digit_in base c of
        None \<Rightarrow> None
      | Some d \<Rightarrow> let n1 = n * base + d in if n1 > maxVal then None else parse_in_base base maxVal cs n1)"

text \<open>Underscores only between digits, or between the prefix and a digit: what was seen before each byte.\<close>

datatype seen = AtStart | SawDigit | SawUnderscore | SawOther

fun underscore_loop :: "bool \<Rightarrow> seen \<Rightarrow> string \<Rightarrow> bool" where
  "underscore_loop hex i [] \<longleftrightarrow> i \<noteq> SawUnderscore"
| "underscore_loop hex i (c # cs) \<longleftrightarrow>
     (if digit_in (if hex then 16 else 10) c \<noteq> None then underscore_loop hex SawDigit cs
      else if c = CHR ''_'' then i = SawDigit \<and> underscore_loop hex SawUnderscore cs
      else i \<noteq> SawUnderscore \<and> underscore_loop hex SawOther cs)"

definition underscoreOK :: "string \<Rightarrow> bool" where
  "underscoreOK s0 =
     (let s = (if s0 \<noteq> [] \<and> hd s0 \<in> {CHR ''-'', CHR ''+''} then tl s0 else s0);
          based = length s \<ge> 2 \<and> hd s = CHR ''0'' \<and> lower_byte (s ! 1) \<in> {98, 111, 120};
          hex = based \<and> lower_byte (s ! 1) = 120
      in underscore_loop hex (if based then SawDigit else AtStart) (if based then drop 2 s else s))"

text \<open>The kind of error does not matter to the flag package.\<close>

definition ParseInt0 :: "string \<Rightarrow> int option" where
  "ParseInt0 s =
     (let neg = (s \<noteq> [] \<and> hd s = CHR ''-'');
          u = (if s \<noteq> [] \<and> hd s \<in> {CHR ''-'', CHR ''+''} then tl s else s)
      in if u = [] then None
         else case base_prefix u of (base, ds) \<Rightarrow>
           (case parse_in_base base (2 ^ 64 - 1) ds 0 of
              None \<Rightarrow> None
            | Some v \<Rightarrow>
                if CHR ''_'' \<in> set ds \<and> \<not> underscoreOK u then None
                else if \<not> neg \<and> v \<ge> 2 ^ 63 \<or> neg \<and> v > 2 ^ 63 then None
                else Some (if neg then - int v else int v)))"

section \<open>flag.FlagSet.Parse\<close>

datatype flag_value = StringFlag string | IntFlag int

type_synonym flag_set = "(string \<times> flag_value) list"

datatype flag_error = BadFlagSyntax | FlagNotDefined | NeedsArgument | InvalidFlagValue | ErrHelp

fun flag_Set :: "flag_value \<Rightarrow> string \<Rightarrow> flag_value option" where
  "flag_Set (StringFlag _) v = Some (StringFlag v)"
| "flag_Set (IntFlag _) v = map_option IntFlag (ParseInt0 v)"

text \<open>The first equals sign, which cannot be the first byte.\<close>

definition split_value :: "string \<Rightarrow> string \<times> string option" where
  "split_value name =
     (let rest = dropWhile (\<lambda>c. c \<noteq> CHR ''='') (tl name) in
      if rest = [] then (name, None) else (hd name # takeWhile (\<lambda>c. c \<noteq> CHR ''='') (tl name), Some (tl rest)))"

definition assign_flag :: "string \<Rightarrow> flag_value \<Rightarrow> flag_set \<Rightarrow> flag_set" where
  "assign_flag name x fs = map (\<lambda>(n, old). if n = name then (n, x) else (n, old)) fs"

text \<open>Parsing stops at the first argument that is no flag; what is left is not read by any command.\<close>

fun flag_Parse :: "flag_set \<Rightarrow> string list \<Rightarrow> flag_error + flag_set" where
  "flag_Parse fs [] = Inr fs"
| "flag_Parse fs (s # args) =
     (if length s < 2 \<or> hd s \<noteq> CHR ''-'' then Inr fs
      else if s = ''--'' then Inr fs
      else
        let flag = drop (if s ! 1 = CHR ''-'' then 2 else 1) s in
        if flag = [] \<or> hd flag = CHR ''-'' \<or> hd flag = CHR ''='' then Inl BadFlagSyntax
        else case split_value flag of (name, value) \<Rightarrow>
          (case map_of fs name of
             None \<Rightarrow> Inl (if name = ''help'' \<or> name = ''h'' then ErrHelp else FlagNotDefined)
           | Some old \<Rightarrow>
               (case value of
                  Some v \<Rightarrow>
                    (case flag_Set old v of
                       None \<Rightarrow> Inl InvalidFlagValue
                     | Some x \<Rightarrow> flag_Parse (assign_flag name x fs) args)
                | None \<Rightarrow>
                    (case args of
                       [] \<Rightarrow> Inl NeedsArgument
                     | v # args' \<Rightarrow>
                         (case flag_Set old v of
                            None \<Rightarrow> Inl InvalidFlagValue
                          | Some x \<Rightarrow> flag_Parse (assign_flag name x fs) args')))))"

definition string_flag :: "flag_set \<Rightarrow> string \<Rightarrow> string" where
  "string_flag fs name = (case map_of fs name of Some (StringFlag v) \<Rightarrow> v | _ \<Rightarrow> '''')"

definition int_flag :: "flag_set \<Rightarrow> string \<Rightarrow> int" where
  "int_flag fs name = (case map_of fs name of Some (IntFlag n) \<Rightarrow> n | _ \<Rightarrow> 0)"

section \<open>time.Time.Format in UTC\<close>

text \<open>Year, month and day of a day counted from January 1, 1970, in the proleptic Gregorian calendar.\<close>

definition civil :: "int \<Rightarrow> int \<times> int \<times> int" where
  "civil days =
     (let z = days + 719468;
          doe = z mod 146097;
          yoe = (doe - doe div 1460 + doe div 36524 - doe div 146096) div 365;
          doy = doe - (365 * yoe + yoe div 4 - yoe div 100);
          mp = (5 * doy + 2) div 153;
          m = (if mp < 10 then mp + 3 else mp - 9)
      in (yoe + z div 146097 * 400 + (if m \<le> 2 then 1 else 0), m, doy - (153 * mp + 2) div 5 + 1))"

definition padded :: "nat \<Rightarrow> int \<Rightarrow> string" where
  "padded width n =
     (let ds = decimal \<bar>n\<bar> in (if n < 0 then ''-'' else '''') @ replicate (width - length ds) CHR ''0'' @ ds)"

text \<open>The layout of the command line, with the milliseconds (cut, not rounded) where asked for.\<close>

definition format_time :: "bool \<Rightarrow> timestamp \<Rightarrow> string" where
  "format_time millis t =
     (let secs = t div 1000000000;
          sod = secs mod 86400
      in case civil (secs div 86400) of (y, m, d) \<Rightarrow>
        padded 4 y @ ''-'' @ padded 2 m @ ''-'' @ padded 2 d @ ''T'' @
        padded 2 (sod div 3600) @ '':'' @ padded 2 (sod mod 3600 div 60) @ '':'' @ padded 2 (sod mod 60) @
        (if millis then ''.'' @ padded 3 (t mod 1000000000 div 1000000) else '''') @ ''Z'')"

section \<open>Commands\<close>

definition WorkflowExecutionStatus_String :: "execution_status \<Rightarrow> string" where
  "WorkflowExecutionStatus_String st = ''WORKFLOW_EXECUTION_STATUS_'' @ (case st of
     ST_UNSPECIFIED \<Rightarrow> ''UNSPECIFIED'' | ST_RUNNING \<Rightarrow> ''RUNNING'' | ST_COMPLETED \<Rightarrow> ''COMPLETED'' | ST_FAILED \<Rightarrow> ''FAILED''
   | ST_TERMINATED \<Rightarrow> ''TERMINATED'' | ST_TIMED_OUT \<Rightarrow> ''TIMED_OUT'' | ST_CONTINUED_AS_NEW \<Rightarrow> ''CONTINUED_AS_NEW'')"

text \<open>
  \<open>ji_recode\<close>: JSON text read into an untyped value and written again; \<open>ji_raw\<close>: into a raw message;
  \<open>ji_object\<close>: an indented object of strings; \<open>ji_quote\<close>: \<^verbatim>\<open>%q\<close>.
\<close>

record cli_json =
  ji_recode :: "bytes \<Rightarrow> string + bytes"
  ji_raw :: "bytes \<Rightarrow> string + bytes"
  ji_object :: "(string \<times> string) list \<Rightarrow> string"
  ji_quote :: "string \<Rightarrow> string"

datatype cli_failure =
    Usage
  | FlagFailure flag_error
  | DialFailure dial_error
  | MissingFlags string
  | InvalidInput string
  | InvalidStatus string
  | CallFailed string client_error

definition exit_code :: "cli_failure \<Rightarrow> nat" where
  "exit_code f = (case f of
     Usage \<Rightarrow> 2
   | FlagFailure e \<Rightarrow> if e = ErrHelp then 0 else 2
   | _ \<Rightarrow> 1)"

record cli_output =
  stdout :: string
  stderr :: string

type_synonym 'b cli_answer = "((cli_failure + cli_output) \<times> 'b sys) option"

definition print :: "string \<Rightarrow> cli_output" where
  "print t = \<lparr>stdout = t, stderr = ''''\<rparr>"

definition tabbed :: "string list \<Rightarrow> string" where
  "tabbed cols = concat (map (\<lambda>f. f @ [CHR 0x09]) (butlast cols)) @ last cols @ [CHR 0x0A]"

text \<open>The flags of a command, parsed, and its body.\<close>

definition with_flags :: "flag_set \<Rightarrow> string list \<Rightarrow> (flag_set \<Rightarrow> 'b sys \<Rightarrow> 'b cli_answer) \<Rightarrow> 'b sys \<Rightarrow> 'b cli_answer" where
  "with_flags fs args body s = (case flag_Parse fs args of
     Inl e \<Rightarrow> Some (Inl (FlagFailure e), s)
   | Inr fs' \<Rightarrow> body fs' s)"

definition require :: "string \<Rightarrow> string list \<Rightarrow> flag_set \<Rightarrow> ('b sys \<Rightarrow> 'b cli_answer) \<Rightarrow> 'b sys \<Rightarrow> 'b cli_answer" where
  "require cmd names fs body s =
     (if \<exists>n \<in> set names. string_flag fs n = '''' then Some (Inl (MissingFlags cmd), s) else body s)"

definition with_input :: "cli_json \<Rightarrow> flag_set \<Rightarrow> (string + bytes \<Rightarrow> 'b sys \<Rightarrow> 'b cli_answer) \<Rightarrow> 'b sys \<Rightarrow> 'b cli_answer" where
  "with_input J fs body s = (case ji_recode J (string_flag fs ''input'') of
     Inl e \<Rightarrow> Some (Inl (InvalidInput e), s)
   | Inr arg \<Rightarrow> body (Inr arg) s)"

definition report :: "string \<Rightarrow> ('a \<Rightarrow> cli_output) \<Rightarrow> ('a, 'b) answer \<Rightarrow> 'b cli_answer" where
  "report what out a = (case a of
     None \<Rightarrow> None
   | Some (Inl e, s') \<Rightarrow> Some (Inl (CallFailed what e), s')
   | Some (Inr x, s') \<Rightarrow> Some (Inr (out x), s'))"

definition cmdStart :: "cli_json \<Rightarrow> 'b connection \<Rightarrow> client \<Rightarrow> string list \<Rightarrow> 'b sys \<Rightarrow> 'b cli_answer" where
  "cmdStart J rpc c args =
     with_flags [(''id'', StringFlag ''''), (''type'', StringFlag ''''), (''task-queue'', StringFlag ''''), (''input'', StringFlag ''null'')]
       args (\<lambda>fs. require ''start'' [''id'', ''type'', ''task-queue''] fs (with_input J fs (\<lambda>arg s.
         report ''start workflow'' (\<lambda>run. print (''workflow_id='' @ wr_WorkflowID run @ '' run_id='' @ wr_RunID run @ [CHR 0x0A]))
           (StartWorkflowByType rpc c
             \<lparr>so_ID = string_flag fs ''id'', so_TaskQueue = string_flag fs ''task-queue'', so_WorkflowExecutionTimeout = 0,
              so_WorkflowRunTimeout = 0, so_WorkflowTaskTimeout = 0, so_RetryPolicy = None, so_RequestID = ''''\<rparr>
             (string_flag fs ''type'') arg s))))"

definition cmdSignal :: "cli_json \<Rightarrow> 'b connection \<Rightarrow> client \<Rightarrow> string list \<Rightarrow> 'b sys \<Rightarrow> 'b cli_answer" where
  "cmdSignal J rpc c args =
     with_flags [(''id'', StringFlag ''''), (''run-id'', StringFlag ''''), (''name'', StringFlag ''''), (''input'', StringFlag ''null'')]
       args (\<lambda>fs. require ''signal'' [''id'', ''name''] fs (with_input J fs (\<lambda>arg s.
         report ''signal workflow'' (\<lambda>_. print (''signaled'' @ [CHR 0x0A]))
           (SignalWorkflow rpc c (string_flag fs ''id'') (string_flag fs ''run-id'') (string_flag fs ''name'') arg s))))"

definition cmdCancel :: "'b connection \<Rightarrow> client \<Rightarrow> string list \<Rightarrow> 'b sys \<Rightarrow> 'b cli_answer" where
  "cmdCancel rpc c args =
     with_flags [(''id'', StringFlag ''''), (''run-id'', StringFlag ''''), (''reason'', StringFlag '''')]
       args (\<lambda>fs. require ''cancel'' [''id''] fs (\<lambda>s.
         report ''cancel workflow'' (\<lambda>_. print (''cancel requested'' @ [CHR 0x0A]))
           (CancelWorkflow rpc c (string_flag fs ''id'') (string_flag fs ''run-id'') (string_flag fs ''reason'') s)))"

definition cli_parseStatusFilter :: "cli_json \<Rightarrow> string \<Rightarrow> string + execution_status" where
  "cli_parseStatusFilter J s =
     (let l = ToLower s in
      if l = '''' then Inr ST_UNSPECIFIED
      else if l = ''running'' then Inr ST_RUNNING
      else if l = ''completed'' then Inr ST_COMPLETED
      else if l = ''failed'' then Inr ST_FAILED
      else if l = ''terminated'' then Inr ST_TERMINATED
      else if l = ''timed_out'' then Inr ST_TIMED_OUT
      else if l = ''continued_as_new'' then Inr ST_CONTINUED_AS_NEW
      else Inl (''unknown -status '' @ ji_quote J s))"

definition execution_line :: "execution_info \<Rightarrow> string" where
  "execution_line e = tabbed
     [wi_WorkflowID e, wi_RunID e, wi_WorkflowType e, wi_TaskQueue e, WorkflowExecutionStatus_String (wi_Status e),
      format_time False (wi_StartTime e),
      (case wi_CloseTime e of None \<Rightarrow> ''-'' | Some t \<Rightarrow> format_time False t)]"

definition cmdList :: "cli_json \<Rightarrow> 'b connection \<Rightarrow> client \<Rightarrow> string list \<Rightarrow> 'b sys \<Rightarrow> 'b cli_answer" where
  "cmdList J rpc c args =
     with_flags [(''status'', StringFlag ''''), (''task-queue'', StringFlag ''''), (''page-size'', IntFlag 0), (''page-token'', StringFlag '''')]
       args (\<lambda>fs s. case cli_parseStatusFilter J (string_flag fs ''status'') of
         Inl e \<Rightarrow> Some (Inl (InvalidStatus e), s)
       | Inr statusFilter \<Rightarrow>
           report ''list workflows'' (\<lambda>(execs, tok).
               \<lparr>stdout = concat (map execution_line execs),
                stderr = (if tok \<noteq> [] then [CHR 0x0A] @ ''-page-token '' @ ji_quote J tok @ '' for more'' @ [CHR 0x0A] else '''')\<rparr>)
             (ListWorkflows rpc c \<lparr>lo_StatusFilter = statusFilter, lo_TaskQueue = string_flag fs ''task-queue'',
                lo_PageSize = int32 (int_flag fs ''page-size''), lo_PageToken = string_flag fs ''page-token''\<rparr> s))"

text \<open>A JSON object lists its keys in order.\<close>

definition cmdDescribe :: "cli_json \<Rightarrow> 'b connection \<Rightarrow> client \<Rightarrow> string list \<Rightarrow> 'b sys \<Rightarrow> 'b cli_answer" where
  "cmdDescribe J rpc c args =
     with_flags [(''id'', StringFlag ''''), (''run-id'', StringFlag '''')]
       args (\<lambda>fs. require ''describe'' [''id''] fs (\<lambda>s.
         report ''describe workflow'' (\<lambda>d. print (ji_object J
             [(''run_id'', es_RunId d), (''status'', WorkflowExecutionStatus_String (es_Status d)), (''task_queue'', es_TaskQueue d),
              (''workflow_id'', es_WorkflowId d), (''workflow_type'', es_WorkflowType d)] @ [CHR 0x0A]))
           (DescribeWorkflow rpc c (string_flag fs ''id'') (string_flag fs ''run-id'') s)))"

definition event_line :: "history_event \<Rightarrow> string" where
  "event_line ev = tabbed [decimal (EventId ev), event_type_String (EventType ev), format_time True (EventTime ev)]"

definition cmdHistory :: "'b connection \<Rightarrow> client \<Rightarrow> string list \<Rightarrow> 'b sys \<Rightarrow> 'b cli_answer" where
  "cmdHistory rpc c args =
     with_flags [(''id'', StringFlag ''''), (''run-id'', StringFlag '''')]
       args (\<lambda>fs. require ''history'' [''id'', ''run-id''] fs (\<lambda>s.
         report ''get history'' (\<lambda>events. print (concat (map event_line events)))
           (GetWorkflowHistory rpc c (string_flag fs ''id'') (string_flag fs ''run-id'') s)))"

definition cmdQuery :: "cli_json \<Rightarrow> 'b connection \<Rightarrow> client \<Rightarrow> string list \<Rightarrow> 'b sys \<Rightarrow> 'b cli_answer" where
  "cmdQuery J rpc c args =
     with_flags [(''id'', StringFlag ''''), (''run-id'', StringFlag ''''), (''type'', StringFlag ''''), (''input'', StringFlag ''null'')]
       args (\<lambda>fs. require ''query'' [''id'', ''type''] fs (with_input J fs (\<lambda>arg s.
         report ''query workflow'' (\<lambda>result. print ((case result of None \<Rightarrow> '''' | Some r \<Rightarrow> r) @ [CHR 0x0A]))
           (QueryWorkflow rpc c (string_flag fs ''id'') (string_flag fs ''run-id'') (string_flag fs ''type'') arg
              (Some (ji_raw J, [])) s))))"

definition cmdNamespaceCreate :: "'b connection \<Rightarrow> string list \<Rightarrow> 'b sys \<Rightarrow> 'b cli_answer" where
  "cmdNamespaceCreate rpc args =
     with_flags [(''name'', StringFlag '''')]
       args (\<lambda>fs. require ''namespace-create'' [''name''] fs (\<lambda>s.
         report ''create namespace'' (\<lambda>ns. print (''created namespace='' @ ni_Name ns @ '' created_at='' @
             format_time False (ni_CreatedAt ns) @ [CHR 0x0A]))
           (Client_CreateNamespace rpc (string_flag fs ''name'') s)))"

definition cmdNamespaceList :: "'b connection \<Rightarrow> 'b sys \<Rightarrow> 'b cli_answer" where
  "cmdNamespaceList rpc s =
     report ''list namespaces'' (\<lambda>namespaces. print (concat (map (\<lambda>ns. tabbed [ni_Name ns, format_time False (ni_CreatedAt ns)]) namespaces)))
       (Client_ListNamespaces rpc s)"

section \<open>main\<close>

definition tlsOptionsFromEnv :: "(string \<Rightarrow> string) \<Rightarrow> tls_options option" where
  "tlsOptionsFromEnv getenv =
     (if getenv ''FLOWD_TLS_CA_FILE'' = '''' then None
      else Some \<lparr>to_CACertFile = getenv ''FLOWD_TLS_CA_FILE'', to_CertFile = getenv ''FLOWD_TLS_CLIENT_CERT_FILE'',
                 to_KeyFile = getenv ''FLOWD_TLS_CLIENT_KEY_FILE'', to_ServerName = getenv ''FLOWD_TLS_SERVER_NAME'',
                 to_InsecureSkipVerify = False\<rparr>)"

datatype cli_command = Start | Signal | Cancel | ListRuns | DescribeRun | RunHistory | Query | NamespaceCreate | NamespaceList

definition cli_commands :: "(string \<times> cli_command) list" where
  "cli_commands =
     [(''start'', Start), (''signal'', Signal), (''cancel'', Cancel), (''list'', ListRuns), (''describe'', DescribeRun),
      (''history'', RunHistory), (''query'', Query), (''namespace-create'', NamespaceCreate), (''namespace-list'', NamespaceList)]"

definition cli_dispatch :: "cli_json \<Rightarrow> 'b connection \<Rightarrow> client \<Rightarrow> cli_command \<Rightarrow> string list \<Rightarrow> 'b sys \<Rightarrow> 'b cli_answer" where
  "cli_dispatch J rpc c cmd args = (case cmd of
     Start \<Rightarrow> cmdStart J rpc c args
   | Signal \<Rightarrow> cmdSignal J rpc c args
   | Cancel \<Rightarrow> cmdCancel rpc c args
   | ListRuns \<Rightarrow> cmdList J rpc c args
   | DescribeRun \<Rightarrow> cmdDescribe J rpc c args
   | RunHistory \<Rightarrow> cmdHistory rpc c args
   | Query \<Rightarrow> cmdQuery J rpc c args
   | NamespaceCreate \<Rightarrow> cmdNamespaceCreate rpc args
   | NamespaceList \<Rightarrow> cmdNamespaceList rpc)"

definition dial_from_env :: "world \<Rightarrow> (string \<Rightarrow> string) \<Rightarrow> dial_error + client" where
  "dial_from_env W getenv =
     (let target = (if getenv ''FLOWD_ADDR'' = '''' then ''localhost:7233'' else getenv ''FLOWD_ADDR'') in
      Dial W target \<lparr>co_Namespace = '''', co_TLS = tlsOptionsFromEnv getenv, co_APIKey = getenv ''FLOWD_API_KEY''\<rparr>)"

text \<open>\<open>args\<close> are the arguments after the program's name. An unknown command is found after the dial.\<close>

definition cli_main ::
  "string \<Rightarrow> cli_json \<Rightarrow> world \<Rightarrow> (string \<Rightarrow> string) \<Rightarrow> (client \<Rightarrow> 'b connection) \<Rightarrow> string list \<Rightarrow> 'b sys \<Rightarrow> 'b cli_answer" where
  "cli_main version J W getenv net args s = (case args of
     [] \<Rightarrow> Some (Inl Usage, s)
   | cmd # rest \<Rightarrow>
       if cmd \<in> {''version'', ''-version'', ''--version''} then Some (Inr (print (version @ [CHR 0x0A])), s)
       else case dial_from_env W getenv of
         Inl e \<Rightarrow> Some (Inl (DialFailure e), s)
       | Inr c \<Rightarrow>
           (case map_of cli_commands cmd of
              None \<Rightarrow> Some (Inl Usage, s)
            | Some k \<Rightarrow> cli_dispatch J (net c) c k rest s))"

end
