(* ===== verification/CliProps.thy ===== *)
theory CliProps
  imports WebApiProps Cli
begin

text \<open>
  The command line: flags are read back as they were given, in any order and form; a command that writes is
  one request with exactly these values; the others leave the server as it was.
\<close>

section \<open>Flags\<close>

text \<open>The four ways to give a flag.\<close>

datatype flag_style = Dash | DashEq | TwoDashes | TwoDashesEq

type_synonym given_flag = "flag_style \<times> string \<times> string"

fun flag_arg :: "given_flag \<Rightarrow> string list" where
  "flag_arg (Dash, n, v) = [''-'' @ n, v]"
| "flag_arg (DashEq, n, v) = [''-'' @ n @ ''='' @ v]"
| "flag_arg (TwoDashes, n, v) = [''--'' @ n, v]"
| "flag_arg (TwoDashesEq, n, v) = [''--'' @ n @ ''='' @ v]"

definition flag_args :: "given_flag list \<Rightarrow> string list" where
  "flag_args gs = concat (map flag_arg gs)"

text \<open>The value a flag was last given.\<close>

definition given :: "given_flag list \<Rightarrow> string \<Rightarrow> string \<Rightarrow> string" where
  "given gs n d = foldl (\<lambda>acc (_, m, v). if m = n then v else acc) d gs"

definition flag_name :: "string \<Rightarrow> bool" where
  "flag_name n \<longleftrightarrow> n \<noteq> [] \<and> hd n \<noteq> CHR ''-'' \<and> CHR ''='' \<notin> set n"

lemma split_value_plain: "flag_name n \<Longrightarrow> split_value n = (n, None)"
  by (cases n) (auto simp: split_value_def flag_name_def dropWhile_eq_Nil_conv)

lemma split_value_eq: "flag_name n \<Longrightarrow> split_value (n @ CHR ''='' # v) = (n, Some v)"
proof -
  assume "flag_name n"
  then obtain c cs where n: "n = c # cs" "CHR ''='' \<notin> set cs" by (cases n) (auto simp: flag_name_def)
  then have "dropWhile (\<lambda>c. c \<noteq> CHR ''='') (cs @ CHR ''='' # v) = CHR ''='' # v"
    "takeWhile (\<lambda>c. c \<noteq> CHR ''='') (cs @ CHR ''='' # v) = cs"
    by (subst dropWhile_append2, auto) (subst takeWhile_append2, auto)
  then show ?thesis by (simp add: split_value_def n(1))
qed

lemma flag_Parse_arg:
  assumes "flag_name n" and "map_of fs n = Some (StringFlag w)"
  shows "flag_Parse fs (flag_arg (st, n, v) @ rest) = flag_Parse (assign_flag n (StringFlag v) fs) rest"
proof -
  obtain c cs where n: "n = c # cs" "c \<noteq> CHR ''-''" "c \<noteq> CHR ''=''"
    using assms(1) by (cases n) (auto simp: flag_name_def)
  show ?thesis
    using n assms split_value_plain [OF assms(1)] split_value_eq [OF assms(1), of v]
    by (cases st) simp_all
qed

lemma map_of_assign: "map_of (assign_flag n x fs) m = (if m = n then map_option (\<lambda>_. x) (map_of fs m) else map_of fs m)"
  by (induction fs) (auto simp: assign_flag_def)

definition string_flags :: "flag_set \<Rightarrow> string set" where
  "string_flags fs = {n. flag_name n \<and> (\<exists>w. map_of fs n = Some (StringFlag w))}"

lemma string_flags_assign [simp]: "n \<in> string_flags fs \<Longrightarrow> string_flags (assign_flag n (StringFlag v) fs) = string_flags fs"
  by (auto simp: string_flags_def map_of_assign split: if_splits)

lemma flag_Parse_given:
  assumes "\<forall>(st, n, v) \<in> set gs. n \<in> string_flags fs"
  shows "\<exists>fs'. flag_Parse fs (flag_args gs) = Inr fs' \<and> (\<forall>n \<in> string_flags fs. string_flag fs' n = given gs n (string_flag fs n))"
  using assms
proof (induction gs arbitrary: fs)
  case (Cons g gs)
  obtain st n v where g: "g = (st, n, v)" by (cases g) auto
  with Cons.prems obtain w where n: "flag_name n" "map_of fs n = Some (StringFlag w)" by (auto simp: string_flags_def)
  then have mem: "n \<in> string_flags fs" by (simp add: string_flags_def)
  from Cons.IH [of "assign_flag n (StringFlag v) fs"] Cons.prems obtain fs'
    where fs': "flag_Parse (assign_flag n (StringFlag v) fs) (flag_args gs) = Inr fs'"
      "\<forall>m \<in> string_flags fs. string_flag fs' m = given gs m (string_flag (assign_flag n (StringFlag v) fs) m)"
    using mem by auto
  have "flag_Parse fs (flag_args (g # gs)) = Inr fs'"
    using flag_Parse_arg [OF n, of st v "flag_args gs"] fs'(1) by (simp add: flag_args_def g)
  moreover have "string_flag (assign_flag n (StringFlag v) fs) m = (if n = m then v else string_flag fs m)" for m
    using n by (auto simp: string_flag_def map_of_assign)
  ultimately show ?case using fs'(2) by (auto simp: given_def g)
qed (simp add: flag_args_def given_def)

section \<open>Commands that only read\<close>

lemma report_read: "\<exists>a. m = Some (a, s) \<Longrightarrow> \<exists>r. report what out m = Some (r, s)"
  by (auto simp: report_def split: sum.split)

lemma with_flags_read: "(\<And>fs'. \<exists>r. body fs' s = Some (r, s)) \<Longrightarrow> \<exists>r. with_flags fs args body s = Some (r, s)"
  by (auto simp: with_flags_def split: sum.split)

lemma require_read: "\<exists>r. body s = Some (r, s) \<Longrightarrow> \<exists>r. require cmd names fs body s = Some (r, s)"
  by (auto simp: require_def)

lemma reading_commands:
  "\<exists>r. cmdList J (connection quote srv X C c) c args s = Some (r, s)"
  "\<exists>r. cmdDescribe J (connection quote srv X C c) c args s = Some (r, s)"
  "\<exists>r. cmdNamespaceList (connection quote srv X C c) s = Some (r, s)"
  "proto_law X \<Longrightarrow> reachable X S (sdb s) \<Longrightarrow> \<exists>r. cmdHistory (connection quote srv X C c) c args s = Some (r, s)"
  unfolding cmdList_def cmdDescribe_def cmdNamespaceList_def cmdHistory_def Client_ListNamespaces_def ListWorkflows_def DescribeWorkflow_def
  by (auto intro!: with_flags_read require_read report_read invoke_read history_read_ends split: sum.split)

section \<open>Commands that write\<close>

lemma start_flags:
  "string_flags [(''id'', StringFlag ''''), (''type'', StringFlag ''''), (''task-queue'', StringFlag ''''), (''input'', StringFlag ''null'')] =
     {''id'', ''type'', ''task-queue'', ''input''}"
  by (auto simp: string_flags_def flag_name_def split: if_splits)

lemma history_flags:
  "string_flags [(''id'', StringFlag ''''), (''run-id'', StringFlag '''')] = {''id'', ''run-id''}"
  by (auto simp: string_flags_def flag_name_def split: if_splits)

lemma dialled_namespace: "dial_from_env W getenv = Inr c \<Longrightarrow> cl_namespace c = ''default''"
  by (auto simp: dial_from_env_def Dial_def Let_def split: sum.splits if_splits)

text \<open>The request of a start with the given flags, and what is printed when the server has answered.\<close>

definition start_request :: "given_flag list \<Rightarrow> bytes \<Rightarrow> start_workflow_request" where
  "start_request gs arg =
     \<lparr>sw_Namespace = ''default'', sw_WorkflowId = given gs ''id'' '''', sw_WorkflowType = given gs ''type'' '''',
      sw_TaskQueue = given gs ''task-queue'' '''', sw_Input = Some \<lparr>Metadata = [(''encoding'', ''json/plain'')], Data = arg\<rparr>,
      sw_ExecutionTimeout = None, sw_RunTimeout = None, sw_TaskTimeout = None, sw_RetryPolicy = None, sw_RequestId = '''',
      sw_Identity = ''''\<rparr>"

definition started_line :: "string \<Rightarrow> string \<Rightarrow> cli_output" where
  "started_line wid rid = \<lparr>stdout = ''workflow_id='' @ wid @ '' run_id='' @ rid @ [CHR 0x0A], stderr = ''''\<rparr>"

lemma cmdStart_given:
  assumes "\<forall>(st, n, v) \<in> set gs. n \<in> {''id'', ''type'', ''task-queue'', ''input''}"
    and "cl_namespace c = ''default''"
  shows "cmdStart J rpc c (flag_args gs) s =
    (if given gs ''id'' '''' = '''' \<or> given gs ''type'' '''' = '''' \<or> given gs ''task-queue'' '''' = '''' then Some (Inl (MissingFlags ''start''), s)
     else case ji_recode J (given gs ''input'' ''null'') of
         Inl e \<Rightarrow> Some (Inl (InvalidInput e), s)
       | Inr arg \<Rightarrow>
           report ''start workflow'' (started_line (given gs ''id'' '''')) (invoke rpc (StartWorkflowExecutionRequest (start_request gs arg))
             (\<lambda>r. case r of StartWorkflowExecutionResponse rid \<Rightarrow> Some rid | _ \<Rightarrow> None) s))"
proof -
  from flag_Parse_given [OF assms(1) [folded start_flags]] obtain fs' where
    "flag_Parse [(''id'', StringFlag ''''), (''type'', StringFlag ''''), (''task-queue'', StringFlag ''''), (''input'', StringFlag ''null'')]
       (flag_args gs) = Inr fs'"
    and "string_flag fs' ''id'' = given gs ''id'' ''''" "string_flag fs' ''type'' = given gs ''type'' ''''"
    "string_flag fs' ''task-queue'' = given gs ''task-queue'' ''''" "string_flag fs' ''input'' = given gs ''input'' ''null''"
    unfolding start_flags by (auto simp: string_flag_def)
  then show ?thesis
    by (auto simp: cmdStart_def with_flags_def require_def with_input_def StartWorkflowByType_def ToPayload_def
        durationpbOrNil_def assms(2) start_request_def report_def invoke_def print_def started_line_def
        split: sum.split option.split rpc_response.split)
qed

lemma cmdHistory_given:
  assumes "\<forall>(st, n, v) \<in> set gs. n \<in> {''id'', ''run-id''}" and "given gs ''id'' '''' \<noteq> ''''" and "given gs ''run-id'' '''' \<noteq> ''''"
    and "GetWorkflowHistory rpc c (given gs ''id'' '''') (given gs ''run-id'' '''') s = Some (Inr evs, s')"
  shows "cmdHistory rpc c (flag_args gs) s = Some (Inr \<lparr>stdout = concat (map event_line evs), stderr = ''''\<rparr>, s')"
proof -
  from flag_Parse_given [OF assms(1) [folded history_flags]] obtain fs' where
    "flag_Parse [(''id'', StringFlag ''''), (''run-id'', StringFlag '''')] (flag_args gs) = Inr fs'"
    and "string_flag fs' ''id'' = given gs ''id'' ''''" "string_flag fs' ''run-id'' = given gs ''run-id'' ''''"
    unfolding history_flags by (auto simp: string_flag_def)
  with assms(2-4) show ?thesis
    by (simp add: cmdHistory_def with_flags_def require_def report_def print_def)
qed

definition writing_commands :: "string set" where
  "writing_commands = {''start'', ''signal'', ''cancel'', ''query'', ''namespace-create''}"

lemma cli_main_command:
  "dial_from_env W getenv = Inr c \<Longrightarrow> map_of cli_commands cmd = Some k \<Longrightarrow> cmd \<notin> {''version'', ''-version'', ''--version''} \<Longrightarrow>
   cli_main ver J W getenv net (cmd # args) s = cli_dispatch J (net c) c k args s"
  by (simp add: cli_main_def)

lemma cli_main_reads:
  assumes "proto_law X" and "reachable X S (sdb s)" and "args = [] \<or> hd args \<notin> writing_commands"
  shows "\<exists>r. cli_main ver J W getenv (connection quote srv X C) args s = Some (r, s)"
proof (cases args)
  case (Cons cmd rest)
  have k: "map_of cli_commands cmd \<in> {None, Some ListRuns, Some DescribeRun, Some RunHistory, Some NamespaceList}"
    using assms(3) Cons by (auto simp: writing_commands_def cli_commands_def)
  have "\<exists>r. cli_dispatch J (connection quote srv X C c) c k rest s = Some (r, s)" if "map_of cli_commands cmd = Some k" for k c
    using k that reading_commands [where s = s] assms(1,2) by (auto simp: cli_dispatch_def)
  then show ?thesis by (auto simp: cli_main_def Cons split: sum.split option.split)
qed (simp add: cli_main_def)

lemma cli_main_start:
  assumes "dial_from_env W getenv = Inr c" and "\<forall>(st, n, v) \<in> set gs. n \<in> {''id'', ''type'', ''task-queue'', ''input''}"
  shows "cli_main ver J W getenv net (''start'' # flag_args gs) s =
    (if given gs ''id'' '''' = '''' \<or> given gs ''type'' '''' = '''' \<or> given gs ''task-queue'' '''' = '''' then Some (Inl (MissingFlags ''start''), s)
     else case ji_recode J (given gs ''input'' ''null'') of
         Inl e \<Rightarrow> Some (Inl (InvalidInput e), s)
       | Inr arg \<Rightarrow>
           report ''start workflow'' (started_line (given gs ''id'' '''')) (invoke (net c) (StartWorkflowExecutionRequest (start_request gs arg))
             (\<lambda>r. case r of StartWorkflowExecutionResponse rid \<Rightarrow> Some rid | _ \<Rightarrow> None) s))"
proof -
  have "cli_main ver J W getenv net (''start'' # flag_args gs) s = cmdStart J (net c) c (flag_args gs) s"
    by (subst cli_main_command [OF assms(1), where k = Start]) (simp_all add: cli_commands_def cli_dispatch_def)
  also note cmdStart_given [OF assms(2) dialled_namespace [OF assms(1)]]
  finally show ?thesis .
qed

lemma cli_main_history:
  assumes "proto_law X" and "reachable X S (sdb s)" and dial: "dial_from_env W getenv = Inr c"
    and gs: "\<forall>(st, n, v) \<in> set gs. n \<in> {''id'', ''run-id''}" "wid = given gs ''id'' ''''" "rid = given gs ''run-id'' ''''" "wid \<noteq> ''''" "rid \<noteq> ''''"
    and adm: "admitted srv c" and ns: "namespace_id ''default'' (sdb s) = Some ns" and we: "find_we (ns, wid, rid) (sdb s) = Some we"
  shows "\<exists>evs. decode_rows X (run_events (ns, wid, rid) (sdb s)) = Inr evs \<and>
    cli_main ver J W getenv (connection quote srv X C) (''history'' # flag_args gs) s =
    Some (Inr \<lparr>stdout = concat (map event_line evs), stderr = ''''\<rparr>, s)"
proof -
  obtain evs where evs: "decode_rows X (run_events (ns, wid, rid) (sdb s)) = Inr evs"
    using decode_hist_ok [OF assms(1) reachable_hist_ok [OF assms(2)], of "run_events (ns, wid, rid) (sdb s)"] by (auto simp: run_events_def)
  have "namespace_id (namespaceOrDefault (cl_namespace c)) (sdb s) = Some ns"
    using ns dialled_namespace [OF dial] by (simp add: namespaceOrDefault_def)
  from client_history [OF assms(1,2) admitted_passes [OF adm] this we evs]
  have "cmdHistory (connection quote srv X C c) c (flag_args gs) s = Some (Inr \<lparr>stdout = concat (map event_line evs), stderr = ''''\<rparr>, s)"
    using gs by (intro cmdHistory_given) auto
  with evs show ?thesis
    by (subst cli_main_command [OF dial, where k = RunHistory]) (simp_all add: cli_commands_def cli_dispatch_def)
qed

text \<open>
  (C39) What an operator's command line does. A start with its flags given in any order, in any of the four
  forms a flag can take and with any text as their values (the last one counts), makes exactly one request
  with exactly these values, in the default namespace, and prints the run the server started; when a required
  flag is missing or the input is no JSON nothing is sent. A command line that is not one of the five writing commands, with whatever
  arguments, ends and leaves the server as it was; for a run that exists, history prints one line for every event,
  in order.
\<close>

theorem command_line:
  assumes "proto_law X" and "reachable X (rn_store srv) (sdb s)" and dial: "dial_from_env W getenv = Inr c"
  shows "(\<forall>gs. (\<forall>(st, n, v) \<in> set gs. n \<in> {''id'', ''type'', ''task-queue'', ''input''}) \<longrightarrow>
      cli_main ver J W getenv (connection quote srv X C) (''start'' # flag_args gs) s =
      (if given gs ''id'' '''' = '''' \<or> given gs ''type'' '''' = '''' \<or> given gs ''task-queue'' '''' = '''' then Some (Inl (MissingFlags ''start''), s)
       else case ji_recode J (given gs ''input'' ''null'') of
           Inl e \<Rightarrow> Some (Inl (InvalidInput e), s)
         | Inr arg \<Rightarrow>
             report ''start workflow'' (started_line (given gs ''id'' ''''))
               (invoke (connection quote srv X C c) (StartWorkflowExecutionRequest (start_request gs arg))
                 (\<lambda>r. case r of StartWorkflowExecutionResponse rid \<Rightarrow> Some rid | _ \<Rightarrow> None) s))) \<and>
    (\<forall>args. args = [] \<or> hd args \<notin> writing_commands \<longrightarrow>
      (\<exists>r. cli_main ver J W getenv (connection quote srv X C) args s = Some (r, s))) \<and>
    (\<forall>gs ns wid rid we. (\<forall>(st, n, v) \<in> set gs. n \<in> {''id'', ''run-id''}) \<and> wid = given gs ''id'' '''' \<and> rid = given gs ''run-id'' '''' \<and>
      wid \<noteq> '''' \<and> rid \<noteq> '''' \<and> admitted srv c \<and> namespace_id ''default'' (sdb s) = Some ns \<and> find_we (ns, wid, rid) (sdb s) = Some we \<longrightarrow>
      (\<exists>evs. decode_rows X (run_events (ns, wid, rid) (sdb s)) = Inr evs \<and>
        cli_main ver J W getenv (connection quote srv X C) (''history'' # flag_args gs) s =
        Some (Inr \<lparr>stdout = concat (map event_line evs), stderr = ''''\<rparr>, s)))"
proof (intro conjI allI impI, goal_cases)
  case 1
  then show ?case by (rule cli_main_start [OF dial])
next
  case 2
  then show ?case by (rule cli_main_reads [OF assms(1,2)])
next
  case 3
  then show ?case by (elim conjE) (rule cli_main_history [OF assms])
qed

definition demo_flags :: "given_flag list" where
  "demo_flags = [(DashEq, ''run-id'', ''r0''), (TwoDashes, ''id'', ''w''), (Dash, ''run-id'', ''r1'')]"

definition demo_getenv :: "string \<Rightarrow> string" where
  "demo_getenv v = (if v = ''FLOWD_API_KEY'' then ''k1'' else '''')"

definition demo_cli_json :: cli_json where
  "demo_cli_json = \<lparr>ji_recode = Inr, ji_raw = Inr, ji_object = (\<lambda>l. concat (map snd l)), ji_quote = id\<rparr>"

lemma demo_flags_args: "''history'' # flag_args demo_flags = [''history'', ''-run-id=r0'', ''--id'', ''w'', ''-run-id'', ''r1'']"
  by (simp add: demo_flags_def flag_args_def)

lemma demo_flags_given: "given demo_flags ''id'' '''' = ''w''" "given demo_flags ''run-id'' '''' = ''r1''"
  by (simp_all add: demo_flags_def given_def)

theorem command_line_witness:
  "\<exists>evs. decode_rows demo_ext (run_events (1, ''w'', ''r1'') demo_db) = Inr evs \<and>
     cli_main ''dev'' demo_cli_json demo_world demo_getenv (connection id demo_srv demo_ext demo_call)
       [''history'', ''-run-id=r0'', ''--id'', ''w'', ''-run-id'', ''r1''] demo_sys =
     Some (Inr \<lparr>stdout = concat (map event_line evs), stderr = ''''\<rparr>, demo_sys)"
proof -
  have dial: "dial_from_env demo_world demo_getenv = Inr demo_client"
    by (simp add: dial_from_env_def Dial_def tlsOptionsFromEnv_def transportCredentials_def demo_getenv_def demo_world_def demo_client_def)
  have reach: "reachable demo_ext (rn_store demo_srv) (sdb demo_sys)"
    using demo_db_reachable by (simp add: demo_srv_def demo_sys_def)
  have ns: "namespace_id ''default'' (sdb demo_sys) = Some 1"
    using demo_namespace by (simp add: demo_sys_def defaultNamespace_def)
  have we: "find_we (1, ''w'', ''r1'') (sdb demo_sys) = Some demo_we" and db: "sdb demo_sys = demo_db"
    using demo_find_we by (simp_all add: demo_key_def demo_sys_def)
  have names: "\<forall>(st, n, v) \<in> set demo_flags. n \<in> {''id'', ''run-id''}" by (simp add: demo_flags_def)
  show ?thesis
    using command_line [OF demo_proto_law reach dial, of "''dev''" demo_cli_json id demo_call] names demo_admitted ns we
    unfolding demo_flags_args [symmetric] db [symmetric]
    by (metis demo_flags_given list.distinct(1))
qed

end
