(* ===== verification/Examples.thy ===== *)
theory Examples
  imports Cli ReplayEquiv
begin

text \<open>
  \<^verbatim>\<open>examples/countdown\<close> and \<^verbatim>\<open>examples/helloworkflow\<close>: the workflows and activities as code for the
  replayer and the worker, and the programs that run and start them. \<open>value_json\<close> is \<^verbatim>\<open>encoding/json\<close> on the
  types the examples use; an int is written in decimal. What an activity does besides returning
  (lines appended to a file, a sleep) is part of its value.
\<close>

record value_json =
  vj_string :: "string \<Rightarrow> bytes"
  vj_to_string :: "bytes \<Rightarrow> string + string"
  vj_to_int :: "bytes \<Rightarrow> string + int"
  vj_to_empty :: "bytes \<Rightarrow> string + unit"

record side_effects =
  appended :: "(string \<times> string) list"
  slept :: duration

section \<open>Calls of workflow code\<close>

definition no_activity_options :: activity_options where
  "no_activity_options = \<lparr>OptRetryPolicy = None, OptScheduleToStartTimeout = 0, OptStartToCloseTimeout = 0\<rparr>"

definition no_continue_options :: continue_as_new_options where
  "no_continue_options = \<lparr>CanOptTaskQueue = '''', CanOptRetryPolicy = None, CanOptRunTimeout = 0, CanOptTaskTimeout = 0\<rparr>"

definition ActivityError_Error :: "activity_error \<Rightarrow> string" where
  "ActivityError_Error e = ''activity error ('' @ AEType e @ ''): '' @ AEMessage e"

text \<open>\<open>Future.Get\<close> into a string, an error being what the workflow returns.\<close>

definition get_string :: "value_json \<Rightarrow> int \<Rightarrow> (string \<Rightarrow> 'v prog) \<Rightarrow> 'v prog" where
  "get_string V i k = GetActivity i (\<lambda>r. case r of
     Inl ae \<Rightarrow> Return (ReturnedError (ActivityError_Error ae) ''*workflow.ActivityError'')
   | Inr p \<Rightarrow> (case FromPayload (vj_to_string V) '''' p of
        Inl err \<Rightarrow> Return (ReturnedError err ''*fmt.wrapError'')
      | Inr x \<Rightarrow> k x))"

text \<open>The counter file of the tests: one line when it is set and can be opened.\<close>

definition count_line :: "(string \<Rightarrow> string) \<Rightarrow> (string \<Rightarrow> bool) \<Rightarrow> string \<Rightarrow> string \<Rightarrow> (string \<times> string) list" where
  "count_line getenv opens var text =
     (let f = getenv var in if f \<noteq> '''' \<and> opens f then [(f, text @ [CHR 0x0A])] else [])"

section \<open>countdown\<close>

definition countdown_TaskQueue :: string where
  "countdown_TaskQueue = ''countdown''"

definition CountdownWorkflow_name :: string where
  "CountdownWorkflow_name = ''github.com/krishnakichuu/flowd/examples/countdown.CountdownWorkflow''"

definition TickActivity_name :: string where
  "TickActivity_name = ''github.com/krishnakichuu/flowd/examples/countdown.TickActivity''"

definition CountdownWorkflow :: "(string \<Rightarrow> string) \<Rightarrow> value_json \<Rightarrow> int \<Rightarrow> 'v prog" where
  "CountdownWorkflow quote V remaining =
     SetQueryHandler ''remaining''
       (query_shim quote (FromPayload (vj_to_empty V) ()) ''remaining'' (\<lambda>_ _. Inr (Inr (decimal remaining))))
       (ExecuteActivity (funcname_Of TickActivity_name) (Inr (decimal remaining)) no_activity_options (\<lambda>i.
          get_string V i (\<lambda>tick.
            if remaining \<le> 1 then Return (ReturnedResult (Inr (vj_string V ''done'')))
            else Return (ReturnedContinueAsNew (funcname_Of CountdownWorkflow_name) (Inr (decimal (remaining - 1))) no_continue_options))))"

definition TickActivity ::
  "value_json \<Rightarrow> (string \<Rightarrow> string) \<Rightarrow> (string \<Rightarrow> bool) \<Rightarrow> int \<Rightarrow> activity_result \<times> side_effects" where
  "TickActivity V getenv opens remaining =
     (ActivityReturned (Inr (vj_string V (''tick '' @ decimal remaining))),
      \<lparr>appended = count_line getenv opens ''COUNTDOWN_COUNTER_FILE'' (decimal remaining), slept = 0\<rparr>)"

section \<open>helloworkflow\<close>

definition hello_TaskQueue :: string where
  "hello_TaskQueue = ''helloworkflow''"

definition SimpleWorkflow_name :: string where
  "SimpleWorkflow_name = ''github.com/krishnakichuu/flowd/examples/helloworkflow.SimpleWorkflow''"

definition GreetActivity_name :: string where
  "GreetActivity_name = ''github.com/krishnakichuu/flowd/examples/helloworkflow.GreetActivity''"

definition duration_env :: "(string \<Rightarrow> string) \<Rightarrow> string \<Rightarrow> duration" where
  "duration_env getenv var =
     (let v = getenv var in if v \<noteq> '''' then (case ParseDuration v of Some d \<Rightarrow> d | None \<Rightarrow> 0) else 0)"

definition SimpleWorkflow :: "value_json \<Rightarrow> (string \<Rightarrow> string) \<Rightarrow> string \<Rightarrow> 'v prog" where
  "SimpleWorkflow V getenv name =
     ExecuteActivity (funcname_Of GreetActivity_name) (Inr (vj_string V name))
       (no_activity_options\<lparr>OptStartToCloseTimeout := duration_env getenv ''HELLOWORKFLOW_ACTIVITY_TIMEOUT''\<rparr>)
       (\<lambda>i. get_string V i (\<lambda>greeting. Return (ReturnedResult (Inr (vj_string V greeting)))))"

definition GreetActivity ::
  "value_json \<Rightarrow> (string \<Rightarrow> string) \<Rightarrow> (string \<Rightarrow> bool) \<Rightarrow> string \<Rightarrow> activity_result \<times> side_effects" where
  "GreetActivity V getenv opens name =
     (ActivityReturned (Inr (vj_string V (''Hello, '' @ name @ ''!''))),
      \<lparr>appended = count_line getenv opens ''HELLOWORKFLOW_COUNTER_FILE'' ''1'',
       slept = max 0 (duration_env getenv ''HELLOWORKFLOW_ACTIVITY_DELAY'')\<rparr>)"

section \<open>The programs\<close>

definition no_worker_options :: worker_options where
  "no_worker_options = \<lparr>MaxConcurrentActivities = 0, MaxCachedWorkflowExecutions = 0, OptStickyScheduleToStartTimeout = 0,
     OptTaskQueuePartitions = []\<rparr>"

definition countdown_worker ::
  "(string \<Rightarrow> string) \<Rightarrow> value_json \<Rightarrow> (string \<Rightarrow> string) \<Rightarrow> (string \<Rightarrow> bool) \<Rightarrow> string \<Rightarrow> (int, unit) worker" where
  "countdown_worker quote V getenv opens identity =
     RegisterActivity TickActivity_name
       \<lparr>af_unmarshal = vj_to_int V, af_zero = 0, af_fn = (\<lambda>_ n. fst (TickActivity V getenv opens n))\<rparr>
       (RegisterWorkflow CountdownWorkflow_name
          \<lparr>wf_unmarshal = vj_to_int V, wf_zero = 0, wf_fn = CountdownWorkflow quote V, wf_vars = ()\<rparr>
          (New ''default'' identity countdown_TaskQueue no_worker_options))"

definition hello_worker ::
  "value_json \<Rightarrow> (string \<Rightarrow> string) \<Rightarrow> (string \<Rightarrow> bool) \<Rightarrow> string \<Rightarrow> (string, unit) worker" where
  "hello_worker V getenv opens identity =
     RegisterActivity GreetActivity_name
       \<lparr>af_unmarshal = vj_to_string V, af_zero = '''', af_fn = (\<lambda>_ n. fst (GreetActivity V getenv opens n))\<rparr>
       (RegisterWorkflow SimpleWorkflow_name
          \<lparr>wf_unmarshal = vj_to_string V, wf_zero = '''', wf_fn = SimpleWorkflow V getenv, wf_vars = ()\<rparr>
          (New ''default'' identity hello_TaskQueue no_worker_options))"

text \<open>A starter, after its flags: dial, start, wait for the result; with what it prints on success.\<close>

definition starter ::
  "value_json \<Rightarrow> world \<Rightarrow> (string \<Rightarrow> string) \<Rightarrow> (client \<Rightarrow> 'b connection) \<Rightarrow> (nat \<Rightarrow> ('b sys \<Rightarrow> 'b sys) option) \<Rightarrow>
   string \<Rightarrow> string \<Rightarrow> string \<Rightarrow> bytes \<Rightarrow> (string \<Rightarrow> string \<Rightarrow> string) \<Rightarrow> 'b sys \<Rightarrow> 'b cli_answer" where
  "starter V W getenv net T taskQueue workflowFn workflowID arg shown s =
     (let target = (if getenv ''FLOWD_ADDR'' = '''' then ''localhost:7233'' else getenv ''FLOWD_ADDR'') in
      case Dial W target \<lparr>co_Namespace = '''', co_TLS = None, co_APIKey = ''''\<rparr> of
        Inl e \<Rightarrow> Some (Inl (DialFailure e), s)
      | Inr c \<Rightarrow>
          (case StartWorkflow (net c) c
              \<lparr>so_ID = workflowID, so_TaskQueue = taskQueue, so_WorkflowExecutionTimeout = 0, so_WorkflowRunTimeout = 0,
               so_WorkflowTaskTimeout = 0, so_RetryPolicy = None, so_RequestID = ''''\<rparr> workflowFn (Inr arg) s of
             None \<Rightarrow> None
           | Some (Inl e, s') \<Rightarrow> Some (Inl (CallFailed ''start workflow'' e), s')
           | Some (Inr started, s') \<Rightarrow>
               (case WorkflowRun_Get (net c) c started (Some (vj_to_string V, '''')) T s' of
                  None \<Rightarrow> None
                | Some ((Inl e, _), s'') \<Rightarrow> Some (Inl (CallFailed ''workflow did not complete'' e), s'')
                | Some ((Inr r, final), s'') \<Rightarrow>
                    Some (Inr (print (''started workflow_id='' @ wr_WorkflowID started @ '' run_id='' @ wr_RunID started @ [CHR 0x0A] @
                       shown (case r of None \<Rightarrow> '''' | Some t \<Rightarrow> t) (wr_RunID final) @ [CHR 0x0A])), s''))))"

text \<open>\<open>stamp\<close> is the formatted start time of the program; what is printed before a failure is left out.\<close>

definition countdown_starter where
  "countdown_starter V W getenv net T stamp args s =
     with_flags [(''count'', IntFlag 3), (''id'', StringFlag (''countdown-'' @ stamp))] args (\<lambda>fs.
       starter V W getenv net T countdown_TaskQueue CountdownWorkflow_name (string_flag fs ''id'') (decimal (int_flag fs ''count''))
         (\<lambda>result runID. result @ '' (final run_id='' @ runID @ '')'')) s"

definition hello_starter where
  "hello_starter V W getenv net T stamp args s =
     with_flags [(''name'', StringFlag ''World''), (''id'', StringFlag (''helloworkflow-'' @ stamp))] args (\<lambda>fs.
       starter V W getenv net T hello_TaskQueue SimpleWorkflow_name (string_flag fs ''id'') (vj_string V (string_flag fs ''name''))
         (\<lambda>result runID. result)) s"

section \<open>The workflows on their histories\<close>

lemma example_names:
  "funcname_Of TickActivity_name = ''TickActivity''" "funcname_Of CountdownWorkflow_name = ''CountdownWorkflow''"
  "funcname_Of GreetActivity_name = ''GreetActivity''" "funcname_Of SimpleWorkflow_name = ''SimpleWorkflow''"
  by (simp_all add: funcname_Of_def TickActivity_name_def CountdownWorkflow_name_def GreetActivity_name_def SimpleWorkflow_name_def)

text \<open>Both are sequential code, for which resuming a cached execution and replaying agree.\<close>

lemma sequential_get_string: "(\<And>x. sequential (k x)) \<Longrightarrow> sequential (get_string V i k)"
  by (simp add: get_string_def split: sum.split)

lemma sequential_examples: "sequential (CountdownWorkflow quote V n)" "sequential (SimpleWorkflow V getenv name)"
  by (simp_all add: CountdownWorkflow_def SimpleWorkflow_def sequential_get_string)

definition json_payload :: "bytes \<Rightarrow> payload" where
  "json_payload b = \<lparr>Metadata = [(''encoding'', ''json/plain'')], Data = b\<rparr>"

lemma ToPayload_json [simp]: "ToPayload (Inr b) = Inr (json_payload b)"
  by (simp add: ToPayload_def json_payload_def)

lemma FromPayload_json: "b \<noteq> [] \<Longrightarrow> f b = Inr x \<Longrightarrow> FromPayload f z (Some (json_payload b)) = Inr x"
  by (simp add: FromPayload_def json_payload_def)

text \<open>A loaded execution before its first round.\<close>

definition unstarted :: "'v execution \<Rightarrow> bool" where
  "unstarted e \<longleftrightarrow> coroutines e = [] \<and> NewCommands e = [] \<and> nextActivityIdx e = 0 \<and> ContinuedAsNew e = None \<and> Err e = None \<and> Result e = None"

lemma unstarted_load_event: "unstarted e \<Longrightarrow> unstarted (load_event e ev)"
  by (simp add: unstarted_def load_event_def load_new_event_def split: event_attributes.split)

lemma unstarted_load: "unstarted e \<Longrightarrow> unstarted (foldl load_event e H)"
  by (induction H arbitrary: e) (simp_all add: unstarted_load_event)

lemma unstarted_LoadHistory: "unstarted (snd (LoadHistory H (NewExecution v)))"
  by (simp add: LoadHistory_def unstarted_load) (rule unstarted_load, simp add: unstarted_def NewExecution_def)

text \<open>The first round of code that is run alone.\<close>

lemma first_round:
  assumes "unstarted e" and "run p (Dispatcher_Go (User p) e) = (st, e')"
  shows "ExecuteRound (Dispatcher_Go (User p) e) = e'\<lparr>coroutines := (coroutines e')[0 := settle st (coroutines e' ! 0)]\<rparr>"
  using assms by (simp add: ExecuteRound_def Dispatcher_Go_def unstarted_def resume_def new_coroutine_def upt_rec)

text \<open>
  The worker's answer to a task of a countdown: the tick is scheduled with the number left; when
  it is done the run ends, or goes on as a new run with one less.
\<close>

lemma countdown_answers:
  assumes H: "LoadHistory H (NewExecution ()) = ((Some (json_payload (decimal n)), ''CountdownWorkflow''), e)"
    and n: "vj_to_int V (decimal n) = Inr n" and "decimal n \<noteq> []"
  shows "scheduledActivities e = [] \<Longrightarrow> activityOutcomes e 1 = None \<Longrightarrow>
      \<exists>e'. fresh_execution quote (countdown_worker quote V getenv opens ident) H = Inr (e', ''CountdownWorkflow'') \<and>
        FirstPanic e' = None \<and> NewCommands e' = [ScheduleActivityTask \<lparr>ActivityId = 1, ActivityType = ''TickActivity'',
          ActInput = Some (json_payload (decimal n)), ActRetryPolicy = None, ScheduleToStartTimeout = None, StartToCloseTimeout = None\<rparr>]"
    and "scheduledActivities e = [\<lparr>SActivityID = 1, SActivityType = ''TickActivity''\<rparr>] \<Longrightarrow>
      activityOutcomes e 1 = Some \<lparr>OutResult = Some (json_payload (vj_string V t)), OutFailure = None\<rparr> \<Longrightarrow>
      vj_to_string V (vj_string V t) = Inr t \<Longrightarrow> vj_string V t \<noteq> [] \<Longrightarrow>
      \<exists>e'. fresh_execution quote (countdown_worker quote V getenv opens ident) H = Inr (e', ''CountdownWorkflow'') \<and>
        FirstPanic e' = None \<and> NewCommands e' =
          [if n \<le> 1 then CompleteWorkflowExecution (Some (json_payload (vj_string V ''done'')))
           else ContinueAsNewWorkflowExecution \<lparr>CanWorkflowType = ''CountdownWorkflow'', CanTaskQueue = '''',
             CanInput = Some (json_payload (decimal (n - 1))), CanRetryPolicy = None, CanRunTimeout = None, CanTaskTimeout = None\<rparr>]"
proof -
  let ?p = "CountdownWorkflow quote V n :: unit prog"
  let ?w = "countdown_worker quote V getenv opens ident"
  have un: "unstarted e" using unstarted_LoadHistory [of H "()"] by (simp add: H)
  have ty: "foldl started_of (None, '''') H = (Some (json_payload (decimal n)), ''CountdownWorkflow'')"
    using H by (simp add: LoadHistory_def)
  have fresh: "fresh_execution quote ?w H = Inr (ExecuteRound (Dispatcher_Go (User ?p) e), ''CountdownWorkflow'')"
    using H ty n assms(3)
    by (simp add: fresh_execution_def countdown_worker_def RegisterActivity_def RegisterWorkflow_def example_names runWorkflowFunc_def FromPayload_json)
  note code = CountdownWorkflow_def get_string_def example_names ScheduleActivity_def no_activity_options_def durationOrNil_def
    add_command_def future_result_def FromPayload_json ContinueAsNew_def Complete_def no_continue_options_def
    Dispatcher_Go_def new_coroutine_def FirstPanic_def Let_def
  {
    assume "scheduledActivities e = []" "activityOutcomes e 1 = None"
    with un fresh show "\<exists>e'. fresh_execution quote ?w H = Inr (e', ''CountdownWorkflow'') \<and>
        FirstPanic e' = None \<and> NewCommands e' = [ScheduleActivityTask \<lparr>ActivityId = 1, ActivityType = ''TickActivity'',
          ActInput = Some (json_payload (decimal n)), ActRetryPolicy = None, ScheduleToStartTimeout = None, StartToCloseTimeout = None\<rparr>]"
      by (subst (asm) first_round [OF un surjective_pairing]) (simp add: code unstarted_def)
  next
    assume "scheduledActivities e = [\<lparr>SActivityID = 1, SActivityType = ''TickActivity''\<rparr>]"
      "activityOutcomes e 1 = Some \<lparr>OutResult = Some (json_payload (vj_string V t)), OutFailure = None\<rparr>"
      "vj_to_string V (vj_string V t) = Inr t" "vj_string V t \<noteq> []"
    with un fresh show "\<exists>e'. fresh_execution quote ?w H = Inr (e', ''CountdownWorkflow'') \<and>
        FirstPanic e' = None \<and> NewCommands e' =
          [if n \<le> 1 then CompleteWorkflowExecution (Some (json_payload (vj_string V ''done'')))
           else ContinueAsNewWorkflowExecution \<lparr>CanWorkflowType = ''CountdownWorkflow'', CanTaskQueue = '''',
             CanInput = Some (json_payload (decimal (n - 1))), CanRetryPolicy = None, CanRunTimeout = None, CanTaskTimeout = None\<rparr>]"
      by (subst (asm) first_round [OF un surjective_pairing]) (simp add: code unstarted_def)
  }
qed

text \<open>The greeting is the workflow's result; a failed activity is the workflow's failure.\<close>

lemma hello_answers:
  assumes H: "LoadHistory H (NewExecution ()) = ((Some (json_payload (vj_string V name)), ''SimpleWorkflow''), e)"
    and rt: "\<And>t. t \<in> {name, greeting} \<Longrightarrow> vj_to_string V (vj_string V t) = Inr t \<and> vj_string V t \<noteq> []"
    and act: "scheduledActivities e = [\<lparr>SActivityID = 1, SActivityType = ''GreetActivity''\<rparr>]"
    and out: "activityOutcomes e 1 = Some (case f of
      None \<Rightarrow> \<lparr>OutResult = Some (json_payload (vj_string V greeting)), OutFailure = None\<rparr>
    | Some x \<Rightarrow> \<lparr>OutResult = None, OutFailure = Some x\<rparr>)"
  shows "\<exists>e'. fresh_execution quote (hello_worker V getenv opens ident) H = Inr (e', ''SimpleWorkflow'') \<and> FirstPanic e' = None \<and>
    NewCommands e' = [case f of
       None \<Rightarrow> CompleteWorkflowExecution (Some (json_payload (vj_string V greeting)))
     | Some x \<Rightarrow> FailWorkflowExecution (Some \<lparr>Message = ''activity error ('' @ FType x @ ''): '' @ Message x,
         FType = ''*workflow.ActivityError'', StackTrace = ''''\<rparr>)]"
proof -
  let ?p = "SimpleWorkflow V getenv name :: unit prog"
  have un: "unstarted e" using unstarted_LoadHistory [of H "()"] by (simp add: H)
  have ty: "foldl started_of (None, '''') H = (Some (json_payload (vj_string V name)), ''SimpleWorkflow'')"
    using H by (simp add: LoadHistory_def)
  have fresh: "fresh_execution quote (hello_worker V getenv opens ident) H = Inr (ExecuteRound (Dispatcher_Go (User ?p) e), ''SimpleWorkflow'')"
    using H ty rt
    by (simp add: fresh_execution_def hello_worker_def RegisterActivity_def RegisterWorkflow_def example_names runWorkflowFunc_def FromPayload_json)
  with un act out rt show ?thesis
    by (subst (asm) first_round [OF un surjective_pairing])
      (auto simp: SimpleWorkflow_def get_string_def example_names ScheduleActivity_def future_result_def FromPayload_json Complete_def
        add_command_def Dispatcher_Go_def new_coroutine_def FirstPanic_def Let_def unstarted_def ActivityError_Error_def split: option.split)
qed

end
