(* ===== verification/WebUi.thy ===== *)
theory WebUi
  imports WebApiProps
begin

text \<open>
  \<^verbatim>\<open>internal/webui/embed.go\<close> and the multiplexer of the dashboard in \<^verbatim>\<open>cmd/flowd/main.go\<close>. The embedded files
  are built by another program: which names exist, the start page and what \<^verbatim>\<open>http.FileServer\<close> answers for a name that
  exists are arguments.
\<close>

record embedded_fs =
  fs_exists :: "string \<Rightarrow> bool"
  fs_index :: "bytes option"
  fs_serve :: "string \<Rightarrow> bytes"

datatype ui_response = IndexPage bytes | StaticFile bytes

definition fsPath :: "string \<Rightarrow> string" where
  "fsPath urlPath = (if urlPath = '''' \<or> urlPath = ''/'' then ''.'' else tl urlPath)"

text \<open>The elements of a path, and \<^verbatim>\<open>fs.ValidPath\<close> on bytes: a name that is not valid does not exist.\<close>

fun path_elements :: "string \<Rightarrow> string list" where
  "path_elements [] = [[]]"
| "path_elements (c # cs) =
     (if c = CHR ''/'' then [] # path_elements cs
      else case path_elements cs of [] \<Rightarrow> [[c]] | e # es \<Rightarrow> (c # e) # es)"

definition ValidPath :: "string \<Rightarrow> bool" where
  "ValidPath name \<longleftrightarrow> name = ''.'' \<or> (\<forall>e \<in> set (path_elements name). e \<notin> {'''', ''.'', ''..''})"

definition fs_Stat :: "embedded_fs \<Rightarrow> string \<Rightarrow> bool" where
  "fs_Stat F name \<longleftrightarrow> ValidPath name \<and> fs_exists F name"

text \<open>Without a start page there is no handler; \<open>wo_ui\<close> of the startup is that there is one.\<close>

definition webui_Handler :: "embedded_fs \<Rightarrow> (string \<Rightarrow> ui_response) option" where
  "webui_Handler F = (case fs_index F of
     None \<Rightarrow> None
   | Some index \<Rightarrow> Some (\<lambda>urlPath. if fs_Stat F (fsPath urlPath) then StaticFile (fs_serve F urlPath) else IndexPage index))"

datatype dashboard_response = ApiResponse http_response | UiResponse ui_response | RedirectTo string

text \<open>
  The multiplexer on a cleaned path: the API's subtree, a redirect from its root without the slash, and everything
  else for the page. \<open>hq_path\<close> of the request are the elements of the path.
\<close>

definition dashboard ::
  "json_ext \<Rightarrow> 'b connection \<Rightarrow> client \<Rightarrow> (string \<Rightarrow> ui_response) \<Rightarrow> string \<Rightarrow> http_request \<Rightarrow> 'b sys \<Rightarrow>
   (dashboard_response \<times> 'b sys) option" where
  "dashboard J rpc c ui urlPath req s =
     (if prefix ''/api/'' urlPath then map_option (\<lambda>(resp, s'). (ApiResponse resp, s')) (webapi J rpc c req s)
      else if urlPath = ''/api'' then Some (RedirectTo ''/api/'', s)
      else Some (UiResponse (ui urlPath), s))"

lemma path_elements_no_slash: "CHR ''/'' \<notin> set n \<Longrightarrow> path_elements n = [n]"
  by (induction n) auto

lemma path_elements_append: "path_elements (n @ CHR ''/'' # m) = path_elements n @ path_elements m"
proof (induction n)
  case (Cons c n)
  have "path_elements n \<noteq> []" by (cases n) (auto split: list.split)
  with Cons show ?case by (auto split: list.split)
qed simp

text \<open>
  A path that climbs out of the embedded files, names a directory with a slash at its end or holds an empty element
  gets the start page, whatever the files are.
\<close>

lemma invalid_path_gets_index:
  assumes "webui_Handler F = Some ui" and "tl urlPath = a @ CHR ''/'' # e @ CHR ''/'' # b \<or> tl urlPath = a @ CHR ''/'' # e \<or> tl urlPath = e @ CHR ''/'' # b"
    and "e \<in> {'''', ''.'', ''..''}"
  shows "\<exists>index. fs_index F = Some index \<and> ui urlPath = IndexPage index"
proof -
  have e: "CHR ''/'' \<notin> set e" using assms(3) by auto
  have "e \<in> set (path_elements (tl urlPath))"
    using assms(2) path_elements_no_slash [OF e] by (auto simp: path_elements_append)
  moreover have "tl urlPath \<noteq> ''.''" using assms(2) e by (auto simp: append_eq_Cons_conv)
  ultimately have "\<not> ValidPath (tl urlPath)" using assms(3) by (auto simp: ValidPath_def)
  moreover have "urlPath \<noteq> ''''" "urlPath \<noteq> ''/''" using assms(2) by auto
  ultimately show ?thesis
    using assms(1) by (auto simp: webui_Handler_def fs_Stat_def fsPath_def split: option.splits)
qed

text \<open>The whole dashboard answers every request and changes nothing on the server.\<close>

lemma dashboard_read_only:
  assumes "proto_law X" and "reachable X S (sdb s)"
  shows "\<exists>resp. dashboard J (connection quote srv X C c) c ui urlPath req s = Some (resp, s)"
  using webapi_answers [OF assms, of J quote srv C c req] by (auto simp: dashboard_def)

end
