(* ===== verification/CurrentRun.thy ===== *)
theory CurrentRun
  imports CompleteProps
begin

text \<open>
  The current execution of a workflow id is never a run that continued as new: closing a run that way, creating
  its successor and moving the pointer are one transaction. So a client that finds its run continued as new and asks
  for the current one never asks in vain.
\<close>

section \<open>The invariant\<close>

definition continued :: "'b db \<Rightarrow> run_key set" where
  "continued d = we_key ` {r \<in> set (workflow_executions d). we_status r = ''CONTINUED_AS_NEW''}"

text \<open>\<open>K\<close>: the runs for which the invariant is relaxed inside a transaction.\<close>

definition cur_ok :: "run_key set \<Rightarrow> 'b db \<Rightarrow> bool" where
  "cur_ok K d \<longleftrightarrow> continued d \<inter> ce_run ` set (current_executions d) \<subseteq> K"

lemma cur_ok_mono: "cur_ok K d \<Longrightarrow> K \<subseteq> K' \<Longrightarrow> cur_ok K' d"
  by (auto simp: cur_ok_def)

lemma cur_okI_same:
  "cur_ok K d \<Longrightarrow> continued d' \<subseteq> continued d \<Longrightarrow> current_executions d' = current_executions d \<Longrightarrow> cur_ok K d'"
  by (auto simp: cur_ok_def)

lemma continued_sql_update:
  assumes "\<And>r. we_key (g r) = we_key r" and "\<And>r. we_status (g r) = ''CONTINUED_AS_NEW'' \<Longrightarrow> we_status r = ''CONTINUED_AS_NEW''"
  shows "continued (d\<lparr>workflow_executions := sql_update P g (workflow_executions d)\<rparr>) \<subseteq> continued d"
  using assms by (force simp: continued_def set_sql_update)

lemma keeps_cur_queries:
  "keeps (cur_ok K) (q_GetCurrentExecution ns wid)"
  "keeps (cur_ok K) (q_GetWorkflowExecution k)"
  "keeps (cur_ok K) (q_EnqueueWorkflowTask now ep)"
  "keeps (cur_ok K) (q_EnqueueActivityTask now ap)"
  "keeps (cur_ok K) (q_InsertTimer tr)"
  "keeps (cur_ok K) (q_CompleteWorkflowTask tid u)"
  "keeps (cur_ok K) (q_CompleteActivityTask tid u)"
  "keeps (cur_ok K) (q_GetActivityTaskByLease tid u)"
  "keeps (cur_ok K) (q_RetryActivityTask now tid u b)"
  "keeps (cur_ok K) (q_DequeueDueTimer now tlk)"
  "keeps (cur_ok K) (q_DequeueWorkflowTask now u0 lk secs q ns w ps)"
  "keeps (cur_ok K) (q_DequeueActivityTask now u0 lk q ns ps)"
  "keeps (cur_ok K) (q_DequeueQueryTask now u0 lk secs q ns)"
  "keeps (cur_ok K) (q_EnqueueQueryTask now ns q wid rid qt args)"
  "keeps (cur_ok K) (q_CompleteQueryTask tid u res)"
  "keeps (cur_ok K) (q_FailQueryTask tid u msg)"
  "keeps (cur_ok K) (q_DeleteQueryTask tid)"
  "keeps (cur_ok K) (q_ReapExpiredWorkflowTasks now)"
  "keeps (cur_ok K) (q_ReapExpiredActivityTasks now)"
  "keeps (cur_ok K) (q_ReapExpiredQueryTasks now)"
  "keeps (cur_ok K) (q_CreateNamespace now name)"
  by (rule keepsI; simp add: cur_ok_def continued_def Let_def
      q_GetCurrentExecution_def q_GetWorkflowExecution_def
      q_EnqueueWorkflowTask_def q_EnqueueActivityTask_def q_InsertTimer_def q_CompleteWorkflowTask_def
      q_CompleteActivityTask_def q_GetActivityTaskByLease_def q_RetryActivityTask_def
      q_DequeueDueTimer_def q_DequeueWorkflowTask_def q_DequeueActivityTask_def q_DequeueQueryTask_def
      q_EnqueueQueryTask_def q_CompleteQueryTask_def q_FailQueryTask_def q_DeleteQueryTask_def
      q_ReapExpiredWorkflowTasks_def q_ReapExpiredActivityTasks_def q_ReapExpiredQueryTasks_def
      q_CreateNamespace_def split: option.split prod.split)+

lemma keeps_cur_sticky: "keeps (cur_ok K) (q_SetStickyExecution now k w e)"
  by (rule keepsI) (auto simp: q_SetStickyExecution_def we_key_def intro!: cur_okI_same [OF _ continued_sql_update])

lemma keeps_cur_close: "st \<noteq> ''CONTINUED_AS_NEW'' \<Longrightarrow> keeps (cur_ok K) (q_CloseWorkflowExecution now k st)"
  by (rule keepsI) (auto simp: q_CloseWorkflowExecution_def we_key_def intro!: cur_okI_same [OF _ continued_sql_update])

lemma keeps_cur_append: "keeps (cur_ok K) (AppendHistory X now k e evs)"
proof -
  have "keeps (cur_ok K) (insert_event X now k p)" for p
    by (rule keepsI) (auto simp: insert_event_def q_InsertHistoryEvent_def cur_ok_def continued_def monad_simps split: option.split)
  moreover have "keeps (cur_ok K) (q_AdvanceNextEventID now k n e)" for n
    by (rule keepsI) (auto simp: q_AdvanceNextEventID_def we_key_def intro!: cur_okI_same [OF _ continued_sql_update] split: option.split)
  ultimately show ?thesis
    unfolding AppendHistory_def by (intro keeps_if keeps_bindM keeps_mapErr keeps_forM keeps_ret)
qed

lemmas keeps_cur = keeps_cur_queries keeps_cur_sticky keeps_cur_append

interpretation co: kept_by_queries "cur_ok K" for K :: "run_key set"
  by unfold_locales (auto intro: keeps_cur keeps_cur_close)

section \<open>Transactions\<close>

lemma succ_keeps: "keeps I m \<Longrightarrow> succ I m (\<lambda>_. I)"
  by (rule succI) (metis keepsD snd_conv)

lemma succ_cur_insert:
  "succ (cur_ok {}) (q_InsertCurrentExecution ns wid rid req) (\<lambda>n. cur_ok (if n = 0 then {} else {(ns, wid, rid)}))"
  by (rule succI) (auto simp: q_InsertCurrentExecution_def cur_ok_def continued_def ce_run_def split: if_splits)

lemma succ_cur_replace:
  "succ (cur_ok {(ns, wid, rid0)}) (q_ReplaceCurrentExecution ns wid rid req) (\<lambda>_. cur_ok {(ns, wid, rid)})"
proof (rule succI)
  fix d u d'
  assume ok: "cur_ok {(ns, wid, rid0)} d" and "q_ReplaceCurrentExecution ns wid rid req d = (Inr u, d')"
  then have d': "current_executions d' = sql_update (\<lambda>r. ce_key r = (ns, wid)) (\<lambda>r. r\<lparr>ce_run_id := rid, ce_create_request_id := req\<rparr>)
      (current_executions d)" "continued d' = continued d"
    by (auto simp: q_ReplaceCurrentExecution_def continued_def)
  have "ce_run ` set (current_executions d') \<subseteq> insert (ns, wid, rid) (ce_run ` set (current_executions d) - {(ns, wid, rid0)})"
  proof -
    have "ce_run (if ce_key c = (ns, wid) then c\<lparr>ce_run_id := rid, ce_create_request_id := req\<rparr> else c) \<in>
        insert (ns, wid, rid) (ce_run ` set (current_executions d) - {(ns, wid, rid0)})" if "c \<in> set (current_executions d)" for c
      using that imageI [OF that, of ce_run] by (auto simp: ce_run_def ce_key_def)
    then show ?thesis unfolding d'(1) set_sql_update image_image by (rule image_subsetI)
  qed
  with ok d'(2) show "cur_ok {(ns, wid, rid)} d'" unfolding cur_ok_def by blast
qed

lemma succ_cur_create:
  assumes "k = (cp_namespace_id p, cp_workflow_id p, cp_run_id p)"
  shows "succ (cur_ok {k}) (bindM (q_CreateWorkflowExecution now p) (\<lambda>_. bindM (AppendHistory X now k e evs) (\<lambda>_.
    q_EnqueueWorkflowTask now q))) (\<lambda>_. cur_ok {})"
proof -
  have "succ (cur_ok {k}) (q_CreateWorkflowExecution now p) (\<lambda>_. cur_ok {})"
  proof (rule succI)
    fix d u d'
    assume ok: "cur_ok {k} d" and cr: "q_CreateWorkflowExecution now p d = (Inr u, d')"
    from cr have d': "d' = d\<lparr>workflow_executions := workflow_executions d @ [new_we_row now p]\<rparr>"
      by (auto simp: q_CreateWorkflowExecution_def Let_def split: if_splits)
    from cr have fresh: "k \<notin> we_key ` set (workflow_executions d)"
      by (auto simp: q_CreateWorkflowExecution_def Let_def find_None_iff new_we_row_def we_key_def assms split: if_splits)
    have "continued d' = continued d" by (auto simp: d' continued_def new_we_row_def)
    with ok fresh show "cur_ok {} d'" by (auto simp: cur_ok_def continued_def d')
  qed
  then show ?thesis by (rule succ_bind) (intro succ_keeps keeps_bindM keeps_cur)
qed

lemma succ_cur_start: "succ (cur_ok {}) (start_tx X S now ns rid p) (\<lambda>_. cur_ok {})"
proof -
  have replace: "succ (cur_ok {}) (q_ReplaceCurrentExecution ns (sp_WorkflowID p) rid req) (\<lambda>_. cur_ok {(ns, sp_WorkflowID p, rid)})" for req
    by (rule succ_pre [OF succ_cur_replace]) (auto intro: cur_ok_mono)
  have existing: "succ (cur_ok {}) (start_existing ns rid p) (\<lambda>_. cur_ok {(ns, sp_WorkflowID p, rid)})"
    unfolding start_existing_def
    by (intro succ_bind [OF succ_keeps [OF keeps_cur_queries(1)]] succ_bind [OF succ_keeps [OF keeps_cur_queries(2)]] succ_if succ_throw replace)
  have "succ (cur_ok (if n = 0 then {} else {(ns, sp_WorkflowID p, rid)})) (if n = 0 then start_existing ns rid p else ret ())
      (\<lambda>_. cur_ok {(ns, sp_WorkflowID p, rid)})" for n :: nat
    using existing by (auto intro: succ_ret)
  then show ?thesis
    unfolding start_tx_def by (rule succ_bind [OF succ_cur_insert succ_bind]) (rule succ_cur_create, simp)
qed

lemma succ_cur_continue: "succ (cur_ok {k}) (continueWorkflowAsNew X S now req k we rid cmd) (\<lambda>_. cur_ok {})"
proof -
  obtain ns wid rid0 where k: "k = (ns, wid, rid0)" by (cases k)
  show ?thesis
    unfolding continueWorkflowAsNew_def Let_def k fst_conv snd_conv by (rule succ_bind [OF succ_cur_replace], rule succ_cur_create) simp
qed

text \<open>The close status and the successor go together.\<close>

lemma close_status_continues:
  assumes "process_commands X S E k we cmds a = Inr a'" and "ca_closeStatus a = ''CONTINUED_AS_NEW'' \<longrightarrow> ca_continueAsNew a \<noteq> None"
  shows "ca_closeStatus a' = ''CONTINUED_AS_NEW'' \<longrightarrow> ca_continueAsNew a' \<noteq> None"
  using assms
proof (induction cmds arbitrary: a)
  case (Cons c cmds)
  from Cons.prems(1) obtain a1 where a1: "process_command X S E k we c a = Inr a1" "process_commands X S E k we cmds a1 = Inr a'"
    by (auto split: sum.splits)
  have "ca_closeStatus a1 = ''CONTINUED_AS_NEW'' \<longrightarrow> ca_continueAsNew a1 \<noteq> None"
    using a1(1) Cons.prems(2) by (auto simp: process_command_def Let_def split: command.splits)
  with a1(2) show ?case by (rule Cons.IH)
qed simp

lemma succ_cur_close:
  "succ (cur_ok {}) (q_CloseWorkflowExecution now k st) (\<lambda>_. cur_ok (if st = ''CONTINUED_AS_NEW'' then {k} else {}))"
proof (cases "st = ''CONTINUED_AS_NEW''")
  case True
  have "continued (d\<lparr>workflow_executions := sql_update (\<lambda>r. we_key r = k) g (workflow_executions d)\<rparr>) \<subseteq> insert k (continued d)"
    if "\<And>r. we_key (g r) = we_key r" for g and d :: "'a db"
    using that by (auto simp: continued_def set_sql_update)
  from this [of "\<lambda>r. r\<lparr>we_status := st, we_close_time := Some now, we_updated_at := now\<rparr>"] True show ?thesis
    by (intro succI) (fastforce simp: q_CloseWorkflowExecution_def cur_ok_def we_key_def split: if_splits)
qed (simp add: succ_keeps keeps_cur_close)

lemma succ_cur_rest:
  assumes "ca_closeStatus a = ''CONTINUED_AS_NEW'' \<longrightarrow> ca_continueAsNew a \<noteq> None"
  shows "succ (\<lambda>s. cur_ok {} (sdb s)) (complete_rest X S E k att we a) (\<lambda>_ s. cur_ok {} (sdb s))"
proof -
  let ?J = "\<lambda>s. cur_ok (if ca_closeStatus a = ''CONTINUED_AS_NEW'' then {k} else {}) (sdb s)"
  have close: "succ (\<lambda>s. cur_ok {} (sdb s)) (if ca_closeStatus a \<noteq> '''' then
      bindM (onDB (q_CloseWorkflowExecution now k (ca_closeStatus a))) (\<lambda>_. count g) else ret ()) (\<lambda>_. ?J)" for now g
    by (intro succ_if succ_bind [OF succ_onDB [OF succ_cur_close]] succ_count succ_ret) simp_all
  have cont: "succ ?J (onDB (continueWorkflowAsNew X S now req k we rid cmd)) (\<lambda>_ s. cur_ok {} (sdb s))" for now req rid cmd
    by (rule succ_pre [OF succ_onDB [OF succ_cur_continue]]) (auto intro: cur_ok_mono split: if_splits)
  have "succ ?J (case ca_continueAsNew a of None \<Rightarrow> ret '''' | Some (cmd, rid) \<Rightarrow>
      bindM (onDB (continueWorkflowAsNew X S now req k we rid cmd)) (\<lambda>_. bindM (count g) (\<lambda>_. ret (h cmd)))) (\<lambda>_ s. cur_ok {} (sdb s))"
    for now req g and h :: "continue_as_new_cmd \<Rightarrow> string"
  proof (cases "ca_continueAsNew a")
    case None
    with assms show ?thesis by (auto intro!: succ_ret)
  next
    case (Some p)
    have "succ ?J (bindM (onDB (continueWorkflowAsNew X S now req k we rid cmd)) (\<lambda>_. bindM (count g) (\<lambda>_. ret (h cmd)))) (\<lambda>_ s. cur_ok {} (sdb s))"
      for rid cmd by (intro succ_bind [OF cont] succ_bind [OF succ_count] succ_ret)
    then show ?thesis by (cases p) (simp only: Some option.case prod.case)
  qed
  then show ?thesis
    unfolding complete_rest_def Let_def
    by (intro succ_bind [OF close] succ_bind [where Q = "\<lambda>_ s. cur_ok {} (sdb s)"] succ_if succ_ret
        succ_onDB [OF succ_keeps [OF keeps_cur_sticky]])
qed

lemma cur_ok_complete:
  assumes "complete_tx X S E token cmds att s = (Inr r, s')" and "cur_ok {} (sdb s)"
  shows "cur_ok {} (sdb s')"
proof -
  let ?k = "token_key token"
  from assms(1) obtain we a d1 d2 where f: "complete_front X S E token cmds (sdb s) = (Inr (we, a), d1)"
      and e: "complete_effects X E ?k we a d1 = (Inr (), d2)"
      and rest: "complete_rest X S E ?k att we a (s\<lparr>sdb := d2\<rparr>) = (Inr r, s')"
    by (rule complete_tx_InrE)
  note front = complete_front_InrD [OF f]
  have "cur_ok {} d1" using assms(2) front(1) by (simp add: cur_ok_def continued_def)
  then have d2: "cur_ok {} d2" using keepsD [OF co.kept_effects, of "{}" d1 X E ?k we a] e by simp
  have "ca_closeStatus a = ''CONTINUED_AS_NEW'' \<longrightarrow> ca_continueAsNew a \<noteq> None"
    using close_status_continues [OF front(3)] by (simp add: initial_acc_def)
  from succD [OF succ_cur_rest [OF this] _ rest] d2 show ?thesis by simp
qed

section \<open>Reachable databases\<close>

lemma cur_ok_rollback [simp]: "cur_ok K (rollback d d') = cur_ok K d"
  by (simp add: cur_ok_def continued_def rollback_def)

lemma tx_cur: "succ (cur_ok {}) m (\<lambda>_. cur_ok {}) \<Longrightarrow> cur_ok {} d \<Longrightarrow> cur_ok {} (tx m d)"
  by (auto simp: tx_def split: prod.split sum.split dest: succD)

lemma db_step_cur: "db_step X S d d' \<Longrightarrow> cur_ok {} d \<Longrightarrow> cur_ok {} d'"
proof (induction rule: token_step.induct)
  case (complete_workflow token s E cmds att)
  then show ?case
    by (cases "complete_tx X S E token cmds att s"; cases "fst (complete_tx X S E token cmds att s)")
      (auto simp: withTx_def dest: cur_ok_complete)
qed (simp_all add: tx_cur succ_cur_start succ_keeps co.kept_bodies co.kept_fire keeps_cur [THEN keepsD])

lemma reachable_cur: "reachable X S d \<Longrightarrow> cur_ok {} d"
proof (induction rule: reachable.induct)
  case init
  show ?case by (simp add: cur_ok_def continued_def initial_db_def)
qed (rule db_step_cur)

lemma current_not_continued:
  assumes "reachable X S d" and "current_run ns wid d = Some ce" and "find_we (ns, wid, ce_run_id ce) d = Some we"
  shows "we_status we \<noteq> ''CONTINUED_AS_NEW''"
proof
  assume st: "we_status we = ''CONTINUED_AS_NEW''"
  have we: "we \<in> set (workflow_executions d)" "we_key we = (ns, wid, ce_run_id ce)"
    using assms(3) by (auto simp: find_we_def dest: find_SomeD)
  have ce: "ce \<in> set (current_executions d)" "ce_key ce = (ns, wid)"
    using assms(2) by (auto simp: current_run_def dest: find_SomeD)
  have "we_key we \<in> continued d" using we(1) st by (auto simp: continued_def)
  moreover have "we_key we = ce_run ce" using we(2) ce(2) by (simp add: ce_run_def ce_key_def)
  ultimately show False using reachable_cur [OF assms(1)] ce(1) by (auto simp: cur_ok_def)
qed

end
