(* ===== verification/ClientWait.thy ===== *)
theory ClientWait
  imports WebApiProps CurrentRun
begin

text \<open>
  Waiting for a result: \<open>Get\<close> follows a run that continued as new to the current run of its workflow id, asks
  once more, and never spins; it returns at the latest when its context is done.
\<close>

section \<open>The current run, described\<close>

lemma store_describe_current:
  assumes "reachable X S (sdb s)" and "DescribeWorkflowExecution name wid '''' s = (Inr d, s')"
  shows "es_Status d \<noteq> ST_CONTINUED_AS_NEW"
proof -
  from assms(2) obtain ns ce we where "current_run ns wid (sdb s) = Some ce" "find_we (ns, wid, ce_run_id ce) (sdb s) = Some we"
    and d: "es_Status d = statusFromString (we_status we)"
    by (auto simp: DescribeWorkflowExecution_def bindM_def getNamespaceID_eq resolve_run_eq onDB_def q_GetWorkflowExecution_eq ret_def
        split: option.splits)
  from current_not_continued [OF assms(1) this(1,2)] show ?thesis by (simp add: d statusFromString_def)
qed

lemma describe_current:
  assumes "reachable X S (sdb s)" and "DescribeWorkflow (connection quote srv X C c) c wid '''' s = Some (Inr d, s')"
  shows "es_Status d \<noteq> ST_CONTINUED_AS_NEW"
proof -
  let ?req = "DescribeWorkflowExecutionRequest \<lparr>ds_Namespace = cl_namespace c, ds_WorkflowId = wid, ds_RunId = ''''\<rparr>"
  from assms(2) obtain s1 where "connection quote srv X C c ?req s = Some (Inr (DescribeWorkflowExecutionResponse d), s1)"
    by (auto simp: DescribeWorkflow_def invoke_def split: option.splits sum.splits rpc_response.splits)
  then have "handle X (rn_store srv) C ?req s = Some (Inr (DescribeWorkflowExecutionResponse d), s1)"
    using connection_cases [of quote srv X C c ?req s] by auto
  then obtain s2 where "DescribeWorkflowExecution (namespaceOrDefault (cl_namespace c)) wid '''' s = (Inr d, s2)"
    by (auto simp: Server_DescribeWorkflowExecution_def call_store_def split: prod.splits sum.splits)
  with assms(1) show ?thesis by (rule store_describe_current)
qed

section \<open>Get returns\<close>

lemma fetch_ends:
  assumes "proto_law X" and "reachable X S (sdb s)"
  shows "\<exists>a. fetchResult (connection quote srv X C c) c r target s = Some (a, s)"
  using history_read_ends [OF assms, of quote srv C c "wr_WorkflowID r" "wr_RunID r"]
  by (auto simp: fetchResult_def split: sum.split)

lemma describe_ends: "\<exists>a. DescribeWorkflow (connection quote srv X C c) c wid rid s = Some (a, s)"
  unfolding DescribeWorkflow_def by (rule invoke_read) simp

text \<open>One turn of the loop, when a wait that does not end the context is followed by a return.\<close>

lemma get_turn:
  assumes "proto_law X" and "reachable X S (sdb s)" and "rid = '''' \<or> (\<exists>x. get_loop (connection quote srv X C c) c target T i r '''' s = Some x)"
    and wait: "\<And>f rid. T i = Some f \<Longrightarrow> \<exists>x. get_loop (connection quote srv X C c) c target T (Suc i) r rid (f s) = Some x"
  shows "\<exists>x. get_loop (connection quote srv X C c) c target T i r rid s = Some x"
proof -
  obtain a where a: "DescribeWorkflow (connection quote srv X C c) c (wr_WorkflowID r) rid s = Some (a, s)"
    using describe_ends by blast
  show ?thesis
  proof (cases a)
    case (Inr d)
    have "rid = '''' \<Longrightarrow> es_Status d \<noteq> ST_CONTINUED_AS_NEW" using describe_current [OF assms(2)] a Inr by blast
    moreover obtain f where "fetchResult (connection quote srv X C c) c (r\<lparr>wr_RunID := es_RunId d\<rparr>) target s = Some (f, s)"
      using fetch_ends [OF assms(1,2)] by blast
    ultimately show ?thesis
      using a Inr assms(3) wait by (subst get_loop.simps) (auto split: option.split)
  qed (subst get_loop.simps, simp add: a)
qed

text \<open>What other requests do while the client waits leaves a reachable database reachable.\<close>

definition served_meanwhile :: "'b ext \<Rightarrow> store \<Rightarrow> (nat \<Rightarrow> ('b sys \<Rightarrow> 'b sys) option) \<Rightarrow> bool" where
  "served_meanwhile X S T \<longleftrightarrow> (\<forall>i f s. T i = Some f \<longrightarrow> reachable X S (sdb s) \<longrightarrow> reachable X S (sdb (f s)))"

lemma get_loop_returns:
  assumes "proto_law X" and "T n = None" and "served_meanwhile X S T"
  shows "i \<le> n \<Longrightarrow> reachable X S (sdb s) \<Longrightarrow> \<exists>x. get_loop (connection quote srv X C c) c target T i r rid s = Some x"
proof (induction "n - i" arbitrary: i s rid)
  case 0
  then have "T i = None" using assms(2) by simp
  then show ?case using get_turn [OF assms(1) 0(3), of _ quote srv C c target T i r] by (metis option.distinct(1))
next
  case (Suc m)
  have "\<exists>x. get_loop (connection quote srv X C c) c target T (Suc i) r rid (f s) = Some x" if "T i = Some f" for f rid
    using Suc.hyps(2) that Suc.prems(2) assms(3) by (intro Suc.hyps(1)) (auto simp: served_meanwhile_def)
  then show ?case using get_turn [OF assms(1) Suc.prems(2), of _ quote srv C c target T i r] by metis
qed

section \<open>Following a run that continued\<close>

lemma describe_empty:
  assumes "admitted srv c" and "namespace_id (namespaceOrDefault (cl_namespace c)) (sdb s) = Some ns"
    and "current_run ns wid (sdb s) = Some ce" and "ce_run_id ce \<noteq> ''''"
  shows "DescribeWorkflow (connection quote srv X C c) c wid '''' s = DescribeWorkflow (connection quote srv X C c) c wid (ce_run_id ce) s"
  using assms
  by (simp add: DescribeWorkflow_def invoke_def connection_admitted Server_DescribeWorkflowExecution_def call_store_def
      DescribeWorkflowExecution_def bindM_def getNamespaceID_Some resolve_run_eq onDB_def ret_def)

lemma get_follows:
  assumes "admitted srv c" and "namespace_id (namespaceOrDefault (cl_namespace c)) (sdb s) = Some ns"
    and "find_we (ns, wr_WorkflowID r, rid) (sdb s) = Some we" and "we_status we = ''CONTINUED_AS_NEW''" and "rid \<noteq> ''''"
    and "current_run ns (wr_WorkflowID r) (sdb s) = Some ce" and "ce_run_id ce \<noteq> ''''"
  shows "get_loop (connection quote srv X C c) c target T i r rid s = get_loop (connection quote srv X C c) c target T i r (ce_run_id ce) s"
proof -
  have "get_loop (connection quote srv X C c) c target T i r rid s = get_loop (connection quote srv X C c) c target T i r '''' s"
    using describe_call [OF assms(1,2,5,3), of quote X C] assms(4) by (subst get_loop.simps) (simp add: statusFromString_def)
  also have "\<dots> = get_loop (connection quote srv X C c) c target T i r (ce_run_id ce) s"
    using describe_empty [OF assms(1,2,6,7), of quote X C]
    by (subst (1 2) get_loop.simps) simp
  finally show ?thesis .
qed

text \<open>
  (C27) Waiting for a workflow ends: whatever the state of the server and whatever other requests change while the client
  waits, \<open>Get\<close> has returned when its context is done, because the current run of a workflow id is never one that
  continued as new, so following a continuation never goes round in circles. Waiting for a run that continued as new is
  waiting for the current run of its workflow id.
\<close>

theorem get_returns:
  assumes "proto_law X" and "reachable X (rn_store srv) (sdb s)" and "T n = None"
    and "served_meanwhile X (rn_store srv) T"
  shows "(\<exists>a r' s'. WorkflowRun_Get (connection quote srv X C c) c r target T s = Some ((a, r'), s')) \<and>
    (\<forall>ns ce we. current_run ns (wr_WorkflowID r) (sdb s) = Some ce \<and> find_we (ns, wr_WorkflowID r, ce_run_id ce) (sdb s) = Some we \<longrightarrow>
       we_status we \<noteq> ''CONTINUED_AS_NEW'') \<and>
    (\<forall>ns we ce. admitted srv c \<and> namespace_id (namespaceOrDefault (cl_namespace c)) (sdb s) = Some ns \<and> wr_RunID r \<noteq> '''' \<and>
       find_we (ns, wr_WorkflowID r, wr_RunID r) (sdb s) = Some we \<and> we_status we = ''CONTINUED_AS_NEW'' \<and>
       current_run ns (wr_WorkflowID r) (sdb s) = Some ce \<and> ce_run_id ce \<noteq> '''' \<longrightarrow>
       WorkflowRun_Get (connection quote srv X C c) c r target T s =
       get_loop (connection quote srv X C c) c target T 0 r (ce_run_id ce) s)"
proof (intro conjI allI impI)
  show "\<exists>a r' s'. WorkflowRun_Get (connection quote srv X C c) c r target T s = Some ((a, r'), s')"
  proof -
    have "\<exists>x. get_loop (connection quote srv X C c) c target T 0 r (wr_RunID r) s = Some x"
      by (rule get_loop_returns [OF assms(1,3,4) le0 assms(2)])
    then show ?thesis by (simp add: WorkflowRun_Get_def split_paired_Ex)
  qed
next
  fix ns ce we
  assume "current_run ns (wr_WorkflowID r) (sdb s) = Some ce \<and> find_we (ns, wr_WorkflowID r, ce_run_id ce) (sdb s) = Some we"
  then show "we_status we \<noteq> ''CONTINUED_AS_NEW''" using current_not_continued [OF assms(2)] by blast
next
  fix ns we ce
  assume "admitted srv c \<and> namespace_id (namespaceOrDefault (cl_namespace c)) (sdb s) = Some ns \<and> wr_RunID r \<noteq> '''' \<and>
    find_we (ns, wr_WorkflowID r, wr_RunID r) (sdb s) = Some we \<and> we_status we = ''CONTINUED_AS_NEW'' \<and>
    current_run ns (wr_WorkflowID r) (sdb s) = Some ce \<and> ce_run_id ce \<noteq> ''''"
  then show "WorkflowRun_Get (connection quote srv X C c) c r target T s = get_loop (connection quote srv X C c) c target T 0 r (ce_run_id ce) s"
    unfolding WorkflowRun_Get_def by (elim conjE) (rule get_follows)
qed

theorem get_returns_witness:
  "\<exists>a r' s'. WorkflowRun_Get (connection id demo_srv demo_ext demo_call demo_client) demo_client
     \<lparr>wr_WorkflowID = ''w'', wr_RunID = ''r1''\<rparr> (Some (Inr, [])) (\<lambda>i. if i < 2 then Some id else None) demo_sys = Some ((a, r'), s')"
proof -
  let ?T = "\<lambda>i :: nat. if i < 2 then Some id else None"
  have reach: "reachable demo_ext (rn_store demo_srv) (sdb demo_sys)"
    using demo_db_reachable by (simp add: demo_srv_def demo_sys_def)
  have ended: "?T 2 = None" by simp
  have others: "served_meanwhile demo_ext (rn_store demo_srv) ?T" by (simp add: served_meanwhile_def)
  show ?thesis by (rule conjunct1 [OF get_returns [where n = 2 and T = ?T, OF demo_proto_law reach ended others]])
qed

end
