(* ===== verification/Conservation.thy ===== *)
theory Conservation
  imports CompleteProps TaskProps
begin

text \<open>
  Work is conserved. Every activity, timer and workflow task a run has scheduled is, at any time, in
  exactly one place: still in its table, or recorded as ended in the run's history. The law
  is an invariant of the step relation, proved as a balance of events and rows that every
  transaction restores before it commits. The workflow tasks balance under a proviso, since
  \<open>FailWorkflowTask\<close> takes a task's row away and puts another in its place without a transaction.
\<close>

section \<open>The balance of a run\<close>

definition event_count :: "history_event_type \<Rightarrow> run_key \<Rightarrow> 'b db \<Rightarrow> nat" where
  "event_count T k d = length (filter (\<lambda>h. HistoryEventType_value (he_event_type h) = T) (run_events k d))"

definition open_activities :: "run_key \<Rightarrow> 'b db \<Rightarrow> nat" where
  "open_activities k d = count_list (map at_run (activity_tasks d)) k"

definition open_timers :: "run_key \<Rightarrow> 'b db \<Rightarrow> nat" where
  "open_timers k d = count_list (map tm_run (timers d)) k"

definition open_tasks :: "run_key \<Rightarrow> 'b db \<Rightarrow> nat" where
  "open_tasks k d = count_list (map wt_run (workflow_tasks d)) k"

text \<open>What an event adds to the activities, timers and workflow tasks that have to be in the tables.\<close>

definition aw :: "history_event_type \<Rightarrow> int" where
  "aw T = (if T = EV_ACTIVITY_TASK_SCHEDULED then 1
     else if T = EV_ACTIVITY_TASK_COMPLETED \<or> T = EV_ACTIVITY_TASK_FAILED then - 1 else 0)"

definition tw :: "history_event_type \<Rightarrow> int" where
  "tw T = (if T = EV_TIMER_STARTED then 1 else if T = EV_TIMER_FIRED then - 1 else 0)"

definition ww :: "history_event_type \<Rightarrow> int" where
  "ww T = (if T = EV_WORKFLOW_TASK_SCHEDULED then 1 else if T = EV_WORKFLOW_TASK_COMPLETED then - 1 else 0)"

lemmas weights = aw_def tw_def ww_def

definition due :: "(history_event_type \<Rightarrow> int) \<Rightarrow> run_key \<Rightarrow> 'b db \<Rightarrow> int" where
  "due w k d = (\<Sum>h\<leftarrow>run_events k d. w (HistoryEventType_value (he_event_type h)))"

text \<open>
  All runs balance, but the run \<open>k\<close> lacks \<open>n\<close> activity rows, \<open>m\<close> timer rows and \<open>p\<close> workflow task rows. The last only
  counts when \<open>c\<close> says so.
\<close>

definition lacks :: "bool \<Rightarrow> run_key \<Rightarrow> int \<Rightarrow> int \<Rightarrow> int \<Rightarrow> 'b db \<Rightarrow> bool" where
  "lacks c k n m p d \<longleftrightarrow> (\<forall>k'. due aw k' d = int (open_activities k' d) + (if k' = k then n else 0) \<and>
     due tw k' d = int (open_timers k' d) + (if k' = k then m else 0) \<and>
     (c \<longrightarrow> due ww k' d = int (open_tasks k' d) + (if k' = k then p else 0)))"

definition balanced :: "bool \<Rightarrow> 'b db \<Rightarrow> bool" where
  "balanced c d \<longleftrightarrow> (\<forall>k. due aw k d = int (open_activities k d) \<and> due tw k d = int (open_timers k d) \<and>
     (c \<longrightarrow> due ww k d = int (open_tasks k d)))"

lemma lacks_0 [simp]: "lacks c k 0 0 0 = balanced c"
  by (rule ext) (simp add: balanced_def lacks_def)

lemma due_counts:
  "due aw k d = int (event_count EV_ACTIVITY_TASK_SCHEDULED k d) - int (event_count EV_ACTIVITY_TASK_COMPLETED k d)
     - int (event_count EV_ACTIVITY_TASK_FAILED k d)"
  "due tw k d = int (event_count EV_TIMER_STARTED k d) - int (event_count EV_TIMER_FIRED k d)"
  "due ww k d = int (event_count EV_WORKFLOW_TASK_SCHEDULED k d) - int (event_count EV_WORKFLOW_TASK_COMPLETED k d)"
proof -
  have "(\<Sum>h\<leftarrow>rows. aw (HistoryEventType_value (he_event_type h))) =
      int (length (filter (\<lambda>h. HistoryEventType_value (he_event_type h) = EV_ACTIVITY_TASK_SCHEDULED) rows))
      - int (length (filter (\<lambda>h. HistoryEventType_value (he_event_type h) = EV_ACTIVITY_TASK_COMPLETED) rows))
      - int (length (filter (\<lambda>h. HistoryEventType_value (he_event_type h) = EV_ACTIVITY_TASK_FAILED) rows))"
    "(\<Sum>h\<leftarrow>rows. tw (HistoryEventType_value (he_event_type h))) =
      int (length (filter (\<lambda>h. HistoryEventType_value (he_event_type h) = EV_TIMER_STARTED) rows))
      - int (length (filter (\<lambda>h. HistoryEventType_value (he_event_type h) = EV_TIMER_FIRED) rows))"
    "(\<Sum>h\<leftarrow>rows. ww (HistoryEventType_value (he_event_type h))) =
      int (length (filter (\<lambda>h. HistoryEventType_value (he_event_type h) = EV_WORKFLOW_TASK_SCHEDULED) rows))
      - int (length (filter (\<lambda>h. HistoryEventType_value (he_event_type h) = EV_WORKFLOW_TASK_COMPLETED) rows))" for rows :: "'a he_row list"
    by (induction rows) (simp_all add: weights)
  then show "due aw k d = int (event_count EV_ACTIVITY_TASK_SCHEDULED k d) - int (event_count EV_ACTIVITY_TASK_COMPLETED k d)
     - int (event_count EV_ACTIVITY_TASK_FAILED k d)"
    "due tw k d = int (event_count EV_TIMER_STARTED k d) - int (event_count EV_TIMER_FIRED k d)"
    "due ww k d = int (event_count EV_WORKFLOW_TASK_SCHEDULED k d) - int (event_count EV_WORKFLOW_TASK_COMPLETED k d)"
    by (simp_all add: due_def event_count_def)
qed

text \<open>What the balance depends on.\<close>

definition works :: "'b db \<Rightarrow> 'b he_row list \<times> run_key list \<times> run_key list \<times> run_key list" where
  "works d = (history_events d, map at_run (activity_tasks d), map tm_run (timers d), map wt_run (workflow_tasks d))"

lemma lacks_works: "works d' = works d \<Longrightarrow> lacks c k n m p d' = lacks c k n m p d"
  by (simp add: works_def lacks_def due_def open_activities_def open_timers_def open_tasks_def run_events_def)

lemma balanced_works: "works d' = works d \<Longrightarrow> balanced c d' = balanced c d"
  using lacks_works [of d' d c undefined 0 0 0] by simp

lemma lease_dequeue_map:
  "lease_dequeue tid elig g rows = Some (r, rows') \<Longrightarrow> (\<And>t. f (g t) = f t) \<Longrightarrow> map f rows' = map f rows"
  by (auto simp: lease_dequeue_def map_sql_update split: option.splits)

lemma task_run_update [simp]:
  "at_run (at_grant u now t) = at_run t" "at_run (at_release t) = at_run t" "at_run (at_retry now b t) = at_run t"
  "wt_run (wt_grant secs u now w) = wt_run w" "wt_run (wt_release w) = wt_run w"
  by (simp_all add: at_run_def wt_run_def at_grant_def at_release_def at_retry_def wt_grant_def wt_release_def)

section \<open>Statements that leave the balance alone\<close>

lemma works_queries:
  "works (snd (q_InsertCurrentExecution ns wid rid req d)) = works d"
  "works (snd (q_GetCurrentExecution ns wid d)) = works d"
  "works (snd (q_ReplaceCurrentExecution ns wid rid req d)) = works d"
  "works (snd (q_GetWorkflowExecution k d)) = works d"
  "works (snd (q_GetActivityTaskByLease tid u d)) = works d"
  "works (snd (q_RetryActivityTask now tid u b d)) = works d"
  "works (snd (q_DequeueQueryTask now u0 lk secs q ns d)) = works d"
  "works (snd (q_EnqueueQueryTask now ns q wid rid qt args d)) = works d"
  "works (snd (q_CompleteQueryTask tid u res d)) = works d"
  "works (snd (q_FailQueryTask tid u msg d)) = works d"
  "works (snd (q_DeleteQueryTask tid d)) = works d"
  "works (snd (q_ReapExpiredWorkflowTasks now d)) = works d"
  "works (snd (q_ReapExpiredActivityTasks now d)) = works d"
  "works (snd (q_ReapExpiredQueryTasks now d)) = works d"
  "works (snd (q_CreateNamespace now name d)) = works d"
  "works (snd (q_CreateWorkflowExecution now cp d)) = works d"
  "works (snd (q_CloseWorkflowExecution now k st d)) = works d"
  "works (snd (q_SetStickyExecution now k w e d)) = works d"
  "works (snd (q_AdvanceNextEventID now k i e0 d)) = works d"
  by (simp_all add: works_def Let_def map_sql_update q_InsertCurrentExecution_def
      q_GetCurrentExecution_def q_ReplaceCurrentExecution_def q_GetWorkflowExecution_def
      q_GetActivityTaskByLease_def q_RetryActivityTask_def
      q_DequeueQueryTask_def q_EnqueueQueryTask_def q_CompleteQueryTask_def q_FailQueryTask_def
      q_DeleteQueryTask_def q_ReapExpiredWorkflowTasks_def q_ReapExpiredActivityTasks_def q_ReapExpiredQueryTasks_def
      q_CreateNamespace_def q_CreateWorkflowExecution_def q_CloseWorkflowExecution_def q_SetStickyExecution_def
      q_AdvanceNextEventID_def split: option.split prod.split)

lemma works_dequeues:
  "works (snd (q_DequeueActivityTask now u0 lk q ns ps d)) = works d"
  "works (snd (q_DequeueWorkflowTask now u0 lk secs q ns w ps d)) = works d"
  by (auto simp: works_def q_DequeueActivityTask_def q_DequeueWorkflowTask_def split: option.split
      dest: lease_dequeue_map [where f = at_run] lease_dequeue_map [where f = wt_run])

lemma succ_works: "(\<And>d. works (snd (m d)) = works d) \<Longrightarrow> succ (lacks c k n i p) m (\<lambda>_. lacks c k n i p)"
  by (rule succI) (metis lacks_works snd_conv)

lemmas succ_works_queries = works_queries [THEN succ_works]

section \<open>Statements that change it\<close>

lemma succ_insert_event:
  "succ (lacks c k n m p) (insert_event X now k q)
     (\<lambda>_. lacks c k (n + aw (NEType (snd q))) (m + tw (NEType (snd q))) (p + ww (NEType (snd q))))"
proof (rule succI)
  fix d x d' assume d: "lacks c k n m p d" and i: "insert_event X now k q d = (Inr x, d')"
  from i have "history_events d' = history_events d @ [event_row X now k q]" "activity_tasks d' = activity_tasks d"
    "timers d' = timers d" "workflow_tasks d' = workflow_tasks d"
    by (auto simp: insert_event_def q_InsertHistoryEvent_def event_row_def monad_simps split: option.splits if_splits)
  with d show "lacks c k (n + aw (NEType (snd q))) (m + tw (NEType (snd q))) (p + ww (NEType (snd q))) d'"
    by (auto simp: lacks_def due_def run_events_def open_activities_def open_timers_def open_tasks_def)
qed

lemma succ_insert_events:
  "succ (lacks c k n m p) (forM (insert_event X now k) qs)
     (\<lambda>_. lacks c k (n + (\<Sum>q\<leftarrow>qs. aw (NEType (snd q)))) (m + (\<Sum>q\<leftarrow>qs. tw (NEType (snd q))))
        (p + (\<Sum>q\<leftarrow>qs. ww (NEType (snd q)))))"
proof (induction qs arbitrary: n m p)
  case Nil
  show ?case by (simp add: succ_ret)
next
  case (Cons q qs)
  from succ_bind [OF succ_insert_event Cons.IH] show ?case by (simp add: add.assoc)
qed

lemma sum_zip_ids: "(\<Sum>p\<leftarrow>zip (ids_from e (length evs)) evs. f (snd p)) = (\<Sum>ev\<leftarrow>evs. f ev)"
  by (metis (no_types, lifting) comp_apply length_ids_from map_eq_conv map_map map_snd_zip)

lemma succ_append:
  "succ (lacks c k n m p) (AppendHistory X now k e evs)
     (\<lambda>_. lacks c k (n + (\<Sum>ev\<leftarrow>evs. aw (NEType ev))) (m + (\<Sum>ev\<leftarrow>evs. tw (NEType ev)))
        (p + (\<Sum>ev\<leftarrow>evs. ww (NEType ev))))"
proof (cases "evs = []")
  case True
  then show ?thesis by (simp add: succ_ret)
next
  case False
  have adv: "succ (lacks c k n m p) (mapErr h (q_AdvanceNextEventID now k i e)) (\<lambda>_. lacks c k n m p)" for h i
    by (rule succ_mapErr) (rule succ_works_queries(19))
  have ins: "succ (lacks c k n m p) (forM (insert_event X now k) (zip (ids_from e (length evs)) evs))
      (\<lambda>_. lacks c k (n + (\<Sum>ev\<leftarrow>evs. aw (NEType ev))) (m + (\<Sum>ev\<leftarrow>evs. tw (NEType ev))) (p + (\<Sum>ev\<leftarrow>evs. ww (NEType ev))))"
    using succ_insert_events [of c k n m p X now "zip (ids_from e (length evs)) evs"]
    by (simp only: sum_zip_ids [of "\<lambda>ev. aw (NEType ev)"] sum_zip_ids [of "\<lambda>ev. tw (NEType ev)"]
        sum_zip_ids [of "\<lambda>ev. ww (NEType ev)"])
  from False show ?thesis
    unfolding AppendHistory_def by (simp only: if_False) (intro succ_bind [OF adv] succ_bind [OF ins] succ_ret)
qed

lemma succ_enqueue_task:
  assumes "(ep_namespace_id ep, ep_workflow_id ep, ep_run_id ep) = k"
  shows "succ (lacks c k n m p) (q_EnqueueWorkflowTask now ep) (\<lambda>_. lacks c k n m (p - 1))"
proof (rule succI)
  fix d :: "'a db" and x d' assume d: "lacks c k n m p d" and q: "q_EnqueueWorkflowTask now ep d = (Inr x, d')"
  from q assms obtain r where "d' = d\<lparr>workflow_tasks := workflow_tasks d @ [r], wt_seq := wt_seq d + 1\<rparr>" "wt_run r = k"
    by (auto simp: q_EnqueueWorkflowTask_def new_wt_row_def wt_run_def)
  with d show "lacks c k n m (p - 1) d'"
    by (auto simp: lacks_def due_def run_events_def open_activities_def open_timers_def open_tasks_def)
qed

section \<open>Transactions that append, open and wake\<close>

lemma succ_bal: "(\<And>d. works (snd (m d)) = works d) \<Longrightarrow> succ (balanced c) m (\<lambda>_. balanced c)"
  using succ_works [of m c undefined 0 0 0] by simp

lemmas succ_bal_queries = works_queries [THEN succ_bal] and succ_bal_dequeues = works_dequeues [THEN succ_bal]

lemma succ_bal_append:
  assumes "(\<Sum>ev\<leftarrow>evs. aw (NEType ev)) = 0" and "(\<Sum>ev\<leftarrow>evs. tw (NEType ev)) = 0" and "(\<Sum>ev\<leftarrow>evs. ww (NEType ev)) = 0"
  shows "succ (balanced c) (AppendHistory X now k e evs) (\<lambda>_. balanced c)"
  using succ_append [of c k 0 0 0 X now e evs] assms by simp

lemma succ_wake:
  "succ (lacks c k n m p) (wake_run X S now gonow k ev)
     (\<lambda>_. lacks c k (n + aw (NEType ev)) (m + tw (NEType ev)) (p + ww (NEType ev)))"
proof -
  have app: "succ (lacks c k n m p) (AppendHistory X now k e [ev, newEvent EV_WORKFLOW_TASK_SCHEDULED a])
      (\<lambda>_. lacks c k (n + aw (NEType ev)) (m + tw (NEType ev)) (p + ww (NEType ev) + 1))" for e a
    by (rule succ_post [OF succ_append]) (simp add: weights add.assoc)
  have enq: "succ (lacks c k n m (p + 1)) (enqueue_wake S now gonow k we i) (\<lambda>_. lacks c k n m p)" for we i n m p
    unfolding enqueue_wake_def Let_def by (rule succ_post [OF succ_enqueue_task]) simp_all
  show ?thesis
    unfolding wake_run_def
    by (intro succ_bind [OF succ_works_queries(4)] succ_bind [OF app] succ_bind [OF enq] succ_ret)
qed

lemma succ_bal_wake:
  "aw (NEType ev) = 0 \<Longrightarrow> tw (NEType ev) = 0 \<Longrightarrow> ww (NEType ev) = 0 \<Longrightarrow>
   succ (balanced c) (wake_run X S now gonow k ev) (\<lambda>_. balanced c)"
  using succ_wake [of c k 0 0 0 X S now gonow ev] by simp

lemma succ_bal_resolve: "succ (balanced c) (resolve_run ns wid rid) (\<lambda>_. balanced c)"
  unfolding resolve_run_def by (intro succ_if succ_bind [OF succ_bal_queries(2)] succ_ret)

text \<open>A new run has its first two events and its first task.\<close>

lemma succ_bal_open:
  assumes "map NEType evs = [EV_WORKFLOW_EXECUTION_STARTED, EV_WORKFLOW_TASK_SCHEDULED]"
    and "(ep_namespace_id ep, ep_workflow_id ep, ep_run_id ep) = k"
  shows "succ (balanced c) (bindM (AppendHistory X now k e evs) (\<lambda>_. q_EnqueueWorkflowTask now' ep)) (\<lambda>_. balanced c)"
proof -
  have "(\<Sum>ev\<leftarrow>evs. w (NEType ev)) = w EV_WORKFLOW_EXECUTION_STARTED + w EV_WORKFLOW_TASK_SCHEDULED"
    for w :: "history_event_type \<Rightarrow> int"
    using arg_cong [OF assms(1), of "\<lambda>Ts. sum_list (map w Ts)"] by (simp add: comp_def)
  then have "(\<Sum>ev\<leftarrow>evs. aw (NEType ev)) = 0" "(\<Sum>ev\<leftarrow>evs. tw (NEType ev)) = 0" "(\<Sum>ev\<leftarrow>evs. ww (NEType ev)) = 1"
    by (simp_all only:) (simp_all add: weights)
  with succ_append [of c k 0 0 0 X now e evs] have "succ (balanced c) (AppendHistory X now k e evs) (\<lambda>_. lacks c k 0 0 1)"
    by simp
  then show ?thesis by (rule succ_bind) (use succ_enqueue_task [OF assms(2), of c 0 0 1] in simp)
qed

lemma succ_bal_start: "succ (balanced c) (start_tx X S now ns rid p) (\<lambda>_. balanced c)"
  unfolding start_tx_def start_existing_def
  by (intro succ_bind [OF succ_bal_queries(1)] succ_bind [OF succ_if, where P = "balanced c" and Q = "\<lambda>_. balanced c"]
      succ_if succ_ret succ_throw succ_bind [OF succ_bal_queries(2)] succ_bind [OF succ_bal_queries(4)]
      succ_bind [OF succ_bal_queries(16)] succ_bal_queries succ_bal_open)
    (simp_all add: start_events_def)

lemma succ_bal_continue: "succ (balanced c) (continueWorkflowAsNew X S now req k we rid cmd) (\<lambda>_. balanced c)"
  unfolding continueWorkflowAsNew_def Let_def
  by (intro succ_bind [OF succ_bal_queries(3)] succ_bind [OF succ_bal_queries(16)] succ_bal_open)
    (simp_all add: continue_events_def)

lemma succ_bal_bodies:
  "succ (balanced c) (signal_tx X S now gonow ns sp) (\<lambda>_. balanced c)"
  "succ (balanced c) (cancel_tx X S now gonow ns cp) (\<lambda>_. balanced c)"
  "succ (balanced c) (terminate_tx X now ns wid rid reason) (\<lambda>_. balanced c)"
  "NEType ev \<in> {EV_WORKFLOW_TASK_STARTED, EV_ACTIVITY_TASK_STARTED} \<Longrightarrow>
   succ (balanced c) (task_started_tx X now k ev) (\<lambda>_. balanced c)"
  unfolding signal_tx_def cancel_tx_def terminate_tx_def task_started_tx_def
  by (auto intro!: succ_bind [OF succ_bal_resolve] succ_bind [OF succ_bal_queries(4)] succ_bind [OF succ_bal_append]
      succ_bal_queries succ_bal_wake succ_ret simp: weights)

section \<open>Ending a task\<close>

text \<open>A token that names a row names it with its run.\<close>

definition names_row :: "task_token \<Rightarrow> 'b db \<Rightarrow> bool" where
  "names_row t d \<longleftrightarrow> (\<forall>r \<in> set (activity_tasks d). at_task_id r = tk_TaskID t \<longrightarrow> at_run r = token_key t)"

definition names_task :: "task_token \<Rightarrow> 'b db \<Rightarrow> bool" where
  "names_task t d \<longleftrightarrow> (\<forall>r \<in> set (workflow_tasks d). wt_task_id r = tk_TaskID t \<longrightarrow> wt_run r = token_key t)"

lemma count_delete_one:
  "distinct (map g rows) \<Longrightarrow> r \<in> set rows \<Longrightarrow> (\<And>x. x \<in> set rows \<Longrightarrow> P x \<longleftrightarrow> g x = g r) \<Longrightarrow>
   count_list (map f rows) k = count_list (map f (sql_delete P rows)) k + (if f r = k then 1 else 0)"
proof (induction rows)
  case (Cons x xs)
  show ?case
  proof (cases "r = x")
    case True
    with Cons.prems have "\<And>y. y \<in> set xs \<Longrightarrow> \<not> P y" by (force simp: image_iff)
    then have "sql_delete P xs = xs" by (simp add: sql_delete_def)
    with True Cons.prems(3) show ?thesis by (simp add: sql_delete_def)
  next
    case False
    with Cons.prems have "r \<in> set xs" by simp
    moreover from this Cons.prems have "\<not> P x" by (auto simp: image_iff)
    ultimately show ?thesis using Cons by (simp add: sql_delete_def)
  qed
qed simp

text \<open>Deleting the row a lease names takes one row from one run, or nothing at all.\<close>

lemma count_lease_delete:
  assumes "distinct (map tid rows)" and "rows_affected (lease_match tid lease i u) rows \<noteq> 0"
    and "\<And>r. r \<in> set rows \<Longrightarrow> tid r = i \<Longrightarrow> run r = k0"
  shows "count_list (map run rows) k =
     count_list (map run (sql_delete (lease_match tid lease i u) rows)) k + (if k0 = k then 1 else 0)"
proof -
  let ?m = "lease_match tid lease i u"
  obtain r where r: "r \<in> set rows" "?m r" using assms(2) by (auto simp: rows_affected_0)
  have "?m x \<longleftrightarrow> tid x = tid r" if "x \<in> set rows" for x
  proof
    assume "tid x = tid r"
    with assms(1) that r(1) have "x = r" by (auto simp: distinct_map dest: inj_onD)
    with r(2) show "?m x" by simp
  qed (use r(2) in \<open>simp add: lease_match_def\<close>)
  from count_delete_one [OF assms(1) r(1) this, of run k]
  have "count_list (map run rows) k = count_list (map run (sql_delete ?m rows)) k + (if run r = k then 1 else 0)" .
  moreover have "run r = k0" using assms(3) [OF r(1)] r(2) by (simp add: lease_match_def)
  ultimately show ?thesis by simp
qed

lemma delete_none: "rows_affected P rows = 0 \<Longrightarrow> sql_delete P rows = rows"
  by (auto simp: rows_affected_0 sql_delete_def intro: filter_True)

definition answerable :: "bool \<Rightarrow> task_token \<Rightarrow> 'b db \<Rightarrow> bool" where
  "answerable c t d \<longleftrightarrow> balanced c d \<and> names_row t d \<and> distinct (map at_task_id (activity_tasks d))"

definition reportable :: "bool \<Rightarrow> task_token \<Rightarrow> 'b db \<Rightarrow> bool" where
  "reportable c t d \<longleftrightarrow> balanced c d \<and> names_task t d \<and> distinct (map wt_task_id (workflow_tasks d))"

lemma succ_end_row:
  "succ (answerable c t) (q_CompleteActivityTask (tk_TaskID t) u)
     (\<lambda>n d. if n = 0 then balanced c d else lacks c (token_key t) 1 0 0 d)"
proof (rule succI)
  fix d :: "'a db" and n d'
  let ?m = "lease_match at_task_id at_lease_token (tk_TaskID t) u"
  assume a: "answerable c t d" and q: "q_CompleteActivityTask (tk_TaskID t) u d = (Inr n, d')"
  then have n: "n = rows_affected ?m (activity_tasks d)" and d': "d' = d\<lparr>activity_tasks := sql_delete ?m (activity_tasks d)\<rparr>"
    by (simp_all add: q_CompleteActivityTask_def Let_def)
  show "if n = 0 then balanced c d' else lacks c (token_key t) 1 0 0 d'"
  proof (cases "n = 0")
    case True
    with a n show ?thesis by (simp add: d' answerable_def delete_none)
  next
    case False
    have "open_activities k d = open_activities k d' + (if token_key t = k then 1 else 0)" for k
      using count_lease_delete [of at_task_id "activity_tasks d" at_lease_token "tk_TaskID t" u at_run "token_key t" k] a False n
      by (simp add: open_activities_def d' answerable_def names_row_def)
    with a False show ?thesis
      by (auto simp: lacks_def answerable_def balanced_def d' due_def run_events_def open_timers_def open_tasks_def)
  qed
qed

lemma delete_task_lacks:
  assumes "reportable c t d" and "rows_affected (presents X t) (workflow_tasks d) \<noteq> 0"
  shows "lacks c (token_key t) 0 0 1 (d\<lparr>workflow_tasks := sql_delete (presents X t) (workflow_tasks d)\<rparr>)"
proof -
  let ?d = "d\<lparr>workflow_tasks := sql_delete (presents X t) (workflow_tasks d)\<rparr>"
  have "open_tasks k d = open_tasks k ?d + (if token_key t = k then 1 else 0)" for k
    using count_lease_delete [of wt_task_id "workflow_tasks d" wt_lease_token "tk_TaskID t" _ wt_run "token_key t" k] assms
    by (simp add: open_tasks_def reportable_def names_task_def)
  with assms(1) show ?thesis
    by (auto simp: lacks_def reportable_def balanced_def due_def run_events_def open_timers_def open_activities_def)
qed

lemma succ_bal_complete_activity:
  "succ (answerable c t) (complete_activity_tx X S now gonow t res) (\<lambda>_. balanced c)"
proof -
  have get: "succ (answerable c t) (mapErr h (q_GetActivityTaskByLease i u)) (\<lambda>_. answerable c t)" for h i u
    by (rule succ_mapErr, rule succI) (auto simp: q_GetActivityTaskByLease_def split: option.splits)
  have row: "succ (answerable c t) (completeActivityTaskRow X t) (\<lambda>_. lacks c (token_key t) 1 0 0)"
    unfolding completeActivityTaskRow_def Let_def
    by (rule succ_bind [OF get], rule succ_bind [OF succ_end_row]) (auto intro!: succ_if succ_throw succ_ret)
  show ?thesis
    unfolding complete_activity_tx_def
    by (rule succ_bind [OF row], rule succ_post [OF succ_wake]) (simp add: weights)
qed

lemma succ_bal_fail_activity:
  "succ (answerable c t) (fail_activity_tx X S now gonow t row f) (\<lambda>_. balanced c)"
proof -
  have wake: "succ (lacks c (token_key t) 1 0 0) (wake_run X S now gonow (token_key t)
      (newEvent EV_ACTIVITY_TASK_FAILED a)) (\<lambda>_. balanced c)" for a
    by (rule succ_post [OF succ_wake]) (simp add: weights)
  show ?thesis
    unfolding fail_activity_tx_def
    by (rule succ_bind [OF succ_end_row], rule succ_if, rule succ_throw, rule succ_pre [OF wake]) simp
qed

text \<open>A reported failure, run to its end, gives the run its task back.\<close>

lemma balanced_report:
  assumes "db_wf (sdb s)" and "balanced c (sdb s)" and "names_task t (sdb s)"
  shows "balanced c (sdb (snd (FailWorkflowTask X S E t s)))"
proof (cases "tk_Kind t = TaskTokenKindWorkflow \<and> rows_affected (presents X t) (workflow_tasks (sdb s)) \<noteq> 0")
  case False
  then have "sdb (snd (FailWorkflowTask X S E t s)) = sdb s"
    by (auto simp: FailWorkflowTask_def Let_def monad_simps q_CompleteWorkflowTask_def delete_none)
  with assms(2) show ?thesis by simp
next
  case True
  let ?d1 = "(sdb s)\<lparr>workflow_tasks := sql_delete (presents X t) (workflow_tasks (sdb s))\<rparr>"
  let ?d2 = "snd (q_SetStickyExecution (db_now E 2) (token_key t) None None ?d1)"
  have wt: "distinct (map wt_task_id (workflow_tasks (sdb s)))" "\<forall>r \<in> set (workflow_tasks (sdb s)). wt_run r \<in> we_keys (sdb s)"
    using assms(1) by (simp_all add: db_wf_def gen_wf_def wt_wf_def wtq.leases_wf_def)
  have "lacks c (token_key t) 0 0 1 ?d1"
    by (rule delete_task_lacks) (use assms wt True in \<open>simp_all add: reportable_def\<close>)
  then have d2: "lacks c (token_key t) 0 0 1 ?d2" using lacks_works [OF works_queries(18)] by blast
  obtain r where r: "r \<in> set (workflow_tasks (sdb s))" "presents X t r" using True by (auto simp: rows_affected_0)
  then have "wt_run r = token_key t" using assms(3) by (simp add: names_task_def lease_match_def)
  with r(1) wt(2) have "token_key t \<in> we_keys (sdb s)" by force
  then obtain we where "find_we (token_key t) ?d1 = Some we"
    using find_we_None [of "token_key t" "sdb s"] by (auto simp: find_we_def)
  with True obtain ep where "(ep_namespace_id ep, ep_workflow_id ep, ep_run_id ep) = token_key t"
      and "sdb (snd (FailWorkflowTask X S E t s)) = snd (q_EnqueueWorkflowTask (db_now E 3) ep ?d2)"
    by (force simp: FailWorkflowTask_def Let_def monad_simps q_CompleteWorkflowTask_def q_GetWorkflowExecution_eq
        q_SetStickyExecution_def q_EnqueueWorkflowTask_def token_key_def)
  with succD [OF succ_enqueue_task d2] show ?thesis by (simp add: q_EnqueueWorkflowTask_def)
qed

section \<open>Firing a timer\<close>

lemma succ_bal_fire: "succ (\<lambda>d. balanced c d \<and> distinct (map tm_key (timers d))) (fire_tx X S E) (\<lambda>_. balanced c)"
proof (rule succI, elim conjE)
  fix d x d' assume d: "balanced c d" "distinct (map tm_key (timers d))" and f: "fire_tx X S E d = (Inr x, d')"
  obtain r d1 where deq: "q_DequeueDueTimer (db_now E 0) (locked_timers E) d = (r, d1)" by fastforce
  show "balanced c d'"
  proof (cases r)
    case (Inl e)
    with deq have "d1 = d" by (auto simp: q_DequeueDueTimer_def split: option.splits)
    with Inl f deq d show ?thesis by (auto simp: fire_tx_def split: if_splits)
  next
    case (Inr t)
    with deq have t: "t \<in> set (timers d)" and d1: "d1 = d\<lparr>timers := sql_delete (\<lambda>x. tm_key x = tm_key t) (timers d)\<rparr>"
      by (auto simp: q_DequeueDueTimer_def split: option.splits dest: min_by_mem)
    from count_delete_one [OF d(2) t refl, of tm_run]
    have "open_timers k d = open_timers k d1 + (if tm_run t = k then 1 else 0)" for k
      by (simp add: open_timers_def d1)
    with d(1) have lacks: "lacks c (tm_run t) 0 1 0 d1"
      by (auto simp: lacks_def balanced_def d1 due_def run_events_def open_activities_def open_tasks_def)
    from Inr f deq obtain q where "wake_run X S (db_now E 0) (go_now E 0) (tm_run t)
        (newEvent EV_TIMER_FIRED (TimerFired (tm_timer_id t))) d1 = (Inr q, d')"
      by (auto simp: fire_tx_def ret_def tm_run_def elim!: bindM_InrE)
    from succD [OF succ_wake lacks this] show ?thesis by (simp add: weights)
  qed
qed

section \<open>Completing a workflow task\<close>

text \<open>The events of a response and the rows it enqueues balance; the response ends one workflow task.\<close>

definition acc_balanced :: "'b cmd_acc \<Rightarrow> bool" where
  "acc_balanced a \<longleftrightarrow> (\<Sum>ev\<leftarrow>ca_events a. aw (NEType ev)) = int (length (ca_enqueues a)) \<and>
     (\<Sum>ev\<leftarrow>ca_events a. tw (NEType ev)) = int (length (ca_timers a)) \<and> (\<Sum>ev\<leftarrow>ca_events a. ww (NEType ev)) = - 1"

lemma process_command_balanced:
  "acc_balanced a \<Longrightarrow> process_command X S E k we c a = Inr a' \<Longrightarrow> acc_balanced a'"
  by (auto simp: process_command_def acc_balanced_def weights Let_def split: command.splits)

lemma process_commands_balanced:
  "acc_balanced a \<Longrightarrow> process_commands X S E k we cs a = Inr a' \<Longrightarrow> acc_balanced a'"
  by (induction cs arbitrary: a) (auto split: sum.splits dest: process_command_balanced)

lemma initial_acc_balanced: "acc_balanced initial_acc"
  by (simp add: acc_balanced_def initial_acc_def weights)

lemma succ_forM_count:
  "(\<And>x n. x \<in> set xs \<Longrightarrow> succ (I (Suc n)) (f x) (\<lambda>_. I n)) \<Longrightarrow> succ (I (length xs)) (forM f xs) (\<lambda>_. I 0)"
  by (induction xs) (auto intro: succ_ret succ_bind)

lemma succ_enqueue_row:
  assumes "(ap_namespace_id (fst q), ap_workflow_id (fst q), ap_run_id (fst q)) = k"
  shows "succ (lacks c k (int (Suc n)) m p) (enqueue_activity now ids q) (\<lambda>_. lacks c k (int n) m p)"
proof (rule succI)
  fix d x d' assume d: "lacks c k (int (Suc n)) m p d" and q: "enqueue_activity now ids q d = (Inr x, d')"
  from q assms obtain r where "d' = d\<lparr>activity_tasks := activity_tasks d @ [r], at_seq := at_seq d + 1\<rparr>" "at_run r = k"
    by (auto simp: enqueue_activity_def q_EnqueueActivityTask_def new_at_row_def at_run_def split: option.splits)
  with d show "lacks c k (int n) m p d'"
    by (auto simp: lacks_def due_def run_events_def open_activities_def open_timers_def open_tasks_def)
qed

lemma succ_insert_row: "succ (lacks c k n (int (Suc m)) p) (insert_pending_timer E k ids q) (\<lambda>_. lacks c k n (int m) p)"
proof (rule succI)
  fix d x d' assume d: "lacks c k n (int (Suc m)) p d" and q: "insert_pending_timer E k ids q d = (Inr x, d')"
  from q obtain r where "d' = d\<lparr>timers := timers d @ [r]\<rparr>" "tm_run r = k"
    by (auto simp: insert_pending_timer_def q_InsertTimer_def tm_run_def split: prod.splits if_splits)
  with d show "lacks c k n (int m) p d'"
    by (auto simp: lacks_def due_def run_events_def open_activities_def open_timers_def open_tasks_def)
qed

lemma succ_bal_effects:
  assumes "acc_ok k a" and "acc_balanced a"
  shows "succ (lacks c k 0 0 1) (complete_effects X E k we a) (\<lambda>_. balanced c)"
proof -
  let ?n = "length (ca_enqueues a)" and ?m = "length (ca_timers a)"
  have app: "succ (lacks c k 0 0 1) (AppendHistory X now k e (ca_events a)) (\<lambda>_. lacks c k (int ?n) (int ?m) 0)" for now e
    using succ_append [of c k 0 0 1 X now e "ca_events a"] assms(2) by (simp add: acc_balanced_def)
  have act: "succ (lacks c k (int ?n) (int ?m) 0) (forM (enqueue_activity now ids) (ca_enqueues a)) (\<lambda>_. lacks c k 0 (int ?m) 0)"
    for now ids
  proof -
    have "succ ((\<lambda>n. lacks c k (int n) (int ?m) 0) ?n) (forM (enqueue_activity now ids) (ca_enqueues a))
        (\<lambda>_. (\<lambda>n. lacks c k (int n) (int ?m) 0) 0)"
      by (rule succ_forM_count, rule succ_enqueue_row) (use assms(1) in \<open>simp add: acc_ok_def\<close>)
    then show ?thesis by simp
  qed
  have tim: "succ (lacks c k 0 (int ?m) 0) (forM (insert_pending_timer E k ids) (enumerate 0 (ca_timers a))) (\<lambda>_. balanced c)" for ids
    using succ_forM_count [where I = "\<lambda>n. lacks c k 0 (int n) 0" and xs = "enumerate 0 (ca_timers a)", OF succ_insert_row] by simp
  show ?thesis
    unfolding complete_effects_def by (intro succ_bind [OF app] succ_bind [OF act] tim)
qed

lemma succ_bal_rest:
  "succ (\<lambda>s. balanced c (sdb s)) (complete_rest X S E k sticky we a) (\<lambda>_ s. balanced c (sdb s))"
proof -
  let ?I = "\<lambda>s. balanced c (sdb s)"
  have close: "succ ?I (bindM (onDB (q_CloseWorkflowExecution now k st)) (\<lambda>_. count f)) (\<lambda>_. ?I)" for now st f
    by (rule succ_bind [OF succ_onDB [OF succ_bal_queries(17)]]) (rule succ_count)
  have can: "succ ?I (case o' of None \<Rightarrow> ret '''' | Some (cmd, rid) \<Rightarrow>
      bindM (onDB (continueWorkflowAsNew X S now req k we rid cmd)) (\<lambda>_. bindM (count f) (\<lambda>_. ret (g cmd)))) (\<lambda>_. ?I)"
    for o' now req f and g :: "continue_as_new_cmd \<Rightarrow> string"
    by (auto split: option.split intro!: succ_ret succ_bind [OF succ_onDB [OF succ_bal_continue]] succ_bind [OF succ_count])
  show ?thesis
    unfolding complete_rest_def Let_def
    by (intro succ_bind [OF can] succ_bind [where P = ?I and Q = "\<lambda>_. ?I"] succ_if succ_ret close
        succ_onDB succ_bal_queries; assumption)
qed

lemma balanced_complete:
  assumes "complete_tx X S E token cmds sticky s = (Inr r, s')" and "reportable c token (sdb s)"
  shows "balanced c (sdb s')"
proof -
  let ?k = "token_key token"
  from assms(1) obtain we a d1 d2 where f: "complete_front X S E token cmds (sdb s) = (Inr (we, a), d1)"
      and e: "complete_effects X E ?k we a d1 = (Inr (), d2)"
      and rest: "complete_rest X S E ?k sticky we a (s\<lparr>sdb := d2\<rparr>) = (Inr r, s')"
    by (rule complete_tx_InrE)
  note front = complete_front_InrD [OF f]
  have "lacks c ?k 0 0 1 d1" unfolding front(1) by (rule delete_task_lacks [OF assms(2) front(5)])
  from succD [OF succ_bal_effects this e] process_commands_ok [OF initial_acc_ok front(3)]
    process_commands_balanced [OF initial_acc_balanced front(3)]
  have "balanced c d2" by blast
  with succD [OF succ_bal_rest _ rest] show ?thesis by simp
qed

section \<open>Tokens that were handed out\<close>

text \<open>
  A worker knows a token because a dispatch gave it the lease of a row: the tokens in circulation
  are those of the leases that were in a task table at some time. In an honest run every answer to an
  activity or workflow task presents one of them; the signature of the token is what keeps a server from
  accepting any other. A failure a worker reports on a workflow task is a step as a whole; when \<open>R\<close> holds
  its statements are steps of their own too, so that a server may stop between them.
\<close>

definition lease_tokens :: "'b db \<Rightarrow> task_token set" where
  "lease_tokens d =
     (\<lambda>r. newTaskToken TaskTokenKindActivity (at_namespace_id r) (at_workflow_id r) (at_run_id r)
        (at_task_id r) (uuidString (at_lease_token r))) ` {r \<in> set (activity_tasks d). at_lease_token r \<noteq> None} \<union>
     (\<lambda>r. newTaskToken TaskTokenKindWorkflow (wt_namespace_id r) (wt_workflow_id r) (wt_run_id r)
        (wt_task_id r) (uuidString (wt_lease_token r))) ` {r \<in> set (workflow_tasks d). wt_lease_token r \<noteq> None}"

inductive honest :: "'b ext \<Rightarrow> store \<Rightarrow> bool \<Rightarrow> task_token set \<Rightarrow> 'b db \<Rightarrow> bool" for X S R where
  init: "honest X S R {} (initial_db now)"
| step: "honest X S R T d \<Longrightarrow> token_step X S (\<lambda>t. t \<in> T) R (\<lambda>_. True) d d' \<Longrightarrow> honest X S R (T \<union> lease_tokens d') d'"
| report: "honest X S R T (sdb s) \<Longrightarrow> t \<in> T \<Longrightarrow> s' = snd (FailWorkflowTask X S E t s) \<Longrightarrow>
    honest X S R (T \<union> lease_tokens (sdb s')) (sdb s')"

lemma report_steps: "(db_step X S)\<^sup>*\<^sup>* (sdb s) (sdb (snd (FailWorkflowTask X S E t s)))"
  using serve_steps [of X S s E "ReqFailWorkflow t"] by simp

lemma honest_reachable: "honest X S R T d \<Longrightarrow> reachable X S d"
proof (induction rule: honest.induct)
  case (report T s t s' E)
  then show ?case using steps_reachable [OF report_steps] by simp
qed (auto intro: reachable.intros token_step_mono)

text \<open>A token keeps naming its row: ids are not used twice and a row keeps its run.\<close>

definition issued :: "task_token \<Rightarrow> 'b db \<Rightarrow> bool" where
  "issued t d \<longleftrightarrow> (tk_Kind t = TaskTokenKindActivity \<longrightarrow> tk_TaskID t < at_seq d \<and> names_row t d) \<and>
     (tk_Kind t = TaskTokenKindWorkflow \<longrightarrow> tk_TaskID t < wt_seq d \<and> names_task t d)"

lemma names_kept:
  fixes i n :: int
  assumes "f ` set rows' \<subseteq> f ` set rows \<union> {p. n \<le> fst p}" and "\<forall>r \<in> set rows. fst (f r) = i \<longrightarrow> snd (f r) = k" and "i < n"
  shows "\<forall>r \<in> set rows'. fst (f r) = i \<longrightarrow> snd (f r) = k"
proof (intro ballI impI)
  fix r assume "r \<in> set rows'" "fst (f r) = i"
  with assms(1,3) obtain r0 where "r0 \<in> set rows" "f r = f r0" by force
  with assms(2) \<open>fst (f r) = i\<close> show "snd (f r) = k" by auto
qed

lemma issued_kept: "grows d d' \<Longrightarrow> issued t d \<Longrightarrow> issued t d'"
proof -
  assume g: "grows d d'" and i: "issued t d"
  have "tk_TaskID t < at_seq d' \<and> names_row t d'" if "tk_Kind t = TaskTokenKindActivity"
    using g i that names_kept [of at_names "activity_tasks d'" "activity_tasks d" "at_seq d" "tk_TaskID t" "token_key t"]
    by (auto simp: issued_def names_row_def at_names_def grows_def seq_le_def rows_ext_def)
  moreover have "tk_TaskID t < wt_seq d' \<and> names_task t d'" if "tk_Kind t = TaskTokenKindWorkflow"
    using g i that names_kept [of wt_names "workflow_tasks d'" "workflow_tasks d" "wt_seq d" "tk_TaskID t" "token_key t"]
    by (auto simp: issued_def names_task_def wt_names_def grows_def seq_le_def rows_ext_def)
  ultimately show ?thesis by (simp add: issued_def)
qed

lemma id_names: "distinct (map g rows) \<Longrightarrow> r \<in> set rows \<Longrightarrow> \<forall>x \<in> set rows. g x = g r \<longrightarrow> f x = f r"
  by (auto simp: distinct_map dest: inj_onD)

lemma db_wf_ids:
  assumes "db_wf d"
  shows "distinct (map at_task_id (activity_tasks d))" "distinct (map wt_task_id (workflow_tasks d))"
    "distinct (map tm_key (timers d))" "\<forall>r \<in> set (activity_tasks d). at_task_id r < at_seq d"
    "\<forall>r \<in> set (workflow_tasks d). wt_task_id r < wt_seq d"
  using assms by (simp_all add: db_wf_def gen_wf_def at_wf_def wt_wf_def tm_wf_def atq.leases_wf_def wtq.leases_wf_def)

lemma issued_lease:
  assumes "db_wf d" and "t \<in> lease_tokens d"
  shows "issued t d"
proof -
  from assms(2) consider
    (activity) r where "r \<in> set (activity_tasks d)" "t = newTaskToken TaskTokenKindActivity (at_namespace_id r)
      (at_workflow_id r) (at_run_id r) (at_task_id r) (uuidString (at_lease_token r))"
  | (task) r where "r \<in> set (workflow_tasks d)" "t = newTaskToken TaskTokenKindWorkflow (wt_namespace_id r)
      (wt_workflow_id r) (wt_run_id r) (wt_task_id r) (uuidString (wt_lease_token r))"
    unfolding lease_tokens_def by blast
  then show ?thesis
  proof cases
    case activity
    then have t: "token_key t = at_run r" "tk_TaskID t = at_task_id r" "tk_Kind t = TaskTokenKindActivity"
      by (simp_all add: newTaskToken_def token_key_def at_run_def)
    have "names_row t d" unfolding names_row_def t by (rule id_names [OF db_wf_ids(1) [OF assms(1)] activity(1)])
    with t activity(1) db_wf_ids(4) [OF assms(1)] show ?thesis by (simp add: issued_def)
  next
    case task
    then have t: "token_key t = wt_run r" "tk_TaskID t = wt_task_id r" "tk_Kind t = TaskTokenKindWorkflow"
      by (simp_all add: newTaskToken_def token_key_def wt_run_def)
    have "names_task t d" unfolding names_task_def t by (rule id_names [OF db_wf_ids(2) [OF assms(1)] task(1)])
    with t task(1) db_wf_ids(5) [OF assms(1)] show ?thesis by (simp add: issued_def)
  qed
qed

section \<open>Every step keeps the balance\<close>

lemma balanced_rollback [simp]: "balanced c (rollback d d') = balanced c d"
  by (rule balanced_works) (simp add: works_def rollback_def)

lemma tx_balanced: "succ P m (\<lambda>_. balanced c) \<Longrightarrow> P d \<Longrightarrow> balanced c d \<Longrightarrow> balanced c (tx m d)"
  by (auto simp: tx_def split: prod.split sum.split dest: succD)

lemmas balanced_queries = works_queries [THEN balanced_works] works_dequeues [THEN balanced_works]

lemma balanced_loose:
  "balanced False (snd (q_CompleteWorkflowTask tid lu d)) = balanced False d"
  "balanced False (snd (q_EnqueueWorkflowTask now ep d)) = balanced False d"
  by (simp_all add: balanced_def due_def run_events_def open_activities_def open_timers_def q_CompleteWorkflowTask_def
      q_EnqueueWorkflowTask_def Let_def)

lemma token_step_balanced:
  assumes "token_step X S P R Q d d'" and "db_wf d" and "balanced (\<not> R) d" and "\<And>t. P t \<Longrightarrow> issued t d"
  shows "balanced (\<not> R) d'"
  using assms
proof (induction rule: token_step.induct)
  case (complete_workflow token s E cmds sticky)
  then have "reportable (\<not> R) token (sdb s)" by (simp add: reportable_def issued_def db_wf_ids)
  with complete_workflow show ?case
    by (cases "complete_tx X S E token cmds sticky s"; cases "fst (complete_tx X S E token cmds sticky s)")
      (auto simp: withTx_def dest: balanced_complete)
next
  case (complete_activity token d now gonow res)
  then show ?case
    by (intro tx_balanced [OF succ_bal_complete_activity]) (simp_all add: answerable_def issued_def db_wf_ids)
next
  case (fail_activity token d now gonow row f)
  then show ?case
    by (intro tx_balanced [OF succ_bal_fail_activity]) (simp_all add: answerable_def issued_def db_wf_ids)
next
  case fire_timer
  then show ?case by (intro tx_balanced [OF succ_bal_fire]) (simp_all add: db_wf_ids)
next
  case (started ev d now k)
  then show ?case by (intro tx_balanced [OF succ_bal_bodies(4)])
qed (simp_all add: tx_balanced [OF succ_bal_start] tx_balanced [OF succ_bal_bodies(1)] tx_balanced [OF succ_bal_bodies(2)]
    tx_balanced [OF succ_bal_bodies(3)] balanced_queries balanced_loose)

lemma honest_issued: "honest X S R T d \<Longrightarrow> t \<in> T \<Longrightarrow> issued t d"
proof (induction rule: honest.induct)
  case (step T d d')
  have wf: "db_wf d'" using honest.step [OF step.hyps] honest_reachable reachable_wf by blast
  show ?case
    using step issued_kept [OF token_step_grows [OF step.hyps(2)]] issued_lease [OF wf] by auto
next
  case (report T s t' s' E)
  have wf: "db_wf (sdb s')" using honest.report [OF report.hyps] honest_reachable reachable_wf by blast
  show ?case
    using report issued_kept [OF dbs.steps_le [OF report_steps]] issued_lease [OF wf] by auto
qed simp

lemma honest_balanced: "honest X S R T d \<Longrightarrow> balanced (\<not> R) d"
proof (induction rule: honest.induct)
  case init
  show ?case
    by (simp add: balanced_def due_def run_events_def open_activities_def open_timers_def open_tasks_def initial_db_def)
next
  case (step T d d')
  have "db_wf d" using step.hyps(1) by (intro reachable_wf honest_reachable)
  with token_step_balanced [OF step.hyps(2)] step.IH honest_issued [OF step.hyps(1)] show ?case by blast
next
  case (report T s t s' E)
  have wf: "db_wf (sdb s)" using report.hyps(1) by (intro reachable_wf honest_reachable)
  show ?case
  proof (cases "tk_Kind t = TaskTokenKindWorkflow")
    case True
    with honest_issued [OF report.hyps(1,2)] have "names_task t (sdb s)" by (simp add: issued_def)
    with balanced_report [OF wf report.IH] report.hyps(3) show ?thesis by simp
  next
    case False
    with report.IH report.hyps(3) show ?thesis by (simp add: FailWorkflowTask_def throw_def)
  qed
qed

section \<open>Honest servers\<close>

abbreviation tables :: "'b db \<Rightarrow> 'b at_row list \<times> wt_row list" where
  "tables d \<equiv> (activity_tasks d, workflow_tasks d)"

lemma keeps_tables_append: "keeps (\<lambda>d. tables d = ts) (AppendHistory X now k e evs)"
proof -
  have "keeps (\<lambda>d. tables d = ts) (insert_event X now k p)" for p
    by (rule keepsI) (simp add: insert_event_def q_InsertHistoryEvent_def monad_simps split: option.split)
  moreover have "keeps (\<lambda>d. tables d = ts) (q_AdvanceNextEventID now k n e)" for n
    by (rule keepsI) (simp add: q_AdvanceNextEventID_def split: option.split)
  ultimately show ?thesis
    unfolding AppendHistory_def by (intro keeps_if keeps_bindM keeps_mapErr keeps_forM keeps_ret)
qed

lemma keeps_tables_started: "keeps (\<lambda>d. tables d = ts) (task_started_tx X now k ev)"
  unfolding task_started_tx_def
  by (intro keeps_bindM keeps_tables_append keeps_ret) (rule keepsI, simp add: q_GetWorkflowExecution_eq split: option.split)

text \<open>Recording that a task was started touches no row of the task tables.\<close>

lemma started_tables:
  assumes "withTx (onDB (task_started_tx X now k ev)) s = (r, s1)"
  shows "tables (sdb s1) = tables (sdb s)"
proof -
  let ?m = "task_started_tx X now k ev"
  have "sdb s1 = tx ?m (sdb s)" using withTx_onDB [of ?m s] assms by simp
  then show ?thesis
    using keepsD [OF keeps_tables_started [of "tables (sdb s)"], of "sdb s" X now k ev]
    by (cases "?m (sdb s)") (auto simp: tx_def rollback_def split: sum.splits)
qed

lemma dispatch_activity_row_InrD:
  assumes "dispatch_activity_row X S E nsID row s = (Inr task, s')"
  shows "activity_tasks (sdb s') = activity_tasks (sdb s)"
    and "Encode X (newTaskToken TaskTokenKindActivity nsID (at_workflow_id row) (at_run_id row) (at_task_id row)
       (uuidString (at_lease_token row))) (taskTokenSigningKey S) = Inr (da_TaskToken task)"
proof -
  let ?m = "task_started_tx X (db_now E 1) (nsID, at_workflow_id row, at_run_id row)
      (newEvent EV_ACTIVITY_TASK_STARTED (ActivityTaskStarted (at_activity_id row) (at_attempt row)))"
  obtain u s1 inp bs where tx: "withTx (onDB ?m) s = (Inr u, s1)"
      and enc: "Encode X (newTaskToken TaskTokenKindActivity nsID (at_workflow_id row) (at_run_id row) (at_task_id row)
       (uuidString (at_lease_token row))) (taskTokenSigningKey S) = Inr bs"
      and fin: "sdb s' = sdb s1" "da_TaskToken task = bs"
    using assms unfolding dispatch_activity_row_def
    by (auto simp: liftE_def count_def modM_def ret_def throw_def elim!: bindM_InrE split: option.splits)
  have "activity_tasks (sdb s1) = activity_tasks (sdb s)" using started_tables [OF tx] by simp
  with fin enc show "activity_tasks (sdb s') = activity_tasks (sdb s)"
    "Encode X (newTaskToken TaskTokenKindActivity nsID (at_workflow_id row) (at_run_id row) (at_task_id row)
       (uuidString (at_lease_token row))) (taskTokenSigningKey S) = Inr (da_TaskToken task)" by simp_all
qed

text \<open>The token a dispatch returns is that of a lease in the table.\<close>

lemma dispatched_token_issued:
  assumes "DispatchActivityTask X S E ns q ps s = (Inr task, s')"
  shows "\<exists>t \<in> lease_tokens (sdb s'). Encode X t (taskTokenSigningKey S) = Inr (da_TaskToken task)"
proof -
  from assms obtain nsID s0 row s1 where
      deq: "onDB (q_DequeueActivityTask (db_now E 0) (lease_uuid E 0) (locked E) q nsID ps) s0 = (Inr row, s1)"
      and rest: "dispatch_activity_row X S E nsID row s1 = (Inr task, s')"
    unfolding DispatchActivityTask_def by (auto simp: mapErr_def elim!: bindM_InrE split: prod.splits sum.splits)
  from deq obtain d1 where "q_DequeueActivityTask (db_now E 0) (lease_uuid E 0) (locked E) q nsID ps (sdb s0) = (Inr row, d1)"
      and s1: "s1 = s0\<lparr>sdb := d1\<rparr>" by (rule onDB_InrE)
  then have "lease_dequeue at_task_id (at_eligible (db_now E 0) (locked E) q nsID ps) (at_grant (lease_uuid E 0) (db_now E 0))
      (activity_tasks (sdb s0)) = Some (row, activity_tasks d1)"
    by (auto simp: q_DequeueActivityTask_def split: option.splits)
  from atq.dequeue_SomeE [OF this] obtain r where r: "r \<in> set (activity_tasks (sdb s0))" "at_namespace_id r = nsID"
      and row: "row = at_grant (lease_uuid E 0) (db_now E 0) r"
      and rows: "activity_tasks d1 = sql_update (\<lambda>x. at_task_id x = at_task_id r) (at_grant (lease_uuid E 0) (db_now E 0)) (activity_tasks (sdb s0))"
    by (metis at_eligible_def)
  have mem: "row \<in> set (activity_tasks d1)" using r(1) row rows by (force simp: set_sql_update)
  have same: "activity_tasks (sdb s') = activity_tasks d1"
    and enc: "Encode X (newTaskToken TaskTokenKindActivity nsID (at_workflow_id row) (at_run_id row) (at_task_id row)
       (uuidString (at_lease_token row))) (taskTokenSigningKey S) = Inr (da_TaskToken task)"
    using dispatch_activity_row_InrD [OF rest] s1 by simp_all
  have "at_lease_token row \<noteq> None" "at_namespace_id row = nsID" using row r(2) by (simp_all add: at_grant_def)
  with mem same enc show ?thesis unfolding lease_tokens_def by (intro bexI [OF _ UnI1]) (auto simp: image_iff)
qed

lemma dispatch_workflow_row_InrD:
  assumes "dispatch_workflow_row X S E nsID row s = (Inr task, s')"
  shows "workflow_tasks (sdb s') = workflow_tasks (sdb s)"
    and "Encode X (newTaskToken TaskTokenKindWorkflow nsID (wt_workflow_id row) (wt_run_id row) (wt_task_id row)
       (uuidString (wt_lease_token row))) (taskTokenSigningKey S) = Inr (dw_TaskToken task)"
proof -
  obtain u s1 bs where tx: "withTx (onDB (task_started_tx X (db_now E 2) (nsID, wt_workflow_id row, wt_run_id row)
      (newEvent EV_WORKFLOW_TASK_STARTED (WorkflowTaskStarted '''')))) s = (Inr u, s1)"
      and enc: "Encode X (newTaskToken TaskTokenKindWorkflow nsID (wt_workflow_id row) (wt_run_id row) (wt_task_id row)
       (uuidString (wt_lease_token row))) (taskTokenSigningKey S) = Inr bs"
      and fin: "sdb s' = sdb s1" "dw_TaskToken task = bs"
    using assms unfolding dispatch_workflow_row_def Let_def
    by (auto simp: liftE_def count_def modM_def ret_def throw_def onDB_def q_ListHistoryEvents_def q_GetWorkflowExecution_eq
        elim!: bindM_InrE split: prod.splits option.splits)
  have "workflow_tasks (sdb s1) = workflow_tasks (sdb s)" using started_tables [OF tx] by simp
  with fin enc show "workflow_tasks (sdb s') = workflow_tasks (sdb s)"
    "Encode X (newTaskToken TaskTokenKindWorkflow nsID (wt_workflow_id row) (wt_run_id row) (wt_task_id row)
       (uuidString (wt_lease_token row))) (taskTokenSigningKey S) = Inr (dw_TaskToken task)" by simp_all
qed

lemma query_dispatch_query: "buildQueryDispatch X S nsID row s = (Inr task, s') \<Longrightarrow> dw_Query task \<noteq> None"
  unfolding buildQueryDispatch_def Let_def by (auto simp: ret_def elim!: bindM_InrE)

lemma dispatched_workflow_token_issued:
  assumes "DispatchWorkflowTask X S E ns q w ps s = (Inr task, s')" and "dw_Query task = None"
  shows "\<exists>t \<in> lease_tokens (sdb s'). Encode X t (taskTokenSigningKey S) = Inr (dw_TaskToken task)"
proof -
  let ?deq = "\<lambda>nsID. q_DequeueWorkflowTask (db_now E 1) (lease_uuid E 1) (locked E) workflowTaskLeaseSeconds q nsID
    (if w \<noteq> '''' then Some w else None) ps"
  from assms obtain nsID s0 row s1 where deq: "onDB (?deq nsID) s0 = (Inr row, s1)"
      and rest: "dispatch_workflow_row X S E nsID row s1 = (Inr task, s')"
    unfolding DispatchWorkflowTask_def
    by (auto simp: mapErr_def elim!: bindM_InrE dest: query_dispatch_query split: prod.splits sum.splits if_splits)
  from deq obtain d1 where "?deq nsID (sdb s0) = (Inr row, d1)" and s1: "s1 = s0\<lparr>sdb := d1\<rparr>" by (rule onDB_InrE)
  then have "lease_dequeue wt_task_id (wt_eligible (db_now E 1) (locked E) q nsID (if w \<noteq> '''' then Some w else None) ps)
      (wt_grant workflowTaskLeaseSeconds (lease_uuid E 1) (db_now E 1)) (workflow_tasks (sdb s0)) = Some (row, workflow_tasks d1)"
    by (auto simp: q_DequeueWorkflowTask_def split: option.splits)
  from wtq.dequeue_SomeE [OF this] obtain r where r: "r \<in> set (workflow_tasks (sdb s0))" "wt_namespace_id r = nsID"
      and row: "row = wt_grant workflowTaskLeaseSeconds (lease_uuid E 1) (db_now E 1) r"
      and rows: "workflow_tasks d1 = sql_update (\<lambda>x. wt_task_id x = wt_task_id r)
        (wt_grant workflowTaskLeaseSeconds (lease_uuid E 1) (db_now E 1)) (workflow_tasks (sdb s0))"
    by (metis wt_eligible_def)
  have mem: "row \<in> set (workflow_tasks d1)" using r(1) row rows by (force simp: set_sql_update)
  have same: "workflow_tasks (sdb s') = workflow_tasks d1"
    and enc: "Encode X (newTaskToken TaskTokenKindWorkflow nsID (wt_workflow_id row) (wt_run_id row) (wt_task_id row)
       (uuidString (wt_lease_token row))) (taskTokenSigningKey S) = Inr (dw_TaskToken task)"
    using dispatch_workflow_row_InrD [OF rest] s1 by simp_all
  have "wt_lease_token row \<noteq> None" "wt_namespace_id row = nsID" using row r(2) by (simp_all add: wt_grant_def)
  with mem same enc show ?thesis unfolding lease_tokens_def by (intro bexI [OF _ UnI2]) (auto simp: image_iff)
qed

text \<open>
  Serving requests that present only tokens in circulation is honest, and the tokens of the leases
  that stand afterwards are in circulation too.
\<close>

lemma honest_mono: "(token_step X S (\<lambda>t. t \<in> T) R (\<lambda>_. True))\<^sup>*\<^sup>* d d' \<Longrightarrow> honest X S R T d \<Longrightarrow>
  \<exists>T'. T \<subseteq> T' \<and> honest X S R T' d' \<and> (d' = d \<or> lease_tokens d' \<subseteq> T')"
proof (induction rule: rtranclp_induct)
  case (step y z)
  then obtain T' where T': "T \<subseteq> T'" "honest X S R T' y" by blast
  have "token_step X S (\<lambda>t. t \<in> T') R (\<lambda>_. True) y z" using step.hyps(2) T'(1) by (auto intro: token_step_mono)
  from honest.step [OF T'(2) this] T'(1) show ?case by blast
qed blast

lemma serve_honest:
  assumes "honest X S R T (sdb s)" and "lease_tokens (sdb s) \<subseteq> T" and "presented req \<subseteq> T"
  shows "\<exists>T'. T \<subseteq> T' \<and> honest X S R T' (sdb (serve X S E req s)) \<and> lease_tokens (sdb (serve X S E req s)) \<subseteq> T'"
proof (cases "\<exists>t. req = ReqFailWorkflow t")
  case False
  then have "(token_step X S (\<lambda>t. t \<in> T) R (\<lambda>_. True))\<^sup>*\<^sup>* (sdb s) (sdb (serve X S E req s))"
    by (intro serve_token_steps) (use assms(3) in blast)+
  from honest_mono [OF this assms(1)] obtain T' where T': "T \<subseteq> T'" "honest X S R T' (sdb (serve X S E req s))"
      "sdb (serve X S E req s) = sdb s \<or> lease_tokens (sdb (serve X S E req s)) \<subseteq> T'" by blast
  from T'(3) T'(1) assms(2) have "lease_tokens (sdb (serve X S E req s)) \<subseteq> T'" by (elim disjE) simp_all
  with T' show ?thesis by blast
next
  case True
  then obtain t where t: "req = ReqFailWorkflow t" by blast
  show ?thesis
  proof (cases "tk_Kind t = TaskTokenKindWorkflow")
    case True
    with t assms(3) have "t \<in> T" by simp
    from honest.report [OF assms(1) this refl, of E] t show ?thesis
      by (intro exI [of _ "T \<union> lease_tokens (sdb (serve X S E req s))"]) simp
  next
    case False
    with t have "sdb (serve X S E req s) = sdb s" by (simp add: FailWorkflowTask_def throw_def)
    with assms show ?thesis by auto
  qed
qed

section \<open>Properties\<close>

text \<open>
  (C4) No work is lost and none is done twice. In every database an honest run reaches, by any
  interleaving of transactions of any number of servers, with any expired leases, retries, rolled
  back transactions, terminations, reported failures and late answers, the activities a run has scheduled
  are exactly those still in the activity table and those recorded as completed or failed, and the timers
  it has started are exactly those still in the timer table and those recorded as fired. No wake-up is lost
  either: as long as no server stops in the middle of \<open>FailWorkflowTask\<close>, the workflow tasks a run has
  scheduled are exactly those still in the task table and those recorded as completed, so a run that owes a
  worker an answer, to its start, a signal, a cancellation request, a fired timer or the end of an activity,
  has the task by which a worker is told.
\<close>

theorem work_conserved:
  assumes "honest X S R T d"
  shows "event_count EV_ACTIVITY_TASK_SCHEDULED k d =
      open_activities k d + event_count EV_ACTIVITY_TASK_COMPLETED k d + event_count EV_ACTIVITY_TASK_FAILED k d \<and>
    event_count EV_TIMER_STARTED k d = open_timers k d + event_count EV_TIMER_FIRED k d \<and>
    (\<not> R \<longrightarrow> event_count EV_WORKFLOW_TASK_SCHEDULED k d = open_tasks k d + event_count EV_WORKFLOW_TASK_COMPLETED k d)"
proof -
  have "due aw k d = int (open_activities k d)" "due tw k d = int (open_timers k d)"
    "\<not> R \<Longrightarrow> due ww k d = int (open_tasks k d)"
    using honest_balanced [OF assms] unfolding balanced_def by blast+
  then show ?thesis unfolding due_counts by linarith
qed

text \<open>The demo run, with its task answered and its activity leased and completed.\<close>

definition demo_answered :: "blob sys" where
  "demo_answered = snd (withTx (complete_tx demo_ext demo_store demo_env demo_token demo_cmds None) demo_sys3)"

definition demo_dispatched :: "blob db" where
  "demo_dispatched = snd (q_DequeueActivityTask 10 ''M'' [] ''q'' 1 [] (sdb demo_answered))"

definition demo_ended :: "blob db" where
  "demo_ended = tx (complete_activity_tx demo_ext demo_store 10 10
     (newTaskToken TaskTokenKindActivity 1 ''w'' ''r1'' 1 ''M'') None) demo_dispatched"

lemma demo_token_leased: "demo_token \<in> lease_tokens demo_db3"
  by (auto simp: lease_tokens_def demo_db3_def demo_leased_def demo_token_def wt_grant_def demo_defs uuidString_def image_iff)

lemma demo_honest: "\<exists>T. demo_token \<in> T \<and> honest demo_ext demo_store R T demo_db3"
proof -
  have "honest demo_ext demo_store R {} (initial_db 0)" by (rule honest.init)
  from honest.step [OF this token_step.start [of demo_ext demo_store _ _ _ "initial_db 0" 10 1 "''r1''" demo_start]]
  obtain T where "honest demo_ext demo_store R T demo_db" by (auto simp: tx_def demo_start_tx)
  from honest.step [OF this token_step.dequeue_workflow [of demo_ext demo_store _ _ _ demo_db 10 "''L''" "[]" 10 "''q''" 1 None "[]"]]
    demo_token_leased
  show ?thesis by (auto simp flip: demo_db3_step)
qed

lemmas demo_answer_simps = complete_eval_simps demo_sys3_def demo_db3_def demo_defs demo_leased_def wt_grant_def demo_token_def
  newTaskToken_def demo_cmds_def demo_activity_def start_events_def event_row_def

lemma demo_ended_counts:
  "open_activities demo_key demo_ended = 0 \<and> open_timers demo_key demo_ended = 1 \<and> open_tasks demo_key demo_ended = 1 \<and>
   event_count EV_ACTIVITY_TASK_COMPLETED demo_key demo_ended = 1"
  by (simp add: demo_ended_def demo_dispatched_def demo_answered_def demo_answer_simps open_activities_def open_timers_def open_tasks_def
      wt_run_def new_wt_row_def
      event_count_def run_events_def at_run_def tm_run_def q_DequeueActivityTask_def lease_dequeue_def at_eligible_def partition_ok_def
      new_at_row_def at_grant_def tx_def complete_activity_tx_def completeActivityTaskRow_def q_GetActivityTaskByLease_def
      q_CompleteActivityTask_def wake_run_def enqueue_wake_def stickyEnqueueFields_def q_EnqueueWorkflowTask_def)

lemma demo_lease_token: "newTaskToken TaskTokenKindActivity 1 ''w'' ''r1'' 1 ''M'' \<in> lease_tokens demo_dispatched"
  by (simp add: lease_tokens_def demo_dispatched_def demo_answered_def demo_answer_simps
      q_DequeueActivityTask_def lease_dequeue_def at_eligible_def partition_ok_def new_at_row_def at_grant_def uuidString_def
      AsDuration_def defaultActivityStartToCloseTimeout_def image_iff)

lemma demo_ended_honest: "\<exists>T. honest demo_ext demo_store False T demo_ended"
proof -
  obtain T where T: "demo_token \<in> T" "honest demo_ext demo_store False T (sdb demo_sys3)"
    using demo_honest by (auto simp: demo_sys3_def)
  have "tk_Kind demo_token = TaskTokenKindWorkflow" by (simp add: demo_token_def newTaskToken_def)
  from honest.step [OF T(2) token_step.complete_workflow [where P = "\<lambda>t. t \<in> T", OF this T(1)]]
  obtain T1 where "honest demo_ext demo_store False T1 (sdb demo_answered)" unfolding demo_answered_def by blast
  from honest.step [OF this token_step.dequeue_activity]
  obtain T2 where h: "honest demo_ext demo_store False (T2 \<union> lease_tokens demo_dispatched) demo_dispatched"
    unfolding demo_dispatched_def by blast
  have "newTaskToken TaskTokenKindActivity 1 ''w'' ''r1'' 1 ''M'' \<in> T2 \<union> lease_tokens demo_dispatched"
    using demo_lease_token by blast
  moreover have "tk_Kind (newTaskToken TaskTokenKindActivity 1 ''w'' ''r1'' 1 ''M'') = TaskTokenKindActivity"
    by (simp add: newTaskToken_def)
  ultimately have "token_step demo_ext demo_store (\<lambda>t. t \<in> T2 \<union> lease_tokens demo_dispatched) False (\<lambda>_. True) demo_dispatched demo_ended"
    unfolding demo_ended_def by (intro token_step.complete_activity)
  from honest.step [OF h this] show ?thesis by blast
qed

theorem work_conserved_witness:
  "event_count EV_ACTIVITY_TASK_SCHEDULED demo_key demo_ended = 1 + event_count EV_ACTIVITY_TASK_FAILED demo_key demo_ended \<and>
   event_count EV_TIMER_STARTED demo_key demo_ended = 1 + event_count EV_TIMER_FIRED demo_key demo_ended \<and>
   event_count EV_WORKFLOW_TASK_SCHEDULED demo_key demo_ended = 1 + event_count EV_WORKFLOW_TASK_COMPLETED demo_key demo_ended"
proof -
  obtain T where "honest demo_ext demo_store False T demo_ended" using demo_ended_honest by blast
  from work_conserved [OF this, of demo_key] demo_ended_counts show ?thesis by simp
qed

text \<open>
  The proviso is needed: \<open>FailWorkflowTask\<close> deletes the row and enqueues its successor in separate
  statements. A server that stops between them leaves a running run without any task, activity or timer: unless a client
  signals or cancels it, no worker is ever told of it again.
\<close>

definition demo_stranded :: "blob db" where
  "demo_stranded = snd (q_CompleteWorkflowTask 1 (Some ''L'') demo_db3)"

lemma interrupted_report_strands_run:
  "(\<exists>T. honest demo_ext demo_store True T demo_stranded) \<and>
   map_option we_status (find_we demo_key demo_stranded) = Some ''RUNNING'' \<and>
   event_count EV_WORKFLOW_TASK_SCHEDULED demo_key demo_stranded = 1 \<and>
   event_count EV_WORKFLOW_TASK_COMPLETED demo_key demo_stranded = 0 \<and>
   workflow_tasks demo_stranded = [] \<and> activity_tasks demo_stranded = [] \<and> timers demo_stranded = []"
proof -
  obtain T where "honest demo_ext demo_store True T demo_db3" using demo_honest by blast
  from honest.step [OF this token_step.release_workflow [OF TrueI]]
  have "\<exists>T. honest demo_ext demo_store True T demo_stranded" unfolding demo_stranded_def by blast
  then show ?thesis
    by (simp add: demo_stranded_def q_CompleteWorkflowTask_def lease_match_def sql_delete_def demo_answer_simps event_count_def
        run_events_def find_we_def new_we_row_def)
qed

end
