(* ===== verification/Lifecycle.thy ===== *)
theory Lifecycle
  imports CurrentRun
begin

text \<open>
  The life of a run. What identifies a run (type, queue, shard, timeouts, start) never changes, its
  version only grows, and a run that has been closed never runs again. The relation between a run
  and its later self is kept by every query, and by the queries' contract \<open>kept_by_queries\<close> by the
  transactions.
\<close>

section \<open>A run and its later self\<close>

definition later_self :: "we_row \<Rightarrow> we_row \<Rightarrow> bool" where
  "later_self r r' \<longleftrightarrow> we_key r' = we_key r \<and> we_workflow_type r' = we_workflow_type r \<and>
     we_task_queue r' = we_task_queue r \<and> we_shard_id r' = we_shard_id r \<and>
     we_execution_timeout_ns r' = we_execution_timeout_ns r \<and> we_run_timeout_ns r' = we_run_timeout_ns r \<and>
     we_task_timeout_ns r' = we_task_timeout_ns r \<and> we_start_time r' = we_start_time r \<and>
     we_next_event_id r \<le> we_next_event_id r' \<and> (we_status r \<noteq> ''RUNNING'' \<longrightarrow> we_status r' \<noteq> ''RUNNING'')"

text \<open>A run has a close time exactly when it is not running.\<close>

definition closed_ok :: "we_row \<Rightarrow> bool" where
  "closed_ok r \<longleftrightarrow> (we_status r = ''RUNNING'' \<longleftrightarrow> we_close_time r = None)"

definition lives :: "we_row option \<Rightarrow> 'b db \<Rightarrow> bool" where
  "lives ro d \<longleftrightarrow> (\<forall>r \<in> set (workflow_executions d). closed_ok r) \<and>
     (\<forall>r. ro = Some r \<longrightarrow> (\<exists>r' \<in> set (workflow_executions d). later_self r r'))"

lemma later_self_refl: "later_self r r"
  by (simp add: later_self_def)

lemma later_self_trans: "later_self r r' \<Longrightarrow> later_self r' r'' \<Longrightarrow> later_self r r''"
  by (auto simp: later_self_def)

lemma lives_same: "workflow_executions d' = workflow_executions d \<Longrightarrow> lives ro d' = lives ro d"
  by (simp add: lives_def)

text \<open>An update that turns every row it touches into a later self keeps the runs alive.\<close>

lemma lives_update:
  assumes "lives ro d" and "workflow_executions d' = sql_update P f (workflow_executions d)"
    and "\<And>r. P r \<Longrightarrow> closed_ok r \<Longrightarrow> closed_ok (f r) \<and> later_self r (f r)"
  shows "lives ro d'"
proof -
  have ok: "closed_ok r" if "r \<in> set (workflow_executions d')" for r
    using that assms by (auto simp: lives_def set_sql_update split: if_splits)
  have "\<exists>r' \<in> set (workflow_executions d'). later_self r0 r'" if "ro = Some r0" for r0
  proof -
    from assms(1) that obtain r where r: "r \<in> set (workflow_executions d)" "later_self r0 r" "closed_ok r"
      by (auto simp: lives_def)
    have "(if P r then f r else r) \<in> set (workflow_executions d')" using r(1) assms(2) by (simp add: set_sql_update)
    moreover have "later_self r0 (if P r then f r else r)" using r assms(3) later_self_trans by auto
    ultimately show ?thesis by blast
  qed
  with ok show ?thesis by (cases ro) (auto simp: lives_def)
qed

section \<open>The queries\<close>

lemma keeps_lives_frame: "(\<And>d. workflow_executions (snd (m d)) = workflow_executions d) \<Longrightarrow> keeps (lives ro) m"
  using lives_same [where ro = ro] by (auto simp: keeps_def)

lemma keeps_lives_frames:
  "keeps (lives ro) (q_InsertCurrentExecution ns wid rid req)"
  "keeps (lives ro) (q_GetCurrentExecution ns wid)"
  "keeps (lives ro) (q_ReplaceCurrentExecution ns wid rid req)"
  "keeps (lives ro) (q_GetWorkflowExecution k)"
  "keeps (lives ro) (q_EnqueueWorkflowTask now ep)"
  "keeps (lives ro) (q_EnqueueActivityTask now ap)"
  "keeps (lives ro) (q_CompleteActivityTask tid u)"
  "keeps (lives ro) (q_GetActivityTaskByLease tid u)"
  "keeps (lives ro) (q_InsertTimer tr)"
  "keeps (lives ro) (q_DequeueDueTimer now tlk)"
  "keeps (lives ro) (q_CompleteWorkflowTask tid u)"
  "keeps (lives ro) (q_RetryActivityTask now tid u b)"
  "keeps (lives ro) (q_DequeueWorkflowTask now u0 lk secs q ns w ps)"
  "keeps (lives ro) (q_DequeueActivityTask now u0 lk q ns ps)"
  "keeps (lives ro) (q_DequeueQueryTask now u0 lk secs q ns)"
  "keeps (lives ro) (q_EnqueueQueryTask now ns q wid rid qt args)"
  "keeps (lives ro) (q_CompleteQueryTask tid u res)"
  "keeps (lives ro) (q_FailQueryTask tid u msg)"
  "keeps (lives ro) (q_DeleteQueryTask tid)"
  "keeps (lives ro) (q_ReapExpiredWorkflowTasks now)"
  "keeps (lives ro) (q_ReapExpiredActivityTasks now)"
  "keeps (lives ro) (q_ReapExpiredQueryTasks now)"
  "keeps (lives ro) (q_CreateNamespace now name)"
  by (rule keeps_lives_frame; simp add: Let_def q_InsertCurrentExecution_def
      q_GetCurrentExecution_def q_ReplaceCurrentExecution_def q_GetWorkflowExecution_def
      q_EnqueueWorkflowTask_def q_EnqueueActivityTask_def q_InsertTimer_def q_CompleteWorkflowTask_def
      q_CompleteActivityTask_def q_GetActivityTaskByLease_def q_RetryActivityTask_def
      q_DequeueDueTimer_def q_DequeueWorkflowTask_def q_DequeueActivityTask_def q_DequeueQueryTask_def
      q_EnqueueQueryTask_def q_CompleteQueryTask_def q_FailQueryTask_def q_DeleteQueryTask_def
      q_ReapExpiredWorkflowTasks_def q_ReapExpiredActivityTasks_def q_ReapExpiredQueryTasks_def q_CreateNamespace_def
      split: option.split prod.split)+

lemma keeps_lives_create: "keeps (lives ro) (q_CreateWorkflowExecution now p)"
proof (rule keepsI)
  fix d :: "'a db" assume d: "lives ro d"
  have "closed_ok (new_we_row now p)" by (simp add: closed_ok_def new_we_row_def)
  with d show "lives ro (snd (q_CreateWorkflowExecution now p d))"
    by (auto simp: q_CreateWorkflowExecution_def Let_def lives_def split: option.splits)
qed

lemma keeps_lives_close: "st \<noteq> ''RUNNING'' \<Longrightarrow> keeps (lives ro) (q_CloseWorkflowExecution now k st)"
  by (rule keepsI) (auto simp: q_CloseWorkflowExecution_def closed_ok_def later_self_def we_key_def elim!: lives_update)

lemma keeps_lives_sticky: "keeps (lives ro) (q_SetStickyExecution now k w e)"
  by (rule keepsI) (auto simp: q_SetStickyExecution_def closed_ok_def later_self_def we_key_def elim!: lives_update)

lemma keeps_lives_append: "keeps (lives ro) (AppendHistory X now k e evs)"
proof -
  have "keeps (lives ro) (insert_event X now k p)" for p
    by (rule keeps_lives_frame) (simp add: insert_event_def q_InsertHistoryEvent_def monad_simps split: option.split)
  moreover have "keeps (lives ro) (q_AdvanceNextEventID now k (int n) e)" for n
    by (rule keepsI) (auto simp: q_AdvanceNextEventID_def closed_ok_def later_self_def we_key_def elim!: lives_update split: option.split)
  ultimately show ?thesis
    unfolding AppendHistory_def by (intro keeps_if keeps_bindM keeps_mapErr keeps_forM keeps_ret)
qed

lemmas keeps_lives = keeps_lives_frames keeps_lives_create keeps_lives_sticky keeps_lives_append

interpretation lv: kept_by_queries "lives ro" for ro
  by unfold_locales (rule keeps_lives | rule keeps_lives_close, simp)+

section \<open>Transactions and steps\<close>

lemma keeps_lives_start: "keeps (lives ro) (start_tx X S now ns rid p)"
  unfolding start_tx_def start_existing_def
  by (intro keeps_bindM keeps_if keeps_lives keeps_ret keeps_throw)

lemma keeps_lives_continue: "keeps (lives ro) (continueWorkflowAsNew X S now req k we rid cmd)"
  unfolding continueWorkflowAsNew_def Let_def by (intro keeps_bindM keeps_lives)

lemma close_status_not_running:
  "process_commands X S E k we cs a = Inr a' \<Longrightarrow> ca_closeStatus a \<noteq> ''RUNNING'' \<Longrightarrow> ca_closeStatus a' \<noteq> ''RUNNING''"
proof (induction cs arbitrary: a)
  case (Cons c cs)
  then obtain a1 where a1: "process_command X S E k we c a = Inr a1" "process_commands X S E k we cs a1 = Inr a'"
    by (blast elim: process_commands_ConsE)
  have "ca_closeStatus a1 \<noteq> ''RUNNING''"
    using a1(1) Cons.prems(2) by (auto simp: process_command_def Let_def split: command.splits)
  with a1(2) show ?case by (rule Cons.IH)
qed simp

lemma keeps_lives_rest:
  assumes "ca_closeStatus a \<noteq> ''RUNNING''"
  shows "keeps (\<lambda>s. lives ro (sdb s)) (complete_rest X S E k sticky we a)"
  unfolding complete_rest_def Let_def
  using assms
  by (auto split: option.split prod.split intro!: keeps_bindM keeps_onDB [of "lives ro"] keeps_count [of "lives ro"]
      keeps_lives keeps_lives_close keeps_lives_continue)

lemma lives_complete:
  assumes "complete_tx X S E token cmds sticky s = (Inr r, s')" and "lives ro (sdb s)"
  shows "lives ro (sdb s')"
proof -
  let ?k = "token_key token"
  from assms(1) obtain we a d1 d2 where f: "complete_front X S E token cmds (sdb s) = (Inr (we, a), d1)"
      and e: "complete_effects X E ?k we a d1 = (Inr (), d2)"
      and rest: "complete_rest X S E ?k sticky we a (s\<lparr>sdb := d2\<rparr>) = (Inr r, s')"
    by (rule complete_tx_InrE)
  note front = complete_front_InrD [OF f]
  have "lives ro d1" using assms(2) front(1) by (simp add: lives_def)
  then have d2: "lives ro d2" using keepsD [OF lv.kept_effects, of ro d1 X E ?k we a] e by simp
  have "ca_closeStatus a \<noteq> ''RUNNING''"
    using close_status_not_running [OF front(3)] by (simp add: initial_acc_def)
  from keepsD [OF keeps_lives_rest [OF this], of ro "s\<lparr>sdb := d2\<rparr>" X S E ?k sticky we] rest d2
  show ?thesis by simp
qed

lemma lives_rollback [simp]: "lives ro (rollback d d') = lives ro d"
  by (simp add: lives_def rollback_def)

lemma tx_lives: "keeps (lives ro) m \<Longrightarrow> lives ro d \<Longrightarrow> lives ro (tx m d)"
  using keepsD [of "lives ro" m d] by (auto simp: tx_def split: prod.split sum.split)

lemma token_step_lives: "token_step X S P R Q d d' \<Longrightarrow> lives ro d \<Longrightarrow> lives ro d'"
proof (induction rule: token_step.induct)
  case (complete_workflow token s E cmds sticky)
  then show ?case
    by (cases "complete_tx X S E token cmds sticky s"; cases "fst (complete_tx X S E token cmds sticky s)")
      (auto simp: withTx_def dest: lives_complete)
qed (simp_all add: tx_lives keeps_lives_start lv.kept_bodies lv.kept_fire keeps_lives [THEN keepsD])

lemma steps_lives: "(token_step X S P R Q)\<^sup>*\<^sup>* d d' \<Longrightarrow> lives ro d \<Longrightarrow> lives ro d'"
  by (induction rule: rtranclp_induct) (auto intro: token_step_lives)

lemma reachable_lives: "reachable X S d \<Longrightarrow> lives None d"
proof (induction rule: reachable.induct)
  case init
  show ?case by (simp add: lives_def initial_db_def)
qed (rule token_step_lives)

section \<open>Properties\<close>

text \<open>
  (C5) The life of a run, from any reachable database on and whatever requests are served by any
  number of servers: the run stays in the database with the type, task queue, shard, timeouts and
  start time it was given, its version never goes back, once it is closed it is never running again,
  and it has a close time exactly when it is closed.
\<close>

theorem run_lifecycle:
  assumes "reachable X S d" and "(db_step X S)\<^sup>*\<^sup>* d d'" and "find_we k d = Some r"
  shows "\<exists>r'. find_we k d' = Some r' \<and> later_self r r' \<and> (we_status r' = ''RUNNING'' \<longleftrightarrow> we_close_time r' = None)"
proof -
  have r: "r \<in> set (workflow_executions d)" "we_key r = k" using find_we_SomeD [OF assms(3)] by auto
  have "lives (Some r) d" using reachable_lives [OF assms(1)] r(1) later_self_refl by (auto simp: lives_def)
  from steps_lives [OF assms(2) this]
  obtain r' where r': "r' \<in> set (workflow_executions d')" "later_self r r'" "closed_ok r'" by (auto simp: lives_def)
  have "log_wf d'" using steps_reachable [OF assms(2,1)] reachable_wf by blast
  from find_we_mem [OF this r'(1)] r'(2) r(2) have "find_we k d' = Some r'" by (simp add: later_self_def)
  with r' show ?thesis by (simp add: closed_ok_def)
qed

theorem run_lifecycle_witness:
  "\<exists>r'. find_we demo_key (tx (terminate_tx demo_ext 20 1 ''w'' ''r1'' ''stop'') demo_db) = Some r' \<and>
     later_self demo_we r' \<and> (we_status r' = ''RUNNING'' \<longleftrightarrow> we_close_time r' = None)"
  by (rule run_lifecycle [OF demo_db_reachable r_into_rtranclp [where r = "db_step demo_ext demo_store", OF token_step.terminate] demo_find_we])

end
