(* ===== verification/ActivityPool.thy ===== *)
theory ActivityPool
  imports WorkerProps "HOL-Library.Multiset"
begin

text \<open>
  The worker's activity loop and the goroutines it starts: who holds the slots of the semaphore, what
  becomes of the tasks, and that the loop can always be stopped.
\<close>

section \<open>Activity concurrency\<close>

text \<open>
  Who holds the slots: the goroutines, and the loop between its send and its receive. Every task a poll
  brought is in work or answered.
\<close>

definition loop_slot :: "activity_loop \<Rightarrow> int" where
  "loop_slot l = (case l of InPoll \<Rightarrow> 1 | Releasing err \<Rightarrow> 1 | _ \<Rightarrow> 0)"

lemma loop_slot_simps [simp]:
  "loop_slot LoopHead = 0" "loop_slot Acquiring = 0" "loop_slot InPoll = 1" "loop_slot (Releasing err) = 1" "loop_slot Returned = 0"
  by (simp_all add: loop_slot_def)

lemma loop_slot_range: "0 \<le> loop_slot l" "loop_slot l \<le> 1"
  by (cases l; simp)+

lemma pool_invariant:
  assumes "(pool_step quote w)\<^sup>*\<^sup>* initial_pool s" and "0 < activitySem w"
  shows "sem s = int (length (processing s)) + int (leaving s) + loop_slot (loop s) \<and> sem s \<le> activitySem w \<and>
    mset (map (\<lambda>r. processActivityTask quote r w) (dispatched s)) =
      mset (answers s) + mset (map (\<lambda>r. processActivityTask quote r w) (processing s))"
  using assms
proof (induction rule: rtranclp_induct)
  case base
  then show ?case by (simp add: initial_pool_def)
next
  case (step s s')
  from step.hyps(2) show ?case
    using step.IH [OF step.prems] by (cases rule: pool_step.cases) auto
qed

lemma pool_sem_positive:
  assumes "(pool_step quote w)\<^sup>*\<^sup>* initial_pool s" and "0 < activitySem w"
  shows "loop s = Releasing err \<Longrightarrow> 0 < sem s" and "loop s = InPoll \<Longrightarrow> 0 < sem s" and "0 < leaving s \<Longrightarrow> 0 < sem s"
  using pool_invariant [OF assms] loop_slot_range [of "loop s"] by auto

lemma pool_can_stop:
  assumes reach: "(pool_step quote w)\<^sup>*\<^sup>* initial_pool s" and "0 < activitySem w"
  shows "\<exists>s'. (pool_step quote w)\<^sup>*\<^sup>* s s' \<and> loop s' = Returned \<and> processing s' = processing s \<and> answers s' = answers s \<and>
    dispatched s' = dispatched s"
proof -
  let ?c = "s\<lparr>ctx_done := True\<rparr>" and ?P = "pool_step quote w"
  have c: "?P s ?c" by (rule pool_step.cancelled)
  then have c': "?P\<^sup>*\<^sup>* s ?c" by (rule r_into_rtranclp)
  note pos = pool_sem_positive [OF assms]
  have head: "?P\<^sup>*\<^sup>* s s' \<Longrightarrow> loop s' \<in> {LoopHead, Acquiring} \<Longrightarrow> ctx_done s' \<Longrightarrow> ?P\<^sup>*\<^sup>* s (s'\<lparr>loop := Returned\<rparr>)" for s'
    by (rule rtranclp.rtrancl_into_rtrancl) (assumption, rule pool_step.leave)
  have rel: "?P\<^sup>*\<^sup>* s (?c\<lparr>loop := (if err then Returned else LoopHead), sem := sem s - 1\<rparr>)" if "loop s = Releasing err" for err
    using pool_step.release [of ?c err quote w] that pos(1) [OF that] c by (simp add: converse_rtranclp_into_rtranclp)
  show ?thesis
  proof (cases "loop s")
    case LoopHead
    then show ?thesis using head [OF c'] by (intro exI [of _ "?c\<lparr>loop := Returned\<rparr>"]) simp
  next
    case Acquiring
    then show ?thesis using head [OF c'] by (intro exI [of _ "?c\<lparr>loop := Returned\<rparr>"]) simp
  next
    case InPoll
    have "?P ?c (?c\<lparr>loop := Releasing True\<rparr>)" using InPoll by (intro pool_step.poll_error) simp
    moreover have "?P (?c\<lparr>loop := Releasing True\<rparr>) (?c\<lparr>loop := Returned, sem := sem s - 1\<rparr>)"
      using pool_step.release [of "?c\<lparr>loop := Releasing True\<rparr>" True quote w] pos(2) [OF InPoll] by simp
    ultimately have "?P\<^sup>*\<^sup>* s (?c\<lparr>loop := Returned, sem := sem s - 1\<rparr>)"
      using c by (meson converse_rtranclp_into_rtranclp r_into_rtranclp)
    then show ?thesis by (intro exI [of _ "?c\<lparr>loop := Returned, sem := sem s - 1\<rparr>"]) simp
  next
    case (Releasing err)
    show ?thesis
    proof (cases err)
      case True
      then show ?thesis using rel [OF Releasing] by (intro exI [of _ "?c\<lparr>loop := Returned, sem := sem s - 1\<rparr>"]) simp
    next
      case False
      then show ?thesis using head [OF rel [OF Releasing]]
        by (intro exI [of _ "?c\<lparr>sem := sem s - 1, loop := Returned\<rparr>"]) simp
    qed
  next
    case Returned
    then show ?thesis by (intro exI [of _ s]) simp
  qed
qed

lemma pool_can_finish:
  assumes "(pool_step quote w)\<^sup>*\<^sup>* initial_pool s" and "0 < activitySem w"
  shows "\<exists>s'. (pool_step quote w)\<^sup>*\<^sup>* s s' \<and> loop s' = loop s \<and> processing s' = [] \<and> dispatched s' = dispatched s"
  using assms
proof (induction "length (processing s)" arbitrary: s)
  case 0
  then show ?case by (intro exI [of _ s]) simp
next
  case (Suc n)
  then obtain r rs where p: "processing s = r # rs" by (cases "processing s") auto
  let ?s = "s\<lparr>processing := rs, leaving := leaving s + 1, answers := answers s @ [processActivityTask quote r w]\<rparr>"
  have st: "pool_step quote w s ?s" using pool_step.finish [of s "[]" r rs] p by simp
  with Suc.prems(1) have "(pool_step quote w)\<^sup>*\<^sup>* initial_pool ?s" by (rule rtranclp.rtrancl_into_rtrancl)
  from Suc.hyps(1) [OF _ this Suc.prems(2)] Suc.hyps(2) p obtain s' where
    s': "(pool_step quote w)\<^sup>*\<^sup>* ?s s'" "loop s' = loop ?s" "processing s' = []" "dispatched s' = dispatched ?s" by auto
  then show ?case using converse_rtranclp_into_rtranclp [of "pool_step quote w", OF st s'(1)] by (intro exI [of _ s']) simp
qed

lemma configured_slots:
  "activitySem (foldl (\<lambda>w (full, f). RegisterActivity full f w) w acts) = activitySem w"
  "activitySem (foldl (\<lambda>w (full, f). RegisterWorkflow full f w) w wfs) = activitySem w"
  by (induction acts arbitrary: w; simp add: RegisterActivity_def split_beta)
    (induction wfs arbitrary: w; simp add: RegisterWorkflow_def split_beta)

text \<open>
  (C30) The activity loop and its slots, for a worker as \<open>New\<close> and the registrations build it. The number of slots is the configured one, 200
  if none is configured. In every state the loop and its goroutines reach under any interleaving, cancellation included,
  the filled slots are those of the goroutines and of a loop that polls, and never exceed the capacity: so the worker
  only asks for a task when it has a slot for it, and never works on more tasks than it has slots. Every task a poll brought
  is in work or answered, once, with the answer of its function. A receive never blocks, and the loop waits for a slot only while
  goroutines hold all of them. The loop can always be stopped, even while no activity ends; and when the activities end, every
  task the worker was given has been answered.
\<close>

theorem activity_slots_bounded:
  assumes w: "w = foldl (\<lambda>w (full, f). RegisterActivity full f w)
      (foldl (\<lambda>w (full, f). RegisterWorkflow full f w) (New ns identity tq opts) wfs) acts"
    and reach: "(pool_step quote w)\<^sup>*\<^sup>* initial_pool s"
  shows "activitySem w = (if MaxConcurrentActivities opts \<le> 0 then 200 else MaxConcurrentActivities opts) \<and>
    sem s = int (length (processing s)) + int (leaving s) + (if loop s = InPoll \<or> (\<exists>err. loop s = Releasing err) then 1 else 0) \<and>
    sem s \<le> activitySem w \<and>
    int (length (processing s)) \<le> activitySem w \<and>
    (loop s = InPoll \<longrightarrow> int (length (processing s)) < activitySem w) \<and>
    mset (map (\<lambda>r. processActivityTask quote r w) (dispatched s)) =
      mset (answers s) + mset (map (\<lambda>r. processActivityTask quote r w) (processing s)) \<and>
    (0 < leaving s \<or> (\<exists>err. loop s = Releasing err) \<longrightarrow> 0 < sem s) \<and>
    (loop s = Acquiring \<and> \<not> sem s < activitySem w \<longrightarrow> int (length (processing s)) + int (leaving s) = activitySem w) \<and>
    (\<exists>s'. (pool_step quote w)\<^sup>*\<^sup>* s s' \<and> loop s' = Returned \<and> processing s' = processing s \<and> answers s' = answers s) \<and>
    (\<exists>s'. (pool_step quote w)\<^sup>*\<^sup>* s s' \<and> loop s' = Returned \<and> processing s' = [] \<and> dispatched s' = dispatched s \<and>
       mset (answers s') = mset (map (\<lambda>r. processActivityTask quote r w) (dispatched s)))"
proof -
  have cap: "activitySem w = (if MaxConcurrentActivities opts \<le> 0 then 200 else MaxConcurrentActivities opts)"
    by (simp add: w configured_slots New_def defaultMaxConcurrentActivities_def)
  then have pos: "0 < activitySem w" by (simp split: if_splits)
  have slot: "loop_slot (loop s) = (if loop s = InPoll \<or> (\<exists>err. loop s = Releasing err) then 1 else 0)"
    by (cases "loop s") simp_all
  obtain t where t: "(pool_step quote w)\<^sup>*\<^sup>* s t" "loop t = Returned" "processing t = processing s" "answers t = answers s"
      "dispatched t = dispatched s"
    using pool_can_stop [OF reach pos] by blast
  have "(pool_step quote w)\<^sup>*\<^sup>* initial_pool t" using reach t(1) by (rule rtranclp_trans)
  from pool_can_finish [OF this pos] t obtain u where
    u: "(pool_step quote w)\<^sup>*\<^sup>* s u" "loop u = Returned" "processing u = []" "dispatched u = dispatched s"
    by (metis rtranclp_trans)
  have "mset (answers u) = mset (map (\<lambda>r. processActivityTask quote r w) (dispatched s))"
    using pool_invariant [OF rtranclp_trans [OF reach u(1)] pos] u by simp
  then have "\<exists>s'. (pool_step quote w)\<^sup>*\<^sup>* s s' \<and> loop s' = Returned \<and> processing s' = [] \<and> dispatched s' = dispatched s \<and>
       mset (answers s') = mset (map (\<lambda>r. processActivityTask quote r w) (dispatched s))" using u by blast
  moreover have "\<exists>s'. (pool_step quote w)\<^sup>*\<^sup>* s s' \<and> loop s' = Returned \<and> processing s' = processing s \<and> answers s' = answers s"
    using t by blast
  ultimately show ?thesis
    using pool_invariant [OF reach pos] cap slot pool_sem_positive [OF reach pos] by (auto split: if_splits)
qed

text \<open>A worker with one slot takes a task: at the next send the loop has to wait.\<close>

definition pool_worker :: "(nat, nat) worker" where
  "pool_worker = New ''default'' ''me'' ''tq''
     \<lparr>MaxConcurrentActivities = 1, MaxCachedWorkflowExecutions = 0, OptStickyScheduleToStartTimeout = 0, OptTaskQueuePartitions = []\<rparr>"

definition busy_pool :: "poll_activity_response \<Rightarrow> activity_pool" where
  "busy_pool r = initial_pool\<lparr>sem := 1, loop := Acquiring, processing := [r], dispatched := [r]\<rparr>"

lemma busy_pool_reached:
  assumes "pa_TaskToken r \<noteq> []"
  shows "(pool_step quote pool_worker)\<^sup>*\<^sup>* initial_pool (busy_pool r)"
proof -
  let ?P = "pool_step quote pool_worker"
  have cap: "activitySem pool_worker = 1" by (simp add: pool_worker_def New_def)
  have "?P initial_pool (initial_pool\<lparr>loop := Acquiring\<rparr>)" by (rule pool_step.go_on) (simp_all add: initial_pool_def)
  moreover have "?P (initial_pool\<lparr>loop := Acquiring\<rparr>) (initial_pool\<lparr>loop := InPoll, sem := 1\<rparr>)"
    using pool_step.acquire [of "initial_pool\<lparr>loop := Acquiring\<rparr>" pool_worker quote] cap by (simp add: initial_pool_def)
  moreover have "?P (initial_pool\<lparr>loop := InPoll, sem := 1\<rparr>) ((busy_pool r)\<lparr>loop := LoopHead\<rparr>)"
    using pool_step.dispatch [of "initial_pool\<lparr>loop := InPoll, sem := 1\<rparr>" r quote pool_worker] assms
    by (simp add: initial_pool_def busy_pool_def)
  moreover have "?P ((busy_pool r)\<lparr>loop := LoopHead\<rparr>) (busy_pool r)"
    using pool_step.go_on [of "(busy_pool r)\<lparr>loop := LoopHead\<rparr>" quote pool_worker] by (simp add: initial_pool_def busy_pool_def)
  ultimately show ?thesis by (meson converse_rtranclp_into_rtranclp rtranclp.rtrancl_refl)
qed

theorem activity_slots_bounded_witness:
  "let r = \<lparr>pa_TaskToken = ''t'', pa_WorkflowExecution = None, pa_ActivityId = 1, pa_ActivityType = ''A'', pa_Input = None,
      pa_CurrentAttempt = 1, pa_StartToCloseTimeout = None\<rparr> in
     activitySem pool_worker = 1 \<and> (pool_step id pool_worker)\<^sup>*\<^sup>* initial_pool (busy_pool r) \<and>
     (\<exists>s'. (pool_step id pool_worker)\<^sup>*\<^sup>* (busy_pool r) s' \<and> processing s' = [] \<and>
        answers s' = [respondActivityTaskFailed pool_worker ''t'' ''UnregisteredActivityType'' ''unregistered activity type A''])"
proof -
  let ?r = "\<lparr>pa_TaskToken = ''t'', pa_WorkflowExecution = None, pa_ActivityId = 1, pa_ActivityType = ''A'', pa_Input = None,
      pa_CurrentAttempt = 1, pa_StartToCloseTimeout = None\<rparr>"
  have answer: "processActivityTask id ?r pool_worker =
      respondActivityTaskFailed pool_worker ''t'' ''UnregisteredActivityType'' ''unregistered activity type A''"
    by (simp add: processActivityTask_def pool_worker_def New_def)
  have w: "pool_worker = foldl (\<lambda>w (full, f). RegisterActivity full f w)
      (foldl (\<lambda>w (full, f). RegisterWorkflow full f w) pool_worker []) []" by simp
  have reach: "(pool_step id pool_worker)\<^sup>*\<^sup>* initial_pool (busy_pool ?r)" by (rule busy_pool_reached) simp
  note bound = activity_slots_bounded [OF w [unfolded pool_worker_def] reach [unfolded pool_worker_def], folded pool_worker_def]
  from bound have "activitySem pool_worker = 1" by simp
  moreover from bound obtain s' where "(pool_step id pool_worker)\<^sup>*\<^sup>* (busy_pool ?r) s'" "processing s' = []"
      "mset (answers s') = mset [processActivityTask id ?r pool_worker]"
    by (auto simp: busy_pool_def)
  then have "\<exists>s'. (pool_step id pool_worker)\<^sup>*\<^sup>* (busy_pool ?r) s' \<and> processing s' = [] \<and>
      answers s' = [respondActivityTaskFailed pool_worker ''t'' ''UnregisteredActivityType'' ''unregistered activity type A'']"
    using answer by auto
  ultimately show ?thesis using reach unfolding Let_def by blast
qed

end
