(* ===== verification/Spec2Isabelle.thy ===== *)
theory Spec2Isabelle
  imports CliProps Examples WebUi ClientWait Conservation Lifecycle ActivityPool
begin

text \<open>
  A verification of flowd, a durable workflow engine: a server that keeps the history of every workflow run as
  an append-only event log in PostgreSQL, and an SDK whose workers replay that log to run
  workflow code. Paths are below \<^verbatim>\<open>src/\<close>.

  \<^bold>\<open>The program.\<close> A client (\<^verbatim>\<open>sdk/client\<close>, \<^verbatim>\<open>cmd/flow-cli\<close>, the dashboard of
  \<^verbatim>\<open>internal/webapi\<close>) sends requests to the gRPC frontend (\<^verbatim>\<open>internal/frontend\<close>), which checks API keys, payload sizes and
  task tokens and calls the store (\<^verbatim>\<open>internal/history\<close>). The store writes the log through one function,
  \<open>AppendHistory\<close>, which takes the version the writer has read and fails when it is stale; beside the log it keeps
  task tables whose rows are leased to workers. A worker (\<^verbatim>\<open>sdk/worker\<close>) long-polls (\<^verbatim>\<open>internal/matching\<close>) for a
  task, replays the history (\<^verbatim>\<open>sdk/internal/replayer\<close>) or resumes a cached execution, and answers with
  commands, which the store turns into events, activity tasks, timers or the end of the run. Background loops
  release expired leases and fire due timers. \<^verbatim>\<open>cmd/flowd\<close> assembles the server from environment variables.

  \<^bold>\<open>The theories\<close>, in the order of the calls.

  \<^item> \<open>Prelude\<close>: the monad of state and errors, rules for what a computation keeps, SQL on lists of rows, 64-bit wrap-around;
    the locale \<open>growing_system\<close> of a transition system with an invariant and an order its steps respect.
  \<^item> \<open>Api\<close>, \<open>ServiceApi\<close>: the messages of \<^verbatim>\<open>api/gen\<close>.
  \<^item> \<open>TaskTable\<close>, \<open>Persistence\<close>, \<open>TaskQueries\<close>: the tables of \<^verbatim>\<open>migrations\<close> and every query of \<^verbatim>\<open>internal/persistence\<close>. The locale
    \<open>leased_table\<close> is the contract of a leased queue; the workflow, activity and query task tables interpret it.
  \<^item> \<open>Sharding\<close> (FNV-1a on 32-bit words), \<open>Notifier\<close>, \<open>Store\<close> (transactions, the conflict retry, counters), \<open>Sha256\<close> and
    \<open>TaskToken\<close> (HMAC-signed tokens), \<open>Append\<close>, \<open>Executions\<close>, \<open>WorkflowTask\<close>, \<open>ActivityTask\<close>, \<open>WorkflowQuery\<close>: the files of
    \<^verbatim>\<open>internal/history\<close>, one definition per function.
  \<^item> \<open>Polling\<close>, \<open>Frontend\<close>, \<open>Config\<close>, \<open>Flowd\<close>: long polls and the reaper, the handlers and the interceptor, the
    configuration with the parsers it uses, startup.
  \<^item> \<open>Replayer\<close>, \<open>ExecCache\<close>, \<open>Worker\<close>: the SDK's engine, the LRU cache of executions, the worker's loops.
  \<^item> \<open>Client\<close>, \<open>WebApi\<close>, \<open>WebUi\<close>, \<open>Cli\<close>, \<open>Examples\<close>: the programs that call the server, the page, and the example workflows.

  \<^bold>\<open>State.\<close> The database is a record of tables (\<open>db\<close>); the server adds the waiters of the long polls and its counters
  (\<open>sys\<close>). An operation is a function from the state to an error or a value and the new state; a transaction that fails
  is rolled back. What a call draws from outside (clocks, random bytes, which waiter a \<^verbatim>\<open>select\<close> picks, what
  other requests do while it waits) is an argument. The worker's execution, cache and dispatcher are records like
  the structs of the code; a goroutine parked in \<open>Yield\<close> is the rest of its code.

  \<^bold>\<open>What is shown.\<close>

  \<^item> The log (\<open>HistoryLog\<close>, \<open>Invariant\<close>, \<open>Transactions\<close>, \<open>System\<close>, \<open>Server\<close>, \<open>LogProps\<close>, \<open>Codec\<close>): \<open>db_step\<close> is the step relation of
    all transactions and stand-alone statements, interleaved in any order (what every query keeps, the transactions keep:
    locale \<open>kept_by_queries\<close>); reachable databases are well-formed, the
    events of a run have consecutive ids and are never changed, a stale writer is rejected for ever, and
    \<open>AppendHistory\<close> refines a map of append-only lists (locale \<open>optimistic_log\<close>). Every stored event is read back as it was written.
  \<^item> Whole runs (\<open>Conservation\<close>, \<open>Lifecycle\<close>): in the step relation \<open>token_step\<close>, of which \<open>db_step\<close> is the instance without
    restriction, one set says which tokens may answer activity and workflow tasks and another which queries may be answered or deleted.
    When the first holds only tokens of leases that were
    handed out, the activities and timers a run has scheduled are at any time exactly those in the tables and those
    recorded as ended, and so are its workflow tasks if no server stops in the middle of \<open>FailWorkflowTask\<close>; if one does,
    the run can be left without a task. A run keeps its identity, never goes back in version and never reopens.
  \<^item> Clients' operations (\<open>ExecProps\<close>, \<open>WakeProps\<close>, \<open>Pages\<close>, \<open>ListPages\<close>): start with its idempotence and its conflict,
    signal, cancel request, termination, the retry on conflicts; following page tokens reads everything once (locale
    \<open>keyset_pages\<close>, interpreted for histories and for the list of executions).
  \<^item> Tasks (\<open>LeaseProps\<close>, \<open>CompleteProps\<close>, \<open>CurrentRun\<close>, \<open>TaskProps\<close>, \<open>TimerProps\<close>, \<open>QueryRow\<close>, \<open>QueryProps\<close>): a lease stands until it is presented or has expired;
    without one nothing changes; dispatch, completion with every command, continue-as-new, server-side retry with its
    backoff, the tick of the timer firer, the life of a query among other requests; the current run of a workflow id is never one that continued as new.
  \<^item> The frontend and the binary (\<open>FrontendProps\<close>, \<open>FlowdProps\<close>): authorisation, validation, the end of a long poll, which servers start.
  \<^item> The SDK (\<open>ReplayEquiv\<close>, \<open>Sticky\<close>, \<open>WorkerProps\<close>, \<open>SdkProps\<close>, \<open>ActivityPool\<close>): for sequential code resuming a cached execution and replaying its history
    give the same response, and what the server records of a response is what the replay expects; the cache implements a
    bounded LRU list (locale \<open>forgetful_map\<close>); a replay never runs the coroutines code spawns; two states in which code that is not
    sequential diverges, and one in which a query loses commands; the activity loop and its goroutines, as a step relation over the
    semaphore, keep to the slots, answer every task once and can always be stopped.
  \<^item> The callers (\<open>ClientProps\<close>, \<open>ClientWait\<close>, \<open>WebApiProps\<close>, \<open>CliProps\<close>): a result travels from the worker's response to the caller that waits,
    and waiting ends; the dashboard only reads; what a command line sends.

  \<open>Demo\<close> holds the concrete inputs at which the theorems are applied.

  \<^bold>\<open>Loops.\<close> Loops over lists are structural. \<open>drainTimers\<close> ends because each round removes a due timer. A long poll, the client's
  \<open>Get\<close> and its reading of pages may wait for ever: they are partial functions with \<open>None\<close> for not returning, and that
  they return is proved. A query waits a given number of ticks, the deadline of the code over its ticker, and \<open>query_deadline\<close> says which statement
  the deadline hits; the
  conflict retry makes five attempts and a page has at most 1000 rows, as in the code.

  \<^bold>\<open>Parameters.\<close> Code outside the repository is an argument: marshalling of protobuf messages (with \<open>proto_law\<close>, what
  was marshalled is unmarshalled), UUIDs, the collation of text columns (a linear order), \<^verbatim>\<open>encoding/json\<close> and
  \<^verbatim>\<open>protojson\<close>, the \<^verbatim>\<open>%q\<close> verb, the files, the network and the environment. Workflow and activity code is the user's: a tree
  of SDK calls with finite paths, and a function.

  \<^bold>\<open>Not modelled.\<close> Loss of the database connection and contexts cancelled in the middle of a statement; a transaction is one
  step, so that the isolation of PostgreSQL is taken for granted. A \<^verbatim>\<open>float64\<close> is a rational number (no infinity, and \<^verbatim>\<open>math.Pow\<close> does not round), its conversion out of
  the int64 range a parameter; the seconds of leases and delays that the queries pass as floats are exact nanoseconds, where
  PostgreSQL keeps microseconds; the attempt counter has no upper bound, where the column is an \<^verbatim>\<open>INT\<close>; the
  statuses in messages are the declared ones, where a proto enum is open. Tickers, logging, signals, the HTTP servers, the migration runner, the contents of the
  embedded files and the generated accessors of messages are I/O or generated code. The cleaning of
  paths and the bytes of the outer JSON objects of the dashboard, and the texts of errors the command line prints, are left out.
\<close>

end
